(* ===== verification/Prelude.thy ===== *)
theory Prelude
  imports Main "HOL-Library.Monad_Syntax"
begin

text \<open>
  Shared vocabulary of the development.

  \<^item> The execution model of a Go function: a state transformer whose outcome is a value or a
    panic (\<open>('s, 'a) go\<close>), its sequencing \<open>bindM\<close>, deferred calls \<open>deferM\<close>, and a weakest
    precondition \<open>wp\<close> with one postcondition for returns and one for panics. The collection
    \<open>wp\<close> holds the equations that push \<open>wp\<close> through the program text.
  \<^item> Go errors with the classification that \<^verbatim>\<open>errors.As\<close>/\<^verbatim>\<open>IsNotFound\<close> can see through \<^verbatim>\<open>%w\<close> wrapping.
  \<^item> The parts of Go's \<^verbatim>\<open>strings\<close>, \<^verbatim>\<open>path/filepath\<close> and \<^verbatim>\<open>fmt\<close> packages that the operator uses,
    on byte strings (a \<open>char\<close> is a byte).
\<close>

section \<open>Go execution: outcomes, panics, sequencing\<close>

datatype 'a outcome = Ret 'a | Panic string

type_synonym ('s, 'a) go = "'s \<Rightarrow> 'a outcome \<times> 's"

named_theorems wp \<open>equations that push the weakest precondition through a program\<close>

definition returnM :: "'a \<Rightarrow> ('s, 'a) go" where
  "returnM a = (\<lambda>s. (Ret a, s))"

definition panicM :: "string \<Rightarrow> ('s, 'a) go" where
  "panicM p = (\<lambda>s. (Panic p, s))"

definition bindM :: "('s, 'a) go \<Rightarrow> ('a \<Rightarrow> ('s, 'b) go) \<Rightarrow> ('s, 'b) go" where
  "bindM m f = (\<lambda>s. case m s of (Ret a, s') \<Rightarrow> f a s' | (Panic p, s') \<Rightarrow> (Panic p, s'))"

text \<open>\<open>deferM m d\<close> runs \<open>m\<close> and then the deferred call \<open>d\<close>, also when \<open>m\<close> panics; \<open>d\<close> receives
  the outcome of \<open>m\<close>. The outcome of \<open>m\<close> stands unless \<open>d\<close> itself panics.\<close>

definition deferM :: "('s, 'a) go \<Rightarrow> ('a outcome \<Rightarrow> ('s, unit) go) \<Rightarrow> ('s, 'a) go" where
  "deferM m d = (\<lambda>s. case m s of (r, s') \<Rightarrow>
     (case d r s' of (Ret _, s'') \<Rightarrow> (r, s'') | (Panic p, s'') \<Rightarrow> (Panic p, s'')))"

text \<open>\<open>catchM m\<close> runs \<open>m\<close> and hands its outcome, also a panic, to what follows: a deferred closure runs
  with the values its captured variables have at the moment of the panic.\<close>

definition catchM :: "('s, 'a) go \<Rightarrow> ('s, 'a outcome) go" where
  "catchM m = (\<lambda>s. case m s of (r, s') \<Rightarrow> (Ret r, s'))"

definition wp :: "('s, 'a) go \<Rightarrow> ('a \<Rightarrow> 's \<Rightarrow> bool) \<Rightarrow> (string \<Rightarrow> 's \<Rightarrow> bool) \<Rightarrow> 's \<Rightarrow> bool" where
  "wp m Q E s = (case m s of (Ret a, s') \<Rightarrow> Q a s' | (Panic p, s') \<Rightarrow> E p s')"

lemma wp_returnM [wp]: "wp (returnM a) Q E s = Q a s"
  by (simp add: wp_def returnM_def)

lemma wp_returnM_fun [wp]: "wp (returnM a) Q E = Q a"
  by (rule ext) (simp add: wp_returnM)

lemma wp_panicM [wp]: "wp (panicM p) Q E s = E p s"
  by (simp add: wp_def panicM_def)

lemma wp_bindM [wp]: "wp (bindM m f) Q E s = wp m (\<lambda>a. wp (f a) Q E) E s"
  by (simp add: wp_def bindM_def split: prod.split outcome.split)

lemma wp_deferM [wp]:
  "wp (deferM m d) Q E s =
    wp m (\<lambda>a. wp (d (Ret a)) (\<lambda>_. Q a) E) (\<lambda>p. wp (d (Panic p)) (\<lambda>_. E p) E) s"
  by (simp add: wp_def deferM_def split: prod.split outcome.split)

lemma wp_catchM [wp]: "wp (catchM m) Q E s = wp m (\<lambda>a. Q (Ret a)) (\<lambda>p. Q (Panic p)) s"
  by (simp add: wp_def catchM_def split: prod.split outcome.split)

lemma wp_case_outcome [wp]:
  "wp (case x of Ret v \<Rightarrow> m v | Panic p \<Rightarrow> n p) Q E s =
    (case x of Ret v \<Rightarrow> wp (m v) Q E s | Panic p \<Rightarrow> wp (n p) Q E s)"
  by (cases x) simp_all

lemma wp_if [wp]: "wp (if b then m else n) Q E s = (if b then wp m Q E s else wp n Q E s)"
  by simp

lemma wp_Let [wp]: "wp (Let x f) Q E s = (let y = x in wp (f y) Q E s)"
  by simp

lemma wp_case_option [wp]:
  "wp (case x of None \<Rightarrow> m | Some v \<Rightarrow> n v) Q E s =
    (case x of None \<Rightarrow> wp m Q E s | Some v \<Rightarrow> wp (n v) Q E s)"
  by (cases x) simp_all

lemma wp_case_sum [wp]:
  "wp (case x of Inl v \<Rightarrow> m v | Inr v \<Rightarrow> n v) Q E s =
    (case x of Inl v \<Rightarrow> wp (m v) Q E s | Inr v \<Rightarrow> wp (n v) Q E s)"
  by (cases x) simp_all

lemma wp_case_prod [wp]:
  "wp (case x of (a, b) \<Rightarrow> m a b) Q E s = (case x of (a, b) \<Rightarrow> wp (m a b) Q E s)"
  by (cases x) simp

lemma wp_mono:
  assumes "wp m Q E s"
    and "\<And>a s'. Q a s' \<Longrightarrow> Q' a s'" and "\<And>p s'. E p s' \<Longrightarrow> E' p s'"
  shows "wp m Q' E' s"
  using assms by (auto simp: wp_def split: prod.splits outcome.splits)

lemma wp_conj:
  assumes "wp m Q E s" and "wp m Q' E' s"
  shows "wp m (\<lambda>a s'. Q a s' \<and> Q' a s') (\<lambda>p s'. E p s' \<and> E' p s') s"
  using assms by (auto simp: wp_def split: prod.splits outcome.splits)

lemma wp_True [simp]: "wp m (\<lambda>_ _. True) (\<lambda>_ _. True) s"
  by (simp add: wp_def split: prod.split outcome.split)

lemma wp_RetD: "wp m Q E s \<Longrightarrow> m s = (Ret a, s') \<Longrightarrow> Q a s'"
  by (simp add: wp_def)

lemma wp_PanicD: "wp m Q E s \<Longrightarrow> m s = (Panic p, s') \<Longrightarrow> E p s'"
  by (simp add: wp_def)

lemma wpI:
  assumes "\<And>a s'. m s = (Ret a, s') \<Longrightarrow> Q a s'" and "\<And>p s'. m s = (Panic p, s') \<Longrightarrow> E p s'"
  shows "wp m Q E s"
  using assms by (cases "m s") (auto simp: wp_def split: outcome.split)

lemma bindM_returnM [simp]: "bindM (returnM a) f = f a"
  by (simp add: bindM_def returnM_def)

lemma bindM_returnM_right [simp]: "bindM m returnM = m"
  by (rule ext) (simp add: bindM_def returnM_def split: prod.split outcome.split)

lemma bindM_assoc: "bindM (bindM m f) g = bindM m (\<lambda>a. bindM (f a) g)"
  by (rule ext) (simp add: bindM_def split: prod.split outcome.split)

text \<open>A \<^verbatim>\<open>for\<close> loop over a list whose body may return early with \<open>Some r\<close>.\<close>

fun for_eachM :: "'a list \<Rightarrow> ('a \<Rightarrow> ('s, 'r option) go) \<Rightarrow> ('s, 'r option) go" where
  "for_eachM [] body = returnM None"
| "for_eachM (x # xs) body =
     bindM (body x) (\<lambda>r. case r of Some v \<Rightarrow> returnM (Some v) | None \<Rightarrow> for_eachM xs body)"

section \<open>Errors\<close>

text \<open>An error value carries its text and the classification that survives \<^verbatim>\<open>%w\<close> wrapping: the
  status reason of an API error or the \<^verbatim>\<open>fs.ErrNotExist\<close> class of a file-system error.\<close>

datatype errkind = KNotFound | KAlreadyExists | KConflict | KNotExist | KOther

datatype goerr = GoErr (err_kind: errkind) (err_Error: string)

definition errorf :: "string \<Rightarrow> goerr" where
  "errorf msg = GoErr KOther msg"

definition wrapf :: "string \<Rightarrow> goerr \<Rightarrow> goerr" where
  "wrapf pre e = GoErr (err_kind e) (pre @ err_Error e)"

text \<open>\<^verbatim>\<open>%v\<close> and \<^verbatim>\<open>%s\<close> keep the text of an error and drop the error itself.\<close>

definition wrapv :: "string \<Rightarrow> goerr \<Rightarrow> goerr" where
  "wrapv pre e = GoErr KOther (pre @ err_Error e)"

definition IsNotFound :: "goerr \<Rightarrow> bool" where
  "IsNotFound e \<longleftrightarrow> err_kind e = KNotFound"

definition IsNotExist :: "goerr \<Rightarrow> bool" where
  "IsNotExist e \<longleftrightarrow> err_kind e = KNotExist"

definition IgnoreNotFound :: "goerr \<Rightarrow> goerr option" where
  "IgnoreNotFound e = (if IsNotFound e then None else Some e)"

lemma err_kind_wrapf [simp]: "err_kind (wrapf pre e) = err_kind e"
  by (simp add: wrapf_def)

lemma IsNotFound_wrapf [simp]: "IsNotFound (wrapf pre e) = IsNotFound e"
  by (simp add: IsNotFound_def)

lemma err_kind_errorf [simp]: "err_kind (errorf msg) = KOther"
  by (simp add: errorf_def)

section \<open>Slices, times, durations\<close>

text \<open>A slice whose nil-ness the code can observe (\<^verbatim>\<open>reflect.DeepEqual\<close>, \<^verbatim>\<open>!= nil\<close>).\<close>

type_synonym 'a slice = "'a list option"

definition elems :: "'a slice \<Rightarrow> 'a list" where
  "elems xs = (case xs of None \<Rightarrow> [] | Some ys \<Rightarrow> ys)"

lemma elems_simps [simp]: "elems None = []" "elems (Some ys) = ys"
  by (simp_all add: elems_def)

text \<open>Instants and durations in nanoseconds; the zero instant is Go's zero \<^verbatim>\<open>time.Time\<close>.\<close>

type_synonym gotime = int
type_synonym duration = int

definition Time_IsZero :: "gotime \<Rightarrow> bool" where
  "Time_IsZero t \<longleftrightarrow> t = 0"

abbreviation seconds :: "int \<Rightarrow> duration" where
  "seconds n \<equiv> n * 1000000000"

abbreviation minutes :: "int \<Rightarrow> duration" where
  "minutes n \<equiv> n * 60000000000"

end
