(* ===== verification/GoText.thy ===== *)
theory GoText
  imports Prelude
begin

text \<open>
  The functions of Go's \<^verbatim>\<open>strings\<close>, \<^verbatim>\<open>strconv\<close>, \<^verbatim>\<open>path/filepath\<close> and \<^verbatim>\<open>encoding/base64\<close> packages
  the operator calls, on byte strings, with the lemmas the components use: splitting and
  joining are inverse, and joining plain path elements only adds separators.
\<close>

section \<open>strings\<close>

fun split_on :: "char \<Rightarrow> string \<Rightarrow> string list" where
  "split_on c [] = [[]]"
| "split_on c (x # xs) =
     (if x = c then [] # split_on c xs
      else (case split_on c xs of [] \<Rightarrow> [[x]] | y # ys \<Rightarrow> (x # y) # ys))"

fun strings_Join :: "string list \<Rightarrow> string \<Rightarrow> string" where
  "strings_Join [] sep = []"
| "strings_Join [x] sep = x"
| "strings_Join (x # y # ys) sep = x @ sep @ strings_Join (y # ys) sep"

text \<open>The UTF-8 encodings of the code points \<^verbatim>\<open>unicode.IsSpace\<close> accepts.\<close>

definition space_encodings :: "string list" where
  "space_encodings =
    map (map char_of)
     ([[9], [10], [11], [12], [13], [32], [0xC2, 0x85], [0xC2, 0xA0], [0xE1, 0x9A, 0x80],
       [0xE2, 0x80, 0x80], [0xE2, 0x80, 0x81], [0xE2, 0x80, 0x82], [0xE2, 0x80, 0x83],
       [0xE2, 0x80, 0x84], [0xE2, 0x80, 0x85], [0xE2, 0x80, 0x86], [0xE2, 0x80, 0x87],
       [0xE2, 0x80, 0x88], [0xE2, 0x80, 0x89], [0xE2, 0x80, 0x8A], [0xE2, 0x80, 0xA8],
       [0xE2, 0x80, 0xA9], [0xE2, 0x80, 0xAF], [0xE2, 0x81, 0x9F], [0xE3, 0x80, 0x80]] :: nat list list)"

fun strip_prefix :: "string \<Rightarrow> string \<Rightarrow> string option" where
  "strip_prefix [] s = Some s"
| "strip_prefix (p # ps) [] = None"
| "strip_prefix (p # ps) (x # xs) = (if p = x then strip_prefix ps xs else None)"

fun first_strip :: "string list \<Rightarrow> string \<Rightarrow> string option" where
  "first_strip [] s = None"
| "first_strip (p # ps) s = (case strip_prefix p s of Some r \<Rightarrow> Some r | None \<Rightarrow> first_strip ps s)"

lemma strip_prefix_iff: "strip_prefix p s = Some r \<longleftrightarrow> s = p @ r"
  by (induction p s rule: strip_prefix.induct) auto

lemma first_strip_shorter:
  "first_strip ps s = Some r \<Longrightarrow> [] \<notin> set ps \<Longrightarrow> length r < length s"
  by (induction ps) (auto simp: strip_prefix_iff split: option.splits)

lemma space_encodings_nonempty [simp]: "[] \<notin> set space_encodings"
  by (simp add: space_encodings_def)

lemma rev_space_encodings_nonempty [simp]: "[] \<notin> set (map rev space_encodings)"
  by (simp add: space_encodings_def)

function trim_with :: "string list \<Rightarrow> string \<Rightarrow> string" where
  "trim_with ps s =
     (if [] \<in> set ps then s
      else case first_strip ps s of None \<Rightarrow> s | Some r \<Rightarrow> trim_with ps r)"
  by pat_completeness auto
termination
  by (relation "measure (\<lambda>(ps, s). length s)") (auto dest: first_strip_shorter)

declare trim_with.simps [simp del]

definition TrimSpace :: "string \<Rightarrow> string" where
  "TrimSpace s = rev (trim_with (map rev space_encodings) (rev (trim_with space_encodings s)))"

definition TrimRight_char :: "char \<Rightarrow> string \<Rightarrow> string" where
  "TrimRight_char c s = rev (dropWhile (\<lambda>x. x = c) (rev s))"

lemma split_on_not_Nil [simp]: "split_on c s \<noteq> []"
  by (cases s) (auto split: list.splits)

lemma split_on_absent: "c \<notin> set s \<Longrightarrow> split_on c s = [s]"
  by (induction s) auto

lemma split_on_append: "c \<notin> set a \<Longrightarrow> split_on c (a @ c # b) = a # split_on c b"
  by (induction a) auto

lemma strings_Join_Cons:
  "strings_Join (x # xs) sep = x @ (if xs = [] then [] else sep @ strings_Join xs sep)"
  by (cases xs) simp_all

lemma strings_Join_split_on: "strings_Join (split_on c s) [c] = s"
proof (induction s)
  case (Cons x xs)
  then show ?case
    by (cases "split_on c xs") (simp_all add: strings_Join_Cons del: strings_Join.simps(3))
qed simp

lemma split_on_parts: "\<forall>p \<in> set (split_on c s). c \<notin> set p"
proof (induction s)
  case (Cons x xs)
  then show ?case
    by (cases "split_on c xs") simp_all
qed simp

lemma length_split_on: "length (split_on c s) = Suc (count_list s c)"
proof (induction s)
  case (Cons x xs)
  then show ?case
    by (cases "split_on c xs") auto
qed simp

lemma TrimRight_char_suffix: "\<exists>k. s = TrimRight_char c s @ replicate k c"
proof -
  have "rev s = takeWhile (\<lambda>x. x = c) (rev s) @ dropWhile (\<lambda>x. x = c) (rev s)"
    by simp
  moreover have "takeWhile (\<lambda>x. x = c) (rev s) = replicate (length (takeWhile (\<lambda>x. x = c) (rev s))) c"
    by (rule replicate_length_same [symmetric]) (auto dest: set_takeWhileD)
  ultimately have "rev s = replicate (length (takeWhile (\<lambda>x. x = c) (rev s))) c
      @ dropWhile (\<lambda>x. x = c) (rev s)"
    by simp
  then have "s = rev (dropWhile (\<lambda>x. x = c) (rev s))
      @ replicate (length (takeWhile (\<lambda>x. x = c) (rev s))) c"
    by (metis rev_append rev_replicate rev_rev_ident)
  then show ?thesis
    unfolding TrimRight_char_def by blast
qed

lemma TrimRight_char_last: "TrimRight_char c s \<noteq> [] \<Longrightarrow> last (TrimRight_char c s) \<noteq> c"
  using hd_dropWhile [of "\<lambda>x. x = c" "rev s"] by (simp add: TrimRight_char_def last_rev)

lemma TrimRight_char_set: "set (TrimRight_char c s) \<subseteq> set s"
  by (auto simp: TrimRight_char_def dest: set_dropWhileD)

lemma TrimRight_char_length: "length (TrimRight_char c s) \<le> length s"
  using length_dropWhile_le [of "\<lambda>x. x = c" "rev s"] by (simp add: TrimRight_char_def)

section \<open>Decimal numbers\<close>

fun show_nat :: "nat \<Rightarrow> string" where
  "show_nat n = (if n < 10 then [char_of (48 + n)] else show_nat (n div 10) @ [char_of (48 + n mod 10)])"

declare show_nat.simps [simp del]

section \<open>path/filepath\<close>

fun clean_comps :: "bool \<Rightarrow> string list \<Rightarrow> string list \<Rightarrow> string list" where
  "clean_comps rooted st [] = rev st"
| "clean_comps rooted st (c # cs) =
     (if c = [] \<or> c = ''.'' then clean_comps rooted st cs
      else if c = ''..'' then
        (case st of
           [] \<Rightarrow> clean_comps rooted (if rooted then [] else [''..'']) cs
         | t # ts \<Rightarrow> clean_comps rooted (if t = ''..'' then ''..'' # st else ts) cs)
      else clean_comps rooted (c # st) cs)"

definition filepath_Clean :: "string \<Rightarrow> string" where
  "filepath_Clean p =
     (if p = [] then ''.''
      else let rooted = (hd p = CHR ''/''); cs = clean_comps rooted [] (split_on (CHR ''/'') p)
           in if rooted then CHR ''/'' # strings_Join cs ''/''
              else if cs = [] then ''.'' else strings_Join cs ''/'')"

fun filepath_Join :: "string list \<Rightarrow> string" where
  "filepath_Join [] = []"
| "filepath_Join (e # es) =
     (if e = [] then filepath_Join es else filepath_Clean (strings_Join (e # es) ''/''))"

text \<open>\<^verbatim>\<open>filepath.Dir\<close>: everything up to the last separator, cleaned.\<close>

definition filepath_Dir :: "string \<Rightarrow> string" where
  "filepath_Dir p = filepath_Clean (rev (dropWhile (\<lambda>x. x \<noteq> CHR ''/'') (rev p)))"

definition plain :: "string \<Rightarrow> bool" where
  "plain c \<longleftrightarrow> c \<noteq> [] \<and> c \<noteq> ''.'' \<and> c \<noteq> ''..'' \<and> CHR ''/'' \<notin> set c"

definition abs_path :: "string list \<Rightarrow> string" where
  "abs_path cs = CHR ''/'' # strings_Join cs ''/''"

lemma strings_Join_append:
  "xs \<noteq> [] \<Longrightarrow> ys \<noteq> [] \<Longrightarrow> strings_Join (xs @ ys) sep = strings_Join xs sep @ sep @ strings_Join ys sep"
proof (induction xs rule: induct_list012)
  case (2 x)
  then show ?case by (cases ys) auto
qed auto

lemma split_on_strings_Join:
  "cs \<noteq> [] \<Longrightarrow> \<forall>x \<in> set cs. c \<notin> set x \<Longrightarrow> split_on c (strings_Join cs [c]) = cs"
  by (induction cs rule: induct_list012) (simp_all add: split_on_absent split_on_append)

lemma clean_comps_plain:
  "\<forall>x \<in> set cs. plain x \<Longrightarrow> clean_comps r st cs = rev st @ cs"
  by (induction cs arbitrary: st) (simp_all add: plain_def)

lemma filepath_Clean_abs_path:
  assumes "\<forall>x \<in> set cs. plain x" and "cs \<noteq> []"
  shows "filepath_Clean (abs_path cs) = abs_path cs"
proof -
  have "split_on (CHR ''/'') (abs_path cs) = [] # cs"
    using assms by (simp add: abs_path_def split_on_strings_Join plain_def)
  then show ?thesis
    using assms by (simp add: filepath_Clean_def abs_path_def clean_comps_plain)
qed

lemma filepath_Join_abs_path:
  assumes "\<forall>x \<in> set cs. plain x" and "\<forall>x \<in> set ds. plain x" and "cs \<noteq> []"
  shows "filepath_Join (abs_path cs # ds) = abs_path (cs @ ds)"
proof (cases ds)
  case Nil
  then show ?thesis
    using assms filepath_Clean_abs_path [of cs] by (simp add: abs_path_def)
next
  case (Cons d ds')
  have "strings_Join (abs_path cs # ds) ''/'' = abs_path (cs @ ds)"
    using Cons assms(3) by (simp add: abs_path_def strings_Join_append)
  moreover have "filepath_Clean (abs_path (cs @ ds)) = abs_path (cs @ ds)"
    using assms by (intro filepath_Clean_abs_path) auto
  ultimately show ?thesis
    by (simp add: abs_path_def)
qed

lemma split_on_Join_plain:
  "\<forall>x \<in> set cs. plain x \<Longrightarrow> cs \<noteq> [] \<Longrightarrow> split_on (CHR ''/'') (strings_Join cs ''/'') = cs"
  by (rule split_on_strings_Join) (auto simp: plain_def)

lemma abs_path_inject:
  assumes "\<forall>x \<in> set cs. plain x" and "\<forall>x \<in> set ds. plain x" and "cs \<noteq> []" and "ds \<noteq> []"
    and "abs_path cs = abs_path ds"
  shows "cs = ds"
proof -
  have "strings_Join cs ''/'' = strings_Join ds ''/''"
    using assms(5) by (simp add: abs_path_def)
  then show ?thesis
    using split_on_Join_plain [OF assms(1,3)] split_on_Join_plain [OF assms(2,4)] by metis
qed

declare filepath_Join.simps [simp del]

end
