(* ===== verification/ApiTypes.thy ===== *)
theory ApiTypes
  imports GoText
begin

text \<open>
  The data the operator works on: the ImageClusterInstall API (\<^verbatim>\<open>api/v1alpha1\<close>) and the fields of
  the Hive, Metal3 and core Kubernetes objects it reads or writes. Structs are records, pointers
  are options, maps the code only looks keys up in are partial functions and maps it ranges over
  are association lists (in one iteration order). A \<^verbatim>\<open>LocalObjectReference\<close> has the single field
  \<^verbatim>\<open>Name\<close> and is that name. Slices whose nil-ness is observable are of type \<open>slice\<close>.
\<close>

section \<open>Object metadata\<close>

type_synonym nsname = "string \<times> string"  \<comment> \<open>\<^verbatim>\<open>types.NamespacedName\<close>: namespace, name\<close>

record OwnerReference =
  or_APIVersion :: string
  or_Kind :: string
  or_Name :: string
  or_UID :: string
  or_Controller :: "bool option"
  or_BlockOwnerDeletion :: "bool option"

record ObjectMeta =
  om_Name :: string
  om_Namespace :: string
  om_UID :: string
  om_Labels :: "(string \<rightharpoonup> string) option"
  om_Annotations :: "(string \<rightharpoonup> string) option"
  om_Finalizers :: "string list"
  om_OwnerReferences :: "OwnerReference list"
  om_CreationTimestamp :: gotime
  om_DeletionTimestamp :: "gotime option"

definition key_of :: "ObjectMeta \<Rightarrow> nsname" where
  "key_of m = (om_Namespace m, om_Name m)"

text \<open>\<^verbatim>\<open>DeletionTimestamp.IsZero()\<close>: true for a nil pointer and for the zero time.\<close>

definition DeletionTimestamp_IsZero :: "ObjectMeta \<Rightarrow> bool" where
  "DeletionTimestamp_IsZero m = (case om_DeletionTimestamp m of None \<Rightarrow> True | Some t \<Rightarrow> Time_IsZero t)"

section \<open>ImageClusterInstall\<close>

record BareMetalHostReference =
  bmhr_Name :: string
  bmhr_Namespace :: string

definition bmhr_key :: "BareMetalHostReference \<Rightarrow> nsname" where
  "bmhr_key r = (bmhr_Namespace r, bmhr_Name r)"

record ClusterMetadata =
  md_ClusterID :: string
  md_InfraID :: string
  md_AdminKubeconfigSecretRef :: string
  md_AdminPasswordSecretRef :: "string option"

record Proxy =
  px_HTTPProxy :: string
  px_HTTPSProxy :: string
  px_NoProxy :: string

record MachineNetworkEntry =
  mn_CIDR :: string

record ImageDigestMirrors =
  idm_Source :: string
  idm_Mirrors :: "string slice"
  idm_MirrorSourcePolicy :: string

record ImageClusterInstallSpec =
  sp_ClusterDeploymentRef :: "string option"
  sp_ImageSetRef :: string
  sp_ClusterMetadata :: "ClusterMetadata option"
  sp_NodeIP :: string
  sp_Hostname :: string
  sp_SSHKey :: string
  sp_ImageDigestSources :: "ImageDigestMirrors slice"
  sp_CABundleRef :: "string option"
  sp_ExtraManifestsRefs :: "string slice"
  sp_BareMetalHostRef :: "BareMetalHostReference option"
  sp_MachineNetwork :: string
  sp_MachineNetworks :: "MachineNetworkEntry slice"
  sp_Proxy :: "Proxy option"
  sp_AdditionalNTPSources :: "string slice"

datatype ConditionStatus = ConditionTrue | ConditionFalse | ConditionUnknown

record ClusterInstallCondition =
  cc_Type :: string
  cc_Status :: ConditionStatus
  cc_LastProbeTime :: gotime
  cc_LastTransitionTime :: gotime
  cc_Reason :: string
  cc_Message :: string

record ImageClusterInstallStatus =
  st_Conditions :: "ClusterInstallCondition list"
  st_InstallRestarts :: int
  st_BareMetalHostRef :: "BareMetalHostReference option"
  st_BootTime :: gotime

record ImageClusterInstall =
  ici_Meta :: ObjectMeta
  ici_Spec :: ImageClusterInstallSpec
  ici_Status :: ImageClusterInstallStatus

text \<open>Field updates through the nesting, as the Go assignments \<^verbatim>\<open>ici.Status.Conditions = cs\<close> do them.\<close>

definition set_Conditions :: "ClusterInstallCondition list \<Rightarrow> ImageClusterInstall \<Rightarrow> ImageClusterInstall" where
  "set_Conditions cs ici = ici\<lparr>ici_Status := (ici_Status ici)\<lparr>st_Conditions := cs\<rparr>\<rparr>"

lemma set_Conditions_simps [simp]:
  "ici_Meta (set_Conditions cs ici) = ici_Meta ici"
  "ici_Spec (set_Conditions cs ici) = ici_Spec ici"
  "st_Conditions (ici_Status (set_Conditions cs ici)) = cs"
  "st_BootTime (ici_Status (set_Conditions cs ici)) = st_BootTime (ici_Status ici)"
  "st_BareMetalHostRef (ici_Status (set_Conditions cs ici)) = st_BareMetalHostRef (ici_Status ici)"
  "st_InstallRestarts (ici_Status (set_Conditions cs ici)) = st_InstallRestarts (ici_Status ici)"
  by (simp_all add: set_Conditions_def)

lemma set_Conditions_same [simp]: "set_Conditions (st_Conditions (ici_Status ici)) ici = ici"
  by (simp add: set_Conditions_def)

section \<open>Condition types and reasons\<close>

definition ClusterInstallRequirementsMet :: string where
  "ClusterInstallRequirementsMet = ''RequirementsMet''"
definition ClusterInstallCompleted :: string where
  "ClusterInstallCompleted = ''Completed''"
definition ClusterInstallFailed :: string where
  "ClusterInstallFailed = ''Failed''"
definition ClusterInstallStopped :: string where
  "ClusterInstallStopped = ''Stopped''"

lemmas condition_type_defs =
  ClusterInstallRequirementsMet_def ClusterInstallCompleted_def ClusterInstallFailed_def
  ClusterInstallStopped_def

lemma condition_types_distinct [simp]:
  "ClusterInstallRequirementsMet \<noteq> ClusterInstallCompleted"
  "ClusterInstallRequirementsMet \<noteq> ClusterInstallFailed"
  "ClusterInstallRequirementsMet \<noteq> ClusterInstallStopped"
  "ClusterInstallCompleted \<noteq> ClusterInstallRequirementsMet"
  "ClusterInstallCompleted \<noteq> ClusterInstallFailed"
  "ClusterInstallCompleted \<noteq> ClusterInstallStopped"
  "ClusterInstallFailed \<noteq> ClusterInstallRequirementsMet"
  "ClusterInstallFailed \<noteq> ClusterInstallCompleted"
  "ClusterInstallFailed \<noteq> ClusterInstallStopped"
  "ClusterInstallStopped \<noteq> ClusterInstallRequirementsMet"
  "ClusterInstallStopped \<noteq> ClusterInstallCompleted"
  "ClusterInstallStopped \<noteq> ClusterInstallFailed"
  by (simp_all add: condition_type_defs)

definition ConfigurationPendingReason :: string where
  "ConfigurationPendingReason = ''ConfigurationPending''"
definition ConfigurationFailedReason :: string where
  "ConfigurationFailedReason = ''ConfigurationFailed''"
definition ImageCreationFailedReason :: string where
  "ImageCreationFailedReason = ''ImageCreationFailed''"
definition ImageCreationPendingReason :: string where
  "ImageCreationPendingReason = ''ImageCreationPending''"
definition HostConfigurationPendingReason :: string where
  "HostConfigurationPendingReason = ''HostConfigurationPending''"
definition HostConfigurationFailedReason :: string where
  "HostConfigurationFailedReason = ''HostConfigurationFailed''"
definition HostConfigurationSucceededReason :: string where
  "HostConfigurationSucceededReason = ''HostConfigurationSucceeded''"
definition InstallTimedoutReason :: string where
  "InstallTimedoutReason = ''ClusterInstallationTimedOut''"
definition InstallTimedoutMessage :: string where
  "InstallTimedoutMessage = ''Cluster installation is taking longer than expected''"
definition InstallInProgressReason :: string where
  "InstallInProgressReason = ''ClusterInstallationInProgress''"
definition InstallInProgressMessage :: string where
  "InstallInProgressMessage = ''Cluster installation is in progress''"
definition InstallSucceededReason :: string where
  "InstallSucceededReason = ''ClusterInstallationSucceeded''"
definition InstallSucceededMessage :: string where
  "InstallSucceededMessage = ''Cluster installation has succeeded''"
definition HostValidationFailedReason :: string where
  "HostValidationFailedReason = ''HostValidationFailed''"
definition HostValidationPendingReason :: string where
  "HostValidationPendingReason = ''HostValidationPending''"

lemmas reason_defs =
  ConfigurationPendingReason_def ConfigurationFailedReason_def ImageCreationFailedReason_def
  ImageCreationPendingReason_def HostConfigurationPendingReason_def HostConfigurationFailedReason_def
  HostConfigurationSucceededReason_def InstallTimedoutReason_def InstallInProgressReason_def
  InstallSucceededReason_def HostValidationFailedReason_def HostValidationPendingReason_def

section \<open>Hosts and data images (Metal3)\<close>

record NIC =
  nic_Name :: string
  nic_MAC :: string
  nic_IP :: string

record BareMetalHost =
  bmh_Meta :: ObjectMeta
  bmh_AutomatedCleaningMode :: string
  bmh_ExternallyProvisioned :: bool
  bmh_Online :: bool
  bmh_PreprovisioningNetworkDataName :: string
  bmh_ProvisioningState :: string
  bmh_PoweredOn :: bool
  bmh_HardwareDetails :: "NIC list option"

definition StateAvailable :: string where
  "StateAvailable = ''available''"
definition StateExternallyProvisioned :: string where
  "StateExternallyProvisioned = ''externally provisioned''"
definition CleaningModeDisabled :: string where
  "CleaningModeDisabled = ''disabled''"

record DataImage =
  di_Meta :: ObjectMeta
  di_URL :: string
  di_AttachedImageURL :: string

section \<open>Hive and core objects\<close>

record ClusterInstallLocalReference =
  cir_Group :: string
  cir_Kind :: string
  cir_Name :: string

record ClusterDeployment =
  cd_Meta :: ObjectMeta
  cd_PullSecretRef :: "string option"
  cd_ClusterName :: string
  cd_BaseDomain :: string
  cd_ClusterInstallRef :: "ClusterInstallLocalReference option"

record ClusterImageSet =
  cis_ReleaseImage :: string

record ConfigMap =
  cm_Meta :: ObjectMeta
  cm_Data :: "(string \<times> string) list"

record Secret =
  sec_Meta :: ObjectMeta
  sec_Data :: "(string \<rightharpoonup> string) option"
  sec_Type :: string

text \<open>The TLS settings of the hub's API server, and a change to it as a watch reports it: its type and,
  where the object is one, the API server.\<close>

record TLSProfileSpec =
  tp_Ciphers :: "string slice"
  tp_MinTLSVersion :: string

record TLSSecurityProfile =
  tsp_Type :: string
  tsp_Custom :: "TLSProfileSpec option"

record APIServer =
  as_TLSSecurityProfile :: "TLSSecurityProfile option"
  as_TLSAdherence :: string

datatype watch_type = Added | Modified | Deleted | Bookmark | Error

text \<open>Reading a key of a possibly nil map.\<close>

definition map_get :: "('k \<rightharpoonup> 'v) option \<Rightarrow> 'k \<Rightarrow> 'v option" where
  "map_get m k = (case m of None \<Rightarrow> None | Some f \<Rightarrow> f k)"

lemma map_get_simps [simp]: "map_get None k = None" "map_get (Some f) k = f k"
  by (simp_all add: map_get_def)

section \<open>Results of a reconcile\<close>

record Result =
  rs_Requeue :: bool
  rs_RequeueAfter :: duration

definition zeroResult :: Result where
  "zeroResult = \<lparr>rs_Requeue = False, rs_RequeueAfter = 0\<rparr>"

definition requeueAfter :: "duration \<Rightarrow> Result" where
  "requeueAfter d = \<lparr>rs_Requeue = False, rs_RequeueAfter = d\<rparr>"

definition Result_IsZero :: "Result \<Rightarrow> bool" where
  "Result_IsZero r \<longleftrightarrow> r = zeroResult"

lemma Result_IsZero_simps [simp]:
  "Result_IsZero zeroResult" "Result_IsZero (requeueAfter d) \<longleftrightarrow> d = 0"
  by (auto simp: Result_IsZero_def zeroResult_def requeueAfter_def)

lemma requeueAfter_eq [simp]:
  "requeueAfter d = zeroResult \<longleftrightarrow> d = 0" "zeroResult = requeueAfter d \<longleftrightarrow> d = 0"
  by (auto simp: zeroResult_def requeueAfter_def)

end
