(* ===== verification/GoNet.thy ===== *)
theory GoNet
  imports GoText "HOL-Library.Word"
begin

unbundle bit_operations_syntax

text \<open>
  The part of Go's \<^verbatim>\<open>net\<close> package the operator calls: \<^verbatim>\<open>ParseIP\<close>, \<^verbatim>\<open>ParseCIDR\<close>, \<^verbatim>\<open>IP.To4\<close>,
  \<^verbatim>\<open>IP.Mask\<close> and \<^verbatim>\<open>IPNet.Contains\<close>, on addresses as byte slices (lists of 8-bit words of length 4
  or 16, the empty list for a nil \<^verbatim>\<open>IP\<close>). The main lemma says what \<^verbatim>\<open>Contains\<close> means: the first
  bits of the two addresses, as many as the mask has, agree.
\<close>

type_synonym byte = "8 word"
type_synonym IP = "byte list"

section \<open>Addresses in text form\<close>

definition is_digit :: "char \<Rightarrow> bool" where
  "is_digit c \<longleftrightarrow> 48 \<le> (of_char c :: nat) \<and> (of_char c :: nat) \<le> 57"

definition digit_val :: "char \<Rightarrow> nat" where
  "digit_val c = of_char c - 48"

definition decimal :: "string \<Rightarrow> nat" where
  "decimal s = foldl (\<lambda>n c. n * 10 + digit_val c) 0 s"

text \<open>One field of a dotted address: decimal digits, no leading zero, at most 255.\<close>

definition v4_field :: "string \<Rightarrow> byte option" where
  "v4_field f =
     (if f = [] \<or> \<not> list_all is_digit f \<or> (hd f = CHR ''0'' \<and> tl f \<noteq> []) \<or> decimal f > 255
      then None else Some (of_nat (decimal f)))"

definition parseIPv4Fields :: "string \<Rightarrow> IP option" where
  "parseIPv4Fields s =
     (case map v4_field (split_on (CHR ''.'') s) of
        [Some a, Some b, Some c, Some d] \<Rightarrow> Some [a, b, c, d]
      | _ \<Rightarrow> None)"

definition hex_val :: "char \<Rightarrow> nat option" where
  "hex_val c = (let n = of_char c :: nat in
     if 48 \<le> n \<and> n \<le> 57 then Some (n - 48)
     else if 97 \<le> n \<and> n \<le> 102 then Some (n - 87)
     else if 65 \<le> n \<and> n \<le> 70 then Some (n - 55)
     else None)"

definition hex_number :: "string \<Rightarrow> nat" where
  "hex_number s = foldl (\<lambda>n c. n * 16 + (case hex_val c of None \<Rightarrow> 0 | Some d \<Rightarrow> d)) 0 s"

text \<open>A field of a colon-separated address: one to four hexadecimal digits; the rest of the text is
  returned as well.\<close>

definition hex_field :: "string \<Rightarrow> (nat \<times> string) option" where
  "hex_field s = (let ds = takeWhile (\<lambda>c. hex_val c \<noteq> None) s in
     if ds = [] \<or> length ds > 4 then None else Some (hex_number ds, drop (length ds) s))"

lemma hex_field_shorter: "hex_field s = Some (n, r) \<Longrightarrow> length r < length s"
  by (cases s) (auto simp: hex_field_def Let_def split: if_splits)

text \<open>The loop of \<^verbatim>\<open>parseIPv6\<close>: remaining text, bytes so far, position of the ellipsis. It returns the
  bytes, the ellipsis and the unread text, or nothing where the code returns an error.\<close>

function parseIPv6_loop :: "string \<Rightarrow> IP \<Rightarrow> nat option \<Rightarrow> (IP \<times> nat option \<times> string) option" where
  "parseIPv6_loop s ip ell =
     (if length ip \<ge> 16 then Some (ip, ell, s)
      else case hex_field s of
        None \<Rightarrow> None
      | Some (acc, rest) \<Rightarrow>
          if rest \<noteq> [] \<and> hd rest = CHR ''.'' then
            (if (ell = None \<and> length ip \<noteq> 12) \<or> length ip + 4 > 16 then None
             else case parseIPv4Fields s of None \<Rightarrow> None | Some b \<Rightarrow> Some (ip @ b, ell, []))
          else
            let ip' = ip @ [of_nat (acc div 256), of_nat (acc mod 256)] in
            (case rest of
               [] \<Rightarrow> Some (ip', ell, [])
             | c # cs \<Rightarrow>
                 if c \<noteq> CHR '':'' \<or> cs = [] then None
                 else if hd cs = CHR '':'' then
                   (if ell \<noteq> None then None
                    else if tl cs = [] then Some (ip', Some (length ip'), [])
                    else parseIPv6_loop (tl cs) ip' (Some (length ip')))
                 else parseIPv6_loop cs ip' ell))"
  by pat_completeness auto
termination
  by (relation "measure (\<lambda>(s, ip, ell). length s)") (auto dest: hex_field_shorter)

declare parseIPv6_loop.simps [simp del]

definition expand_ellipsis :: "IP \<times> nat option \<times> string \<Rightarrow> IP option" where
  "expand_ellipsis p = (case p of (ip, ell, s) \<Rightarrow>
     if s \<noteq> [] then None
     else if length ip < 16 then
       (case ell of None \<Rightarrow> None
        | Some e \<Rightarrow> Some (take e ip @ replicate (16 - length ip) 0 @ drop e ip))
     else if ell \<noteq> None then None else Some ip)"

text \<open>\<^verbatim>\<open>parseIPv6\<close> on an address without a zone; \<^verbatim>\<open>net\<close>'s callers refuse every address with one.\<close>

definition parseIPv6 :: "string \<Rightarrow> IP option" where
  "parseIPv6 s =
     (if CHR ''%'' \<in> set s then None
      else if take 2 s = ''::'' then
        (if length s = 2 then Some (replicate 16 0)
         else Option.bind (parseIPv6_loop (drop 2 s) [] (Some 0)) expand_ellipsis)
      else Option.bind (parseIPv6_loop s [] None) expand_ellipsis)"

datatype Addr = Addr4 IP | Addr6 IP

text \<open>\<^verbatim>\<open>netip.ParseAddr\<close>: the first dot, colon or percent sign decides.\<close>

fun addr_kind :: "string \<Rightarrow> char option" where
  "addr_kind [] = None"
| "addr_kind (c # cs) = (if c \<in> {CHR ''.'', CHR '':'', CHR ''%''} then Some c else addr_kind cs)"

definition ParseAddr :: "string \<Rightarrow> Addr option" where
  "ParseAddr s =
     (if addr_kind s = Some (CHR ''.'') then map_option Addr4 (parseIPv4Fields s)
      else if addr_kind s = Some (CHR '':'') then map_option Addr6 (parseIPv6 s)
      else None)"

definition v4InV6Prefix :: IP where
  "v4InV6Prefix = replicate 10 0 @ [0xff, 0xff]"

fun As16 :: "Addr \<Rightarrow> IP" where
  "As16 (Addr4 a) = v4InV6Prefix @ a"
| "As16 (Addr6 a) = a"

fun BitLen :: "Addr \<Rightarrow> nat" where
  "BitLen (Addr4 a) = 32"
| "BitLen (Addr6 a) = 128"

definition ParseIP :: "string \<Rightarrow> IP" where
  "ParseIP s = (case ParseAddr s of None \<Rightarrow> [] | Some a \<Rightarrow> As16 a)"

section \<open>Networks\<close>

record IPNet =
  IPNet_IP :: IP
  IPNet_Mask :: "byte list"

fun mask_bytes :: "nat \<Rightarrow> nat \<Rightarrow> byte list" where
  "mask_bytes n 0 = []"
| "mask_bytes n (Suc l) =
     (if 8 \<le> n then 0xff # mask_bytes (n - 8) l else NOT (drop_bit n 0xff) # mask_bytes 0 l)"

definition CIDRMask :: "nat \<Rightarrow> nat \<Rightarrow> byte list" where
  "CIDRMask ones bits = mask_bytes ones (bits div 8)"

text \<open>\<^verbatim>\<open>To4\<close>; the result is nil exactly when it is \<open>None\<close>.\<close>

definition To4 :: "IP \<Rightarrow> IP option" where
  "To4 ip =
     (if length ip = 4 then Some ip
      else if length ip = 16 \<and> take 12 ip = v4InV6Prefix then Some (drop 12 ip)
      else None)"

definition and_bytes :: "byte list \<Rightarrow> byte list \<Rightarrow> byte list" where
  "and_bytes xs ys = map2 (AND) xs ys"

definition IP_Mask :: "IP \<Rightarrow> byte list \<Rightarrow> IP" where
  "IP_Mask ip0 mask0 =
     (let mask = (if length mask0 = 16 \<and> length ip0 = 4 \<and> take 12 mask0 = replicate 12 0xff
                  then drop 12 mask0 else mask0);
          ip = (if length mask = 4 \<and> length ip0 = 16 \<and> take 12 ip0 = v4InV6Prefix
                then drop 12 ip0 else ip0)
      in if length ip \<noteq> length mask then [] else and_bytes ip mask)"

text \<open>\<^verbatim>\<open>strings.Cut\<close> at the first separator.\<close>

fun cut_at :: "char \<Rightarrow> string \<Rightarrow> (string \<times> string) option" where
  "cut_at c [] = None"
| "cut_at c (x # xs) = (if x = c then Some ([], xs) else map_option (\<lambda>(a, b). (x # a, b)) (cut_at c xs))"

definition ParseCIDR :: "string \<Rightarrow> goerr + (IP \<times> IPNet)" where
  "ParseCIDR s =
     (let err = Inl (errorf (''invalid CIDR address: '' @ s)) in
      case cut_at (CHR ''/'') s of
        None \<Rightarrow> err
      | Some (addr, msk) \<Rightarrow>
          (case ParseAddr addr of
             None \<Rightarrow> err
           | Some a \<Rightarrow>
               if msk = [] \<or> \<not> list_all is_digit msk \<or> decimal msk > BitLen a then err
               else let m = CIDRMask (decimal msk) (BitLen a)
                    in Inr (As16 a, \<lparr>IPNet_IP = IP_Mask (As16 a) m, IPNet_Mask = m\<rparr>)))"

definition networkNumberAndMask :: "IPNet \<Rightarrow> (IP \<times> byte list)" where
  "networkNumberAndMask n =
     (case To4 (IPNet_IP n) of
        None \<Rightarrow> if length (IPNet_IP n) \<noteq> 16 \<or> length (IPNet_Mask n) \<noteq> 16 then ([], [])
                else (IPNet_IP n, IPNet_Mask n)
      | Some ip \<Rightarrow> if length (IPNet_Mask n) = 4 then (ip, IPNet_Mask n)
                   else if length (IPNet_Mask n) = 16 then (ip, drop 12 (IPNet_Mask n))
                   else ([], []))"

definition IPNet_Contains :: "IPNet \<Rightarrow> IP \<Rightarrow> bool" where
  "IPNet_Contains n ip0 =
     (case networkNumberAndMask n of (nn, m) \<Rightarrow>
        let ip = (case To4 ip0 of Some x \<Rightarrow> x | None \<Rightarrow> ip0) in
        length ip = length nn \<and> and_bytes nn m = and_bytes ip m)"

section \<open>What containment means\<close>

text \<open>The bits of a byte and of an address, most significant first.\<close>

definition byte_bits :: "byte \<Rightarrow> bool list" where
  "byte_bits b = map (\<lambda>i. bit b (7 - i)) [0..<8]"

definition ip_bits :: "IP \<Rightarrow> bool list" where
  "ip_bits ip = concat (map byte_bits ip)"

lemma length_byte_bits [simp]: "length (byte_bits b) = 8"
  by (simp add: byte_bits_def)

lemma ip_bits_simps [simp]: "ip_bits [] = []" "ip_bits (b # bs) = byte_bits b @ ip_bits bs"
  by (simp_all add: ip_bits_def)

lemma length_ip_bits [simp]: "length (ip_bits ip) = 8 * length ip"
  by (induction ip) simp_all

lemma and_bytes_simps [simp]:
  "and_bytes [] ys = []" "and_bytes (x # xs) (y # ys) = (x AND y) # and_bytes xs ys"
  by (simp_all add: and_bytes_def)

lemma length_mask_bytes [simp]: "length (mask_bytes n l) = l"
  by (induction n l rule: mask_bytes.induct) simp_all

lemma length_and_bytes [simp]: "length (and_bytes xs ys) = min (length xs) (length ys)"
  by (simp add: and_bytes_def)

lemma full_byte: "(0xff :: byte) = mask 8"
  by (simp add: mask_eq_exp_minus_1)

lemma bit_mask_byte:
  "i < 8 \<Longrightarrow> n < 8 \<Longrightarrow> bit (NOT (drop_bit n 0xff) :: byte) i \<longleftrightarrow> 8 - n \<le> i"
  unfolding full_byte by (simp add: bit_not_iff bit_drop_bit_eq bit_mask_iff) linarith

lemma byte_mask_eq:
  assumes "n < 8"
  shows "b AND NOT (drop_bit n 0xff) = c AND NOT (drop_bit n 0xff) \<longleftrightarrow>
    take n (byte_bits b) = take n (byte_bits c)"
proof -
  have "b AND NOT (drop_bit n 0xff) = c AND NOT (drop_bit n 0xff) \<longleftrightarrow>
      (\<forall>i < 8. 8 - n \<le> i \<longrightarrow> (bit b i \<longleftrightarrow> bit c i))"
    using bit_mask_byte [OF _ assms] by (auto simp: bit_eq_iff bit_and_iff)
  also have "\<dots> \<longleftrightarrow> (\<forall>j < n. bit b (7 - j) \<longleftrightarrow> bit c (7 - j))"
  proof (rule iffI; intro allI impI)
    fix j assume "\<forall>i < 8. 8 - n \<le> i \<longrightarrow> (bit b i \<longleftrightarrow> bit c i)" "j < n"
    then show "bit b (7 - j) \<longleftrightarrow> bit c (7 - j)" by (simp add: diff_le_mono2)
  next
    fix i :: nat assume H: "\<forall>j < n. bit b (7 - j) \<longleftrightarrow> bit c (7 - j)" and "i < 8" "8 - n \<le> i"
    then have "7 - i < n" "7 - (7 - i) = i" by auto
    then show "bit b i \<longleftrightarrow> bit c i" using H by metis
  qed
  also have "\<dots> \<longleftrightarrow> take n (byte_bits b) = take n (byte_bits c)"
    using assms by (auto simp: byte_bits_def take_map list_eq_iff_nth_eq)
  finally show ?thesis .
qed

lemma byte_and_full: "(b :: byte) AND 0xff = b"
  unfolding full_byte by (rule bit_word_eqI) (simp add: bit_and_iff bit_mask_iff)

lemma byte_bits_inject: "byte_bits b = byte_bits c \<longleftrightarrow> b = c"
proof
  assume "byte_bits b = byte_bits c"
  then have H: "\<forall>j < 8. bit b (7 - j) \<longleftrightarrow> bit c (7 - j)"
    by (simp add: byte_bits_def list_eq_iff_nth_eq)
  show "b = c"
  proof (rule bit_word_eqI)
    fix n assume "n < LENGTH(8)"
    then have "7 - n < 8" "7 - (7 - n) = n" by auto
    then show "bit b n \<longleftrightarrow> bit c n" using H by metis
  qed
qed simp

lemma mask_bytes_eq:
  "length xs = l \<Longrightarrow> length ys = l \<Longrightarrow>
    and_bytes xs (mask_bytes n l) = and_bytes ys (mask_bytes n l) \<longleftrightarrow>
    take n (ip_bits xs) = take n (ip_bits ys)"
proof (induction n l arbitrary: xs ys rule: mask_bytes.induct)
  case (2 n l)
  then obtain x xs' y ys' where xs: "xs = x # xs'" "ys = y # ys'" "length xs' = l" "length ys' = l"
    by (metis length_Suc_conv)
  show ?case
  proof (cases "8 \<le> n")
    case True
    then show ?thesis using 2(1) [OF True xs(3,4)] xs
      by (simp add: byte_and_full byte_bits_inject)
  next
    case False
    then have "n < 8" by simp
    then show ?thesis using 2(2) [OF False xs(3,4)] xs
      by (simp add: byte_mask_eq)
  qed
qed simp

section \<open>Parsed addresses are well formed\<close>

lemma parseIPv4Fields_length: "parseIPv4Fields s = Some ip \<Longrightarrow> length ip = 4"
  by (auto simp: parseIPv4Fields_def split: list.splits option.splits)

lemma parseIPv6_loop_length:
  "parseIPv6_loop s ip ell = Some (ip', ell', s') \<Longrightarrow> length ip \<le> 16 \<Longrightarrow> even (length ip) \<Longrightarrow>
    (\<forall>e. ell = Some e \<longrightarrow> e \<le> length ip) \<Longrightarrow>
    length ip' \<le> 16 \<and> (\<forall>e. ell' = Some e \<longrightarrow> e \<le> length ip')"
proof (induction s ip ell rule: parseIPv6_loop.induct)
  case (1 s ip ell)
  have two: "length ip + 2 \<le> 16" if "length ip < 16"
    using that 1(5) by presburger
  note run = 1(3) [unfolded parseIPv6_loop.simps [of s ip ell]]
  show ?case
  proof (cases "length ip \<ge> 16")
    case True
    then show ?thesis using run 1(4,6) by auto
  next
    case False
    then show ?thesis
      using run 1(4-6) two 1(1) [OF False] 1(2) [OF False]
      by (auto simp: Let_def le_SucI dest!: parseIPv4Fields_length split: option.splits if_splits list.splits)
  qed
qed

lemma expand_ellipsis_length:
  "expand_ellipsis (ip, ell, s) = Some ip' \<Longrightarrow> length ip \<le> 16 \<Longrightarrow> (\<forall>e. ell = Some e \<longrightarrow> e \<le> length ip) \<Longrightarrow>
    length ip' = 16"
  by (auto simp: expand_ellipsis_def split: if_splits option.splits)

lemma parseIPv6_length: "parseIPv6 s = Some ip \<Longrightarrow> length ip = 16"
  by (auto simp: parseIPv6_def Option.bind_eq_Some_conv split: if_splits
      dest!: parseIPv6_loop_length intro: expand_ellipsis_length)

text \<open>The parsed parts of a network in text form: address and prefix length.\<close>

definition cidr_parts :: "string \<Rightarrow> (Addr \<times> nat) option" where
  "cidr_parts s =
     (case cut_at (CHR ''/'') s of
        None \<Rightarrow> None
      | Some (addr, msk) \<Rightarrow>
          (case ParseAddr addr of
             None \<Rightarrow> None
           | Some a \<Rightarrow> if msk = [] \<or> \<not> list_all is_digit msk \<or> decimal msk > BitLen a then None
                       else Some (a, decimal msk)))"

definition net_of :: "Addr \<Rightarrow> nat \<Rightarrow> IPNet" where
  "net_of a n = (let m = CIDRMask n (BitLen a) in \<lparr>IPNet_IP = IP_Mask (As16 a) m, IPNet_Mask = m\<rparr>)"

lemma ParseCIDR_parts:
  "ParseCIDR s =
    (case cidr_parts s of None \<Rightarrow> Inl (errorf (''invalid CIDR address: '' @ s))
     | Some (a, n) \<Rightarrow> Inr (As16 a, net_of a n))"
  by (simp add: ParseCIDR_def cidr_parts_def net_of_def Let_def split: option.split prod.split)

fun wf_Addr :: "Addr \<Rightarrow> bool" where
  "wf_Addr (Addr4 a) \<longleftrightarrow> length a = 4"
| "wf_Addr (Addr6 a) \<longleftrightarrow> length a = 16"

lemma ParseAddr_wf: "ParseAddr s = Some a \<Longrightarrow> wf_Addr a"
  by (auto simp: ParseAddr_def dest: parseIPv4Fields_length parseIPv6_length split: if_splits)

lemma cidr_parts_wf: "cidr_parts s = Some (a, n) \<Longrightarrow> wf_Addr a \<and> n \<le> BitLen a"
  by (auto simp: cidr_parts_def dest: ParseAddr_wf split: option.splits if_splits)

section \<open>Containment is agreement on the prefix\<close>

text \<open>Whether an address lies in a network given by address and prefix length. An IPv4 address
  is compared with the four bytes of an IPv4 network, or of an IPv6 network inside the range
  of the IPv4-mapped addresses; any other address with the sixteen bytes of an IPv6 network.\<close>

fun in_prefix :: "Addr \<Rightarrow> nat \<Rightarrow> IP \<Rightarrow> bool" where
  "in_prefix (Addr4 a) n ip =
     (case To4 ip of None \<Rightarrow> False | Some b \<Rightarrow> take n (ip_bits b) = take n (ip_bits a))"
| "in_prefix (Addr6 a) n ip =
     (if take 12 a = v4InV6Prefix \<and> 96 \<le> n
      then (case To4 ip of None \<Rightarrow> False
            | Some b \<Rightarrow> take (n - 96) (ip_bits b) = take (n - 96) (ip_bits (drop 12 a)))
      else To4 ip = None \<and> length ip = 16 \<and> take n (ip_bits ip) = take n (ip_bits a))"

lemma length_v4InV6Prefix [simp]: "length v4InV6Prefix = 12"
  by (simp add: v4InV6Prefix_def)

lemma To4_length: "To4 ip = Some b \<Longrightarrow> length b = 4"
  by (auto simp: To4_def split: if_splits)

lemma and_bytes_again [simp]: "and_bytes (and_bytes xs ys) ys = and_bytes xs ys"
proof (induction xs arbitrary: ys)
  case (Cons x xs)
  then show ?case by (cases ys) (simp_all add: and_bytes_def and.assoc)
qed simp

lemma take_and_bytes: "take k (and_bytes xs ys) = and_bytes (take k xs) (take k ys)"
  by (simp add: and_bytes_def take_map take_zip)

lemma drop_and_bytes: "drop k (and_bytes xs ys) = and_bytes (drop k xs) (drop k ys)"
  by (simp add: and_bytes_def drop_map drop_zip)

lemma take_mask_bytes: "k \<le> l \<Longrightarrow> take k (mask_bytes n l) = mask_bytes n k"
proof (induction n l arbitrary: k rule: mask_bytes.induct)
  case (2 n l)
  then show ?case by (cases k) auto
qed simp

lemma mask_bytes_full: "8 * l \<le> n \<Longrightarrow> mask_bytes n l = replicate l 0xff"
  by (induction n l rule: mask_bytes.induct) auto

lemma drop_mask_bytes: "8 * k \<le> n \<Longrightarrow> drop k (mask_bytes n (k + l)) = mask_bytes (n - 8 * k) l"
proof (induction k arbitrary: n)
  case (Suc k)
  then show ?case using Suc.IH [of "n - 8"] by (simp add: algebra_simps)
qed simp

lemma and_bytes_full: "and_bytes xs (replicate (length xs) 0xff) = xs"
  by (induction xs) (simp_all add: byte_and_full)

lemma last_mask_byte: "n < 8 * l \<Longrightarrow> \<not> bit (last (mask_bytes n l)) 0"
proof (induction n l rule: mask_bytes.induct)
  case (2 n l)
  have "\<not> bit (NOT (drop_bit n 0xff) :: byte) 0" if "n < 8"
    using bit_mask_byte [of 0 n] that by simp
  moreover have "mask_bytes m l \<noteq> [] \<longleftrightarrow> l \<noteq> 0" for m
    by (cases l) auto
  ultimately show ?case using 2 by (cases l) auto
qed simp

lemma masked_not_v4:
  assumes "length a = 16" and "n < 96"
  shows "take 12 (and_bytes a (mask_bytes n 16)) \<noteq> v4InV6Prefix"
proof
  assume "take 12 (and_bytes a (mask_bytes n 16)) = v4InV6Prefix"
  then have "and_bytes (take 12 a) (mask_bytes n 12) = v4InV6Prefix"
    by (simp add: take_and_bytes take_mask_bytes)
  then have "and_bytes (take 12 a) (mask_bytes n 12) ! 11 = 0xff"
    by (simp add: v4InV6Prefix_def nth_append)
  then have "a ! 11 AND mask_bytes n 12 ! 11 = 0xff"
    using assms(1) by (simp add: and_bytes_def)
  then have "bit (a ! 11 AND mask_bytes n 12 ! 11) 0"
    by simp
  then have "bit (mask_bytes n 12 ! 11) 0"
    unfolding bit_and_iff by simp
  moreover have "last (mask_bytes n 12) = mask_bytes n 12 ! 11"
    by (simp add: last_conv_nth flip: length_0_conv)
  ultimately show False
    using last_mask_byte [of n 12] assms(2) by simp
qed

lemma network_net_of:
  assumes "wf_Addr a" and "n \<le> BitLen a"
  shows "networkNumberAndMask (net_of a n) =
    (case a of
       Addr4 b \<Rightarrow> (and_bytes b (mask_bytes n 4), mask_bytes n 4)
     | Addr6 b \<Rightarrow>
         if take 12 b = v4InV6Prefix \<and> 96 \<le> n
         then (and_bytes (drop 12 b) (mask_bytes (n - 96) 4), mask_bytes (n - 96) 4)
         else (and_bytes b (mask_bytes n 16), mask_bytes n 16))"
proof (cases a)
  case (Addr4 b)
  then show ?thesis using assms
    by (simp add: networkNumberAndMask_def net_of_def CIDRMask_def IP_Mask_def To4_def Let_def)
next
  case (Addr6 b)
  then have len: "length b = 16" using assms by simp
  have net: "net_of a n = \<lparr>IPNet_IP = and_bytes b (mask_bytes n 16), IPNet_Mask = mask_bytes n 16\<rparr>"
    using Addr6 len by (simp add: net_of_def CIDRMask_def IP_Mask_def Let_def)
  have high: "take 12 (and_bytes b (mask_bytes n 16)) = take 12 b" if "96 \<le> n"
    using that len and_bytes_full [of "take 12 b"]
    by (simp add: take_and_bytes take_mask_bytes mask_bytes_full)
  have low: "drop 12 (mask_bytes n 16) = mask_bytes (n - 96) 4" if "96 \<le> n"
    using that drop_mask_bytes [of 12 n 4] by simp
  show ?thesis
  proof (cases "96 \<le> n")
    case True
    then show ?thesis
      using Addr6 len net high low by (simp add: networkNumberAndMask_def To4_def drop_and_bytes)
  next
    case False
    then show ?thesis
      using Addr6 len net masked_not_v4 [of b n] by (simp add: networkNumberAndMask_def To4_def)
  qed
qed

lemma Contains_in_prefix:
  assumes "wf_Addr a" and "n \<le> BitLen a"
  shows "IPNet_Contains (net_of a n) ip \<longleftrightarrow> in_prefix a n ip"
proof -
  have four: "and_bytes (and_bytes b (mask_bytes k 4)) (mask_bytes k 4) = and_bytes c (mask_bytes k 4) \<longleftrightarrow>
      take k (ip_bits c) = take k (ip_bits b)" if "length b = 4" "To4 ip = Some c" for b c k
    using mask_bytes_eq [of b 4 c k] that To4_length by auto
  have sixteen: "and_bytes (and_bytes b (mask_bytes n 16)) (mask_bytes n 16) = and_bytes ip (mask_bytes n 16) \<longleftrightarrow>
      take n (ip_bits ip) = take n (ip_bits b)" if "length b = 16" "length ip = 16" for b
    using mask_bytes_eq [of b 16 ip n] that by auto
  have none: "length ip \<noteq> 4" if "To4 ip = None"
    using that by (simp add: To4_def split: if_splits)
  show ?thesis
  proof (cases "To4 ip")
    case None
    then show ?thesis
      using assms none sixteen
      by (cases a) (simp_all add: IPNet_Contains_def network_net_of del: and_bytes_again cong: conj_cong)
  next
    case (Some c)
    then have "length c = 4" by (rule To4_length)
    then show ?thesis
      using assms Some four
      by (cases a) (simp_all add: IPNet_Contains_def network_net_of del: and_bytes_again)
  qed
qed

end
