(* ===== verification/GoTime.thy ===== *)
theory GoTime
  imports GoNet
begin

text \<open>
  \<^verbatim>\<open>time.ParseDuration\<close> and \<^verbatim>\<open>Duration.String\<close> of the Go library, which read the install timeout
  annotation and write the timeout message. Durations are nanoseconds; the accumulator of the
  parser is a 64 bit unsigned integer whose wrap-around is written out, and the fraction of a unit
  is computed in floating point as the library does. The last lemma is the round trip: parsing what
  \<^verbatim>\<open>String\<close> prints gives the duration back, for every 64 bit duration.
\<close>

section \<open>Floating point\<close>

text \<open>A positive fraction rounded to the nearest number with a significand of 53 bits, ties to even,
  as a pair of numerator and denominator. The exponent is unbounded: the quotients of the parser are
  cut to an integer, which is 0 where a bounded exponent would matter.\<close>

fun bitlen :: "nat \<Rightarrow> nat" where
  "bitlen n = (if n = 0 then 0 else Suc (bitlen (n div 2)))"

declare bitlen.simps [simp del]

definition round_even :: "nat \<Rightarrow> nat \<Rightarrow> nat" where
  "round_even p q =
     (let d = p div q; r = p mod q in if 2 * r < q \<or> (2 * r = q \<and> even d) then d else Suc d)"

definition scaled :: "nat \<Rightarrow> nat \<Rightarrow> int \<Rightarrow> nat \<times> nat" where
  "scaled p q k = (if 0 \<le> k then (p * 2 ^ nat k, q) else (p, q * 2 ^ nat (- k)))"

definition float_exp :: "nat \<Rightarrow> nat \<Rightarrow> int" where
  "float_exp p q =
     (let k = 53 - (int (bitlen p) - int (bitlen q)) in
      case scaled p q k of (a, b) \<Rightarrow> if 2 ^ 53 \<le> a div b then k - 1 else k)"

definition float64 :: "nat \<times> nat \<Rightarrow> nat \<times> nat" where
  "float64 x =
     (case x of (p, q) \<Rightarrow>
        if p = 0 then (0, 1)
        else
          let k = float_exp p q; m = (case scaled p q k of (a, b) \<Rightarrow> round_even a b)
          in if 0 \<le> k then (m, 2 ^ nat k) else (m * 2 ^ nat (- k), 1))"

definition float_mult :: "nat \<times> nat \<Rightarrow> nat \<times> nat \<Rightarrow> nat \<times> nat" where
  "float_mult x y = float64 (fst x * fst y, snd x * snd y)"

definition float_div :: "nat \<times> nat \<Rightarrow> nat \<times> nat \<Rightarrow> nat \<times> nat" where
  "float_div x y = float64 (fst x * snd y, snd x * fst y)"

definition uint64_of :: "nat \<times> nat \<Rightarrow> nat" where
  "uint64_of x = fst x div snd x"

section \<open>ParseDuration\<close>

abbreviation two63 :: nat where
  "two63 \<equiv> 9223372036854775808"

fun leadingInt :: "nat \<Rightarrow> string \<Rightarrow> (nat \<times> string) option" where
  "leadingInt x [] = Some (x, [])"
| "leadingInt x (c # s) =
     (if \<not> is_digit c then Some (x, c # s)
      else if two63 div 10 < x then None
      else let y = x * 10 + digit_val c in if two63 < y then None else leadingInt y s)"

text \<open>The digits after the point: their value, the scale, the rest. Digits after an overflow are read
  and dropped.\<close>

fun leadingFraction :: "nat \<Rightarrow> nat \<times> nat \<Rightarrow> bool \<Rightarrow> string \<Rightarrow> nat \<times> (nat \<times> nat) \<times> string" where
  "leadingFraction x scale overflow [] = (x, scale, [])"
| "leadingFraction x scale overflow (c # s) =
     (if \<not> is_digit c then (x, scale, c # s)
      else if overflow \<or> (two63 - 1) div 10 < x then leadingFraction x scale True s
      else
        let y = x * 10 + digit_val c in
        if two63 < y then leadingFraction x scale True s
        else leadingFraction y (float_mult scale (10, 1)) False s)"

definition unitMap :: "(string \<times> nat) list" where
  "unitMap = [(''ns'', 1), (''us'', 1000), ([CHR 0xC2, CHR 0xB5, CHR ''s''], 1000), ([CHR 0xCE, CHR 0xBC, CHR ''s''], 1000),
     (''ms'', 1000000), (''s'', 1000000000), (''m'', 60000000000), (''h'', 3600000000000)]"

definition lowerhex :: "nat \<Rightarrow> char" where
  "lowerhex n = (if n < 10 then char_of (48 + n) else char_of (87 + n))"

definition quote_byte :: "char \<Rightarrow> string" where
  "quote_byte c =
     (let n = of_char c :: nat in
      if 0x80 \<le> n \<or> n < 0x20 then [CHR 0x5C, CHR ''x'', lowerhex (n div 16), lowerhex (n mod 16)]
      else if c = CHR 0x22 \<or> c = CHR 0x5C then [CHR 0x5C, c] else [c])"

definition time_quote :: "string \<Rightarrow> string" where
  "time_quote s = CHR 0x22 # concat (map quote_byte s) @ [CHR 0x22]"

definition invalid_duration :: "string \<Rightarrow> goerr" where
  "invalid_duration orig = errorf (''time: invalid duration '' @ time_quote orig)"

definition unit_char :: "char \<Rightarrow> bool" where
  "unit_char c \<longleftrightarrow> c \<noteq> CHR ''.'' \<and> \<not> is_digit c"

text \<open>The value of one number with its unit, and what follows.\<close>

definition parse_unit :: "string \<Rightarrow> nat \<Rightarrow> nat \<Rightarrow> nat \<times> nat \<Rightarrow> string \<Rightarrow> goerr + nat \<times> string" where
  "parse_unit orig v f scale s =
     (let u = takeWhile unit_char s; rest = dropWhile unit_char s in
      if u = [] then Inl (errorf (''time: missing unit in duration '' @ time_quote orig))
      else case map_of unitMap u of
        None \<Rightarrow> Inl (errorf (''time: unknown unit '' @ time_quote u @ '' in duration '' @ time_quote orig))
      | Some unit \<Rightarrow>
          if two63 div unit < v then Inl (invalid_duration orig)
          else
            let v1 = v * unit;
                v2 = (if 0 < f then v1 + uint64_of (float_mult (float64 (f, 1)) (float_div (unit, 1) scale)) else v1)
            in if two63 < v2 then Inl (invalid_duration orig) else Inr (v2, rest))"

definition parse_number :: "string \<Rightarrow> string \<Rightarrow> goerr + nat \<times> string" where
  "parse_number orig s =
     (if s = [] \<or> unit_char (hd s) then Inl (invalid_duration orig)
      else case leadingInt 0 s of
        None \<Rightarrow> Inl (invalid_duration orig)
      | Some (v, s1) \<Rightarrow>
          let pre = (length s1 \<noteq> length s);
              (f, scale, s2) = (if s1 \<noteq> [] \<and> hd s1 = CHR ''.'' then leadingFraction 0 (1, 1) False (tl s1) else (0, (1, 1), s1));
              post = (s1 \<noteq> [] \<and> hd s1 = CHR ''.'' \<and> length s2 \<noteq> length (tl s1))
          in if \<not> pre \<and> \<not> post then Inl (invalid_duration orig) else parse_unit orig v f scale s2)"

lemma leadingInt_length: "leadingInt x s = Some (v, r) \<Longrightarrow> length r \<le> length s"
  by (induction x s rule: leadingInt.induct) (fastforce simp: Let_def split: if_splits)+

lemma leadingFraction_length: "leadingFraction x sc b s = (v, sc', r) \<Longrightarrow> length r \<le> length s"
  by (induction x sc b s rule: leadingFraction.induct) (fastforce simp: Let_def split: if_splits)+

lemma parse_unit_length: "parse_unit orig v f scale s = Inr (n, r) \<Longrightarrow> length r < length s"
proof -
  assume *: "parse_unit orig v f scale s = Inr (n, r)"
  then have "takeWhile unit_char s \<noteq> []" "r = dropWhile unit_char s"
    by (auto simp: parse_unit_def Let_def split: if_splits option.splits)
  then show ?thesis
    by (metis takeWhile_dropWhile_id append_Nil length_append length_greater_0_conv less_add_same_cancel2)
qed

lemma parse_number_length: "parse_number orig s = Inr (n, r) \<Longrightarrow> length r < length s"
  by (auto simp: parse_number_def Let_def split: if_splits option.splits prod.splits
      dest!: parse_unit_length leadingInt_length leadingFraction_length)

function parse_units :: "string \<Rightarrow> nat \<Rightarrow> string \<Rightarrow> goerr + nat" where
  "parse_units orig d s =
     (if s = [] then Inr d
      else case parse_number orig s of
        Inl err \<Rightarrow> Inl err
      | Inr (v, rest) \<Rightarrow>
          let d' = (d + v) mod 2 ^ 64 in
          if two63 < d' then Inl (invalid_duration orig) else parse_units orig d' rest)"
  by pat_completeness auto

termination
  by (relation "measure (\<lambda>(_, _, s). length s)") (auto dest: parse_number_length)

declare parse_units.simps [simp del]

definition ParseDuration :: "string \<Rightarrow> goerr + duration" where
  "ParseDuration orig =
     (let neg = (orig \<noteq> [] \<and> hd orig = CHR ''-'');
          s = (if orig \<noteq> [] \<and> (hd orig = CHR ''-'' \<or> hd orig = CHR ''+'') then tl orig else orig)
      in if s = ''0'' then Inr 0
         else if s = [] then Inl (invalid_duration orig)
         else case parse_units orig 0 s of
           Inl err \<Rightarrow> Inl err
         | Inr d \<Rightarrow>
             if neg then Inr (- int d)
             else if two63 - 1 < d then Inl (invalid_duration orig) else Inr (int d))"

section \<open>Duration.String\<close>

fun fmtFrac_loop :: "nat \<Rightarrow> nat \<Rightarrow> bool \<Rightarrow> string \<Rightarrow> bool \<times> string \<times> nat" where
  "fmtFrac_loop 0 v print buf = (print, buf, v)"
| "fmtFrac_loop (Suc i) v print buf =
     (let digit = v mod 10; print' = (print \<or> digit \<noteq> 0) in
      fmtFrac_loop i (v div 10) print' (if print' then char_of (48 + digit) # buf else buf))"

definition fmtFrac :: "string \<Rightarrow> nat \<Rightarrow> nat \<Rightarrow> string \<times> nat" where
  "fmtFrac buf v prec =
     (case fmtFrac_loop prec v False buf of (print, buf', v') \<Rightarrow> (if print then CHR ''.'' # buf' else buf', v'))"

definition fmt_small :: "nat \<Rightarrow> string" where
  "fmt_small u =
     (if u = 0 then ''0s''
      else
        let (prec, unit) = (if u < 1000 then (0, ''ns'') else if u < 1000000 then (3, [CHR 0xC2, CHR 0xB5, CHR ''s'']) else (6, ''ms''));
            (buf, n) = fmtFrac unit u prec
        in show_nat n @ buf)"

definition fmt_large :: "nat \<Rightarrow> string" where
  "fmt_large u =
     (let (buf, secs) = fmtFrac ''s'' u 9;
          buf1 = show_nat (secs mod 60) @ buf;
          mins = secs div 60;
          hours = mins div 60
      in if mins = 0 then buf1
         else let buf2 = show_nat (mins mod 60) @ ''m'' @ buf1 in
              if hours = 0 then buf2 else show_nat hours @ ''h'' @ buf2)"

definition Duration_String :: "duration \<Rightarrow> string" where
  "Duration_String d =
     (let u = nat \<bar>d\<bar>; s = (if u < 1000000000 then fmt_small u else fmt_large u) in
      if d < 0 then CHR ''-'' # s else s)"

section \<open>Exact floating point\<close>

lemma bitlen_upper: "n < 2 ^ bitlen n"
proof (induction n rule: bitlen.induct)
  case (1 n)
  then show ?case
    by (cases "n = 0") (use bitlen.simps [of n] in auto)
qed

lemma bitlen_lower: "0 < n \<Longrightarrow> 2 ^ bitlen n \<le> 2 * n"
proof (induction n rule: bitlen.induct)
  case (1 n)
  show ?case
  proof (cases "n div 2 = 0")
    case True
    then have "n = 1" using 1 by auto
    then show ?thesis by (simp add: bitlen.simps)
  next
    case False
    then have "2 ^ bitlen (n div 2) \<le> 2 * (n div 2)" using 1 by auto
    then show ?thesis using 1(2) bitlen.simps [of n] by simp
  qed
qed

lemma round_even_exact: "0 < q \<Longrightarrow> round_even (n * q) q = n"
  by (simp add: round_even_def)

text \<open>Integers below \<open>2 ^ 53\<close> are represented exactly.\<close>

lemma float64_exact:
  assumes "0 < q" and "n < 2 ^ 53"
  shows "0 < snd (float64 (n * q, q)) \<and> fst (float64 (n * q, q)) = n * snd (float64 (n * q, q))"
proof (cases "n = 0")
  case False
  define k where "k = 53 - (int (bitlen (n * q)) - int (bitlen q))"
  have pos: "0 < n * q" using False assms by simp
  have "2 ^ bitlen (n * q) \<le> 2 * (n * q)" by (rule bitlen_lower [OF pos])
  also have "\<dots> < 2 * (2 ^ 53 * 2 ^ bitlen q)"
    using mult_strict_mono [OF assms(2) bitlen_upper [of q]] assms by simp
  also have "\<dots> = 2 ^ (54 + bitlen q)" by (simp add: power_add)
  finally have "bitlen (n * q) < 54 + bitlen q"
    by (rule power_less_imp_less_exp [rotated]) simp
  then have k: "0 \<le> k" by (simp add: k_def)
  have sc: "scaled (n * q) q j = (n * 2 ^ nat j * q, q)" if "0 \<le> j" for j
    using that by (simp add: scaled_def)
  have e: "float_exp (n * q) q = (if 2 ^ 53 \<le> n * 2 ^ nat k then k - 1 else k)"
    unfolding float_exp_def k_def [symmetric] Let_def sc [OF k] using assms by simp
  have e0: "0 \<le> float_exp (n * q) q"
    unfolding e using assms k by (cases "k = 0") simp_all
  have "float64 (n * q, q) = (n * 2 ^ nat (float_exp (n * q) q), 2 ^ nat (float_exp (n * q) q))"
    using pos assms e0 by (simp add: float64_def Let_def sc [OF e0] round_even_exact)
  then show ?thesis by simp
qed (simp add: float64_def)

definition exactly :: "nat \<times> nat \<Rightarrow> nat \<Rightarrow> bool" where
  "exactly x n \<longleftrightarrow> 0 < snd x \<and> fst x = n * snd x"

lemma exactly_one [simp]: "exactly (n, 1) n"
  by (simp add: exactly_def)

lemma exactly_uint64: "exactly x n \<Longrightarrow> uint64_of x = n"
  by (simp add: exactly_def uint64_of_def)

lemma exactly_mult:
  assumes "exactly x m" and "exactly y n" and "m * n < 2 ^ 53"
  shows "exactly (float_mult x y) (m * n)"
  using float64_exact [of "snd x * snd y" "m * n"] assms
  by (simp add: exactly_def float_mult_def mult_ac)

lemma exactly_div:
  assumes "exactly x (m * n)" and "exactly y n" and "0 < n" and "m < 2 ^ 53"
  shows "exactly (float_div x y) m"
  using float64_exact [of "n * snd x * snd y" m] assms
  by (simp add: exactly_def float_div_def mult_ac)

section \<open>Decimal digits\<close>

lemma is_digit_char_of: "n < 10 \<Longrightarrow> is_digit (char_of (48 + n)) \<and> digit_val (char_of (48 + n)) = n"
  by (simp add: is_digit_def digit_val_def)

lemma decimal_append: "decimal (s @ [c]) = decimal s * 10 + digit_val c"
  by (simp add: decimal_def)

lemma show_nat_decimal: "show_nat n \<noteq> [] \<and> list_all is_digit (show_nat n) \<and> decimal (show_nat n) = n"
proof (induction n rule: show_nat.induct)
  case (1 n)
  show ?case
  proof (cases "n < 10")
    case True
    then show ?thesis using is_digit_char_of [OF True] by (simp add: show_nat.simps [of n] decimal_def)
  next
    case False
    then show ?thesis
      using 1 is_digit_char_of [of "n mod 10"] by (simp add: show_nat.simps [of n] decimal_append)
  qed
qed

definition no_digit :: "string \<Rightarrow> bool" where
  "no_digit s \<longleftrightarrow> s = [] \<or> \<not> is_digit (hd s)"

lemma foldl_digits_ge: "x * 10 ^ length ds \<le> foldl (\<lambda>n c. n * 10 + digit_val c) x ds"
proof (induction ds arbitrary: x)
  case (Cons c ds)
  have "x * 10 ^ length (c # ds) \<le> (x * 10 + digit_val c) * 10 ^ length ds" by simp
  also have "\<dots> \<le> foldl (\<lambda>n c. n * 10 + digit_val c) (x * 10 + digit_val c) ds" by (rule Cons)
  finally show ?case by simp
qed simp

lemma foldl_digits_mono: "x \<le> foldl (\<lambda>n c. n * 10 + digit_val c) x ds"
  by (rule order_trans [OF _ foldl_digits_ge]) simp

lemma leadingInt_digits:
  assumes "list_all is_digit ds" and "no_digit t" and "foldl (\<lambda>n c. n * 10 + digit_val c) x ds \<le> two63"
  shows "leadingInt x (ds @ t) = Some (foldl (\<lambda>n c. n * 10 + digit_val c) x ds, t)"
  using assms
proof (induction ds arbitrary: x)
  case Nil
  then show ?case by (cases t) (auto simp: no_digit_def)
next
  case (Cons c ds)
  have "x * 10 + digit_val c \<le> two63"
    using foldl_digits_mono [of "x * 10 + digit_val c" ds] Cons.prems(3) by simp
  moreover from this have "x \<le> two63 div 10" by simp
  ultimately show ?case using Cons by (simp add: Let_def)
qed

lemma leadingFraction_digits:
  assumes "list_all is_digit ds" and "no_digit t" and "exactly sc (10 ^ j)" and "j + length ds \<le> 15"
    and "foldl (\<lambda>n c. n * 10 + digit_val c) x ds < two63 - 1"
  shows "\<exists>sc'. leadingFraction x sc False (ds @ t) = (foldl (\<lambda>n c. n * 10 + digit_val c) x ds, sc', t)
    \<and> exactly sc' (10 ^ (j + length ds))"
  using assms
proof (induction ds arbitrary: x sc j)
  case Nil
  then show ?case by (cases t) (auto simp: no_digit_def)
next
  case (Cons c ds)
  have y: "x * 10 + digit_val c < two63 - 1"
    using foldl_digits_mono [of "x * 10 + digit_val c" ds] Cons.prems(5) by simp
  have "(10 :: nat) ^ j \<le> 10 ^ 14" using Cons.prems(4) by (intro power_increasing) auto
  then have "exactly (float_mult sc (10, 1)) (10 ^ j * 10)"
    by (intro exactly_mult [OF Cons.prems(3) exactly_one]) simp
  then have "exactly (float_mult sc (10, 1)) (10 ^ Suc j)" by (simp add: mult.commute)
  from Cons.IH [OF _ Cons.prems(2) this, of "x * 10 + digit_val c"] Cons.prems y show ?case
    by (simp add: Let_def)
qed


section \<open>Printed fractions\<close>

lemma mod_Suc_power: "v mod 10 ^ Suc i = v div 10 mod 10 ^ i * 10 + v mod (10 :: nat)"
  using mod_mult2_eq [of v 10 "10 ^ i"] by (simp add: mult_ac)

lemma fmtFrac_loop_print:
  "\<exists>ds. fmtFrac_loop i v True buf = (True, ds @ buf, v div 10 ^ i) \<and> list_all is_digit ds \<and> length ds = i
    \<and> decimal ds = v mod 10 ^ i"
proof (induction i arbitrary: v buf)
  case 0
  then show ?case by (simp add: decimal_def)
next
  case (Suc i)
  from Suc [of "v div 10" "char_of (48 + v mod 10) # buf"] obtain ds where
    "fmtFrac_loop i (v div 10) True (char_of (48 + v mod 10) # buf) = (True, ds @ char_of (48 + v mod 10) # buf, v div 10 div 10 ^ i)"
    "list_all is_digit ds" "length ds = i" "decimal ds = v div 10 mod 10 ^ i"
    by blast
  then show ?case
    using is_digit_char_of [of "v mod 10"] mod_Suc_power [of v i]
    by (intro exI [of _ "ds @ [char_of (48 + v mod 10)]"]) (simp add: decimal_append div_mult2_eq Let_def)
qed

lemma fmtFrac_loop_start:
  "if v mod 10 ^ i = 0 then fmtFrac_loop i v False buf = (False, buf, v div 10 ^ i)
   else \<exists>ds. fmtFrac_loop i v False buf = (True, ds @ buf, v div 10 ^ i) \<and> list_all is_digit ds \<and> ds \<noteq> []
     \<and> length ds \<le> i \<and> decimal ds * 10 ^ (i - length ds) = v mod 10 ^ i"
proof (induction i arbitrary: v buf)
  case (Suc i)
  show ?case
  proof (cases "v mod 10 = 0")
    case True
    then have m: "v mod 10 ^ Suc i = v div 10 mod 10 ^ i * 10" by (simp only: mod_Suc_power add_0_right)
    show ?thesis
    proof (cases "v div 10 mod 10 ^ i = 0")
      case True
      then show ?thesis using Suc [of "v div 10" buf] \<open>v mod 10 = 0\<close> m by (simp add: Let_def div_mult2_eq)
    next
      case False
      then obtain ds where "fmtFrac_loop i (v div 10) False buf = (True, ds @ buf, v div 10 div 10 ^ i)"
        "list_all is_digit ds" "ds \<noteq> []" "length ds \<le> i" "decimal ds * 10 ^ (i - length ds) = v div 10 mod 10 ^ i"
        using Suc [of "v div 10" buf] by auto
      then show ?thesis
        using True False m by (auto simp: Let_def div_mult2_eq Suc_diff_le intro!: exI [of _ ds])
    qed
  next
    case False
    obtain ds where "fmtFrac_loop i (v div 10) True (char_of (48 + v mod 10) # buf) = (True, ds @ char_of (48 + v mod 10) # buf, v div 10 div 10 ^ i)"
      "list_all is_digit ds" "length ds = i" "decimal ds = v div 10 mod 10 ^ i"
      using fmtFrac_loop_print [of i "v div 10" "char_of (48 + v mod 10) # buf"] by blast
    then show ?thesis
      using False is_digit_char_of [of "v mod 10"] mod_Suc_power [of v i]
      by (auto simp: Let_def decimal_append div_mult2_eq intro!: exI [of _ "ds @ [char_of (48 + v mod 10)]"])
  qed
qed simp

section \<open>The parser reads what is printed\<close>

definition unit_name :: "string \<Rightarrow> nat \<Rightarrow> bool" where
  "unit_name u n \<longleftrightarrow> u \<noteq> [] \<and> list_all unit_char u \<and> map_of unitMap u = Some n \<and> 0 < n"

definition next_number :: "string \<Rightarrow> bool" where
  "next_number rest \<longleftrightarrow> rest = [] \<or> is_digit (hd rest)"

lemma split_unit:
  assumes "list_all unit_char u" and "next_number rest"
  shows "takeWhile unit_char (u @ rest) = u" and "dropWhile unit_char (u @ rest) = rest"
  using assms by (cases rest; auto simp: next_number_def unit_char_def list_all_iff takeWhile_append2 dropWhile_append2)+

lemma parse_unit_whole:
  assumes "unit_name u n" and "next_number rest" and "v * n \<le> two63"
  shows "parse_unit orig v 0 sc (u @ rest) = Inr (v * n, rest)"
proof -
  have "v \<le> two63 div n" using assms by (simp add: unit_name_def less_eq_div_iff_mult_less_eq)
  then show ?thesis using assms by (simp add: parse_unit_def split_unit unit_name_def Let_def)
qed

lemma no_digit_unit: "unit_name u n \<Longrightarrow> no_digit (u @ rest)"
  by (cases u) (auto simp: unit_name_def no_digit_def unit_char_def)

lemma unit_not_dot: "unit_name u n \<Longrightarrow> u @ rest \<noteq> [] \<and> hd (u @ rest) \<noteq> CHR ''.''"
  by (cases u) (auto simp: unit_name_def unit_char_def)

lemma show_nat_start: "show_nat v \<noteq> [] \<and> \<not> unit_char (hd (show_nat v))"
  using show_nat_decimal [of v] by (cases "show_nat v") (auto simp: unit_char_def)

lemma leadingInt_show: "no_digit t \<Longrightarrow> v \<le> two63 \<Longrightarrow> leadingInt 0 (show_nat v @ t) = Some (v, t)"
  using leadingInt_digits [of "show_nat v" t 0] show_nat_decimal [of v] by (simp add: decimal_def)

lemma parse_number_whole:
  assumes "unit_name u n" and "next_number rest" and "v * n \<le> two63"
  shows "parse_number orig (show_nat v @ u @ rest) = Inr (v * n, rest)"
proof -
  have "v \<le> v * n" using assms(1) by (simp add: unit_name_def)
  then have "v \<le> two63" using assms(3) by linarith
  then have "leadingInt 0 (show_nat v @ u @ rest) = Some (v, u @ rest)"
    by (intro leadingInt_show no_digit_unit [OF assms(1)])
  then show ?thesis
    using show_nat_start [of v] unit_not_dot [OF assms(1), of rest] parse_unit_whole [OF assms]
    by (auto simp: parse_number_def Let_def)
qed

lemma decimal_bound: "list_all is_digit ds \<Longrightarrow> decimal ds < 10 ^ length ds"
proof (induction ds rule: rev_induct)
  case (snoc c ds)
  then have "digit_val c < 10" by (auto simp: is_digit_def digit_val_def)
  then show ?case using snoc by (simp add: decimal_append)
qed (simp add: decimal_def)

lemma parse_unit_fraction:
  assumes u: "unit_name u (10 ^ prec)" and prec: "prec \<le> 9" and sc: "exactly sc (10 ^ k)" and k: "k \<le> prec"
    and f: "f < 10 ^ k" and v: "v * 10 ^ prec + f * 10 ^ (prec - k) \<le> two63"
  shows "parse_unit orig v f sc u = Inr (v * 10 ^ prec + f * 10 ^ (prec - k), [])"
proof -
  have p: "(10 :: nat) ^ j \<le> 10 ^ 9" if "j \<le> prec" for j using that prec by (intro power_increasing) auto
  have "(10 :: nat) ^ prec = 10 ^ (prec - k) * 10 ^ k" using k by (simp flip: power_add)
  then have "exactly (10 ^ prec, 1) (10 ^ (prec - k) * 10 ^ k)" by (metis exactly_one)
  then have q: "exactly (float_div (10 ^ prec, 1) sc) (10 ^ (prec - k))"
    using p [of "prec - k"] by (intro exactly_div [OF _ sc]) simp_all
  have fk: "f * 10 ^ (prec - k) < 10 ^ prec"
    using f k by (metis le_add_diff_inverse mult_less_mono1 power_add zero_less_numeral zero_less_power)
  have "f < 2 ^ 53" using f p [OF k] by simp
  then have "exactly (float64 (f, 1)) f" using float64_exact [of 1 f] by (simp add: exactly_def)
  then have "exactly (float_mult (float64 (f, 1)) (float_div (10 ^ prec, 1) sc)) (f * 10 ^ (prec - k))"
    using fk p [of prec] by (intro exactly_mult [OF _ q]) simp_all
  then have frac: "uint64_of (float_mult (float64 (f, 1)) (float_div (10 ^ prec, 1) sc)) = f * 10 ^ (prec - k)"
    by (rule exactly_uint64)
  have "v \<le> two63 div 10 ^ prec" using v by (simp add: less_eq_div_iff_mult_less_eq)
  moreover have tw: "takeWhile unit_char u = u" "dropWhile unit_char u = []"
    using split_unit [of u "[]"] u by (simp_all add: unit_name_def next_number_def)
  ultimately show ?thesis
    using u v frac by (simp add: parse_unit_def tw unit_name_def Let_def)
qed

lemma parse_number_fraction:
  assumes u: "unit_name u (10 ^ prec)" and prec: "prec \<le> 9" and ds: "list_all is_digit ds" "ds \<noteq> []" "length ds \<le> prec"
    and v: "v * 10 ^ prec + decimal ds * 10 ^ (prec - length ds) \<le> two63"
  shows "parse_number orig (show_nat v @ CHR ''.'' # ds @ u) = Inr (v * 10 ^ prec + decimal ds * 10 ^ (prec - length ds), [])"
proof -
  have "v \<le> v * 10 ^ prec" by simp
  then have "v \<le> two63" using v by linarith
  then have int: "leadingInt 0 (show_nat v @ CHR ''.'' # ds @ u) = Some (v, CHR ''.'' # ds @ u)"
    by (intro leadingInt_show) (simp_all add: no_digit_def is_digit_def)
  have b: "decimal ds < 10 ^ length ds" by (rule decimal_bound [OF ds(1)])
  also have "\<dots> \<le> 10 ^ 9" using ds prec by (intro power_increasing) auto
  finally have "decimal ds < two63 - 1" by simp
  moreover have "exactly (1, 1) (10 ^ 0)" by (simp add: exactly_def)
  ultimately obtain sc where frac: "leadingFraction 0 (1, 1) False (ds @ u) = (decimal ds, sc, u)" "exactly sc (10 ^ length ds)"
    using leadingFraction_digits [of ds u "(1, 1)" 0 0] ds prec no_digit_unit [OF u, of "[]"] by (auto simp: decimal_def)
  show ?thesis
    using show_nat_start [of v] int frac(1) ds(2) parse_unit_fraction [OF u prec frac(2) ds(3) b v]
    by (simp add: parse_number_def)
qed

lemma parse_fmtFrac:
  assumes u: "unit_name u (10 ^ prec)" and "prec \<le> 9" and w: "w * 10 ^ prec + v mod 10 ^ prec \<le> two63"
    and fmt: "fmtFrac u v prec = (buf, n)"
  shows "n = v div 10 ^ prec \<and> parse_number orig (show_nat w @ buf) = Inr (w * 10 ^ prec + v mod 10 ^ prec, [])"
proof (cases "v mod 10 ^ prec = 0")
  case True
  then have "buf = u" "n = v div 10 ^ prec"
    using fmt fmtFrac_loop_start [of v prec u] by (simp_all add: fmtFrac_def)
  then show ?thesis
    using parse_number_whole [OF u, of "[]" w orig] w True by (simp add: next_number_def)
next
  case False
  then obtain ds where "buf = CHR ''.'' # ds @ u" "n = v div 10 ^ prec" "list_all is_digit ds" "ds \<noteq> []" "length ds \<le> prec"
    "decimal ds * 10 ^ (prec - length ds) = v mod 10 ^ prec"
    using fmt fmtFrac_loop_start [of v prec u] by (auto simp: fmtFrac_def)
  then show ?thesis
    using parse_number_fraction [OF u assms(2), of ds w orig] w by simp
qed

lemma parse_units_step:
  "parse_number orig s = Inr (v, rest) \<Longrightarrow> d + v \<le> two63 \<Longrightarrow> parse_units orig d s = parse_units orig (d + v) rest"
  using parse_number_length [of orig s v rest] by (subst parse_units.simps) (auto simp: Let_def)

lemma unit_names:
  "unit_name ''ns'' (10 ^ 0)" "unit_name ([CHR 0xC2, CHR 0xB5, CHR ''s'']) (10 ^ 3)" "unit_name ''ms'' (10 ^ 6)"
  "unit_name ''s'' (10 ^ 9)" "unit_name ''m'' 60000000000" "unit_name ''h'' 3600000000000"
  by (simp_all add: unit_name_def unit_char_def unitMap_def is_digit_def)

lemma parse_units_end [simp]: "parse_units orig d [] = Inr d"
  by (simp add: parse_units.simps)

lemma next_number_show: "next_number (show_nat n @ s)"
  using show_nat_decimal [of n] by (cases "show_nat n") (auto simp: next_number_def)

lemma parse_fmt_small:
  assumes "0 < u" and "u < 1000000000"
  shows "parse_units orig 0 (fmt_small u) = Inr u"
proof -
  have *: "parse_units orig 0 (case fmtFrac unit u prec of (buf, n) \<Rightarrow> show_nat n @ buf) = Inr u"
    if "unit_name unit (10 ^ prec)" "prec \<le> 9" for unit prec
  proof -
    obtain buf n where fmt: "fmtFrac unit u prec = (buf, n)" by (cases "fmtFrac unit u prec")
    have "u div 10 ^ prec * 10 ^ prec + u mod 10 ^ prec = u" by (rule div_mult_mod_eq)
    then show ?thesis
      using parse_fmtFrac [OF that, of "u div 10 ^ prec" u buf n orig] fmt assms
      by (auto intro: trans [OF parse_units_step])
  qed
  show ?thesis
    using assms *[OF unit_names(1)] *[OF unit_names(2)] *[OF unit_names(3)] by (simp add: fmt_small_def)
qed

lemma parse_fmt_large:
  assumes "u \<le> two63"
  shows "parse_units orig 0 (fmt_large u) = Inr u"
proof -
  obtain buf secs where fmt: "fmtFrac ''s'' u 9 = (buf, secs)" by (cases "fmtFrac ''s'' u 9")
  define r where "r = secs mod 60 * 1000000000 + u mod 1000000000"
  define mins where "mins = secs div 60"
  have "u mod 1000000000 < 1000000000" "secs mod 60 < 60" by simp_all
  then have r: "r \<le> two63" unfolding r_def by linarith
  have "secs = u div 1000000000 \<and> parse_number orig (show_nat (secs mod 60) @ buf) = Inr (r, [])"
    using parse_fmtFrac [OF unit_names(4) _ _ fmt, of "secs mod 60" orig] r unfolding r_def by auto
  then have secs: "secs = u div 1000000000" and low: "parse_number orig (show_nat (secs mod 60) @ buf) = Inr (r, [])"
    by blast+
  have "u = secs * 1000000000 + u mod 1000000000" "secs = mins * 60 + secs mod 60" "mins = mins div 60 * 60 + mins mod 60"
    unfolding secs mins_def by (simp_all add: div_mult_mod_eq)
  then have u: "u = mins div 60 * 3600000000000 + mins mod 60 * 60000000000 + r"
    unfolding r_def by linarith
  have s: "parse_units orig d (show_nat (secs mod 60) @ buf) = Inr (d + r)" if "d + r \<le> two63" for d
    using parse_units_step [OF low that] by simp
  have m: "parse_units orig d (show_nat (mins mod 60) @ ''m'' @ show_nat (secs mod 60) @ buf) = Inr (d + mins mod 60 * 60000000000 + r)"
    if "d + mins mod 60 * 60000000000 + r \<le> two63" for d
    using parse_units_step [OF parse_number_whole [OF unit_names(5) next_number_show], of "mins mod 60" d orig "secs mod 60" buf]
      s [of "d + mins mod 60 * 60000000000"] that by simp
  have h: "parse_units orig 0 (show_nat (mins div 60) @ ''h'' @ show_nat (mins mod 60) @ ''m'' @ show_nat (secs mod 60) @ buf) = Inr u"
    using parse_units_step [OF parse_number_whole [OF unit_names(6) next_number_show], of "mins div 60" 0 orig "mins mod 60"]
      m [of "mins div 60 * 3600000000000"] assms u by simp
  have "fmt_large u = (if mins = 0 then show_nat (secs mod 60) @ buf
      else if mins div 60 = 0 then show_nat (mins mod 60) @ ''m'' @ show_nat (secs mod 60) @ buf
      else show_nat (mins div 60) @ ''h'' @ show_nat (mins mod 60) @ ''m'' @ show_nat (secs mod 60) @ buf)"
    by (simp add: fmt_large_def fmt Let_def mins_def)
  then show ?thesis
    using s [of 0] m [of 0] h r u assms by auto
qed

lemma parse_units_no_unit: "parse_units orig 0 s = Inr u \<Longrightarrow> 0 < u \<Longrightarrow> s \<noteq> ''0'' \<and> s \<noteq> []"
  by (auto simp: parse_units.simps [of orig 0 "''0''"] parse_number_def unit_char_def is_digit_def digit_val_def parse_unit_def)

lemma show_nat_digit: "is_digit (hd (show_nat n @ s))"
  using show_nat_decimal [of n] by (cases "show_nat n") auto

lemma fmt_digit: "is_digit (hd (fmt_small u))" "is_digit (hd (fmt_large u))"
  by (auto simp: fmt_small_def fmt_large_def Let_def show_nat_digit is_digit_def [of "CHR ''0''"] split: prod.split)

lemma parse_printed:
  assumes "0 < u" and "u \<le> two63"
  shows "parse_units orig 0 (if u < 1000000000 then fmt_small u else fmt_large u) = Inr u"
  using assms parse_fmt_small parse_fmt_large by simp

lemma show_zero: "show_nat 0 = ''0''"
  by (simp add: show_nat.simps) code_simp

lemma parse_zero: "parse_units orig 0 ''0s'' = Inr 0"
  using parse_units_step [OF parse_number_whole [OF unit_names(4), of "[]" 0 orig], of 0]
  by (simp add: next_number_def show_zero)

lemma ParseDuration_String:
  assumes "- int two63 \<le> d" and "d < int two63"
  shows "ParseDuration (Duration_String d) = Inr d"
proof (cases "d = 0")
  case False
  define s where "s = (if nat \<bar>d\<bar> < 1000000000 then fmt_small (nat \<bar>d\<bar>) else fmt_large (nat \<bar>d\<bar>))"
  have p: "parse_units orig 0 s = Inr (nat \<bar>d\<bar>)" for orig
    unfolding s_def using False assms by (intro parse_printed) simp_all
  have "s \<noteq> ''0''" "s \<noteq> []" using parse_units_no_unit [OF p] False by auto
  moreover have "is_digit (hd s)" using fmt_digit by (simp add: s_def)
  then have "hd s \<noteq> CHR ''-''" "hd s \<noteq> CHR ''+''" by (auto simp: is_digit_def)
  moreover have "Duration_String d = (if d < 0 then CHR ''-'' # s else s)"
    by (simp add: Duration_String_def s_def Let_def)
  ultimately show ?thesis
    using False assms p by (auto simp: ParseDuration_def Let_def nat_less_iff)
qed (simp add: Duration_String_def fmt_small_def ParseDuration_def parse_zero)

lemma parse_units_bound: "d \<le> two63 \<Longrightarrow> parse_units orig d s = Inr n \<Longrightarrow> n \<le> two63"
proof (induction orig d s rule: parse_units.induct)
  case (1 orig d s)
  show ?case
  proof (cases "s = []")
    case False
    with 1(3) obtain v rest where *: "parse_number orig s = Inr (v, rest)" "\<not> two63 < (d + v) mod 2 ^ 64"
      "parse_units orig ((d + v) mod 2 ^ 64) rest = Inr n"
      by (auto simp: parse_units.simps [of orig d s] Let_def split: if_splits sum.splits)
    show ?thesis
      by (rule 1(1) [OF False *(1) refl refl *(2) _ *(3)]) (use *(2) in linarith)
  qed (use 1 in simp)
qed

lemma ParseDuration_bounds:
  assumes "ParseDuration s = Inr d"
  shows "- int two63 \<le> d \<and> d < int two63"
proof -
  have "n \<le> two63" if "parse_units s 0 t = Inr n" for t n
    using parse_units_bound [OF _ that] by simp
  then show ?thesis
    using assms by (force simp: ParseDuration_def Let_def split: if_splits sum.splits)
qed
end
