(* ===== verification/World.thy ===== *)
theory World
  imports ApiTypes GoTime
begin

text \<open>
  What surrounds the operator. Its own code runs on a \<open>world\<close>: the state \<open>Hub\<close> of everything
  external (API servers, other controllers, the clock, lock holders, random sources; an
  arbitrary type \<open>'w\<close>), the local file system \<open>Fs\<close>, and \<open>Trace\<close>, the history of the requests
  with effects issued so far.

  Code that is not part of the repository enters through the record \<open>env\<close>: one field per
  external call, an arbitrary function of its arguments and of the external state. No field is
  assumed to behave in any way here; what a property relies on is stated where it is used. Every
  call may therefore fail at any time, and the external state may change at any call.

  Go's \<^verbatim>\<open>os\<close> functions are given by their effect on \<open>Fs\<close>; each may also fail with an error of the
  operating system, after which the file system is whatever \<open>os_fault\<close> says it is.
\<close>

section \<open>Data exchanged with the installer\<close>

record SeedReconfiguration =
  sr_BaseDomain :: string
  sr_ClusterName :: string
  sr_ClusterID :: string
  sr_InfraID :: string
  sr_KubeadminPasswordHash :: string
  sr_KubeconfigCryptoRetention :: string  \<comment> \<open>the crypto material, carried through unread\<close>
  sr_Other :: string  \<comment> \<open>all further fields, carried through unread\<close>

record ClusterConfiguration =
  ccfg_Config :: SeedReconfiguration
  ccfg_Filename :: string

record InstallConfig =
  ic_BaseDomain :: string
  ic_Name :: string
  ic_NetworkType :: string
  ic_MachineNetwork :: "IPNet list"
  ic_SSHKey :: string
  ic_ControlPlaneReplicas :: int
  ic_ControlPlaneName :: string
  ic_ComputeReplicas :: int
  ic_ComputeName :: string
  ic_PullSecret :: string
  ic_Proxy :: "Proxy option"
  ic_AdditionalTrustBundle :: string
  ic_ImageDigestSources :: "(string \<times> string list) list option"

record ImageBasedConfig =
  ibc_Hostname :: string
  ibc_ReleaseRegistry :: string
  ibc_AdditionalNTPSources :: "string slice"
  ibc_NetworkConfig :: string
  ibc_ClusterID :: string
  ibc_InfraID :: string

text \<open>A decoded pull secret (type \<^verbatim>\<open>imagePullSecret\<close>): per registry its JSON object, whose member
  \<^verbatim>\<open>auth\<close> is absent, a string, or a value of another JSON type.\<close>

datatype json_value = JString string | JOther

record imagePullSecret =
  Auths :: "(string \<times> (string \<rightharpoonup> json_value)) list"

section \<open>Objects of the installed cluster\<close>

record OperatorCondition =
  oc_Type :: string
  oc_Status :: ConditionStatus
  oc_LastTransitionTime :: gotime
  oc_Reason :: string
  oc_Message :: string

record Node =
  nd_Name :: string
  nd_Conditions :: "(string \<times> ConditionStatus \<times> string \<times> string) list"
    \<comment> \<open>type, status, reason, message\<close>

section \<open>File system and world\<close>

datatype node = File string | Dir

type_synonym filesystem = "string \<rightharpoonup> node"

datatype osop = OpStat | OpMkdirAll | OpRemoveAll | OpWriteFile | OpReadFile | OpMkdirTemp

text \<open>Requests with effects. The flag of an event tells whether the request succeeded; a patch
  event carries the object the patch was computed from and the desired object.\<close>

datatype event =
    EvPatchICI ImageClusterInstall ImageClusterInstall bool
  | EvPatchICIStatus ImageClusterInstall ImageClusterInstall bool
  | EvUpdateICIStatus ImageClusterInstall bool
  | EvPatchBMH BareMetalHost BareMetalHost bool
  | EvPatchConfigMap ConfigMap ConfigMap bool
  | EvPatchSecret Secret Secret bool
  | EvCreateSecret Secret bool
  | EvUpdateSecret Secret bool
  | EvCreateDataImage DataImage bool
  | EvDeleteDataImage nsname bool
  | EvMkdirAll string bool
  | EvRemoveAll string bool
  | EvWriteFile string string bool
  | EvCreateISO string bool

record 'w world =
  Hub :: 'w
  Fs :: filesystem
  Trace :: "event list"

type_synonym ('w, 'a) call = "'w \<Rightarrow> 'a \<times> 'w"

record 'w env =
  \<comment> \<open>the cached client of the hub\<close>
  get_ImageClusterInstall :: "nsname \<Rightarrow> ('w, goerr + ImageClusterInstall) call"
  get_ClusterDeployment :: "nsname \<Rightarrow> ('w, goerr + ClusterDeployment) call"
  get_BareMetalHost :: "nsname \<Rightarrow> ('w, goerr + BareMetalHost) call"
  get_DataImage :: "nsname \<Rightarrow> ('w, goerr + DataImage) call"
  get_ConfigMap :: "nsname \<Rightarrow> ('w, goerr + ConfigMap) call"
  get_Secret :: "nsname \<Rightarrow> ('w, goerr + Secret) call"
  get_ClusterImageSet :: "nsname \<Rightarrow> ('w, goerr + ClusterImageSet) call"
  list_ImageClusterInstall :: "('w, goerr + ImageClusterInstall list) call"
  list_ImageClusterInstall_by_host :: "string \<Rightarrow> string \<Rightarrow> ('w, goerr + ImageClusterInstall list) call"
  patch_ImageClusterInstall :: "ImageClusterInstall \<Rightarrow> ImageClusterInstall \<Rightarrow> ('w, goerr + ImageClusterInstall) call"
  patch_ImageClusterInstall_status :: "ImageClusterInstall \<Rightarrow> ImageClusterInstall \<Rightarrow> ('w, goerr + ImageClusterInstall) call"
  update_ImageClusterInstall_status :: "ImageClusterInstall \<Rightarrow> ('w, goerr + ImageClusterInstall) call"
  patch_BareMetalHost :: "BareMetalHost \<Rightarrow> BareMetalHost \<Rightarrow> ('w, goerr + BareMetalHost) call"
  patch_ConfigMap :: "ConfigMap \<Rightarrow> ConfigMap \<Rightarrow> ('w, goerr + ConfigMap) call"
  patch_Secret :: "Secret \<Rightarrow> Secret \<Rightarrow> ('w, goerr + Secret) call"
  create_Secret :: "Secret \<Rightarrow> ('w, goerr + Secret) call"
  update_Secret :: "Secret \<Rightarrow> ('w, goerr + Secret) call"
  create_DataImage :: "DataImage \<Rightarrow> ('w, goerr + DataImage) call"
  delete_DataImage :: "DataImage \<Rightarrow> ('w, goerr + unit) call"
  \<comment> \<open>the uncached reader of the hub\<close>
  get_Secret_noncached :: "nsname \<Rightarrow> ('w, goerr + Secret) call"
  \<comment> \<open>configuration of the processes: clients, the API server object, the cache\<close>
  config_AddToScheme :: "goerr option"
  client_New :: "('w, goerr option) call"
  get_APIServer :: "('w, goerr + APIServer) call"
  watch_APIServer :: "('w, goerr + (watch_type \<times> APIServer option) list) call"
  cache_WaitForCacheSync :: "('w, bool) call"
  \<comment> \<open>kinds registered in the scheme: API version and kind\<close>
  gvk_ClusterDeployment :: "goerr + (string \<times> string)"
  gvk_BareMetalHost :: "goerr + (string \<times> string)"
  \<comment> \<open>clients of an installed cluster, identified by their kubeconfig\<close>
  kubeconfig_parse :: "string \<Rightarrow> goerr option"
  kubeconfig_rest :: "string \<Rightarrow> goerr option"
  spoke_new :: "string \<Rightarrow> ('w, goerr option) call"
  spoke_get_ConfigMap :: "string \<Rightarrow> nsname \<Rightarrow> ('w, goerr + ConfigMap) call"
  spoke_get_ClusterVersion :: "string \<Rightarrow> string \<Rightarrow> ('w, goerr + OperatorCondition list) call"
  spoke_list_Nodes :: "string \<Rightarrow> ('w, goerr + Node list) call"
  \<comment> \<open>clock, random sources, operating system, file locks\<close>
  time_Now :: "('w, gotime) call"
  uuid_New :: "('w, string) call"
  rand_String :: "nat \<Rightarrow> ('w, string) call"
  temp_name :: "('w, string) call"
  os_fault :: "osop \<Rightarrow> string \<Rightarrow> filesystem \<Rightarrow> ('w, (string \<times> filesystem) option) call"
  flock_try :: "bool \<Rightarrow> string \<Rightarrow> ('w, goerr + bool) call"
  flock_unlock :: "string \<Rightarrow> ('w, unit) call"
  \<comment> \<open>openshift installer\<close>
  installer_FetchAndPersist :: "string \<Rightarrow> filesystem \<Rightarrow> ('w, goerr option \<times> filesystem) call"
  store_New :: "string \<Rightarrow> filesystem \<Rightarrow> ('w, goerr option \<times> filesystem) call"
  store_Fetch_ClusterConfiguration :: "string \<Rightarrow> filesystem \<Rightarrow> ('w, (goerr + ClusterConfiguration) \<times> filesystem) call"
  store_Fetch_kubeconfig :: "string \<Rightarrow> filesystem \<Rightarrow> ('w, (goerr + string) \<times> filesystem) call"
  store_Fetch_password :: "string \<Rightarrow> filesystem \<Rightarrow> ('w, (goerr + string) \<times> filesystem) call"
  \<comment> \<open>encoders and parsers\<close>
  json_InstallConfig :: "InstallConfig \<Rightarrow> goerr + string"
  json_ImageBasedConfig :: "ImageBasedConfig \<Rightarrow> goerr + string"
  json_ConfigMap :: "ConfigMap \<Rightarrow> goerr + string"
  json_SeedReconfiguration :: "SeedReconfiguration \<Rightarrow> goerr + string"
  unjson_SeedReconfiguration :: "string \<Rightarrow> goerr + SeedReconfiguration"
  unjson_imagePullSecret :: "string \<Rightarrow> goerr + imagePullSecret"
  yaml_any :: "string \<Rightarrow> goerr option"
  yaml_map :: "string \<Rightarrow> goerr option"
  reference_Parse :: "string \<Rightarrow> goerr + string option"
  url_JoinPath :: "string \<Rightarrow> string list \<Rightarrow> goerr + string"
  strconv_Quote :: "string \<Rightarrow> string"

text \<open>A concrete environment: an empty hub on which nothing is found and every write is accepted as
  sent, a clock that stands still, an operating system without faults. Examples start from it.\<close>

definition notFound :: goerr where
  "notFound = GoErr KNotFound ''not found''"

definition idle_env :: "'w env" where
  "idle_env = \<lparr>
     get_ImageClusterInstall = \<lambda>_ h. (Inl notFound, h), get_ClusterDeployment = \<lambda>_ h. (Inl notFound, h),
     get_BareMetalHost = \<lambda>_ h. (Inl notFound, h), get_DataImage = \<lambda>_ h. (Inl notFound, h),
     get_ConfigMap = \<lambda>_ h. (Inl notFound, h), get_Secret = \<lambda>_ h. (Inl notFound, h),
     get_ClusterImageSet = \<lambda>_ h. (Inl notFound, h), list_ImageClusterInstall = \<lambda>h. (Inr [], h),
     list_ImageClusterInstall_by_host = \<lambda>_ _ h. (Inr [], h),
     patch_ImageClusterInstall = \<lambda>_ n h. (Inr n, h), patch_ImageClusterInstall_status = \<lambda>_ n h. (Inr n, h),
     update_ImageClusterInstall_status = \<lambda>n h. (Inr n, h), patch_BareMetalHost = \<lambda>_ n h. (Inr n, h),
     patch_ConfigMap = \<lambda>_ n h. (Inr n, h), patch_Secret = \<lambda>_ n h. (Inr n, h),
     create_Secret = \<lambda>n h. (Inr n, h), update_Secret = \<lambda>n h. (Inr n, h), create_DataImage = \<lambda>n h. (Inr n, h),
     delete_DataImage = \<lambda>_ h. (Inr (), h), get_Secret_noncached = \<lambda>_ h. (Inl notFound, h),
     config_AddToScheme = None, client_New = \<lambda>h. (None, h), get_APIServer = \<lambda>h. (Inl notFound, h),
     watch_APIServer = \<lambda>h. (Inr [], h), cache_WaitForCacheSync = \<lambda>h. (True, h),
     gvk_ClusterDeployment = Inr (''hive.openshift.io/v1'', ''ClusterDeployment''),
     gvk_BareMetalHost = Inr (''metal3.io/v1alpha1'', ''BareMetalHost''),
     kubeconfig_parse = \<lambda>_. None, kubeconfig_rest = \<lambda>_. None, spoke_new = \<lambda>_ h. (None, h),
     spoke_get_ConfigMap = \<lambda>_ _ h. (Inl notFound, h), spoke_get_ClusterVersion = \<lambda>_ _ h. (Inl notFound, h),
     spoke_list_Nodes = \<lambda>_ h. (Inr [], h), time_Now = \<lambda>h. (1, h),
     uuid_New = \<lambda>h. (''00000000-0000-0000-0000-000000000000'', h), rand_String = \<lambda>n h. (replicate n (CHR ''b''), h),
     temp_name = \<lambda>h. (''/tmp/asset-generation-1'', h), os_fault = \<lambda>_ _ _ h. (None, h),
     flock_try = \<lambda>_ _ h. (Inr True, h), flock_unlock = \<lambda>_ h. ((), h),
     installer_FetchAndPersist = \<lambda>_ fs h. ((None, fs), h), store_New = \<lambda>_ fs h. ((None, fs), h),
     store_Fetch_ClusterConfiguration = \<lambda>_ fs h. ((Inl notFound, fs), h),
     store_Fetch_kubeconfig = \<lambda>_ fs h. ((Inl notFound, fs), h),
     store_Fetch_password = \<lambda>_ fs h. ((Inl notFound, fs), h),
     json_InstallConfig = \<lambda>_. Inr ''{}'', json_ImageBasedConfig = \<lambda>_. Inr ''{}'', json_ConfigMap = \<lambda>_. Inr ''{}'',
     json_SeedReconfiguration = \<lambda>_. Inr ''{}'', unjson_SeedReconfiguration = \<lambda>_. Inl (errorf ''json''),
     unjson_imagePullSecret = \<lambda>_. Inl (errorf ''json''), yaml_any = \<lambda>_. None, yaml_map = \<lambda>_. None,
     reference_Parse = \<lambda>s. Inr (Some s), url_JoinPath = \<lambda>b ps. Inr (strings_Join (b # ps) ''/''),
     strconv_Quote = \<lambda>s. s\<rparr>"

definition idle_world :: "unit world" where
  "idle_world = \<lparr>Hub = (), Fs = Map.empty, Trace = []\<rparr>"

text \<open>Example objects: an installation that refers to a host.\<close>

definition example_meta :: "string \<Rightarrow> ObjectMeta" where
  "example_meta name =
     \<lparr>om_Name = name, om_Namespace = ''ns'', om_UID = ''uid'', om_Labels = None, om_Annotations = None, om_Finalizers = [],
      om_OwnerReferences = [], om_CreationTimestamp = 0, om_DeletionTimestamp = None\<rparr>"

definition example_host :: BareMetalHost where
  "example_host =
     \<lparr>bmh_Meta = example_meta ''host'', bmh_AutomatedCleaningMode = CleaningModeDisabled, bmh_ExternallyProvisioned = False,
      bmh_Online = False, bmh_PreprovisioningNetworkDataName = [], bmh_ProvisioningState = StateAvailable,
      bmh_PoweredOn = True, bmh_HardwareDetails = Some []\<rparr>"

definition example_ici :: ImageClusterInstall where
  "example_ici =
     \<lparr>ici_Meta = example_meta ''ici'',
      ici_Spec = \<lparr>sp_ClusterDeploymentRef = Some ''cd'', sp_ImageSetRef = ''set'', sp_ClusterMetadata = None, sp_NodeIP = [],
        sp_Hostname = ''node'', sp_SSHKey = [], sp_ImageDigestSources = None, sp_CABundleRef = None,
        sp_ExtraManifestsRefs = None, sp_BareMetalHostRef = Some \<lparr>bmhr_Name = ''host'', bmhr_Namespace = ''ns''\<rparr>,
        sp_MachineNetwork = [], sp_MachineNetworks = None, sp_Proxy = None, sp_AdditionalNTPSources = None\<rparr>,
      ici_Status = \<lparr>st_Conditions = [], st_InstallRestarts = 0, st_BareMetalHostRef = None, st_BootTime = 0\<rparr>\<rparr>"

lemmas example_defs = example_meta_def example_host_def example_ici_def idle_env_def idle_world_def

section \<open>Calls\<close>

definition hubM :: "('w, 'a) call \<Rightarrow> ('w world, 'a) go" where
  "hubM f = (\<lambda>s. case f (Hub s) of (a, h) \<Rightarrow> (Ret a, s\<lparr>Hub := h\<rparr>))"

text \<open>The installer's code reads and writes the file system.\<close>

definition toolM :: "(filesystem \<Rightarrow> ('w, 'a \<times> filesystem) call) \<Rightarrow> ('w world, 'a) go" where
  "toolM f = (\<lambda>s. case f (Fs s) (Hub s) of ((a, fs), h) \<Rightarrow> (Ret a, s\<lparr>Hub := h, Fs := fs\<rparr>))"

text \<open>A request with effects is recorded in \<open>Trace\<close>.\<close>

definition requestM :: "(bool \<Rightarrow> event) \<Rightarrow> ('w, goerr + 'a) call \<Rightarrow> ('w world, goerr + 'a) go" where
  "requestM ev f = (\<lambda>s. case f (Hub s) of (r, h) \<Rightarrow>
     (Ret r, s\<lparr>Hub := h, Trace := Trace s @ [ev (case r of Inl _ \<Rightarrow> False | Inr _ \<Rightarrow> True)]\<rparr>))"

text \<open>\<^verbatim>\<open>client.Patch(ctx, obj, MergeFrom(base))\<close>: on success the server's reply replaces the
  object in memory, on failure the object keeps the modifications.\<close>

definition patchM :: "(bool \<Rightarrow> event) \<Rightarrow> ('a \<Rightarrow> 'a \<Rightarrow> ('w, goerr + 'a) call) \<Rightarrow> 'a \<Rightarrow> 'a \<Rightarrow> ('w world, goerr option \<times> 'a) go" where
  "patchM ev f base new =
     bindM (requestM ev (f base new)) (\<lambda>r. case r of Inl e \<Rightarrow> returnM (Some e, new) | Inr o' \<Rightarrow> returnM (None, o'))"

definition Patch_ICI :: "'w env \<Rightarrow> ImageClusterInstall \<Rightarrow> ImageClusterInstall \<Rightarrow> ('w world, goerr option \<times> ImageClusterInstall) go" where
  "Patch_ICI env base new = patchM (EvPatchICI base new) (patch_ImageClusterInstall env) base new"

definition Patch_ICI_Status :: "'w env \<Rightarrow> ImageClusterInstall \<Rightarrow> ImageClusterInstall \<Rightarrow> ('w world, goerr option \<times> ImageClusterInstall) go" where
  "Patch_ICI_Status env base new = patchM (EvPatchICIStatus base new) (patch_ImageClusterInstall_status env) base new"

definition Patch_BMH :: "'w env \<Rightarrow> BareMetalHost \<Rightarrow> BareMetalHost \<Rightarrow> ('w world, goerr option \<times> BareMetalHost) go" where
  "Patch_BMH env base new = patchM (EvPatchBMH base new) (patch_BareMetalHost env) base new"

definition Patch_ConfigMap :: "'w env \<Rightarrow> ConfigMap \<Rightarrow> ConfigMap \<Rightarrow> ('w world, goerr option \<times> ConfigMap) go" where
  "Patch_ConfigMap env base new = patchM (EvPatchConfigMap base new) (patch_ConfigMap env) base new"

definition Patch_Secret :: "'w env \<Rightarrow> Secret \<Rightarrow> Secret \<Rightarrow> ('w world, goerr option \<times> Secret) go" where
  "Patch_Secret env base new = patchM (EvPatchSecret base new) (patch_Secret env) base new"

section \<open>Go's os package\<close>

definition faultyM :: "'w env \<Rightarrow> osop \<Rightarrow> string \<Rightarrow> (filesystem \<Rightarrow> (goerr + 'a) \<times> filesystem) \<Rightarrow> ('w world, goerr + 'a) go" where
  "faultyM env op p f = (\<lambda>s. case os_fault env op p (Fs s) (Hub s) of
       (Some (msg, fs), h) \<Rightarrow> (Ret (Inl (GoErr KOther msg)), s\<lparr>Hub := h, Fs := fs\<rparr>)
     | (None, h) \<Rightarrow> (case f (Fs s) of (r, fs) \<Rightarrow> (Ret r, s\<lparr>Hub := h, Fs := fs\<rparr>)))"

definition noteM :: "(bool \<Rightarrow> event) \<Rightarrow> ('w world, goerr + 'a) go \<Rightarrow> ('w world, goerr + 'a) go" where
  "noteM ev m = bindM m (\<lambda>r s. (Ret r, s\<lparr>Trace := Trace s @ [ev (case r of Inl _ \<Rightarrow> False | Inr _ \<Rightarrow> True)]\<rparr>))"

definition enoent :: "string \<Rightarrow> string \<Rightarrow> goerr" where
  "enoent op p = GoErr KNotExist (op @ '' '' @ p @ '': no such file or directory'')"

definition stat_fs :: "string \<Rightarrow> filesystem \<Rightarrow> (goerr + node) \<times> filesystem" where
  "stat_fs p fs = (case fs p of None \<Rightarrow> Inl (enoent ''stat'' p) | Some n \<Rightarrow> Inr n, fs)"

definition os_Stat :: "'w env \<Rightarrow> string \<Rightarrow> ('w world, goerr + node) go" where
  "os_Stat env p = faultyM env OpStat p (stat_fs p)"

text \<open>The path itself and its ancestors below the root, outermost first.\<close>

fun ancestors_from :: "string \<Rightarrow> string \<Rightarrow> string list" where
  "ancestors_from acc [] = [acc]"
| "ancestors_from acc (c # cs) =
     (if c = CHR ''/'' \<and> acc \<noteq> [] then acc # ancestors_from (acc @ [c]) cs else ancestors_from (acc @ [c]) cs)"

definition ancestors :: "string \<Rightarrow> string list" where
  "ancestors p = ancestors_from [] p"

definition is_file :: "node option \<Rightarrow> bool" where
  "is_file n = (case n of Some (File _) \<Rightarrow> True | _ \<Rightarrow> False)"

definition mkdirs :: "string list \<Rightarrow> filesystem \<Rightarrow> filesystem" where
  "mkdirs ps fs = fold (\<lambda>p fs. fs(p \<mapsto> Dir)) ps fs"

definition mkdirall_fs :: "string \<Rightarrow> filesystem \<Rightarrow> (goerr + unit) \<times> filesystem" where
  "mkdirall_fs p fs =
     (if list_ex (\<lambda>q. is_file (fs q)) (ancestors p)
      then (Inl (GoErr KOther (''mkdir '' @ p @ '': not a directory'')), fs)
      else (Inr (), mkdirs (ancestors p) fs))"

definition os_MkdirAll :: "'w env \<Rightarrow> string \<Rightarrow> ('w world, goerr + unit) go" where
  "os_MkdirAll env p = noteM (EvMkdirAll p) (faultyM env OpMkdirAll p (mkdirall_fs p))"

definition below :: "string \<Rightarrow> string \<Rightarrow> bool" where
  "below p q \<longleftrightarrow> q = p \<or> strip_prefix (p @ ''/'') q \<noteq> None"

definition removeall_fs :: "string \<Rightarrow> filesystem \<Rightarrow> (goerr + unit) \<times> filesystem" where
  "removeall_fs p fs = (Inr (), \<lambda>q. if below p q then None else fs q)"

definition os_RemoveAll :: "'w env \<Rightarrow> string \<Rightarrow> ('w world, goerr + unit) go" where
  "os_RemoveAll env p = noteM (EvRemoveAll p) (faultyM env OpRemoveAll p (removeall_fs p))"

definition writefile_fs :: "string \<Rightarrow> string \<Rightarrow> filesystem \<Rightarrow> (goerr + unit) \<times> filesystem" where
  "writefile_fs p data fs =
     (if fs (filepath_Dir p) \<noteq> Some Dir then (Inl (enoent ''open'' p), fs)
      else if fs p = Some Dir then (Inl (GoErr KOther (''open '' @ p @ '': is a directory'')), fs)
      else (Inr (), fs(p \<mapsto> File data)))"

definition os_WriteFile :: "'w env \<Rightarrow> string \<Rightarrow> string \<Rightarrow> ('w world, goerr + unit) go" where
  "os_WriteFile env p data = noteM (EvWriteFile p data) (faultyM env OpWriteFile p (writefile_fs p data))"

definition readfile_fs :: "string \<Rightarrow> filesystem \<Rightarrow> (goerr + string) \<times> filesystem" where
  "readfile_fs p fs =
     (case fs p of None \<Rightarrow> Inl (enoent ''open'' p)
      | Some Dir \<Rightarrow> Inl (GoErr KOther (''read '' @ p @ '': is a directory''))
      | Some (File d) \<Rightarrow> Inr d, fs)"

definition os_ReadFile :: "'w env \<Rightarrow> string \<Rightarrow> ('w world, goerr + string) go" where
  "os_ReadFile env p = faultyM env OpReadFile p (readfile_fs p)"

text \<open>\<^verbatim>\<open>os.MkdirTemp\<close>: the name is drawn by the environment.\<close>

definition os_MkdirTemp :: "'w env \<Rightarrow> ('w world, goerr + string) go" where
  "os_MkdirTemp env = bindM (hubM (temp_name env)) (\<lambda>p.
     faultyM env OpMkdirTemp p (\<lambda>fs. if fs p = None then (Inr p, fs(p \<mapsto> Dir))
       else (Inl (GoErr KOther (''mkdir '' @ p @ '': file exists'')), fs)))"

section \<open>Weakest preconditions of the calls\<close>

definition ok :: "goerr + 'a \<Rightarrow> bool" where
  "ok r = (case r of Inl _ \<Rightarrow> False | Inr _ \<Rightarrow> True)"

lemma ok_simps [simp]: "ok (Inl e) = False" "ok (Inr a) = True"
  by (simp_all add: ok_def)

lemma wp_hubM [wp]:
  "wp (hubM f) Q E s = (case f (Hub s) of (a, h) \<Rightarrow> Q a (s\<lparr>Hub := h\<rparr>))"
  by (simp add: wp_def hubM_def split: prod.split)

lemma wp_toolM [wp]:
  "wp (toolM f) Q E s = (case f (Fs s) (Hub s) of ((a, fs), h) \<Rightarrow> Q a (s\<lparr>Hub := h, Fs := fs\<rparr>))"
  by (simp add: wp_def toolM_def split: prod.split)

lemma wp_requestM [wp]:
  "wp (requestM ev f) Q E s =
    (case f (Hub s) of (r, h) \<Rightarrow> Q r (s\<lparr>Hub := h, Trace := Trace s @ [ev (ok r)]\<rparr>))"
  by (simp add: wp_def requestM_def ok_def split: prod.split)

lemma wp_patchM [wp]:
  "wp (patchM ev f base new) Q E s =
    (case f base new (Hub s) of
       (Inl e, h) \<Rightarrow> Q (Some e, new) (s\<lparr>Hub := h, Trace := Trace s @ [ev False]\<rparr>)
     | (Inr o', h) \<Rightarrow> Q (None, o') (s\<lparr>Hub := h, Trace := Trace s @ [ev True]\<rparr>))"
  by (simp add: patchM_def wp split: prod.split sum.split)

lemma wp_faultyM [wp]:
  "wp (faultyM env op p f) Q E s =
    (case os_fault env op p (Fs s) (Hub s) of
       (Some (msg, fs), h) \<Rightarrow> Q (Inl (GoErr KOther msg)) (s\<lparr>Hub := h, Fs := fs\<rparr>)
     | (None, h) \<Rightarrow> (case f (Fs s) of (r, fs) \<Rightarrow> Q r (s\<lparr>Hub := h, Fs := fs\<rparr>)))"
  by (simp add: wp_def faultyM_def split: prod.split option.split)

lemma wp_noteM [wp]:
  "wp (noteM ev m) Q E s =
    wp m (\<lambda>r s. Q r (s\<lparr>Trace := Trace s @ [ev (ok r)]\<rparr>)) E s"
  by (simp add: wp_def noteM_def bindM_def ok_def split: prod.split outcome.split)

text \<open>Coarse rules, for proofs that do not look at what an operation of the file system does.\<close>

lemma wp_faultyM_any:
  "(\<And>r h fs. Q r (s\<lparr>Hub := h, Fs := fs\<rparr>)) \<Longrightarrow> wp (faultyM env op p f) Q E s"
  by (simp add: wp split: prod.split option.split)

lemma wp_noteM_any:
  "(\<And>r h fs. Q r (s\<lparr>Hub := h, Fs := fs, Trace := Trace s @ [ev (ok r)]\<rparr>)) \<Longrightarrow>
    wp (noteM ev (faultyM env op p f)) Q E s"
  unfolding wp_noteM by (rule wp_faultyM_any) simp

lemmas call_defs =
  Patch_ICI_def Patch_ICI_Status_def Patch_BMH_def Patch_ConfigMap_def Patch_Secret_def
  os_Stat_def os_MkdirAll_def os_RemoveAll_def os_WriteFile_def os_ReadFile_def os_MkdirTemp_def

section \<open>Which requests a program can issue\<close>

text \<open>\<open>emits P m\<close>: whatever the environment does and however \<open>m\<close> ends, \<open>m\<close> only appends to the
  history, and every request it issues satisfies \<open>P\<close>.\<close>

definition emits :: "(event \<Rightarrow> bool) \<Rightarrow> ('w world, 'a) go \<Rightarrow> bool" where
  "emits P m \<longleftrightarrow> (\<forall>s. \<exists>es. Trace (snd (m s)) = Trace s @ es \<and> (\<forall>e \<in> set es. P e))"

named_theorems emits_intro \<open>rules that push the request discipline through a program\<close>

lemma emits_returnM [emits_intro]: "emits P (returnM a)"
  by (simp add: emits_def returnM_def)

lemma emits_panicM [emits_intro]: "emits P (panicM p)"
  by (simp add: emits_def panicM_def)

lemma emits_hubM [emits_intro]: "emits P (hubM f)"
  by (simp add: emits_def hubM_def split: prod.split)

lemma emits_toolM [emits_intro]: "emits P (toolM f)"
  by (simp add: emits_def toolM_def split: prod.split)

lemma emits_faultyM [emits_intro]: "emits P (faultyM env op p f)"
  by (simp add: emits_def faultyM_def split: prod.split option.split)

lemma emits_bindM [emits_intro]:
  assumes "emits P m" and "\<And>a. emits P (f a)"
  shows "emits P (bindM m f)"
  unfolding emits_def
proof
  fix s
  obtain r s1 where m: "m s = (r, s1)" by (cases "m s")
  obtain es where es: "Trace s1 = Trace s @ es" "\<forall>e \<in> set es. P e"
    using assms(1) m unfolding emits_def by (metis snd_conv)
  show "\<exists>es. Trace (snd (bindM m f s)) = Trace s @ es \<and> (\<forall>e \<in> set es. P e)"
  proof (cases r)
    case (Ret a)
    obtain fs where "Trace (snd (f a s1)) = Trace s1 @ fs" "\<forall>e \<in> set fs. P e"
      using assms(2) unfolding emits_def by blast
    with m Ret es show ?thesis
      by (intro exI [of _ "es @ fs"]) (auto simp: bindM_def)
  next
    case (Panic p)
    with m es show ?thesis by (auto simp: bindM_def)
  qed
qed

lemma emits_deferM [emits_intro]:
  assumes "emits P m" and "\<And>r. emits P (d r)"
  shows "emits P (deferM m d)"
  unfolding emits_def
proof
  fix s
  obtain r s1 where m: "m s = (r, s1)" by (cases "m s")
  obtain r2 s2 where d: "d r s1 = (r2, s2)" by (cases "d r s1")
  obtain es where es: "Trace s1 = Trace s @ es" "\<forall>e \<in> set es. P e"
    using assms(1) m unfolding emits_def by (metis snd_conv)
  obtain fs where "Trace s2 = Trace s1 @ fs" "\<forall>e \<in> set fs. P e"
    using assms(2) d unfolding emits_def by (metis snd_conv)
  with m d es show "\<exists>es. Trace (snd (deferM m d s)) = Trace s @ es \<and> (\<forall>e \<in> set es. P e)"
    by (intro exI [of _ "es @ fs"]) (auto simp: deferM_def split: outcome.split)
qed

lemma emits_catchM [emits_intro]: "emits P m \<Longrightarrow> emits P (catchM m)"
  by (simp add: emits_def catchM_def case_prod_beta)

lemma emits_requestM [emits_intro]:
  "(\<And>b. P (ev b)) \<Longrightarrow> emits P (requestM ev f)"
  by (simp add: emits_def requestM_def split: prod.split)

lemma emits_patchM [emits_intro]:
  "(\<And>b. P (ev b)) \<Longrightarrow> emits P (patchM ev f base new)"
  unfolding patchM_def by (intro emits_bindM emits_requestM) (auto split: sum.split intro: emits_returnM)

lemma emits_noteM [emits_intro]:
  assumes "emits P m" and "\<And>b. P (ev b)"
  shows "emits P (noteM ev m)"
  unfolding noteM_def
proof (rule emits_bindM [OF assms(1)])
  fix r
  show "emits P (\<lambda>s. (Ret r, s\<lparr>Trace := Trace s @ [ev (case r of Inl _ \<Rightarrow> False | Inr _ \<Rightarrow> True)]\<rparr>))"
    using assms(2) by (simp add: emits_def)
qed

lemma emits_if [emits_intro]:
  "(b \<Longrightarrow> emits P m) \<Longrightarrow> (\<not> b \<Longrightarrow> emits P n) \<Longrightarrow> emits P (if b then m else n)"
  by simp

lemma emits_case_option [emits_intro]:
  "(x = None \<Longrightarrow> emits P m) \<Longrightarrow> (\<And>v. x = Some v \<Longrightarrow> emits P (n v)) \<Longrightarrow>
    emits P (case x of None \<Rightarrow> m | Some v \<Rightarrow> n v)"
  by (cases x) simp_all

lemma emits_case_sum [emits_intro]:
  "(\<And>v. x = Inl v \<Longrightarrow> emits P (m v)) \<Longrightarrow> (\<And>v. x = Inr v \<Longrightarrow> emits P (n v)) \<Longrightarrow>
    emits P (case x of Inl v \<Rightarrow> m v | Inr v \<Rightarrow> n v)"
  by (cases x) simp_all

lemma emits_case_outcome [emits_intro]:
  "(\<And>v. x = Ret v \<Longrightarrow> emits P (m v)) \<Longrightarrow> (\<And>p. x = Panic p \<Longrightarrow> emits P (n p)) \<Longrightarrow>
    emits P (case x of Ret v \<Rightarrow> m v | Panic p \<Rightarrow> n p)"
  by (cases x) simp_all

lemma emits_case_prod [emits_intro]:
  "(\<And>a b. x = (a, b) \<Longrightarrow> emits P (m a b)) \<Longrightarrow> emits P (case x of (a, b) \<Rightarrow> m a b)"
  by (cases x) simp

lemma emits_Let [emits_intro]: "emits P (f x) \<Longrightarrow> emits P (Let x f)"
  by simp

lemma emits_for_eachM [emits_intro]:
  "(\<And>x. x \<in> set xs \<Longrightarrow> emits P (body x)) \<Longrightarrow> emits P (for_eachM xs body)"
  by (induction xs) (auto intro!: emits_intro)

lemma emits_mono: "emits P m \<Longrightarrow> (\<And>e. P e \<Longrightarrow> Q e) \<Longrightarrow> emits Q m"
  unfolding emits_def by metis

lemma emits_Trace:
  assumes "emits P m" and "m s = (r, s')"
  obtains es where "Trace s' = Trace s @ es" and "\<forall>e \<in> set es. P e"
  using assms unfolding emits_def by (metis snd_conv)

text \<open>Sequencing when what follows depends on what the first part is known to return.\<close>

lemma emits_bindM_wp:
  assumes "emits P m" and "\<And>s. wp m (\<lambda>a _. R a) (\<lambda>_ _. True) s" and "\<And>a. R a \<Longrightarrow> emits P (f a)"
  shows "emits P (bindM m f)"
  unfolding emits_def
proof
  fix s
  obtain r s1 where m: "m s = (r, s1)" by (cases "m s")
  obtain es where es: "Trace s1 = Trace s @ es" "\<forall>e \<in> set es. P e"
    using assms(1) m by (rule emits_Trace)
  show "\<exists>es. Trace (snd (bindM m f s)) = Trace s @ es \<and> (\<forall>e \<in> set es. P e)"
  proof (cases r)
    case (Ret a)
    then have "emits P (f a)" using assms(2) [of s] m assms(3) by (simp add: wp_def)
    then obtain fs where "Trace (snd (f a s1)) = Trace s1 @ fs" "\<forall>e \<in> set fs. P e"
      unfolding emits_def by blast
    with m Ret es show ?thesis
      by (intro exI [of _ "es @ fs"]) (auto simp: bindM_def)
  next
    case (Panic p)
    with m es show ?thesis by (auto simp: bindM_def)
  qed
qed

lemma emits_wpI:
  assumes "\<And>s. wp m (\<lambda>_ s'. \<exists>es. Trace s' = Trace s @ es \<and> (\<forall>e \<in> set es. P e))
      (\<lambda>_ s'. \<exists>es. Trace s' = Trace s @ es \<and> (\<forall>e \<in> set es. P e)) s"
  shows "emits P m"
  unfolding emits_def
proof
  fix s
  obtain r s1 where "m s = (r, s1)" by (cases "m s")
  then show "\<exists>es. Trace (snd (m s)) = Trace s @ es \<and> (\<forall>e \<in> set es. P e)"
    using assms [of s] by (cases r) (simp_all add: wp_def)
qed

text \<open>A program that issues no request leaves the history alone.\<close>

lemma emits_False_Trace: "emits (\<lambda>_. False) m \<Longrightarrow> m s = (r, s') \<Longrightarrow> Trace s' = Trace s"
  by (erule emits_Trace) auto

text \<open>A proof about the end of a program may skip a part of it, keeping only what requests it issued.\<close>

lemma wp_skip:
  assumes "emits P m"
    and "\<And>a s1 es. Trace s1 = Trace s @ es \<Longrightarrow> \<forall>e \<in> set es. P e \<Longrightarrow> Q a s1"
    and "\<And>p s1 es. Trace s1 = Trace s @ es \<Longrightarrow> \<forall>e \<in> set es. P e \<Longrightarrow> E p s1"
  shows "wp m Q E s"
  by (rule wpI) (metis assms emits_Trace)+

definition extends :: "event list \<Rightarrow> 'w world \<Rightarrow> bool" where
  "extends t s \<longleftrightarrow> (\<exists>es. Trace s = t @ es)"

lemma extends_refl [simp]: "extends (Trace s) s"
  by (simp add: extends_def)

lemma extends_Hub [simp]: "extends t (s\<lparr>Hub := h\<rparr>) = extends t s"
  by (simp add: extends_def)

lemma wp_skip_ext:
  assumes "emits P m" and "extends t s"
    and "\<And>a s1. extends t s1 \<Longrightarrow> Q a s1" and "\<And>p s1. extends t s1 \<Longrightarrow> E p s1"
  shows "wp m Q E s"
  using assms(2) by (intro wp_skip [OF assms(1)]) (auto simp: extends_def intro: assms(3,4))

lemma wp_extends:
  assumes "emits P m" and "wp m Q E s"
  shows "wp m (\<lambda>a s'. Q a s' \<and> extends (Trace s) s') (\<lambda>p s'. E p s' \<and> extends (Trace s) s') s"
  by (rule wp_conj [OF assms(2) wp_skip_ext [OF assms(1) extends_refl]])

lemma wp_then_err:
  assumes "emits P m" and "extends t s"
    and "\<And>e s1. extends t s1 \<Longrightarrow> Q (Some (g e)) s1"
    and "\<And>s1. extends t s1 \<Longrightarrow> wp k Q E s1"
    and "\<And>p s1. extends t s1 \<Longrightarrow> E p s1"
  shows "wp (bindM m (\<lambda>e. case e of Some err \<Rightarrow> returnM (Some (g err)) | None \<Rightarrow> k)) Q E s"
  unfolding wp_bindM
proof (rule wp_skip_ext [OF assms(1,2)], goal_cases)
  case (1 e s1)
  then show ?case using assms(3,4) by (cases e) (simp_all add: wp_returnM)
qed (rule assms(5))

lemma wp_then_sum:
  assumes "emits P m" and "extends t s"
    and "\<And>e s1. extends t s1 \<Longrightarrow> Q (Some (g e)) s1"
    and "\<And>a s1. extends t s1 \<Longrightarrow> wp (k a) Q E s1"
    and "\<And>p s1. extends t s1 \<Longrightarrow> E p s1"
  shows "wp (bindM m (\<lambda>r. case r of Inl err \<Rightarrow> returnM (Some (g err)) | Inr a \<Rightarrow> k a)) Q E s"
  unfolding wp_bindM
proof (rule wp_skip_ext [OF assms(1,2)], goal_cases)
  case (1 r s1)
  then show ?case using assms(3,4) by (cases r) (simp_all add: wp_returnM)
qed (rule assms(5))

text \<open>Programs that return whatever the environment does.\<close>

definition panic_free :: "('s, 'a) go \<Rightarrow> bool" where
  "panic_free m \<longleftrightarrow> (\<forall>s. wp m (\<lambda>_ _. True) (\<lambda>_ _. False) s)"

named_theorems panic_free_intro \<open>rules for programs without panics\<close>

lemma panic_free_basic [panic_free_intro]:
  "panic_free (returnM a)" "panic_free (hubM f)" "panic_free (requestM ev f2)" "panic_free (patchM ev f3 b n)"
  "panic_free (toolM g)" "panic_free (faultyM env op p h)"
  by (auto simp: panic_free_def wp split: prod.split sum.split option.split)

lemma panic_free_bindM [panic_free_intro]: "panic_free m \<Longrightarrow> (\<And>a. panic_free (f a)) \<Longrightarrow> panic_free (bindM m f)"
  unfolding panic_free_def wp_bindM by (blast intro: wp_mono)

lemma panic_free_case_sum [panic_free_intro]:
  "(\<And>v. panic_free (m v)) \<Longrightarrow> (\<And>v. panic_free (n v)) \<Longrightarrow> panic_free (case x of Inl v \<Rightarrow> m v | Inr v \<Rightarrow> n v)"
  by (cases x) simp_all

lemma panic_free_case_option [panic_free_intro]:
  "(x = None \<Longrightarrow> panic_free m) \<Longrightarrow> (\<And>v. x = Some v \<Longrightarrow> panic_free (n v)) \<Longrightarrow> panic_free (case x of None \<Rightarrow> m | Some v \<Rightarrow> n v)"
  by (cases x) simp_all

lemma panic_free_case_prod [panic_free_intro]: "(\<And>a b. panic_free (m a b)) \<Longrightarrow> panic_free (case x of (a, b) \<Rightarrow> m a b)"
  by (cases x) simp

lemma panic_free_if [panic_free_intro]: "(b \<Longrightarrow> panic_free m) \<Longrightarrow> (\<not> b \<Longrightarrow> panic_free n) \<Longrightarrow> panic_free (if b then m else n)"
  by simp

lemma panic_free_noteM [panic_free_intro]: "panic_free m \<Longrightarrow> panic_free (noteM ev m)"
  unfolding panic_free_def wp_noteM by (blast intro: wp_mono)

lemma panic_free_Let [panic_free_intro]: "panic_free (f x) \<Longrightarrow> panic_free (Let x f)"
  by simp

lemma panic_free_for_eachM [panic_free_intro]: "(\<And>x. panic_free (body x)) \<Longrightarrow> panic_free (for_eachM xs body)"
  by (induction xs) (auto intro!: panic_free_intro)

lemma panic_freeD: "panic_free m \<Longrightarrow> wp m (\<lambda>_ _. True) (\<lambda>_ _. False) s"
  by (simp add: panic_free_def)

lemma panic_free_run: "panic_free m \<Longrightarrow> \<exists>a s'. m s = (Ret a, s')"
  by (drule panic_freeD [of _ s]) (auto simp: wp_def split: prod.splits outcome.splits)

text \<open>Requests to the operating system and the installer.\<close>

definition fs_event :: "event \<Rightarrow> bool" where
  "fs_event e = (case e of EvMkdirAll _ _ \<Rightarrow> True | EvRemoveAll _ _ \<Rightarrow> True | EvWriteFile _ _ _ \<Rightarrow> True
     | EvCreateISO _ _ \<Rightarrow> True | _ \<Rightarrow> False)"

lemma fs_event_simps [simp]:
  "fs_event (EvMkdirAll p b)" "fs_event (EvRemoveAll p b)" "fs_event (EvWriteFile p d b)" "fs_event (EvCreateISO p b)"
  by (simp_all add: fs_event_def)

lemma emits_os [emits_intro]:
  "(\<And>e. fs_event e \<Longrightarrow> P e) \<Longrightarrow> emits P (os_MkdirAll env p)"
  "(\<And>e. fs_event e \<Longrightarrow> P e) \<Longrightarrow> emits P (os_RemoveAll env p)"
  "(\<And>e. fs_event e \<Longrightarrow> P e) \<Longrightarrow> emits P (os_WriteFile env p d)"
  "emits P (os_Stat env p)" "emits P (os_ReadFile env p)" "emits P (os_MkdirTemp env)"
  unfolding call_defs by (intro emits_intro; simp)+

text \<open>\<open>traced m R\<close>: \<open>m\<close> never panics, only appends to the history, and when it returns no error the
  requests it issued satisfy \<open>R\<close>.\<close>

definition traced :: "('w world, goerr option) go \<Rightarrow> (event list \<Rightarrow> bool) \<Rightarrow> bool" where
  "traced m R \<longleftrightarrow>
     (\<forall>s. wp m (\<lambda>e s'. \<exists>es. Trace s' = Trace s @ es \<and> (e = None \<longrightarrow> R es)) (\<lambda>_ _. False) s)"

lemma tracedI:
  "(\<And>s. wp m (\<lambda>e s'. \<exists>es. Trace s' = Trace s @ es \<and> (e = None \<longrightarrow> R es)) (\<lambda>_ _. False) s) \<Longrightarrow> traced m R"
  by (simp add: traced_def)

lemma tracedD:
  "traced m R \<Longrightarrow> wp m (\<lambda>e s'. \<exists>es. Trace s' = Trace s @ es \<and> (e = None \<longrightarrow> R es)) (\<lambda>_ _. False) s"
  by (simp add: traced_def)

lemma traced_mono: "traced m R \<Longrightarrow> (\<And>es. R es \<Longrightarrow> R' es) \<Longrightarrow> traced m R'"
  unfolding traced_def by (blast intro: wp_mono)

lemma traced_fail: "traced (returnM (Some e)) R"
  by (auto simp: traced_def wp)

lemma traced_then:
  assumes "traced m R1" and "traced k R2"
  shows "traced (bindM m (\<lambda>e. case e of Some err \<Rightarrow> returnM (Some err) | None \<Rightarrow> k))
    (\<lambda>es. \<exists>a b. es = a @ b \<and> R1 a \<and> R2 b)"
proof (rule tracedI, unfold wp_bindM, rule wp_mono [OF tracedD [OF assms(1)]], goal_cases)
  case (1 s e s1)
  then obtain a where a: "Trace s1 = Trace s @ a" "e = None \<longrightarrow> R1 a" by blast
  show ?case
  proof (cases e)
    case None
    show ?thesis unfolding None option.case
    proof (rule wp_mono [OF tracedD [OF assms(2)]], goal_cases)
      case (1 e' s')
      then obtain b where "Trace s' = Trace s1 @ b" "e' = None \<longrightarrow> R2 b" by blast
      with a None show ?case by (intro exI [of _ "a @ b"]) auto
    qed simp
  qed (use a in \<open>simp add: wp\<close>)
qed simp

end
