(* ===== verification/Credentials.thy ===== *)
theory Credentials
  imports World
begin

text \<open>
  \<^verbatim>\<open>internal/credentials/credentials.go\<close>: the three secrets that carry the identity of an installed
  cluster, with \<^verbatim>\<open>controllerutil.CreateOrUpdate\<close> as its code has it. Byte slices are strings.
\<close>

section \<open>Names and labels\<close>

definition SecretResourceLabel :: string where
  "SecretResourceLabel = ''image-based-installed.openshift.io/created''"
definition SecretResourceValue :: string where
  "SecretResourceValue = ''true''"
definition DefaultUser :: string where
  "DefaultUser = ''kubeadmin''"
definition Kubeconfig :: string where
  "Kubeconfig = ''kubeconfig''"
definition kubeadmincreds :: string where
  "kubeadmincreds = ''kubeadmincreds''"
definition kubeAdminKey :: string where
  "kubeAdminKey = ''password''"
definition SeedReconfigurationFileName :: string where
  "SeedReconfigurationFileName = ''manifest.json''"
definition secretPreservationLabel :: string where
  "secretPreservationLabel = ''siteconfig.open-cluster-management.io/preserve''"
definition secretPreservationValue :: string where
  "secretPreservationValue = ''cluster-identity''"

definition KubeconfigSecretName :: "string \<Rightarrow> string" where
  "KubeconfigSecretName clusterDeploymentName = clusterDeploymentName @ ''-admin-kubeconfig''"
definition KubeadminPasswordSecretName :: "string \<Rightarrow> string" where
  "KubeadminPasswordSecretName clusterDeploymentName = clusterDeploymentName @ ''-admin-password''"
definition SeedReconfigurationSecretName :: "string \<Rightarrow> string" where
  "SeedReconfigurationSecretName clusterDeploymentName = clusterDeploymentName @ ''-seed-reconfiguration''"

record IdentityData =
  id_Kubeconfig :: string
  id_KubeadminPassword :: string
  id_SeedReconfig :: string

definition SetMetaDataLabel :: "string \<Rightarrow> string \<Rightarrow> ObjectMeta \<Rightarrow> ObjectMeta" where
  "SetMetaDataLabel label value obj =
     obj\<lparr>om_Labels := Some ((case om_Labels obj of None \<Rightarrow> Map.empty | Some l \<Rightarrow> l)(label \<mapsto> value))\<rparr>"

section \<open>controllerutil.CreateOrUpdate on secrets\<close>

text \<open>\<^verbatim>\<open>equality.Semantic.DeepEqual\<close> does not distinguish nil from empty maps.\<close>

definition norm_map :: "('k \<rightharpoonup> 'v) option \<Rightarrow> ('k \<rightharpoonup> 'v)" where
  "norm_map m = (case m of None \<Rightarrow> Map.empty | Some f \<Rightarrow> f)"

definition norm_meta :: "ObjectMeta \<Rightarrow> ObjectMeta" where
  "norm_meta m = m\<lparr>om_Labels := Some (norm_map (om_Labels m)), om_Annotations := Some (norm_map (om_Annotations m))\<rparr>"

definition Secret_DeepEqual :: "Secret \<Rightarrow> Secret \<Rightarrow> bool" where
  "Secret_DeepEqual a b \<longleftrightarrow>
     norm_meta (sec_Meta a) = norm_meta (sec_Meta b) \<and> norm_map (sec_Data a) = norm_map (sec_Data b)
     \<and> sec_Type a = sec_Type b"

definition mutate :: "(Secret \<Rightarrow> Secret) \<Rightarrow> nsname \<Rightarrow> Secret \<Rightarrow> goerr + Secret" where
  "mutate f key obj =
     (let obj' = f obj in
      if key \<noteq> key_of (sec_Meta obj')
      then Inl (errorf ''MutateFn cannot mutate object name and/or object namespace'')
      else Inr obj')"

definition CreateOrUpdate :: "'w env \<Rightarrow> Secret \<Rightarrow> (Secret \<Rightarrow> Secret) \<Rightarrow> ('w world, goerr + string) go" where
  "CreateOrUpdate env obj f =
     (let key = key_of (sec_Meta obj) in
      bindM (hubM (get_Secret env key)) (\<lambda>r. case r of
        Inl err \<Rightarrow>
          if \<not> IsNotFound err then returnM (Inl err)
          else (case mutate f key obj of
              Inl e \<Rightarrow> returnM (Inl e)
            | Inr obj' \<Rightarrow>
                bindM (requestM (EvCreateSecret obj') (create_Secret env obj')) (\<lambda>c. case c of
                  Inl e \<Rightarrow> returnM (Inl e) | Inr _ \<Rightarrow> returnM (Inr ''created'')))
      | Inr existing \<Rightarrow>
          (case mutate f key existing of
             Inl e \<Rightarrow> returnM (Inl e)
           | Inr obj' \<Rightarrow>
               if Secret_DeepEqual existing obj' then returnM (Inr ''unchanged'')
               else bindM (requestM (EvUpdateSecret obj') (update_Secret env obj')) (\<lambda>c. case c of
                  Inl e \<Rightarrow> returnM (Inl e) | Inr _ \<Rightarrow> returnM (Inr ''updated'')))))"

section \<open>Credentials\<close>

definition secretExistsAndValid :: "'w env \<Rightarrow> nsname \<Rightarrow> string \<Rightarrow> string \<Rightarrow> ('w world, bool \<times> goerr option) go" where
  "secretExistsAndValid env secretRef key data =
     bindM (hubM (get_Secret env secretRef)) (\<lambda>r. case r of
       Inl err \<Rightarrow>
         if IsNotFound err then returnM (False, None)
         else returnM (False, Some (wrapf ''failed to get kubeconfig secret: '' err))
     | Inr secret \<Rightarrow>
         (case map_get (sec_Data secret) key of
            None \<Rightarrow> returnM (False, None)
          | Some secretData \<Rightarrow> returnM (secretData = data, None)))"

definition emptyMeta :: ObjectMeta where
  "emptyMeta = \<lparr>om_Name = '''', om_Namespace = '''', om_UID = '''', om_Labels = None, om_Annotations = None,
     om_Finalizers = [], om_OwnerReferences = [], om_CreationTimestamp = 0, om_DeletionTimestamp = None\<rparr>"

text \<open>The function literal \<^verbatim>\<open>mutateFn\<close>; \<open>gv\<close> and \<open>kind\<close> are the API version and kind of the ClusterDeployment.\<close>

definition credential_mutateFn :: "string \<Rightarrow> string \<Rightarrow> ClusterDeployment \<Rightarrow> (string \<rightharpoonup> string) \<Rightarrow> string \<Rightarrow> Secret \<Rightarrow> Secret" where
  "credential_mutateFn gv kind cd data secretType secret =
     (let owner = \<lparr>or_APIVersion = gv, or_Kind = kind, or_Name = om_Name (cd_Meta cd), or_UID = om_UID (cd_Meta cd),
                   or_Controller = None, or_BlockOwnerDeletion = Some True\<rparr>;
          meta0 = (sec_Meta secret)\<lparr>om_OwnerReferences := [owner]\<rparr>;
          meta1 = SetMetaDataLabel ''hive.openshift.io/cluster-deployment-name'' (om_Name (cd_Meta cd)) meta0;
          meta2 = SetMetaDataLabel ''hive.openshift.io/secret-type'' secretType meta1;
          meta3 = SetMetaDataLabel SecretResourceLabel SecretResourceValue meta2;
          meta4 = SetMetaDataLabel secretPreservationLabel secretPreservationValue meta3;
          meta5 = SetMetaDataLabel ''cluster.open-cluster-management.io/backup'' ''true'' meta4
      in secret\<lparr>sec_Meta := meta5, sec_Data := Some data\<rparr>)"

definition createOrUpdateClusterCredentialSecret :: "'w env \<Rightarrow> ClusterDeployment \<Rightarrow> string \<Rightarrow> (string \<rightharpoonup> string) \<Rightarrow> string \<Rightarrow> ('w world, goerr option) go" where
  "createOrUpdateClusterCredentialSecret env cd name data secretType =
     (let secret = \<lparr>sec_Meta = emptyMeta\<lparr>om_Name := name, om_Namespace := om_Namespace (cd_Meta cd)\<rparr>,
                    sec_Data = Some data, sec_Type = ''Opaque''\<rparr>
      in case gvk_ClusterDeployment env of
           Inl err \<Rightarrow> returnM (Some err)
         | Inr (gv, kind) \<Rightarrow>
             bindM (CreateOrUpdate env secret (credential_mutateFn gv kind cd data secretType)) (\<lambda>r. case r of
               Inl err \<Rightarrow> returnM (Some (wrapf ''failed to create secret: '' err))
             | Inr _ \<Rightarrow> returnM None))"

definition EnsureKubeconfigSecret :: "'w env \<Rightarrow> ClusterDeployment \<Rightarrow> string \<Rightarrow> ('w world, goerr option) go" where
  "EnsureKubeconfigSecret env cd kubeconfigFile =
     bindM (os_ReadFile env kubeconfigFile) (\<lambda>r. case r of
       Inl err \<Rightarrow> returnM (Some (wrapf (''failed to read kubeadmin file '' @ kubeconfigFile @ '': '') err))
     | Inr kubeconfigData \<Rightarrow>
         bindM (secretExistsAndValid env (om_Namespace (cd_Meta cd), KubeconfigSecretName (om_Name (cd_Meta cd)))
                  Kubeconfig kubeconfigData) (\<lambda>(exists, err).
           if err \<noteq> None \<or> exists then returnM err
           else bindM (createOrUpdateClusterCredentialSecret env cd (KubeconfigSecretName (om_Name (cd_Meta cd)))
                  [''kubeconfig'' \<mapsto> kubeconfigData] Kubeconfig) (\<lambda>err.
             returnM (map_option (wrapf ''failed to create kubeadmin password secret: '') err))))"

definition EnsureAdminPasswordSecret :: "'w env \<Rightarrow> ClusterDeployment \<Rightarrow> string \<Rightarrow> ('w world, goerr option) go" where
  "EnsureAdminPasswordSecret env cd kubeAdminFile =
     bindM (os_ReadFile env kubeAdminFile) (\<lambda>r. case r of
       Inl err \<Rightarrow> returnM (Some (wrapf (''failed to read kubeadmin file '' @ kubeAdminFile @ '': '') err))
     | Inr password \<Rightarrow>
         bindM (secretExistsAndValid env (om_Namespace (cd_Meta cd), KubeadminPasswordSecretName (om_Name (cd_Meta cd)))
                  kubeAdminKey password) (\<lambda>(exists, err).
           if err \<noteq> None \<or> exists then returnM err
           else bindM (createOrUpdateClusterCredentialSecret env cd (KubeadminPasswordSecretName (om_Name (cd_Meta cd)))
                  [''username'' \<mapsto> DefaultUser, kubeAdminKey \<mapsto> password] kubeadmincreds) (\<lambda>err.
             returnM (map_option (wrapf ''failed to create kubeadmin password secret: '') err))))"

definition EnsureSeedReconfigurationSecret :: "'w env \<Rightarrow> ClusterDeployment \<Rightarrow> string \<Rightarrow> ('w world, goerr option) go" where
  "EnsureSeedReconfigurationSecret env cd seedReconfigurationFile =
     bindM (os_ReadFile env seedReconfigurationFile) (\<lambda>r. case r of
       Inl err \<Rightarrow> returnM (Some (wrapf (''failed to read seedReconfigurationFile file '' @ seedReconfigurationFile @ '': '') err))
     | Inr seedReconfigurationData \<Rightarrow>
         bindM (secretExistsAndValid env (om_Namespace (cd_Meta cd), SeedReconfigurationSecretName (om_Name (cd_Meta cd)))
                  SeedReconfigurationFileName seedReconfigurationData) (\<lambda>(exists, err).
           if err \<noteq> None \<or> exists then returnM err
           else bindM (createOrUpdateClusterCredentialSecret env cd (SeedReconfigurationSecretName (om_Name (cd_Meta cd)))
                  [SeedReconfigurationFileName \<mapsto> seedReconfigurationData] SeedReconfigurationFileName) (\<lambda>err.
             returnM (map_option (wrapf ''failed to create kubeadmin password secret: '') err))))"

definition getSecretContent :: "'w env \<Rightarrow> nsname \<Rightarrow> string \<Rightarrow> ('w world, string \<times> bool \<times> goerr option) go" where
  "getSecretContent env ref key =
     bindM (hubM (get_Secret env ref)) (\<lambda>r. case r of
       Inl err \<Rightarrow>
         if IsNotFound err then returnM ([], False, None)
         else returnM ([], False, Some (wrapf (''failed to get secret '' @ fst ref @ ''/'' @ snd ref @ '': '') err))
     | Inr secret \<Rightarrow>
         (case map_get (sec_Data secret) key of
            None \<Rightarrow> returnM ([], False, None)
          | Some val \<Rightarrow> returnM (val, val \<noteq> [], None)))"

text \<open>The three results are the named results of the code, whose fields keep what was read so far.\<close>

definition ClusterIdentitySecrets :: "'w env \<Rightarrow> ClusterDeployment \<Rightarrow> ('w world, IdentityData \<times> bool \<times> goerr option) go" where
  "ClusterIdentitySecrets env cd =
     (let ns = om_Namespace (cd_Meta cd); name = om_Name (cd_Meta cd);
          id0 = \<lparr>id_Kubeconfig = [], id_KubeadminPassword = [], id_SeedReconfig = []\<rparr>
      in bindM (getSecretContent env (ns, KubeconfigSecretName name) ''kubeconfig'') (\<lambda>(d1, p1, e1).
        let id1 = id0\<lparr>id_Kubeconfig := d1\<rparr> in
        if \<not> p1 \<or> e1 \<noteq> None then returnM (id1, False, e1)
        else bindM (getSecretContent env (ns, KubeadminPasswordSecretName name) kubeAdminKey) (\<lambda>(d2, p2, e2).
        let id2 = id1\<lparr>id_KubeadminPassword := d2\<rparr> in
        if \<not> p2 \<or> e2 \<noteq> None then returnM (id2, False, e2)
        else bindM (getSecretContent env (ns, SeedReconfigurationSecretName name) SeedReconfigurationFileName) (\<lambda>(d3, p3, e3).
        let id3 = id2\<lparr>id_SeedReconfig := d3\<rparr> in
        if \<not> p3 \<or> e3 \<noteq> None then returnM (id3, False, e3) else returnM (id3, True, None)))))"

definition SeedReconfigSecretClusterIDs :: "'w env \<Rightarrow> ClusterDeployment \<Rightarrow> ('w world, string \<times> string \<times> goerr option) go" where
  "SeedReconfigSecretClusterIDs env cd =
     bindM (getSecretContent env (om_Namespace (cd_Meta cd), SeedReconfigurationSecretName (om_Name (cd_Meta cd)))
              SeedReconfigurationFileName) (\<lambda>(data, present, err).
       if \<not> present \<or> err \<noteq> None then returnM ([], [], err)
       else case unjson_SeedReconfiguration env data of
         Inl e \<Rightarrow> returnM ([], [], Some (wrapf ''failed to decode secret seed reconfiguration: '' e))
       | Inr sr \<Rightarrow> returnM (sr_ClusterID sr, sr_InfraID sr, None))"

section \<open>What the secrets hold\<close>

text \<open>The secret of a cluster: its place, data, labels and owner.\<close>

definition credential_secret :: "ClusterDeployment \<Rightarrow> string \<Rightarrow> (string \<rightharpoonup> string) \<Rightarrow> string \<Rightarrow> Secret \<Rightarrow> bool" where
  "credential_secret cd name data secretType sec \<longleftrightarrow>
     key_of (sec_Meta sec) = (om_Namespace (cd_Meta cd), name)
     \<and> sec_Data sec = Some data
     \<and> map_get (om_Labels (sec_Meta sec)) ''hive.openshift.io/cluster-deployment-name'' = Some (om_Name (cd_Meta cd))
     \<and> map_get (om_Labels (sec_Meta sec)) ''hive.openshift.io/secret-type'' = Some secretType
     \<and> map_get (om_Labels (sec_Meta sec)) SecretResourceLabel = Some SecretResourceValue
     \<and> map_get (om_Labels (sec_Meta sec)) secretPreservationLabel = Some secretPreservationValue
     \<and> map_get (om_Labels (sec_Meta sec)) ''cluster.open-cluster-management.io/backup'' = Some ''true''
     \<and> map or_UID (om_OwnerReferences (sec_Meta sec)) = [om_UID (cd_Meta cd)]"

lemma credential_mutateFn_secret:
  assumes "key_of (sec_Meta (credential_mutateFn gv kind cd data ty sec)) = (om_Namespace (cd_Meta cd), name)"
  shows "credential_secret cd name data ty (credential_mutateFn gv kind cd data ty sec)"
  using assms
  by (simp add: credential_secret_def credential_mutateFn_def Let_def SetMetaDataLabel_def
      SecretResourceLabel_def secretPreservationLabel_def)

lemma credential_mutateFn_Data [simp]: "sec_Data (credential_mutateFn gv kind cd data ty sec) = Some data"
  by (simp add: credential_mutateFn_def Let_def)

text \<open>Some read of the secret found the content under the key.\<close>

definition found :: "'w env \<Rightarrow> nsname \<Rightarrow> string \<Rightarrow> string \<Rightarrow> bool" where
  "found env k key content \<longleftrightarrow>
     (\<exists>h h' sec. get_Secret env k h = (Inr sec, h') \<and> map_get (sec_Data sec) key = Some content)"

text \<open>The requests \<open>es\<close> leave the secret with the content: it was found, or written once.\<close>

definition provided :: "'w env \<Rightarrow> ClusterDeployment \<Rightarrow> string \<Rightarrow> string \<Rightarrow> string \<Rightarrow> event list \<Rightarrow> bool" where
  "provided env cd name key content es \<longleftrightarrow>
     es = [] \<and> found env (om_Namespace (cd_Meta cd), name) key content
     \<or> (\<exists>sec data ty. credential_secret cd name data ty sec \<and> data key = Some content
          \<and> (es = [EvCreateSecret sec True] \<or> es = [EvUpdateSecret sec True]))"

lemma map_get_norm_map: "map_get m k = norm_map m k"
  by (simp add: map_get_def norm_map_def split: option.split)

lemma wp_createOrUpdate:
  assumes "data key = Some content"
  shows "wp (createOrUpdateClusterCredentialSecret env cd name data ty)
     (\<lambda>err s'. Fs s' = Fs s \<and> (\<exists>es. Trace s' = Trace s @ es \<and> (err = None \<longrightarrow> provided env cd name key content es)))
     (\<lambda>_ _. False) s"
proof -
  let ?k = "(om_Namespace (cd_Meta cd), name)"
  let ?post = "\<lambda>err s'. Fs s' = Fs s \<and> (\<exists>es. Trace s' = Trace s @ es \<and> (err = None \<longrightarrow> provided env cd name key content es))"
  have same: "provided env cd name key content []"
    if "get_Secret env ?k h = (Inr sec, h')" "Secret_DeepEqual sec (credential_mutateFn gv kind cd data ty sec)"
    for h h' sec gv kind
    using that assms
    by (auto simp: provided_def found_def Secret_DeepEqual_def map_get_norm_map norm_map_def)
  have written: "provided env cd name key content [EvCreateSecret (credential_mutateFn gv kind cd data ty sec) True]"
      "provided env cd name key content [EvUpdateSecret (credential_mutateFn gv kind cd data ty sec) True]"
    if "key_of (sec_Meta (credential_mutateFn gv kind cd data ty sec)) = ?k" for gv kind sec
    using credential_mutateFn_secret [OF that] assms by (auto simp: provided_def)
  have key: "key_of (emptyMeta\<lparr>om_Name := name, om_Namespace := om_Namespace (cd_Meta cd)\<rparr>) = ?k"
    by (simp add: key_of_def emptyMeta_def)
  show ?thesis
    unfolding createOrUpdateClusterCredentialSecret_def CreateOrUpdate_def mutate_def Let_def
    by (auto simp: wp key same written split: sum.split prod.split)
qed

text \<open>The shape the three \<^verbatim>\<open>Ensure\<close> functions share.\<close>

lemma wp_ensure:
  assumes "\<And>content. data content key = Some content"
  shows "wp (bindM (os_ReadFile env file) (\<lambda>r. case r of
         Inl err \<Rightarrow> returnM (Some (wrapf msg err))
       | Inr content \<Rightarrow>
           bindM (secretExistsAndValid env (om_Namespace (cd_Meta cd), name) key content) (\<lambda>(exists, err).
             if err \<noteq> None \<or> exists then returnM err
             else bindM (createOrUpdateClusterCredentialSecret env cd name (data content) ty) (\<lambda>err.
               returnM (map_option (wrapf msg2) err)))))
     (\<lambda>err s'. \<exists>es. Trace s' = Trace s @ es
        \<and> (err = None \<longrightarrow> Fs s' = Fs s
            \<and> (\<exists>content. Fs s file = Some (File content) \<and> provided env cd name key content es)))
     (\<lambda>_ _. False) s"
proof -
  have create: "wp (createOrUpdateClusterCredentialSecret env cd name (data content) ty)
      (\<lambda>err s'. \<exists>es. Trace s' = Trace s @ es
        \<and> (err = None \<longrightarrow> Fs s' = Fs s \<and> provided env cd name key content es))
      (\<lambda>_ _. False) s1"
    if "Fs s file = Some (File content)" "Fs s1 = Fs s" "Trace s1 = Trace s" for content s1
    by (rule wp_mono [OF wp_createOrUpdate [where data = "data content", OF assms]]) (use that in auto)
  have found: "provided env cd name key content []"
    if "get_Secret env (om_Namespace (cd_Meta cd), name) h = (Inr sec, h')" "map_get (sec_Data sec) key = Some content"
    for h h' sec content
    using that by (auto simp: provided_def found_def)
  show ?thesis
    unfolding call_defs readfile_fs_def secretExistsAndValid_def
    by (auto simp: wp split: prod.split option.split sum.split node.split intro!: create intro: found)
qed

lemmas Ensure_defs =
  EnsureKubeconfigSecret_def EnsureAdminPasswordSecret_def EnsureSeedReconfigurationSecret_def

text \<open>What a client may expect of an \<^verbatim>\<open>Ensure\<close> function: it reads the file, and unless it reports an error the
  content of the file is in the secret of the cluster, found there or written by one request.\<close>

locale credential_provider =
  fixes ensure :: "'w env \<Rightarrow> ClusterDeployment \<Rightarrow> string \<Rightarrow> ('w world, goerr option) go"
    and secret_name :: "string \<Rightarrow> string" and key :: string
  assumes ensures: "wp (ensure env cd path)
     (\<lambda>err s'. \<exists>es. Trace s' = Trace s @ es
        \<and> (err = None \<longrightarrow> Fs s' = Fs s \<and> (\<exists>content. Fs s path = Some (File content)
            \<and> provided env cd (secret_name (om_Name (cd_Meta cd))) key content es)))
     (\<lambda>_ _. False) s"
begin

text \<open>Going on after success, whatever follows and however an error is wrapped.\<close>

lemma wp_then:
  assumes "\<And>s. Fs s = fs \<Longrightarrow> wp k
      (\<lambda>err s'. \<exists>es. Trace s' = Trace s @ es \<and> (err = None \<longrightarrow> Fs s' = fs \<and> R es)) (\<lambda>_ _. False) s"
    and "Fs s = fs"
  shows "wp (bindM (ensure env cd path) (\<lambda>e. case e of Some err \<Rightarrow> returnM (Some (wrap err)) | None \<Rightarrow> k))
     (\<lambda>err s'. \<exists>es. Trace s' = Trace s @ es \<and> (err = None \<longrightarrow> Fs s' = fs
        \<and> (\<exists>content e1 e2. es = e1 @ e2 \<and> fs path = Some (File content)
            \<and> provided env cd (secret_name (om_Name (cd_Meta cd))) key content e1 \<and> R e2)))
     (\<lambda>_ _. False) s"
  unfolding wp_bindM
proof (rule wp_mono [OF ensures], goal_cases)
  case (1 err s1)
  then obtain e1 where e1: "Trace s1 = Trace s @ e1" by blast
  show ?case
  proof (cases err)
    case None
    then obtain e1 content where "Trace s1 = Trace s @ e1" "Fs s1 = fs" "fs path = Some (File content)"
        "provided env cd (secret_name (om_Name (cd_Meta cd))) key content e1"
      using 1 assms(2) by blast
    then show ?thesis unfolding None option.case
      by (intro wp_mono [OF assms(1)]) auto
  qed (use e1 in \<open>simp add: wp_returnM\<close>)
qed simp

end

interpretation kubeconfig: credential_provider EnsureKubeconfigSecret KubeconfigSecretName Kubeconfig
  unfolding Ensure_defs
  by unfold_locales (rule wp_ensure [where data = "\<lambda>c. [''kubeconfig'' \<mapsto> c]"], simp add: Kubeconfig_def)

interpretation password: credential_provider EnsureAdminPasswordSecret KubeadminPasswordSecretName kubeAdminKey
  unfolding Ensure_defs
  by unfold_locales (rule wp_ensure [where data = "\<lambda>c. [''username'' \<mapsto> DefaultUser, kubeAdminKey \<mapsto> c]"], simp)

interpretation seed: credential_provider EnsureSeedReconfigurationSecret SeedReconfigurationSecretName SeedReconfigurationFileName
  unfolding Ensure_defs
  by unfold_locales (rule wp_ensure [where data = "\<lambda>c. [SeedReconfigurationFileName \<mapsto> c]"], simp)

section \<open>Requests\<close>

definition credential_event :: "ClusterDeployment \<Rightarrow> event \<Rightarrow> bool" where
  "credential_event cd e \<longleftrightarrow>
     (\<exists>name data ty sec ok. credential_secret cd name data ty sec \<and> (e = EvCreateSecret sec ok \<or> e = EvUpdateSecret sec ok))"

lemma emits_createOrUpdate [emits_intro]:
  assumes "\<And>e. credential_event cd e \<Longrightarrow> P e"
  shows "emits P (createOrUpdateClusterCredentialSecret env cd name data ty)"
proof -
  have key: "key_of (sec_Meta \<lparr>sec_Meta = emptyMeta\<lparr>om_Name := name, om_Namespace := om_Namespace (cd_Meta cd)\<rparr>,
                    sec_Data = Some data, sec_Type = ''Opaque''\<rparr>) = (om_Namespace (cd_Meta cd), name)"
    by (simp add: key_of_def emptyMeta_def)
  have written: "P (EvCreateSecret sec' ok)" "P (EvUpdateSecret sec' ok)"
    if "mutate (credential_mutateFn gv kind cd data ty) (om_Namespace (cd_Meta cd), name) sec = Inr sec'"
    for gv kind sec sec' ok
  proof -
    have "sec' = credential_mutateFn gv kind cd data ty sec" "key_of (sec_Meta sec') = (om_Namespace (cd_Meta cd), name)"
      using that by (auto simp: mutate_def Let_def split: if_splits)
    then have "credential_secret cd name data ty sec'"
      using credential_mutateFn_secret [of gv kind cd data ty sec name] by simp
    then show "P (EvCreateSecret sec' ok)" "P (EvUpdateSecret sec' ok)"
      by (intro assms, unfold credential_event_def, blast)+
  qed
  show ?thesis
    unfolding createOrUpdateClusterCredentialSecret_def CreateOrUpdate_def key Let_def
    by (intro emits_intro) (auto intro: written)
qed

lemma emits_Ensure [emits_intro]:
  "(\<And>e. credential_event cd e \<Longrightarrow> P e) \<Longrightarrow> emits P (EnsureKubeconfigSecret env cd file)"
  "(\<And>e. credential_event cd e \<Longrightarrow> P e) \<Longrightarrow> emits P (EnsureAdminPasswordSecret env cd file)"
  "(\<And>e. credential_event cd e \<Longrightarrow> P e) \<Longrightarrow> emits P (EnsureSeedReconfigurationSecret env cd file)"
  unfolding Ensure_defs secretExistsAndValid_def call_defs by (intro emits_intro; assumption)+

lemma emits_ClusterIdentitySecrets [emits_intro]: "emits P (ClusterIdentitySecrets env cd)"
  unfolding ClusterIdentitySecrets_def getSecretContent_def Let_def by (intro emits_intro)

lemma emits_SeedReconfigSecretClusterIDs [emits_intro]: "emits P (SeedReconfigSecretClusterIDs env cd)"
  unfolding SeedReconfigSecretClusterIDs_def getSecretContent_def by (intro emits_intro)

section \<open>Properties\<close>

text \<open>C37: Cluster identity. Looking up the identity of a cluster issues no request and touches no
  file, and it reports an identity only without error and when each of the three secrets was found
  with non-empty content under its key, which is the content handed back.\<close>
theorem ClusterIdentitySecrets_complete:
  "wp (ClusterIdentitySecrets env cd)
     (\<lambda>(idData, exist, err) s'. Trace s' = Trace s \<and> Fs s' = Fs s
        \<and> (if exist then
             let ns = om_Namespace (cd_Meta cd); name = om_Name (cd_Meta cd) in
             err = None
             \<and> id_Kubeconfig idData \<noteq> [] \<and> found env (ns, KubeconfigSecretName name) Kubeconfig (id_Kubeconfig idData)
             \<and> id_KubeadminPassword idData \<noteq> []
             \<and> found env (ns, KubeadminPasswordSecretName name) kubeAdminKey (id_KubeadminPassword idData)
             \<and> id_SeedReconfig idData \<noteq> []
             \<and> found env (ns, SeedReconfigurationSecretName name) SeedReconfigurationFileName (id_SeedReconfig idData)
           else True))
     (\<lambda>_ _. False) s"
  by (auto simp: ClusterIdentitySecrets_def getSecretContent_def wp found_def Let_def Kubeconfig_def
      split: prod.split sum.split option.split)

end
