(* ===== verification/HostNetworks.thy ===== *)
theory HostNetworks
  imports World
begin

text \<open>
  The machine networks of an installation and the check that the host is in them:
  \<^verbatim>\<open>ipInCidr\<close>, \<^verbatim>\<open>isIPv4CIDR\<close>, \<^verbatim>\<open>getEffectiveMachineNetworksCIDRs\<close>, \<^verbatim>\<open>validateBMHMachineNetworks\<close>,
  \<^verbatim>\<open>validateDualStackMachineNetworks\<close>, \<^verbatim>\<open>isInspectionEnabled\<close> and \<^verbatim>\<open>validateBMH\<close> of
  \<^verbatim>\<open>controllers/imageclusterinstall_controller.go\<close>, together with the two other readings of the
  same fields, in the webhook and in the installer.
\<close>

section \<open>Effective machine networks\<close>

definition getEffectiveMachineNetworksCIDRs :: "string \<Rightarrow> MachineNetworkEntry list \<Rightarrow> goerr + string list" where
  "getEffectiveMachineNetworksCIDRs legacyMachineNetwork machineNetworks =
     (case machineNetworks of
        first # _ \<Rightarrow>
          if legacyMachineNetwork \<noteq> [] \<and> legacyMachineNetwork \<noteq> mn_CIDR first
          then Inl (errorf (''MachineNetwork ('' @ legacyMachineNetwork
                 @ '') does not match the first MachineNetworks entry ('' @ mn_CIDR first @ '')''))
          else Inr (map mn_CIDR machineNetworks)
      | [] \<Rightarrow> if legacyMachineNetwork \<noteq> [] then Inr [legacyMachineNetwork] else Inr [])"

text \<open>The webhook's function of the same purpose.\<close>

definition webhook_getEffectiveMachineNetworks :: "string \<Rightarrow> MachineNetworkEntry list \<Rightarrow> string list" where
  "webhook_getEffectiveMachineNetworks legacyMachineNetwork machineNetworks =
     (if machineNetworks \<noteq> [] then map mn_CIDR machineNetworks
      else if legacyMachineNetwork \<noteq> [] then [legacyMachineNetwork] else [])"

text \<open>The installer's.\<close>

definition installer_getEffectiveMachineNetworks :: "ImageClusterInstall \<Rightarrow> string list" where
  "installer_getEffectiveMachineNetworks ici =
     (if elems (sp_MachineNetworks (ici_Spec ici)) \<noteq> []
      then map mn_CIDR (elems (sp_MachineNetworks (ici_Spec ici)))
      else if sp_MachineNetwork (ici_Spec ici) \<noteq> [] then [sp_MachineNetwork (ici_Spec ici)] else [])"

section \<open>Addresses in networks\<close>

definition ipInCidr :: "string \<Rightarrow> string \<Rightarrow> goerr + bool" where
  "ipInCidr ipAddr cidr =
     (case ParseCIDR cidr of
        Inl err \<Rightarrow> Inl err
      | Inr (_, ipNet) \<Rightarrow>
          let ip = ParseIP ipAddr in
          if ip = [] then Inl (errorf ''ip is nil'') else Inr (IPNet_Contains ipNet ip))"

definition isIPv4CIDR :: "string \<Rightarrow> bool" where
  "isIPv4CIDR cidr =
     (case ParseCIDR cidr of Inl _ \<Rightarrow> False | Inr (_, ipNet) \<Rightarrow> To4 (IPNet_IP ipNet) \<noteq> None)"

text \<open>The callers drop the error of \<open>ipInCidr\<close>.\<close>

definition inCIDR :: "string \<Rightarrow> string \<Rightarrow> bool" where
  "inCIDR ipAddr cidr = (case ipInCidr ipAddr cidr of Inl _ \<Rightarrow> False | Inr b \<Rightarrow> b)"

section \<open>Validation of the host\<close>

text \<open>\<^verbatim>\<open>%v\<close> of a string slice.\<close>

definition fmt_strings :: "string list \<Rightarrow> string" where
  "fmt_strings xs = ''['' @ strings_Join xs '' '' @ '']''"

fun split_networks :: "string list \<Rightarrow> string list \<times> string list" where
  "split_networks [] = ([], [])"
| "split_networks (n # ns) =
     (case split_networks ns of (v4, v6) \<Rightarrow> if isIPv4CIDR n then (n # v4, v6) else (v4, n # v6))"

text \<open>The map \<^verbatim>\<open>nicsByMAC\<close>, as an association list.\<close>

fun append_at :: "string \<Rightarrow> NIC \<Rightarrow> (string \<times> NIC list) list \<Rightarrow> (string \<times> NIC list) list" where
  "append_at mac nic [] = [(mac, [nic])]"
| "append_at mac nic ((k, ns) # rest) =
     (if k = mac then (k, ns @ [nic]) # rest else (k, ns) # append_at mac nic rest)"

fun nicsByMAC_loop :: "NIC list \<Rightarrow> (string \<times> NIC list) list \<Rightarrow> (string \<times> NIC list) list" where
  "nicsByMAC_loop [] acc = acc"
| "nicsByMAC_loop (nic # nics) acc =
     nicsByMAC_loop nics (if nic_MAC nic \<noteq> [] \<and> nic_IP nic \<noteq> [] then append_at (nic_MAC nic) nic acc else acc)"

text \<open>The inner loop over the NICs of one MAC address: true when it returns from the function.\<close>

fun mac_loop :: "string list \<Rightarrow> string list \<Rightarrow> NIC list \<Rightarrow> bool \<Rightarrow> bool \<Rightarrow> bool" where
  "mac_loop v4 v6 [] has4 has6 = False"
| "mac_loop v4 v6 (nic # nics) has4 has6 =
     (let has4' = (has4 \<or> list_ex (inCIDR (nic_IP nic)) v4);
          has6' = (has6 \<or> list_ex (inCIDR (nic_IP nic)) v6)
      in if has4' \<and> has6' then True else mac_loop v4 v6 nics has4' has6')"

fun groups_loop :: "string list \<Rightarrow> string list \<Rightarrow> (string \<times> NIC list) list \<Rightarrow> bool" where
  "groups_loop v4 v6 [] = False"
| "groups_loop v4 v6 ((mac, macNics) # groups) =
     (if mac_loop v4 v6 macNics False False then True else groups_loop v4 v6 groups)"

definition validateDualStackMachineNetworks :: "string list \<Rightarrow> NIC list \<Rightarrow> goerr option" where
  "validateDualStackMachineNetworks networks nics =
     (case split_networks networks of (ipv4Networks, ipv6Networks) \<Rightarrow>
        if ipv4Networks = [] \<or> ipv6Networks = []
        then Some (errorf (''dual-stack configuration requires both IPv4 and IPv6 machine networks, got IPv4: ''
               @ fmt_strings ipv4Networks @ '', IPv6: '' @ fmt_strings ipv6Networks))
        else if groups_loop ipv4Networks ipv6Networks (nicsByMAC_loop nics []) then None
        else Some (errorf (''bmh host doesn't have a nic with both IPv4 and IPv6 addresses in the provided dual-stack machineNetworks. IPv4 networks: ''
               @ fmt_strings ipv4Networks @ '', IPv6 networks: '' @ fmt_strings ipv6Networks)))"

fun singleStack_loop :: "string \<Rightarrow> NIC list \<Rightarrow> bool" where
  "singleStack_loop network [] = False"
| "singleStack_loop network (nic # nics) =
     (if nic_IP nic = [] then singleStack_loop network nics
      else if inCIDR (nic_IP nic) network then True
      else singleStack_loop network nics)"

definition validateBMHMachineNetworks :: "string \<Rightarrow> MachineNetworkEntry list \<Rightarrow> NIC list \<Rightarrow> goerr option" where
  "validateBMHMachineNetworks legacyMachineNetwork machineNetworks nics =
     (case getEffectiveMachineNetworksCIDRs legacyMachineNetwork machineNetworks of
        Inl err \<Rightarrow> Some err
      | Inr effectiveNetworks \<Rightarrow>
          if effectiveNetworks = [] then None
          else if length effectiveNetworks = 1 then
            (if singleStack_loop (hd effectiveNetworks) nics then None
             else Some (errorf (''bmh host doesn't have any nic with ip in provided machineNetwork ''
                    @ hd effectiveNetworks)))
          else validateDualStackMachineNetworks effectiveNetworks nics)"

definition inspectAnnotation :: string where
  "inspectAnnotation = ''inspect.metal3.io''"

definition isInspectionEnabled :: "BareMetalHost \<Rightarrow> bool" where
  "isInspectionEnabled bmh =
     (case om_Annotations (bmh_Meta bmh) of
        None \<Rightarrow> False
      | Some ann \<Rightarrow> ann inspectAnnotation \<noteq> Some ''disabled'')"

text \<open>The condition is passed by pointer; its new value is returned.\<close>

definition validateBMH :: "ImageClusterInstall \<Rightarrow> BareMetalHost \<Rightarrow> ClusterInstallCondition \<Rightarrow> ClusterInstallCondition \<times> Result \<times> goerr option" where
  "validateBMH ici bmh cond =
     (let host = om_Namespace (bmh_Meta bmh) @ ''/'' @ om_Name (bmh_Meta bmh) in
      if bmh_ExternallyProvisioned bmh then (cond, zeroResult, None)
      else if om_Annotations (bmh_Meta bmh) \<noteq> None \<and> \<not> isInspectionEnabled bmh then (cond, zeroResult, None)
      else if bmh_ProvisioningState bmh \<noteq> StateAvailable then
        (cond\<lparr>cc_Message := ''BareMetalHost ('' @ host @ '') provisioning state is: '' @ bmh_ProvisioningState bmh
                @ '', waiting for '' @ StateAvailable,
              cc_Reason := HostValidationPendingReason\<rparr>, requeueAfter (seconds 30), None)
      else case bmh_HardwareDetails bmh of
        None \<Rightarrow>
          (cond\<lparr>cc_Message := ''hardware details not found for BareMetalHost '' @ host,
                cc_Reason := HostValidationPendingReason\<rparr>, requeueAfter (seconds 30), None)
      | Some nics \<Rightarrow>
          (case validateBMHMachineNetworks (sp_MachineNetwork (ici_Spec ici))
                  (elems (sp_MachineNetworks (ici_Spec ici))) nics of
             Some err \<Rightarrow> (cond\<lparr>cc_Message := err_Error err\<rparr>, zeroResult, Some err)
           | None \<Rightarrow> (cond, zeroResult, None)))"

section \<open>Lemmas\<close>

lemma split_networks_filter:
  "split_networks ns = (filter isIPv4CIDR ns, filter (\<lambda>n. \<not> isIPv4CIDR n) ns)"
  by (induction ns) auto

lemma mac_loop_spec:
  "\<not> (has4 \<and> has6) \<Longrightarrow> mac_loop v4 v6 nics has4 has6 \<longleftrightarrow>
    (has4 \<or> (\<exists>nic \<in> set nics. \<exists>n \<in> set v4. inCIDR (nic_IP nic) n))
    \<and> (has6 \<or> (\<exists>nic \<in> set nics. \<exists>n \<in> set v6. inCIDR (nic_IP nic) n))"
  by (induction nics arbitrary: has4 has6) (auto simp: Let_def list_ex_iff)

lemma groups_loop_iff:
  "groups_loop v4 v6 groups \<longleftrightarrow> (\<exists>(mac, nics) \<in> set groups. mac_loop v4 v6 nics False False)"
  by (induction v4 v6 groups rule: groups_loop.induct) auto

text \<open>The order in which Go ranges over the map does not matter.\<close>

lemma groups_loop_order: "set gs = set gs' \<Longrightarrow> groups_loop v4 v6 gs = groups_loop v4 v6 gs'"
  by (simp add: groups_loop_iff)

definition nics_at :: "(string \<times> NIC list) list \<Rightarrow> string \<Rightarrow> NIC list" where
  "nics_at groups mac = (case map_of groups mac of None \<Rightarrow> [] | Some nics \<Rightarrow> nics)"

definition wf_groups :: "(string \<times> NIC list) list \<Rightarrow> bool" where
  "wf_groups groups \<longleftrightarrow> distinct (map fst groups) \<and> [] \<notin> snd ` set groups"

lemma nics_at_append_at: "nics_at (append_at m nic gs) k = nics_at gs k @ (if k = m then [nic] else [])"
  by (induction m nic gs rule: append_at.induct) (auto simp: nics_at_def)

lemma append_at_keys: "fst ` set (append_at m nic gs) = insert m (fst ` set gs)"
  by (induction m nic gs rule: append_at.induct) auto

lemma wf_append_at: "wf_groups gs \<Longrightarrow> wf_groups (append_at m nic gs)"
proof (induction m nic gs rule: append_at.induct)
  case (2 mac nic k ns rest)
  then show ?case
    using append_at_keys [of mac nic rest] by (auto simp: wf_groups_def)
qed (simp add: wf_groups_def)

lemma nicsByMAC_loop_at:
  "nics_at (nicsByMAC_loop nics gs) k =
    nics_at gs k @ filter (\<lambda>nic. nic_MAC nic = k \<and> nic_MAC nic \<noteq> [] \<and> nic_IP nic \<noteq> []) nics"
  by (induction nics gs rule: nicsByMAC_loop.induct) (auto simp: nics_at_append_at)

lemma nicsByMAC_loop_wf: "wf_groups gs \<Longrightarrow> wf_groups (nicsByMAC_loop nics gs)"
  by (induction nics gs rule: nicsByMAC_loop.induct) (auto simp: wf_append_at)

lemma wf_groups_mem: "wf_groups gs \<Longrightarrow> (k, ns) \<in> set gs \<longleftrightarrow> ns = nics_at gs k \<and> ns \<noteq> []"
  by (auto simp: wf_groups_def nics_at_def image_iff split: option.splits dest: map_of_SomeD
      eq_key_imp_eq_value)

lemma nicsByMAC_mem:
  "(k, ns) \<in> set (nicsByMAC_loop nics []) \<longleftrightarrow>
    ns = filter (\<lambda>nic. nic_MAC nic = k \<and> nic_MAC nic \<noteq> [] \<and> nic_IP nic \<noteq> []) nics \<and> ns \<noteq> []"
proof -
  have "wf_groups (nicsByMAC_loop nics [])"
    by (rule nicsByMAC_loop_wf) (simp add: wf_groups_def)
  then show ?thesis
    by (simp add: wf_groups_mem nicsByMAC_loop_at) (simp add: nics_at_def)
qed

lemma singleStack_loop_iff:
  "singleStack_loop network nics \<longleftrightarrow> (\<exists>nic \<in> set nics. nic_IP nic \<noteq> [] \<and> inCIDR (nic_IP nic) network)"
  by (induction network nics rule: singleStack_loop.induct) auto

text \<open>What the check asks of a host: in a single network, some address of it; in several networks,
  one network card (one MAC address) with an address in an IPv4 network and an address in an IPv6
  network.\<close>

definition host_in_networks :: "string list \<Rightarrow> NIC list \<Rightarrow> bool" where
  "host_in_networks networks nics =
     (case networks of
        [] \<Rightarrow> True
      | [n] \<Rightarrow> \<exists>nic \<in> set nics. nic_IP nic \<noteq> [] \<and> inCIDR (nic_IP nic) n
      | _ \<Rightarrow> \<exists>a \<in> set nics. \<exists>b \<in> set nics.
          nic_MAC a = nic_MAC b \<and> nic_MAC a \<noteq> [] \<and> nic_IP a \<noteq> [] \<and> nic_IP b \<noteq> []
          \<and> (\<exists>n \<in> set networks. isIPv4CIDR n \<and> inCIDR (nic_IP a) n)
          \<and> (\<exists>n \<in> set networks. \<not> isIPv4CIDR n \<and> inCIDR (nic_IP b) n))"

lemma groups_loop_spec:
  "groups_loop v4 v6 (nicsByMAC_loop nics []) \<longleftrightarrow>
    (\<exists>a \<in> set nics. \<exists>b \<in> set nics.
       nic_MAC a = nic_MAC b \<and> nic_MAC a \<noteq> [] \<and> nic_IP a \<noteq> [] \<and> nic_IP b \<noteq> []
       \<and> (\<exists>n \<in> set v4. inCIDR (nic_IP a) n) \<and> (\<exists>n \<in> set v6. inCIDR (nic_IP b) n))"
  (is "?L \<longleftrightarrow> ?R")
proof
  assume ?L
  then obtain k ns where ns: "(k, ns) \<in> set (nicsByMAC_loop nics [])" "mac_loop v4 v6 ns False False"
    by (auto simp: groups_loop_iff)
  have mem: "x \<in> set ns \<longleftrightarrow> x \<in> set nics \<and> nic_MAC x = k \<and> k \<noteq> [] \<and> nic_IP x \<noteq> []" for x
    using ns(1) unfolding nicsByMAC_mem by auto
  have "(\<exists>a \<in> set ns. \<exists>n \<in> set v4. inCIDR (nic_IP a) n) \<and> (\<exists>b \<in> set ns. \<exists>n \<in> set v6. inCIDR (nic_IP b) n)"
    using ns(2) by (simp add: mac_loop_spec)
  then obtain a b where ab: "a \<in> set ns" "b \<in> set ns" "\<exists>n \<in> set v4. inCIDR (nic_IP a) n"
      "\<exists>n \<in> set v6. inCIDR (nic_IP b) n"
    by (elim conjE bexE) blast
  then show ?R
    using mem [of a] mem [of b] by (intro bexI [of _ a] bexI [of _ b] conjI) simp_all
next
  assume ?R
  then obtain a b where ab: "a \<in> set nics" "b \<in> set nics" "nic_MAC a = nic_MAC b" "nic_MAC a \<noteq> []"
    "nic_IP a \<noteq> []" "nic_IP b \<noteq> []" "\<exists>n \<in> set v4. inCIDR (nic_IP a) n" "\<exists>n \<in> set v6. inCIDR (nic_IP b) n"
    by blast
  let ?ns = "filter (\<lambda>nic. nic_MAC nic = nic_MAC a \<and> nic_MAC nic \<noteq> [] \<and> nic_IP nic \<noteq> []) nics"
  have mem: "a \<in> set ?ns" "b \<in> set ?ns" using ab by auto
  then have "(nic_MAC a, ?ns) \<in> set (nicsByMAC_loop nics [])"
    unfolding nicsByMAC_mem by (metis empty_iff empty_set)
  moreover have "mac_loop v4 v6 ?ns False False"
  proof -
    have "\<exists>a \<in> set ?ns. \<exists>n \<in> set v4. inCIDR (nic_IP a) n" using ab(7) mem(1) by (rule bexI)
    moreover have "\<exists>b \<in> set ?ns. \<exists>n \<in> set v6. inCIDR (nic_IP b) n" using ab(8) mem(2) by (rule bexI)
    ultimately show ?thesis using mac_loop_spec [of False False v4 v6 ?ns] by meson
  qed
  ultimately show ?L unfolding groups_loop_iff by blast
qed

lemma validateDualStack_iff:
  "validateDualStackMachineNetworks networks nics = None \<longleftrightarrow>
    groups_loop (filter isIPv4CIDR networks) (filter (\<lambda>n. \<not> isIPv4CIDR n) networks) (nicsByMAC_loop nics [])"
proof -
  have "\<not> groups_loop [] v6 (nicsByMAC_loop nics [])" "\<not> groups_loop v4 [] (nicsByMAC_loop nics [])" for v4 v6
    by (simp_all add: groups_loop_spec)
  then show ?thesis
    by (auto simp: validateDualStackMachineNetworks_def split_networks_filter)
qed

section \<open>Properties\<close>

text \<open>C17: Address containment. \<^verbatim>\<open>ipInCidr\<close> fails exactly when the network or the address does not
  parse, and otherwise decides whether the address agrees with the network on the bits of the
  prefix, with IPv4 addresses and IPv4-mapped IPv6 addresses identified.\<close>
theorem ipInCidr_prefix:
  "ipInCidr ipAddr cidr =
    (case cidr_parts cidr of
       None \<Rightarrow> Inl (errorf (''invalid CIDR address: '' @ cidr))
     | Some (a, n) \<Rightarrow>
         if ParseIP ipAddr = [] then Inl (errorf ''ip is nil'') else Inr (in_prefix a n (ParseIP ipAddr)))"
  by (auto simp: ipInCidr_def ParseCIDR_parts Let_def Contains_in_prefix dest: cidr_parts_wf
      split: option.splits)

text \<open>C6: Host network validation. The reconciler accepts the network cards of a host exactly when
  the two network fields do not contradict each other and either no network is given, or a single
  network contains some address of the host, or (several networks) one network card has both an
  address in an IPv4 network and an address in an IPv6 network.\<close>
theorem validateBMHMachineNetworks_iff:
  "validateBMHMachineNetworks legacy networks nics = None \<longleftrightarrow>
    (case getEffectiveMachineNetworksCIDRs legacy networks of
       Inl _ \<Rightarrow> False | Inr effective \<Rightarrow> host_in_networks effective nics)"
proof (cases "getEffectiveMachineNetworksCIDRs legacy networks")
  case (Inl e)
  then show ?thesis by (simp add: validateBMHMachineNetworks_def)
next
  case (Inr effective)
  consider "effective = []" | n where "effective = [n]" | a b ns where "effective = a # b # ns"
    by (cases effective; cases "tl effective") auto
  then show ?thesis
  proof cases
    case 3
    have "validateBMHMachineNetworks legacy networks nics = validateDualStackMachineNetworks effective nics"
      using Inr 3 by (simp add: validateBMHMachineNetworks_def)
    moreover have "validateDualStackMachineNetworks effective nics = None \<longleftrightarrow> host_in_networks effective nics"
      unfolding validateDualStack_iff groups_loop_spec host_in_networks_def 3
      by (simp only: set_filter list.case mem_Collect_eq bex_simps Bex_def conj_assoc)
    ultimately show ?thesis using Inr by simp
  qed (auto simp: validateBMHMachineNetworks_def Inr host_in_networks_def singleStack_loop_iff)
qed

text \<open>C18: One reading of the network fields. The webhook and the installer always compute the same
  effective networks from an ImageClusterInstall; the reconciler computes those too, except that it
  rejects exactly the objects whose legacy field is set and differs from the first entry of a
  nonempty list.\<close>
theorem effective_networks_agree:
  "installer_getEffectiveMachineNetworks ici =
     webhook_getEffectiveMachineNetworks (sp_MachineNetwork (ici_Spec ici)) (elems (sp_MachineNetworks (ici_Spec ici)))
   \<and> getEffectiveMachineNetworksCIDRs legacy networks =
      (if legacy \<noteq> [] \<and> networks \<noteq> [] \<and> legacy \<noteq> mn_CIDR (hd networks)
       then Inl (errorf (''MachineNetwork ('' @ legacy @ '') does not match the first MachineNetworks entry (''
              @ mn_CIDR (hd networks) @ '')''))
       else Inr (webhook_getEffectiveMachineNetworks legacy networks))"
  by (cases networks) (auto simp: installer_getEffectiveMachineNetworks_def
      webhook_getEffectiveMachineNetworks_def getEffectiveMachineNetworksCIDRs_def)

end
