(* ===== verification/Installer.thy ===== *)
theory Installer
  imports Credentials HostNetworks
begin

text \<open>
  \<^verbatim>\<open>internal/installer/installer.go\<close> and \<^verbatim>\<open>reinstall.go\<close>: the input files of the OpenShift installer,
  the run of the installer and the data of a reinstallation. The installer itself and the JSON
  encoders are parameters of the environment.
\<close>

section \<open>Input files\<close>

definition proxy :: "Proxy option \<Rightarrow> Proxy option" where
  "proxy iciProxy =
     (case iciProxy of
        None \<Rightarrow> None
      | Some p \<Rightarrow> if px_HTTPSProxy p = [] \<and> px_HTTPProxy p = [] then None else Some p)"

definition ConvertIDMToIDS :: "ImageDigestMirrors list \<Rightarrow> (string \<times> string list) list" where
  "ConvertIDMToIDS imageDigestMirrors = map (\<lambda>idm. (idm_Source idm, elems (idm_Mirrors idm))) imageDigestMirrors"

text \<open>\<^verbatim>\<open>ipnet.ParseCIDR\<close>: the address is kept unmasked and IPv4 addresses have four bytes.\<close>

definition ipnet_ParseCIDR :: "string \<Rightarrow> goerr + IPNet" where
  "ipnet_ParseCIDR s =
     (case ParseCIDR s of
        Inl err \<Rightarrow> Inl err
      | Inr (ip, cidr) \<Rightarrow>
          Inr \<lparr>IPNet_IP = (case To4 ip of Some ip4 \<Rightarrow> ip4 | None \<Rightarrow> ip), IPNet_Mask = IPNet_Mask cidr\<rparr>)"

fun parse_networks :: "string list \<Rightarrow> goerr + IPNet list" where
  "parse_networks [] = Inr []"
| "parse_networks (network # networks) =
     (case ipnet_ParseCIDR network of
        Inl err \<Rightarrow> Inl (wrapf (''failed to parse machine network CIDR '' @ network @ '': '') err)
      | Inr cidr \<Rightarrow> (case parse_networks networks of Inl err \<Rightarrow> Inl err | Inr cidrs \<Rightarrow> Inr (cidr # cidrs)))"

definition install_config :: "ImageClusterInstall \<Rightarrow> ClusterDeployment \<Rightarrow> string \<Rightarrow> string \<Rightarrow> IPNet list \<Rightarrow> InstallConfig" where
  "install_config ici cd psData caBundle networks =
     \<lparr>ic_BaseDomain = cd_BaseDomain cd, ic_Name = cd_ClusterName cd, ic_NetworkType = ''OVNKubernetes'',
      ic_MachineNetwork = networks, ic_SSHKey = sp_SSHKey (ici_Spec ici),
      ic_ControlPlaneReplicas = 1, ic_ControlPlaneName = ''master'',
      ic_ComputeReplicas = 0, ic_ComputeName = ''worker'',
      ic_PullSecret = psData, ic_Proxy = proxy (sp_Proxy (ici_Spec ici)), ic_AdditionalTrustBundle = caBundle,
      ic_ImageDigestSources = map_option ConvertIDMToIDS (sp_ImageDigestSources (ici_Spec ici))\<rparr>"

definition WriteInstallConfig :: "'w env \<Rightarrow> ImageClusterInstall \<Rightarrow> ClusterDeployment \<Rightarrow> string \<Rightarrow> string \<Rightarrow> string \<Rightarrow> ('w world, goerr option) go" where
  "WriteInstallConfig env ici cd psData caBundle file =
     (case parse_networks (installer_getEffectiveMachineNetworks ici) of
        Inl err \<Rightarrow> returnM (Some err)
      | Inr networks \<Rightarrow>
          (case json_InstallConfig env (install_config ici cd psData caBundle networks) of
             Inl err \<Rightarrow> returnM (Some (wrapf ''failed to marshal cluster info: '' err))
           | Inr data \<Rightarrow>
               bindM (os_WriteFile env file data) (\<lambda>r. case r of
                 Inl err \<Rightarrow> returnM (Some (wrapf ''failed to write cluster info: '' err))
               | Inr _ \<Rightarrow> returnM None)))"

definition WriteImageBaseConfig :: "'w env \<Rightarrow> ImageClusterInstall \<Rightarrow> string \<Rightarrow> string \<Rightarrow> string \<Rightarrow> ('w world, goerr option) go" where
  "WriteImageBaseConfig env ici releaseRegistry nmstateConfig file =
     (case sp_ClusterMetadata (ici_Spec ici) of
        None \<Rightarrow> returnM (Some (errorf ''clusterID and infraID are missing from cluster metadata''))
      | Some md \<Rightarrow>
          if md_ClusterID md = [] \<or> md_InfraID md = []
          then returnM (Some (errorf ''clusterID and infraID are missing from cluster metadata''))
          else
            (case json_ImageBasedConfig env
                \<lparr>ibc_Hostname = sp_Hostname (ici_Spec ici), ibc_ReleaseRegistry = releaseRegistry,
                 ibc_AdditionalNTPSources = sp_AdditionalNTPSources (ici_Spec ici),
                 ibc_NetworkConfig = nmstateConfig, ibc_ClusterID = md_ClusterID md, ibc_InfraID = md_InfraID md\<rparr> of
               Inl err \<Rightarrow> returnM (Some (wrapf ''failed to marshal cluster info: '' err))
             | Inr data \<Rightarrow>
                 bindM (os_WriteFile env file data) (\<lambda>r. case r of
                   Inl err \<Rightarrow> returnM (Some (wrapf ''failed to write cluster info: '' err))
                 | Inr _ \<Rightarrow> returnM None)))"

definition CreateInstallationIso :: "'w env \<Rightarrow> string \<Rightarrow> ('w world, goerr option) go" where
  "CreateInstallationIso env workDir =
     bindM (noteM (EvCreateISO workDir)
       (bindM (toolM (installer_FetchAndPersist env workDir))
          (\<lambda>err. returnM (case err of None \<Rightarrow> Inr () | Some e \<Rightarrow> Inl e))))
       (\<lambda>r. returnM (case r of Inl e \<Rightarrow> Some e | Inr _ \<Rightarrow> None))"

section \<open>Reinstallation\<close>

definition validateReinstallConfig :: "SeedReconfiguration \<Rightarrow> SeedReconfiguration \<Rightarrow> goerr option" where
  "validateReinstallConfig newConfig secretConfig =
     (if sr_BaseDomain newConfig \<noteq> sr_BaseDomain secretConfig
      then Some (errorf (''provided base domain ('' @ sr_BaseDomain newConfig
             @ '') must match previous base domain ('' @ sr_BaseDomain secretConfig @ '')''))
      else if sr_ClusterName newConfig \<noteq> sr_ClusterName secretConfig
      then Some (errorf (''provided cluster name ('' @ sr_ClusterName newConfig
             @ '') must match previous cluster name ('' @ sr_ClusterName secretConfig @ '')''))
      else None)"

definition writeAuth :: "'w env \<Rightarrow> string \<Rightarrow> string \<Rightarrow> ('w world, goerr option) go" where
  "writeAuth env path data =
     bindM (os_MkdirAll env (filepath_Dir path)) (\<lambda>r. case r of
       Inl err \<Rightarrow> returnM (Some (wrapf (''failed to create directory '' @ filepath_Dir path @ '': '') err))
     | Inr _ \<Rightarrow>
         bindM (os_WriteFile env path data) (\<lambda>w. case w of
           Inl err \<Rightarrow> returnM (Some (wrapf (''failed to write auth data to '' @ path @ '': '') err))
         | Inr _ \<Rightarrow> returnM None))"

definition writeSeedReconfig :: "'w env \<Rightarrow> string \<Rightarrow> ClusterConfiguration \<Rightarrow> ('w world, goerr option) go" where
  "writeSeedReconfig env isoWorkDir clusterConfig =
     (case json_SeedReconfiguration env (ccfg_Config clusterConfig) of
        Inl err \<Rightarrow> returnM (Some (wrapf ''failed to marshal updated seed reconfiguration data: '' err))
      | Inr data \<Rightarrow>
          let reconfigFile = filepath_Join [isoWorkDir, ccfg_Filename clusterConfig] in
          bindM (os_MkdirAll env (filepath_Dir reconfigFile)) (\<lambda>r. case r of
            Inl err \<Rightarrow> returnM (Some (wrapf ''failed to create reconfig dir: '' err))
          | Inr _ \<Rightarrow>
              bindM (os_WriteFile env reconfigFile data) (\<lambda>w. case w of
                Inl err \<Rightarrow> returnM (Some (wrapf ''failed to write updated seed reconfig: '' err))
              | Inr _ \<Rightarrow> returnM None)))"

definition getBaseAssets :: "'w env \<Rightarrow> string \<Rightarrow> ('w world, goerr + ClusterConfiguration \<times> string \<times> string) go" where
  "getBaseAssets env workdir =
     bindM (toolM (store_New env workdir)) (\<lambda>e. case e of
       Some err \<Rightarrow> returnM (Inl (wrapf ''failed to create asset store: '' err))
     | None \<Rightarrow>
     bindM (toolM (store_Fetch_ClusterConfiguration env workdir)) (\<lambda>r. case r of
       Inl err \<Rightarrow> returnM (Inl (wrapf ''failed to fetch cluster config asset from store: '' err))
     | Inr config \<Rightarrow>
     bindM (toolM (store_Fetch_kubeconfig env workdir)) (\<lambda>r. case r of
       Inl err \<Rightarrow> returnM (Inl (wrapf ''failed to fetch kubeconfig asset from store: '' err))
     | Inr kubeconfig \<Rightarrow>
     bindM (toolM (store_Fetch_password env workdir)) (\<lambda>r. case r of
       Inl err \<Rightarrow> returnM (Inl (wrapf ''failed to fetch kubeadmin password asset from store: '' err))
     | Inr kubeadminpassword \<Rightarrow> returnM (Inr (config, kubeconfig, kubeadminpassword))))))"

text \<open>The identity data of \<open>secret\<close> is merged into the new configuration.\<close>

definition merge_identity :: "SeedReconfiguration \<Rightarrow> SeedReconfiguration \<Rightarrow> SeedReconfiguration" where
  "merge_identity config secret =
     config\<lparr>sr_KubeadminPasswordHash := sr_KubeadminPasswordHash secret,
            sr_KubeconfigCryptoRetention := sr_KubeconfigCryptoRetention secret\<rparr>"

definition WriteReinstallData :: "'w env \<Rightarrow> string \<Rightarrow> string \<Rightarrow> IdentityData \<Rightarrow> ('w world, goerr option) go" where
  "WriteReinstallData env tmpWorkDir isoWorkDir idData =
     bindM (getBaseAssets env tmpWorkDir) (\<lambda>r. case r of
       Inl err \<Rightarrow> returnM (Some err)
     | Inr (clusterConfig, kubeconfigAssetPath, kubeadmPasswordAssetPath) \<Rightarrow>
         (case unjson_SeedReconfiguration env (id_SeedReconfig idData) of
            Inl err \<Rightarrow> returnM (Some (wrapf ''failed to decode local seed reconfiguration: '' err))
          | Inr secretSeedReconfig \<Rightarrow>
              (case validateReinstallConfig (ccfg_Config clusterConfig) secretSeedReconfig of
                 Some err \<Rightarrow> returnM (Some (wrapf ''cluster configuration is not valid for reinstall: '' err))
               | None \<Rightarrow>
                   bindM (writeSeedReconfig env isoWorkDir
                       (clusterConfig\<lparr>ccfg_Config := merge_identity (ccfg_Config clusterConfig) secretSeedReconfig\<rparr>))
                     (\<lambda>e. case e of
                       Some err \<Rightarrow> returnM (Some err)
                     | None \<Rightarrow>
                   bindM (writeAuth env (filepath_Join [isoWorkDir, kubeconfigAssetPath]) (id_Kubeconfig idData)) (\<lambda>e. case e of
                       Some err \<Rightarrow> returnM (Some err)
                     | None \<Rightarrow>
                   writeAuth env (filepath_Join [isoWorkDir, kubeadmPasswordAssetPath]) (id_KubeadminPassword idData))))))"

section \<open>Lemmas\<close>

text \<open>A file written after its directory was made.\<close>

definition written :: "string \<Rightarrow> string \<Rightarrow> event list" where
  "written path data = [EvMkdirAll (filepath_Dir path) True, EvWriteFile path data True]"

lemma traced_mkdir_write:
  "traced (bindM (os_MkdirAll env (filepath_Dir path)) (\<lambda>r. case r of
         Inl err \<Rightarrow> returnM (Some (f err))
       | Inr _ \<Rightarrow>
           bindM (os_WriteFile env path data) (\<lambda>w. case w of Inl err \<Rightarrow> returnM (Some (g err)) | Inr _ \<Rightarrow> returnM None)))
     (\<lambda>es. es = written path data)"
  unfolding call_defs
  by (rule tracedI, unfold wp_bindM, rule wp_noteM_any)
    (auto simp: wp_bindM wp_returnM_fun wp_returnM wp_case_sum written_def split: sum.split intro!: wp_noteM_any)

lemma traced_writeAuth: "traced (writeAuth env path data) (\<lambda>es. es = written path data)"
  unfolding writeAuth_def by (rule traced_mkdir_write)

lemma traced_writeSeedReconfig:
  "traced (writeSeedReconfig env isoWorkDir cfg)
     (\<lambda>es. \<exists>data. json_SeedReconfiguration env (ccfg_Config cfg) = Inr data
        \<and> es = written (filepath_Join [isoWorkDir, ccfg_Filename cfg]) data)"
proof (cases "json_SeedReconfiguration env (ccfg_Config cfg)")
  case (Inl err)
  then show ?thesis by (simp add: writeSeedReconfig_def traced_fail)
next
  case (Inr data)
  show ?thesis
    unfolding writeSeedReconfig_def Inr Let_def sum.case by (rule traced_mono [OF traced_mkdir_write]) auto
qed

lemma wp_getBaseAssets: "wp (getBaseAssets env dir) (\<lambda>_ s'. Trace s' = Trace s) (\<lambda>_ _. False) s"
  unfolding getBaseAssets_def by (auto simp: wp split: prod.split sum.split option.split)

lemma validateReinstallConfig_None:
  "validateReinstallConfig a b = None \<longleftrightarrow> sr_BaseDomain a = sr_BaseDomain b \<and> sr_ClusterName a = sr_ClusterName b"
  by (simp add: validateReinstallConfig_def)

text \<open>The files of a reinstallation.\<close>

definition reinstall_files :: "'w env \<Rightarrow> string \<Rightarrow> IdentityData \<Rightarrow> event list \<Rightarrow> bool" where
  "reinstall_files env isoWorkDir idData es \<longleftrightarrow>
     (\<exists>(cfg :: ClusterConfiguration) kubeconfig password old data.
        unjson_SeedReconfiguration env (id_SeedReconfig idData) = Inr old
        \<and> sr_BaseDomain (ccfg_Config cfg) = sr_BaseDomain old
        \<and> sr_ClusterName (ccfg_Config cfg) = sr_ClusterName old
        \<and> json_SeedReconfiguration env
            ((ccfg_Config cfg)\<lparr>sr_KubeadminPasswordHash := sr_KubeadminPasswordHash old,
               sr_KubeconfigCryptoRetention := sr_KubeconfigCryptoRetention old\<rparr>) = Inr data
        \<and> es = written (filepath_Join [isoWorkDir, ccfg_Filename cfg]) data
             @ written (filepath_Join [isoWorkDir, kubeconfig]) (id_Kubeconfig idData)
             @ written (filepath_Join [isoWorkDir, password]) (id_KubeadminPassword idData))"

lemma traced_write_reinstall:
  assumes "unjson_SeedReconfiguration env (id_SeedReconfig idData) = Inr old"
    and "validateReinstallConfig (ccfg_Config cfg) old = None"
  shows "traced
    (bindM (writeSeedReconfig env isoWorkDir (cfg\<lparr>ccfg_Config := merge_identity (ccfg_Config cfg) old\<rparr>)) (\<lambda>e. case e of
       Some err \<Rightarrow> returnM (Some err)
     | None \<Rightarrow>
         bindM (writeAuth env (filepath_Join [isoWorkDir, kubeconfig]) (id_Kubeconfig idData)) (\<lambda>e. case e of
           Some err \<Rightarrow> returnM (Some err)
         | None \<Rightarrow> writeAuth env (filepath_Join [isoWorkDir, password]) (id_KubeadminPassword idData))))
    (reinstall_files env isoWorkDir idData)"
  using assms
  by (intro traced_mono [OF traced_then [OF traced_writeSeedReconfig traced_then [OF traced_writeAuth traced_writeAuth]]])
    (auto simp: reinstall_files_def merge_identity_def validateReinstallConfig_None)

lemma traced_WriteReinstallData:
  "traced (WriteReinstallData env tmpWorkDir isoWorkDir idData) (reinstall_files env isoWorkDir idData)"
proof (rule tracedI, unfold WriteReinstallData_def wp_bindM, rule wp_mono [OF wp_getBaseAssets], goal_cases)
  case (1 s r s1)
  have none: "wp (returnM (Some e)) (\<lambda>e s'. \<exists>es. Trace s' = Trace s @ es \<and> (e = None \<longrightarrow> R es)) E s1" for e E and R :: "event list \<Rightarrow> bool"
    using 1 by (simp add: wp)
  have lift: "wp m (\<lambda>e s'. \<exists>es. Trace s' = Trace s @ es \<and> (e = None \<longrightarrow> R es)) (\<lambda>_ _. False) s1"
    if "traced m R" for m R
    using tracedD [OF that, of s1] 1 by simp
  show ?case
    by (auto simp: none intro!: lift traced_write_reinstall split: sum.split prod.split option.split)
qed simp

section \<open>Properties\<close>

text \<open>C33: Reinstallation keeps the identity. Writing the data of a reinstallation never panics. When
  it succeeds, the base domain and the cluster name of the new configuration are those of the
  stored one, and exactly three files were written, in this order and each after its directory was
  made: the new configuration with the stored password hash and crypto material, the stored
  kubeconfig and the stored password.\<close>
theorem WriteReinstallData_keeps_identity:
  "wp (WriteReinstallData env tmpWorkDir isoWorkDir idData)
     (\<lambda>err s'. case err of
        Some _ \<Rightarrow> \<exists>es. Trace s' = Trace s @ es
      | None \<Rightarrow> \<exists>es. reinstall_files env isoWorkDir idData es \<and> Trace s' = Trace s @ es)
     (\<lambda>_ _. False) s"
  by (rule wp_mono [OF tracedD [OF traced_WriteReinstallData]]) (auto split: option.split)

end
