(* ===== verification/PullSecret.thy ===== *)
theory PullSecret
  imports World
begin

text \<open>
  Pull secrets (\<^verbatim>\<open>getValidPullSecret\<close>, \<^verbatim>\<open>validatePullSecret\<close> of the reconciler), with the decoder of
  Go's \<^verbatim>\<open>encoding/base64\<close>; JSON decoding is a parameter. Type assertions that fail panic.
\<close>

section \<open>base64\<close>

definition sextet :: "char \<Rightarrow> nat option" where
  "sextet c = (let n = of_char c :: nat in
     if 65 \<le> n \<and> n \<le> 90 then Some (n - 65)
     else if 97 \<le> n \<and> n \<le> 122 then Some (n - 71)
     else if 48 \<le> n \<and> n \<le> 57 then Some (n + 4)
     else if n = 43 then Some 62
     else if n = 47 then Some 63
     else None)"

text \<open>\<^verbatim>\<open>StdEncoding\<close>: quanta of four characters, the last one possibly padded.\<close>

fun decode_quanta :: "string \<Rightarrow> string option" where
  "decode_quanta [] = Some []"
| "decode_quanta (a # b # c # d # rest) =
     (case (sextet a, sextet b) of
        (Some x, Some y) \<Rightarrow>
          if c = CHR ''='' then
            (if d = CHR ''='' \<and> rest = [] then Some [char_of (x * 4 + y div 16)] else None)
          else
            (case sextet c of
               None \<Rightarrow> None
             | Some z \<Rightarrow>
                 if d = CHR ''='' then
                   (if rest = [] then Some [char_of (x * 4 + y div 16), char_of (y mod 16 * 16 + z div 4)] else None)
                 else
                   (case sextet d of
                      None \<Rightarrow> None
                    | Some w \<Rightarrow>
                        map_option (\<lambda>r. char_of (x * 4 + y div 16) # char_of (y mod 16 * 16 + z div 4)
                            # char_of (z mod 4 * 64 + w) # r) (decode_quanta rest)))
      | _ \<Rightarrow> None)"
| "decode_quanta _ = None"

text \<open>Line breaks are skipped wherever they are.\<close>

definition base64_DecodeString :: "string \<Rightarrow> string option" where
  "base64_DecodeString s = decode_quanta (filter (\<lambda>c. c \<noteq> CHR 0x0A \<and> c \<noteq> CHR 0x0D) s)"

section \<open>Validation\<close>

text \<open>\<^verbatim>\<open>NewAggregate(errs).Error()\<close>: the distinct messages in order.\<close>

definition NewAggregate :: "goerr list \<Rightarrow> goerr option" where
  "NewAggregate errs =
     (if errs = [] then None
      else let msgs = rev (remdups (rev (map err_Error errs))) in
        Some (errorf (if length msgs = 1 then hd msgs else ''['' @ strings_Join msgs '', '' @ '']'')))"

definition tick :: string where
  "tick = [CHR 0x27]"

text \<open>The body of the loop over \<^verbatim>\<open>s.Auths\<close>: the error it appends, if any, or a panic of the type
  assertion.\<close>

definition auth_error :: "'w env \<Rightarrow> string \<Rightarrow> (string \<rightharpoonup> json_value) \<Rightarrow> goerr option outcome" where
  "auth_error env d a =
     (case a ''auth'' of
        None \<Rightarrow> Ret (Some (errorf (''invalid pull secret: '' @ strconv_Quote env d @ '' JSON-object requires '' @ tick @ ''auth'' @ tick @ '' field'')))
      | Some JOther \<Rightarrow> Panic ''interface conversion: interface {} is not string''
      | Some (JString auth) \<Rightarrow>
          (case base64_DecodeString auth of
             None \<Rightarrow> Ret (Some (errorf (''invalid pull secret: '' @ tick @ ''auth'' @ tick @ '' fields of '' @ strconv_Quote env d @ '' are not base64-encoded'')))
           | Some data \<Rightarrow>
               if length (split_on (CHR '':'') data) \<noteq> 2
               then Ret (Some (errorf (''invalid pull secret: '' @ tick @ ''auth'' @ tick @ '' for '' @ d @ '' is not in '' @ tick @ ''user:password'' @ tick @ '' format'')))
               else Ret None))"

fun auths_loop :: "'w env \<Rightarrow> (string \<times> (string \<rightharpoonup> json_value)) list \<Rightarrow> goerr list \<Rightarrow> goerr list outcome" where
  "auths_loop env [] errs = Ret errs"
| "auths_loop env ((d, a) # rest) errs =
     (case auth_error env d a of
        Panic p \<Rightarrow> Panic p
      | Ret None \<Rightarrow> auths_loop env rest errs
      | Ret (Some e) \<Rightarrow> auths_loop env rest (errs @ [e]))"

definition validatePullSecret :: "'w env \<Rightarrow> string \<Rightarrow> goerr option outcome" where
  "validatePullSecret env pullSecret =
     (case unjson_imagePullSecret env (TrimSpace pullSecret) of
        Inl err \<Rightarrow> Ret (Some (wrapf ''pull secret must be a well-formed JSON: '' err))
      | Inr s \<Rightarrow>
          if Auths s = [] then Ret (Some (errorf (''pull secret must contain '' @ tick @ ''auths'' @ tick @ '' JSON-object field'')))
          else (case auths_loop env (Auths s) [] of
                  Panic p \<Rightarrow> Panic p
                | Ret errs \<Rightarrow> Ret (NewAggregate errs)))"

definition DockerConfigJsonKey :: string where
  "DockerConfigJsonKey = ''.dockerconfigjson''"

definition getValidPullSecret :: "'w env \<Rightarrow> string option \<Rightarrow> string \<Rightarrow> ('w world, goerr + string) go" where
  "getValidPullSecret env psRef namespace =
     (case psRef of
        None \<Rightarrow> returnM (Inl (errorf ''missing reference to pull secret''))
      | Some name \<Rightarrow>
          if name = [] \<or> namespace = [] then returnM (Inl (errorf ''missing reference to pull secret''))
          else bindM (hubM (get_Secret_noncached env (namespace, name))) (\<lambda>r. case r of
            Inl err \<Rightarrow> returnM (Inl (wrapv (''failed to find secret '' @ name @ '': '') err))
          | Inr s \<Rightarrow>
              (case map_get (sec_Data s) DockerConfigJsonKey of
                 None \<Rightarrow> returnM (Inl (errorf (''secret '' @ name @ '' did not contain key '' @ DockerConfigJsonKey)))
               | Some psData \<Rightarrow>
                   (case validatePullSecret env psData of
                      Panic p \<Rightarrow> panicM p
                    | Ret (Some err) \<Rightarrow> returnM (Inl (wrapf ''invalid pull secret data in secret '' err))
                    | Ret None \<Rightarrow> returnM (Inr psData)))))"

lemma emits_getValidPullSecret [emits_intro]: "emits P (getValidPullSecret env psRef ns)"
proof -
  have o: "emits P (case x of Panic p \<Rightarrow> m p | Ret v \<Rightarrow> n v)"
    if "\<And>p. emits P (m p)" "\<And>v. emits P (n v)" for x m n
    using that by (cases x) simp_all
  show ?thesis
    unfolding getValidPullSecret_def by (intro emits_intro o)
qed

section \<open>Properties\<close>

text \<open>What a registry entry must look like: its \<^verbatim>\<open>auth\<close> is base64 of a text with exactly one colon.\<close>

definition auth_ok :: "(string \<rightharpoonup> json_value) \<Rightarrow> bool" where
  "auth_ok a \<longleftrightarrow> (\<exists>auth data. a ''auth'' = Some (JString auth) \<and> base64_DecodeString auth = Some data
     \<and> count_list data (CHR '':'') = 1)"

lemma auth_error_None: "auth_error env d a = Ret None \<longleftrightarrow> auth_ok a"
  by (auto simp: auth_error_def auth_ok_def length_split_on split: option.split json_value.split)

lemma auth_error_Panic: "(\<exists>p. auth_error env d a = Panic p) \<longleftrightarrow> a ''auth'' = Some JOther"
  by (auto simp: auth_error_def split: option.split json_value.split)

lemma auths_loop_Panic:
  "(\<exists>p. auths_loop env as errs = Panic p) \<longleftrightarrow> (\<exists>(d, a) \<in> set as. a ''auth'' = Some JOther)"
proof (induction env as errs rule: auths_loop.induct)
  case (2 env d a rest errs)
  then show ?case
    using auth_error_Panic [of env d a] by (cases "auth_error env d a") (auto split: option.split)
qed simp

lemma auths_loop_errs:
  "auths_loop env as errs = Ret errs' \<Longrightarrow> \<exists>more. errs' = errs @ more \<and> (more = [] \<longleftrightarrow> list_all (\<lambda>(d, a). auth_ok a) as)"
proof (induction env as errs arbitrary: errs' rule: auths_loop.induct)
  case (2 env d a rest errs)
  show ?case
  proof (cases "auth_error env d a")
    case (Ret x)
    then show ?thesis
      using 2 auth_error_None [of env d a] by (cases x) fastforce+
  qed (use 2(3) in simp)
qed simp

lemma NewAggregate_None: "NewAggregate errs = None \<longleftrightarrow> errs = []"
  by (simp add: NewAggregate_def Let_def)

text \<open>C34: Pull secrets. Validation accepts a text exactly when the trimmed text decodes to a nonempty
  collection of registries, each with a string \<^verbatim>\<open>auth\<close> that is base64 of a user and a password
  separated by the only colon. It panics exactly when the text decodes and some registry has an
  \<^verbatim>\<open>auth\<close> that is not a string.\<close>
theorem validatePullSecret_outcome:
  "(validatePullSecret env ps = Ret None \<longleftrightarrow>
      (case unjson_imagePullSecret env (TrimSpace ps) of
         Inl _ \<Rightarrow> False
       | Inr s \<Rightarrow> 0 < length (Auths s) \<and> list_all (\<lambda>(d, a). auth_ok a) (Auths s)))
   \<and> ((\<exists>p. validatePullSecret env ps = Panic p) \<longleftrightarrow>
      (case unjson_imagePullSecret env (TrimSpace ps) of
         Inl _ \<Rightarrow> False
       | Inr s \<Rightarrow> list_ex (\<lambda>(d, a). a ''auth'' = Some JOther) (Auths s)))"
proof (cases "unjson_imagePullSecret env (TrimSpace ps)")
  case (Inl e)
  then show ?thesis by (simp add: validatePullSecret_def)
next
  case (Inr s)
  have panic: "(\<exists>p. auths_loop env (Auths s) [] = Panic p) \<longleftrightarrow> list_ex (\<lambda>(d, a). a ''auth'' = Some JOther) (Auths s)"
    unfolding auths_loop_Panic list_ex_iff ..
  show ?thesis
  proof (cases "auths_loop env (Auths s) []")
    case (Ret errs)
    then have "errs = [] \<longleftrightarrow> list_all (\<lambda>(d, a). auth_ok a) (Auths s)"
      using auths_loop_errs [OF Ret] by simp
    then show ?thesis using Inr Ret panic by (simp add: validatePullSecret_def NewAggregate_None)
  next
    case (Panic p)
    then have ex: "list_ex (\<lambda>(d, a). a ''auth'' = Some JOther) (Auths s)" using panic by blast
    then have "\<not> list_all (\<lambda>(d, a). auth_ok a) (Auths s)" "Auths s \<noteq> []"
      by (fastforce simp: list_ex_iff list_all_iff auth_ok_def, auto)
    then show ?thesis using Inr Panic ex by (simp add: validatePullSecret_def)
  qed
qed

end
