(* ===== verification/FileLock.thy ===== *)
theory FileLock
  imports World
begin

text \<open>
  \<^verbatim>\<open>internal/filelock/filelock.go\<close>: advisory locks on a directory. The lock library is a parameter
  (\<open>flock_try\<close>, \<open>flock_unlock\<close>). The locked function \<open>f\<close> returns a Go error; the result is whether
  the lock was acquired, the error of acquiring it, and the error of \<open>f\<close>.
\<close>

definition lockFileName :: string where
  "lockFileName = ''lock''"

definition lockForDir :: "'w env \<Rightarrow> string \<Rightarrow> ('w world, goerr + string) go" where
  "lockForDir env dir =
     (let p = filepath_Join [dir, lockFileName] in
      bindM (os_Stat env p) (\<lambda>r. case r of
        Inr _ \<Rightarrow> returnM (Inr p)
      | Inl err \<Rightarrow>
          if IsNotExist err then
            bindM (os_WriteFile env p []) (\<lambda>w. case w of Inl e \<Rightarrow> returnM (Inl e) | Inr _ \<Rightarrow> returnM (Inr p))
          else returnM (Inl err)))"

definition WithWriteLock :: "'w env \<Rightarrow> string \<Rightarrow> ('w world, goerr option) go \<Rightarrow> ('w world, bool \<times> goerr option \<times> goerr option) go" where
  "WithWriteLock env dir f =
     bindM (lockForDir env dir) (\<lambda>l. case l of
       Inl err \<Rightarrow> returnM (False, Some err, None)
     | Inr p \<Rightarrow>
         bindM (hubM (flock_try env True p)) (\<lambda>t. case t of
           Inl err \<Rightarrow> returnM (False, Some err, None)
         | Inr locked \<Rightarrow>
             if \<not> locked then returnM (False, None, None)
             else deferM (bindM f (\<lambda>e. returnM (True, None, e))) (\<lambda>_. hubM (flock_unlock env p))))"

definition WithReadLock :: "'w env \<Rightarrow> string \<Rightarrow> ('w world, goerr option) go \<Rightarrow> ('w world, bool \<times> goerr option \<times> goerr option) go" where
  "WithReadLock env dir f =
     bindM (lockForDir env dir) (\<lambda>l. case l of
       Inl err \<Rightarrow> returnM (False, Some err, None)
     | Inr p \<Rightarrow>
         bindM (hubM (flock_try env False p)) (\<lambda>t. case t of
           Inl err \<Rightarrow> returnM (False, Some err, None)
         | Inr locked \<Rightarrow>
             if \<not> locked then returnM (False, None, None)
             else deferM (bindM f (\<lambda>e. returnM (True, None, e))) (\<lambda>_. hubM (flock_unlock env p))))"

lemma emits_lockForDir [emits_intro]:
  "(\<And>p d ok. P (EvWriteFile p d ok)) \<Longrightarrow> emits P (lockForDir env dir)"
  unfolding lockForDir_def call_defs by (intro emits_intro)

lemma emits_WithWriteLock [emits_intro]:
  "(\<And>p d ok. P (EvWriteFile p d ok)) \<Longrightarrow> emits P f \<Longrightarrow> emits P (WithWriteLock env dir f)"
  unfolding WithWriteLock_def by (intro emits_intro)

text \<open>The lock file and nothing else is touched while preparing the lock.\<close>

lemma wp_lockForDir:
  "wp (lockForDir env dir)
     (\<lambda>l s'. (\<forall>p. l = Inr p \<longrightarrow> p = filepath_Join [dir, lockFileName])
        \<and> (Trace s' = Trace s \<or> (\<exists>ok. Trace s' = Trace s @ [EvWriteFile (filepath_Join [dir, lockFileName]) [] ok])))
     (\<lambda>_ _. False) s"
  unfolding lockForDir_def Let_def wp_bindM call_defs
  by (rule wp_faultyM_any) (auto simp: wp_returnM wp_bindM wp_case_sum wp_if split: sum.split intro!: wp_noteM_any)

lemma wp_locked:
  "wp (deferM (bindM f (\<lambda>e. returnM (True, None, e))) (\<lambda>_. hubM (flock_unlock env p))) Q E s =
    (case f s of
       (Ret e, s') \<Rightarrow> Q (True, None, e) (s'\<lparr>Hub := snd (flock_unlock env p (Hub s'))\<rparr>)
     | (Panic msg, s') \<Rightarrow> E msg (s'\<lparr>Hub := snd (flock_unlock env p (Hub s'))\<rparr>))"
  by (simp add: wp_def deferM_def bindM_def hubM_def returnM_def split: prod.split outcome.split)

lemma wp_WithWriteLock:
  assumes "\<And>err s1 es. Trace s1 = Trace s @ es \<Longrightarrow> list_all fs_event es \<Longrightarrow> Q (False, err, None) s1"
    and "\<And>p s1 es. Trace s1 = Trace s @ es \<Longrightarrow> list_all fs_event es \<Longrightarrow>
      wp f (\<lambda>e s2. Q (True, None, e) (s2\<lparr>Hub := snd (flock_unlock env p (Hub s2))\<rparr>))
           (\<lambda>msg s2. E msg (s2\<lparr>Hub := snd (flock_unlock env p (Hub s2))\<rparr>)) s1"
  shows "wp (WithWriteLock env dir f) Q E s"
  unfolding WithWriteLock_def wp_bindM
proof (rule wp_mono [OF wp_lockForDir], goal_cases)
  case (1 l s1)
  then obtain es where es: "Trace s1 = Trace s @ es" "list_all fs_event es" by auto
  have es': "Trace (s1\<lparr>Hub := h\<rparr>) = Trace s @ es" for h using es by simp
  show ?case
  proof (cases l)
    case (Inr p)
    have run: "case f (s1\<lparr>Hub := h\<rparr>) of
        (Ret e, s') \<Rightarrow> Q (True, None, e) (s'\<lparr>Hub := snd (flock_unlock env p (Hub s'))\<rparr>)
      | (Panic msg, s') \<Rightarrow> E msg (s'\<lparr>Hub := snd (flock_unlock env p (Hub s'))\<rparr>)" for h
      using assms(2) [OF es' [of h] es(2), of p] unfolding wp_def .
    show ?thesis
      using run assms(1) [OF es' es(2)] unfolding Inr sum.case
      by (auto simp: wp_bindM wp_hubM wp_returnM wp_locked wp_case_sum wp_if split: prod.split sum.split)
  qed (use assms(1) [OF es] in \<open>simp add: wp_returnM\<close>)
qed simp

lemma locked_run:
  "flock_try env x p h0 = (Inr True, h) \<Longrightarrow> f (s\<lparr>Hub := h\<rparr>) = (r, s2) \<Longrightarrow>
    \<exists>h s1 s2'. flock_try env x p h = (Inr True, Hub s1) \<and> f s1 = (r, s2')
      \<and> s2\<lparr>Hub := h'\<rparr> = s2'\<lparr>Hub := snd (flock_unlock env p (Hub s2'))\<rparr>"
  if "h' = snd (flock_unlock env p (Hub s2))"
  using that by (intro exI [of _ h0] exI [of _ "s\<lparr>Hub := h\<rparr>"] exI [of _ s2]) simp

text \<open>C36: Running under the write lock. The function runs at most once, in the state in which the
  lock was just acquired; its error is handed back with the flag set; the lock is released as the
  very last action, also when the function panics, in which case the panic goes on. Without the
  lock the function does not run: at most the empty lock file was written, and the flag is not set.\<close>
theorem WithWriteLock_discipline:
  "let p = filepath_Join [dir, lockFileName];
       unlocked = (\<lambda>s. s\<lparr>Hub := snd (flock_unlock env p (Hub s))\<rparr>)
   in wp (WithWriteLock env dir f)
     (\<lambda>(locked, lockErr, funcErr) s'.
        if locked
        then lockErr = None
           \<and> (\<exists>h s1 s2. flock_try env True p h = (Inr True, Hub s1) \<and> f s1 = (Ret funcErr, s2) \<and> s' = unlocked s2)
        else funcErr = None
           \<and> (Trace s' = Trace s \<or> (\<exists>ok. Trace s' = Trace s @ [EvWriteFile p [] ok])))
     (\<lambda>msg s'.
        \<exists>h s1 s2. flock_try env True p h = (Inr True, Hub s1) \<and> f s1 = (Panic msg, s2) \<and> s' = unlocked s2) s"
  unfolding Let_def WithWriteLock_def wp_bindM
proof (rule wp_mono [OF wp_lockForDir], goal_cases)
  case (1 l s1)
  show ?case
  proof (cases l)
    case (Inl err)
    with 1 show ?thesis by (simp add: wp_returnM)
  next
    case (Inr p)
    with 1 have p: "p = filepath_Join [dir, lockFileName]" by simp
    obtain t h where t: "flock_try env True p (Hub s1) = (t, h)" by (cases "flock_try env True p (Hub s1)")
    obtain r s2 where r: "f (s1\<lparr>Hub := h\<rparr>) = (r, s2)" by (cases "f (s1\<lparr>Hub := h\<rparr>)")
    consider e where "t = Inl e" | "t = Inr False" | "t = Inr True" by (cases t) auto
    then show ?thesis
    proof cases
      case 3
      note run = locked_run [of _ env p s2 True "Hub s1" h f s1 r, OF refl t [unfolded 3] r]
      show ?thesis
        using run unfolding Inr p
        by (cases r) (simp_all add: wp_bindM wp_hubM wp_locked t [unfolded p] 3 r)
    qed (use 1 in \<open>simp_all add: Inr wp_bindM wp_hubM wp_returnM t p [symmetric]\<close>)
  qed
qed simp

end
