(* ===== verification/SpokeStatus.thy ===== *)
theory SpokeStatus
  imports World
begin

text \<open>
  \<^verbatim>\<open>internal/monitor/monitor.go\<close>: the state of the installation as seen through the API of the
  installed cluster. A client of that cluster is identified by the kubeconfig it was made from.
\<close>

definition nodesReadyMessage :: string where
  "nodesReadyMessage = ''All nodes are ready''"
definition clusterVersionAvailableMessage :: string where
  "clusterVersionAvailableMessage = ''ClusterVersion is available''"
definition clusterVersionNotAvailableMessage :: string where
  "clusterVersionNotAvailableMessage = ''ClusterVersion is not yet available due to stale data''"
definition IBIOStartTimeCM :: string where
  "IBIOStartTimeCM = ''ibi-monitor-cm''"
definition OcpConfigNamespace :: string where
  "OcpConfigNamespace = ''openshift-config''"

definition OperatorAvailable :: string where
  "OperatorAvailable = ''Available''"
definition NodeReady :: string where
  "NodeReady = ''Ready''"

record ClusterInstallStatus =
  inst_Installed :: bool
  inst_ClusterVersionStatus :: string
  inst_NodesStatus :: string

definition status_String :: "ClusterInstallStatus \<Rightarrow> string" where
  "status_String status =
     ''Cluster is '' @ (if inst_Installed status then ''installed'' else ''installing'') @ [CHR 0x0A]
       @ ''ClusterVersion Status: '' @ inst_ClusterVersionStatus status @ [CHR 0x0A]
       @ ''Nodes Status: '' @ inst_NodesStatus status"

definition getIBIOStartTime :: "'w env \<Rightarrow> string \<Rightarrow> ('w world, goerr + gotime) go" where
  "getIBIOStartTime env c =
     bindM (hubM (spoke_get_ConfigMap env c (OcpConfigNamespace, IBIOStartTimeCM))) (\<lambda>r. case r of
       Inl err \<Rightarrow> returnM (Inl err)
     | Inr cm \<Rightarrow> returnM (Inr (om_CreationTimestamp (cm_Meta cm))))"

definition didCVOStarted :: "OperatorCondition list \<Rightarrow> gotime \<Rightarrow> bool" where
  "didCVOStarted conditions reconfigurationStartTime =
     (let startTime = reconfigurationStartTime + (- minutes 60)
      in list_ex (\<lambda>cond. oc_LastTransitionTime cond > startTime) conditions)"

text \<open>The loop over the conditions; the first argument is the whole list.\<close>

fun version_loop :: "OperatorCondition list \<Rightarrow> gotime \<Rightarrow> OperatorCondition list \<Rightarrow> bool \<times> string" where
  "version_loop cvs start [] = (False, ''ClusterVersion Available condition not found'')"
| "version_loop cvs start (cond # conds) =
     (if oc_Type cond = OperatorAvailable then
        (if \<not> didCVOStarted cvs start then (False, clusterVersionNotAvailableMessage)
         else if oc_Status cond = ConditionTrue then (True, clusterVersionAvailableMessage)
         else (False, ''ClusterVersion is not yet available because '' @ oc_Reason cond @ '': '' @ oc_Message cond))
      else version_loop cvs start conds)"

definition clusterVersionStatus :: "'w env \<Rightarrow> string \<Rightarrow> gotime \<Rightarrow> ('w world, bool \<times> string \<times> goerr option) go" where
  "clusterVersionStatus env c reconfigurationStartTime =
     bindM (hubM (spoke_get_ClusterVersion env c ''version'')) (\<lambda>r. case r of
       Inl err \<Rightarrow> returnM (False, [], Some err)
     | Inr conditions \<Rightarrow>
         (case version_loop conditions reconfigurationStartTime conditions of (available, msg) \<Rightarrow>
            returnM (available, msg, None)))"

fun conditions_loop :: "string \<Rightarrow> (string \<times> ConditionStatus \<times> string \<times> string) list \<Rightarrow> bool \<times> string list \<Rightarrow> bool \<times> string list" where
  "conditions_loop name [] acc = acc"
| "conditions_loop name ((ty, status, reason, msg) # conds) (ready, messages) =
     conditions_loop name conds
       (if ty = NodeReady \<and> status \<noteq> ConditionTrue
        then (False, messages @ [''Node '' @ name @ '' is not yet ready because '' @ reason @ '': '' @ msg])
        else (ready, messages))"

fun nodes_loop :: "Node list \<Rightarrow> bool \<times> string list \<Rightarrow> bool \<times> string list" where
  "nodes_loop [] acc = acc"
| "nodes_loop (node # nodes) acc = nodes_loop nodes (conditions_loop (nd_Name node) (nd_Conditions node) acc)"

definition nodesStatus :: "'w env \<Rightarrow> string \<Rightarrow> ('w world, bool \<times> string \<times> goerr option) go" where
  "nodesStatus env c =
     bindM (hubM (spoke_list_Nodes env c)) (\<lambda>r. case r of
       Inl err \<Rightarrow> returnM (False, [], Some err)
     | Inr nodes \<Rightarrow>
         if nodes = [] then returnM (False, ''No nodes found'', None)
         else
           (case nodes_loop nodes (True, []) of (nodesReady, messages) \<Rightarrow>
              returnM (nodesReady, if messages \<noteq> [] then strings_Join messages '' '' else nodesReadyMessage, None)))"

definition GetClusterInstallStatus :: "'w env \<Rightarrow> string \<Rightarrow> ('w world, ClusterInstallStatus) go" where
  "GetClusterInstallStatus env c =
     bindM (getIBIOStartTime env c) (\<lambda>t. case t of
       Inl err \<Rightarrow>
         returnM \<lparr>inst_Installed = False,
           inst_ClusterVersionStatus = ''Failed to get '' @ IBIOStartTimeCM @ '' : '' @ err_Error err, inst_NodesStatus = []\<rparr>
     | Inr reconfigurationStartTime \<Rightarrow>
         bindM (clusterVersionStatus env c reconfigurationStartTime) (\<lambda>(cvAvailable, cvMessage, e). case e of
           Some err \<Rightarrow>
             returnM \<lparr>inst_Installed = False,
               inst_ClusterVersionStatus = ''Failed to check cluster version status: '' @ err_Error err, inst_NodesStatus = []\<rparr>
         | None \<Rightarrow>
             bindM (nodesStatus env c) (\<lambda>(nodesReady, nodesMessage, e').
               returnM \<lparr>inst_Installed = cvAvailable \<and> nodesReady, inst_ClusterVersionStatus = cvMessage,
                 inst_NodesStatus = (case e' of Some err \<Rightarrow> ''Failed to check node status: '' @ err_Error err
                                     | None \<Rightarrow> nodesMessage)\<rparr>)))"

section \<open>Lemmas\<close>

text \<open>A version is current when its first Available condition is True and some condition moved later
  than one hour before the reconfiguration of the node started.\<close>

definition version_current :: "OperatorCondition list \<Rightarrow> gotime \<Rightarrow> bool" where
  "version_current conds start \<longleftrightarrow>
     (case List.find (\<lambda>c. oc_Type c = OperatorAvailable) conds of None \<Rightarrow> False | Some c \<Rightarrow> oc_Status c = ConditionTrue)
     \<and> list_ex (\<lambda>c. start - minutes 60 < oc_LastTransitionTime c) conds"

lemma version_loop_iff:
  "fst (version_loop cvs start conds) \<longleftrightarrow>
    (case List.find (\<lambda>c. oc_Type c = OperatorAvailable) conds of None \<Rightarrow> False | Some c \<Rightarrow> oc_Status c = ConditionTrue)
    \<and> list_ex (\<lambda>c. start - minutes 60 < oc_LastTransitionTime c) cvs"
  by (induction conds) (auto simp: didCVOStarted_def)

lemma version_current_loop: "version_current conds start = fst (version_loop conds start conds)"
  by (simp add: version_current_def version_loop_iff)

definition not_ready :: "Node \<Rightarrow> string list" where
  "not_ready node =
     [''Node '' @ nd_Name node @ '' is not yet ready because '' @ reason @ '': '' @ msg.
       (ty, status, reason, msg) \<leftarrow> nd_Conditions node, ty = NodeReady \<and> status \<noteq> ConditionTrue]"

lemma conditions_loop_eq:
  "conditions_loop name conds (ready, messages) =
    (let ms = [''Node '' @ name @ '' is not yet ready because '' @ reason @ '': '' @ msg.
                 (ty, status, reason, msg) \<leftarrow> conds, ty = NodeReady \<and> status \<noteq> ConditionTrue]
     in (ready \<and> ms = [], messages @ ms))"
  by (induction name conds "(ready, messages)" arbitrary: ready messages rule: conditions_loop.induct) auto

lemma nodes_loop_eq:
  "nodes_loop nodes (ready, messages) =
    (ready \<and> concat (map not_ready nodes) = [], messages @ concat (map not_ready nodes))"
  by (induction nodes arbitrary: ready messages) (auto simp: conditions_loop_eq not_ready_def Let_def)

text \<open>The answers of the installed cluster that make it installed.\<close>

definition spoke_installed :: "'w env \<Rightarrow> string \<Rightarrow> 'w \<Rightarrow> bool" where
  "spoke_installed env c h \<longleftrightarrow>
     (case spoke_get_ConfigMap env c (OcpConfigNamespace, IBIOStartTimeCM) h of
        (Inl _, _) \<Rightarrow> False
      | (Inr cm, h1) \<Rightarrow>
          (case spoke_get_ClusterVersion env c ''version'' h1 of
             (Inl _, _) \<Rightarrow> False
           | (Inr conds, h2) \<Rightarrow>
               version_current conds (om_CreationTimestamp (cm_Meta cm))
               \<and> (case spoke_list_Nodes env c h2 of
                    (Inl _, _) \<Rightarrow> False
                  | (Inr nodes, _) \<Rightarrow> 0 < length nodes \<and> list_all (\<lambda>node. not_ready node = []) nodes)))"

lemma GetClusterInstallStatus_run:
  "\<exists>status h. GetClusterInstallStatus env c s = (Ret status, s\<lparr>Hub := h\<rparr>)
     \<and> inst_Installed status = spoke_installed env c (Hub s)"
  by (auto simp: GetClusterInstallStatus_def getIBIOStartTime_def clusterVersionStatus_def nodesStatus_def
      bindM_def hubM_def returnM_def spoke_installed_def version_current_loop
      nodes_loop_eq list_all_iff split: prod.split sum.split)

section \<open>Properties\<close>

text \<open>C23: When a cluster counts as installed. Asking for the state of the installation issues no request
  with an effect and never panics, and it reports the cluster as installed exactly when the start
  ConfigMap, the cluster version and the nodes could be read, the first Available condition of the
  version is True, some condition of it moved after one hour before the start, there is a node, and
  no Ready condition of a node is anything but True. The message lists the nodes that are not ready,
  in order.\<close>
theorem GetClusterInstallStatus_installed:
  "(\<exists>status h. GetClusterInstallStatus env c s = (Ret status, s\<lparr>Hub := h\<rparr>)
      \<and> inst_Installed status = spoke_installed env c (Hub s))
   \<and> nodes_loop nodes (True, []) =
      (list_all (\<lambda>node. list_all (\<lambda>(ty, status, _). if ty = NodeReady then status = ConditionTrue else True) (nd_Conditions node)) nodes,
       concat (map not_ready nodes))"
proof
  have "not_ready node = [] \<longleftrightarrow>
      list_all (\<lambda>(ty, status, _). if ty = NodeReady then status = ConditionTrue else True) (nd_Conditions node)" for node
    unfolding not_ready_def list_all_iff concat_eq_Nil_conv by (force split: if_splits)
  then show "nodes_loop nodes (True, []) =
      (list_all (\<lambda>node. list_all (\<lambda>(ty, status, _). if ty = NodeReady then status = ConditionTrue else True) (nd_Conditions node)) nodes,
       concat (map not_ready nodes))"
    by (simp add: nodes_loop_eq list_all_iff)
qed (rule GetClusterInstallStatus_run)

end
