(* ===== verification/ImageData.thy ===== *)
theory ImageData
  imports Installer PullSecret FileLock SpokeStatus
begin

text \<open>
  The part of \<^verbatim>\<open>controllers/imageclusterinstall_controller.go\<close> that produces the configuration image of
  a cluster on disk: directories, manifests, configuration files, the run of the installer under the
  directory lock, the credential secrets, and the URL under which the image is served.
\<close>

section \<open>Configuration of the reconciler\<close>

record ImageClusterInstallReconcilerOptions =
  opt_ServiceName :: string
  opt_ServiceNamespace :: string
  opt_ServicePort :: string
  opt_ServiceScheme :: string
  opt_DataDir :: string
  opt_MaxConcurrentReconciles :: int
  opt_DataImageCoolDownPeriod :: duration

record ImageClusterInstallReconciler =
  rc_Options :: ImageClusterInstallReconcilerOptions
  rc_BaseURL :: string

definition example_options :: ImageClusterInstallReconcilerOptions where
  "example_options =
     \<lparr>opt_ServiceName = [], opt_ServiceNamespace = [], opt_ServicePort = [], opt_ServiceScheme = [],
      opt_DataDir = ''/data'', opt_MaxConcurrentReconciles = 1, opt_DataImageCoolDownPeriod = 0\<rparr>"

definition example_reconciler :: ImageClusterInstallReconciler where
  "example_reconciler = \<lparr>rc_Options = example_options, rc_BaseURL = ''http://svc''\<rparr>"

definition ClusterConfigDir :: string where
  "ClusterConfigDir = ''cluster-configuration''"
definition extraManifestsDir :: string where
  "extraManifestsDir = ''extra-manifests''"
definition nmstateSecretKey :: string where
  "nmstateSecretKey = ''nmstate''"
definition caBundleFileName :: string where
  "caBundleFileName = ''tls-ca-bundle.pem''"
definition imageBasedInstallInvoker :: string where
  "imageBasedInstallInvoker = ''image-based-install''"
definition invokerCMFileName :: string where
  "invokerCMFileName = ''invoker-cm.yaml''"
definition imageBasedConfigFilename :: string where
  "imageBasedConfigFilename = ''image-based-config.yaml''"
definition installConfigFilename :: string where
  "installConfigFilename = ''install-config.yaml''"
definition authDir :: string where
  "authDir = ''auth''"
definition kubeAdminFile :: string where
  "kubeAdminFile = ''kubeadmin-password''"
definition FilesDir :: string where
  "FilesDir = ''files''"
definition IsoName :: string where
  "IsoName = ''imagebasedconfig.iso''"

definition GetClusterConfigDir :: "string \<Rightarrow> string \<Rightarrow> string \<Rightarrow> string" where
  "GetClusterConfigDir namespacesDir namespace uid = filepath_Join [namespacesDir, namespace, uid, FilesDir, ClusterConfigDir]"

section \<open>Directories and files\<close>

definition lockDir_of :: "ImageClusterInstallReconciler \<Rightarrow> ImageClusterInstall \<Rightarrow> string" where
  "lockDir_of r ici = filepath_Join [opt_DataDir (rc_Options r), ''namespaces'', om_Namespace (ici_Meta ici), om_UID (ici_Meta ici)]"

definition filesDir_of :: "ImageClusterInstallReconciler \<Rightarrow> ImageClusterInstall \<Rightarrow> string" where
  "filesDir_of r ici = filepath_Join [lockDir_of r ici, FilesDir]"

definition configDirs :: "'w env \<Rightarrow> ImageClusterInstallReconciler \<Rightarrow> ImageClusterInstall \<Rightarrow> ('w world, goerr + string \<times> string) go" where
  "configDirs env r ici =
     bindM (os_MkdirAll env (filesDir_of r ici)) (\<lambda>m. case m of
       Inl err \<Rightarrow> returnM (Inl err)
     | Inr _ \<Rightarrow> returnM (Inr (lockDir_of r ici, filesDir_of r ici)))"

definition fileExists :: "'w env \<Rightarrow> string \<Rightarrow> ('w world, bool) go" where
  "fileExists env path = bindM (os_Stat env path) (\<lambda>r. returnM (case r of Inl _ \<Rightarrow> False | Inr _ \<Rightarrow> True))"

definition image_files :: "string \<Rightarrow> string list" where
  "image_files clusterConfigPath =
     [filepath_Join [clusterConfigPath, IsoName],
      filepath_Join [clusterConfigPath, authDir, kubeAdminFile],
      filepath_Join [clusterConfigPath, authDir, Kubeconfig],
      filepath_Join [clusterConfigPath, ClusterConfigDir, SeedReconfigurationFileName]]"

fun all_exist :: "'w env \<Rightarrow> string list \<Rightarrow> ('w world, bool) go" where
  "all_exist env [] = returnM True"
| "all_exist env (file # files) =
     bindM (fileExists env file) (\<lambda>e. if \<not> e then returnM False else all_exist env files)"

definition verifyIsoAndAuthExists :: "'w env \<Rightarrow> string \<Rightarrow> ('w world, bool) go" where
  "verifyIsoAndAuthExists env clusterConfigPath = all_exist env (image_files clusterConfigPath)"

definition plainConfigMap :: "string \<Rightarrow> string \<Rightarrow> (string \<times> string) list \<Rightarrow> ConfigMap" where
  "plainConfigMap ns name data = \<lparr>cm_Meta = emptyMeta\<lparr>om_Namespace := ns, om_Name := name\<rparr>, cm_Data = data\<rparr>"

definition writeInvokerCM :: "'w env \<Rightarrow> string \<Rightarrow> ('w world, goerr option) go" where
  "writeInvokerCM env filePath =
     (case json_ConfigMap env (plainConfigMap ''openshift-config'' ''openshift-install-manifests''
              [(''invoker'', imageBasedInstallInvoker)]) of
        Inl err \<Rightarrow> returnM (Some (wrapf ''failed to marshal openshift-install-manifests: '' err))
      | Inr data \<Rightarrow>
          bindM (os_WriteFile env filePath data) (\<lambda>r. case r of
            Inl err \<Rightarrow> returnM (Some (wrapf ''failed to write file: '' err))
          | Inr _ \<Rightarrow> returnM None))"

definition writeIBIOStartTimeCM :: "'w env \<Rightarrow> string \<Rightarrow> ('w world, goerr option) go" where
  "writeIBIOStartTimeCM env filePath =
     (case json_ConfigMap env (plainConfigMap OcpConfigNamespace IBIOStartTimeCM []) of
        Inl err \<Rightarrow> returnM (Some (wrapf (''failed to marshal '' @ IBIOStartTimeCM @ '': '') err))
      | Inr data \<Rightarrow>
          bindM (os_WriteFile env filePath data) (\<lambda>r. case r of
            Inl err \<Rightarrow> returnM (Some (wrapf ''failed to write file: '' err))
          | Inr _ \<Rightarrow> returnM None))"

text \<open>One manifest of an extra ConfigMap.\<close>

definition writeExtraManifest :: "'w env \<Rightarrow> string \<Rightarrow> string \<times> string \<Rightarrow> ('w world, goerr option) go" where
  "writeExtraManifest env extraManifestsPath manifest = (case manifest of (name, content) \<Rightarrow>
     (case yaml_any env content of
        Some err \<Rightarrow> returnM (Some (wrapf (''failed to validate manifest file '' @ name @ '': '') err))
      | None \<Rightarrow>
          bindM (os_WriteFile env (filepath_Join [extraManifestsPath, name]) content) (\<lambda>r. case r of
            Inl err \<Rightarrow> returnM (Some (wrapf ''failed to write extra manifest file: '' err))
          | Inr _ \<Rightarrow> returnM None)))"

definition writeExtraConfigMap :: "'w env \<Rightarrow> string \<Rightarrow> string \<Rightarrow> string \<Rightarrow> ('w world, goerr option) go" where
  "writeExtraConfigMap env extraManifestsPath namespace cmRef =
     bindM (hubM (get_ConfigMap env (namespace, cmRef))) (\<lambda>r. case r of
       Inl err \<Rightarrow> returnM (Some (wrapf ''failed to get extraManifests config map '' err))
     | Inr cm \<Rightarrow> for_eachM (cm_Data cm) (writeExtraManifest env extraManifestsPath))"

definition generateExtraManifests :: "'w env \<Rightarrow> string \<Rightarrow> ImageClusterInstall \<Rightarrow> ('w world, goerr option) go" where
  "generateExtraManifests env clusterConfigPath ici =
     (let extraManifestsPath = filepath_Join [clusterConfigPath, extraManifestsDir] in
      bindM (os_MkdirAll env extraManifestsPath) (\<lambda>m. case m of
        Inl err \<Rightarrow> returnM (Some err)
      | Inr _ \<Rightarrow>
      bindM (writeInvokerCM env (filepath_Join [extraManifestsPath, invokerCMFileName])) (\<lambda>e. case e of
        Some err \<Rightarrow> returnM (Some (wrapf ''failed to write invoker config map: '' err))
      | None \<Rightarrow>
      bindM (writeIBIOStartTimeCM env (filepath_Join [extraManifestsPath, IBIOStartTimeCM @ ''.yaml''])) (\<lambda>e. case e of
        Some err \<Rightarrow> returnM (Some (wrapf (''failed to write '' @ IBIOStartTimeCM @ '' config map: '') err))
      | None \<Rightarrow>
          for_eachM (elems (sp_ExtraManifestsRefs (ici_Spec ici)))
            (writeExtraConfigMap env extraManifestsPath (om_Namespace (ici_Meta ici)))))))"

section \<open>Inputs read from the hub\<close>

definition imageSetRegistry :: "'w env \<Rightarrow> ImageClusterInstall \<Rightarrow> ('w world, goerr + string) go" where
  "imageSetRegistry env ici =
     (let key = (om_Namespace (ici_Meta ici), sp_ImageSetRef (ici_Spec ici)) in
      bindM (hubM (get_ClusterImageSet env key)) (\<lambda>r. case r of
        Inl err \<Rightarrow> returnM (Inl (wrapf (''failed to get ClusterImageSet '' @ fst key @ ''/'' @ snd key @ '': '') err))
      | Inr cis \<Rightarrow>
          (case reference_Parse env (cis_ReleaseImage cis) of
             Inl err \<Rightarrow> returnM (Inl (wrapf ''failed to parse ReleaseImage from ClusterImageSet: '' err))
           | Inr None \<Rightarrow> returnM (Inl (errorf (''failed to parse registry name from image '' @ cis_ReleaseImage cis)))
           | Inr (Some name) \<Rightarrow> returnM (Inr (hd (split_on (CHR ''/'') name))))))"

definition nmstateConfig :: "'w env \<Rightarrow> BareMetalHost option \<Rightarrow> ('w world, goerr + string) go" where
  "nmstateConfig env bmh =
     (case bmh of
        None \<Rightarrow> returnM (Inr [])
      | Some host \<Rightarrow>
          if bmh_PreprovisioningNetworkDataName host = [] then returnM (Inr [])
          else
            let key = (om_Namespace (bmh_Meta host), bmh_PreprovisioningNetworkDataName host) in
            bindM (hubM (get_Secret_noncached env key)) (\<lambda>r. case r of
              Inl err \<Rightarrow> returnM (Inl (wrapf (''failed to get network config secret '' @ fst key @ ''/'' @ snd key @ '': '') err))
            | Inr nmstateConfigSecret \<Rightarrow>
                (case map_get (sec_Data nmstateConfigSecret) nmstateSecretKey of
                   None \<Rightarrow> returnM (Inl (errorf (''referenced networking secret '' @ fst key @ ''/'' @ snd key
                             @ '' does not contain the required key '' @ nmstateSecretKey)))
                 | Some nmstate \<Rightarrow>
                     (case yaml_map env nmstate of
                        Some err \<Rightarrow> returnM (Inl (wrapf ''failed to unmarshal nmstate data: '' err))
                      | None \<Rightarrow> returnM (Inr nmstate)))))"

definition writeImageBaseConfig :: "'w env \<Rightarrow> ImageClusterInstall \<Rightarrow> BareMetalHost option \<Rightarrow> string \<Rightarrow> ('w world, goerr option) go" where
  "writeImageBaseConfig env ici bmh file =
     bindM (nmstateConfig env bmh) (\<lambda>n. case n of
       Inl err \<Rightarrow> returnM (Some err)
     | Inr nmstate \<Rightarrow>
         bindM (imageSetRegistry env ici) (\<lambda>r. case r of
           Inl err \<Rightarrow> returnM (Some err)
         | Inr releaseRegistry \<Rightarrow> WriteImageBaseConfig env ici releaseRegistry nmstate file))"

definition getCABundle :: "'w env \<Rightarrow> string option \<Rightarrow> string \<Rightarrow> ('w world, goerr + string) go" where
  "getCABundle env ref ns =
     (case ref of
        None \<Rightarrow> returnM (Inr [])
      | Some name \<Rightarrow>
          bindM (hubM (get_ConfigMap env (ns, name))) (\<lambda>r. case r of
            Inl err \<Rightarrow> returnM (Inl (wrapf ''failed to get CABundle config map: '' err))
          | Inr cm \<Rightarrow>
              (case map_of (cm_Data cm) caBundleFileName of
                 None \<Rightarrow> returnM (Inl (errorf (caBundleFileName @ '' key missing from CABundle config map'')))
               | Some data \<Rightarrow> returnM (Inr data))))"

section \<open>Producing the image\<close>

definition ensureCreds :: "'w env \<Rightarrow> ClusterDeployment \<Rightarrow> string \<Rightarrow> ('w world, goerr option) go" where
  "ensureCreds env cd workDir =
     bindM (EnsureAdminPasswordSecret env cd (filepath_Join [workDir, authDir, kubeAdminFile])) (\<lambda>e. case e of
       Some err \<Rightarrow> returnM (Some (wrapf ''failed to ensure admin password secret: '' err))
     | None \<Rightarrow>
     bindM (EnsureKubeconfigSecret env cd (filepath_Join [workDir, authDir, Kubeconfig])) (\<lambda>e. case e of
       Some err \<Rightarrow> returnM (Some (wrapf ''failed to ensure kubeconfig secret: '' err))
     | None \<Rightarrow>
     bindM (EnsureSeedReconfigurationSecret env cd
              (filepath_Join [workDir, ClusterConfigDir, SeedReconfigurationFileName])) (\<lambda>e. case e of
       Some err \<Rightarrow> returnM (Some (wrapf ''failed to ensure seed reconfiguration secret '' err))
     | None \<Rightarrow> returnM None)))"

text \<open>From the configuration files to the credentials; \<open>reinstall\<close> is the identity found in the
  secrets, if any.\<close>

definition buildImage :: "'w env \<Rightarrow> ImageClusterInstall \<Rightarrow> ClusterDeployment \<Rightarrow> BareMetalHost option \<Rightarrow> string \<Rightarrow> string \<Rightarrow> string \<Rightarrow> string \<Rightarrow> IdentityData option \<Rightarrow> ('w world, goerr option) go" where
  "buildImage env ici cd bmh isoWorkDir psData caBundle configFilePath reinstall =
     bindM (WriteInstallConfig env ici cd psData caBundle (filepath_Join [configFilePath, installConfigFilename])) (\<lambda>e. case e of
       Some err \<Rightarrow> returnM (Some (wrapf ''failed to write install config: '' err))
     | None \<Rightarrow>
     bindM (writeImageBaseConfig env ici bmh (filepath_Join [configFilePath, imageBasedConfigFilename])) (\<lambda>e. case e of
       Some err \<Rightarrow> returnM (Some (wrapf ''failed to write install config: '' err))
     | None \<Rightarrow>
     bindM (case reinstall of
              None \<Rightarrow> returnM None
            | Some idData \<Rightarrow> WriteReinstallData env configFilePath isoWorkDir idData) (\<lambda>e. case e of
       Some err \<Rightarrow> returnM (Some (wrapf ''failed to write reinstall data: '' err))
     | None \<Rightarrow>
     bindM (CreateInstallationIso env isoWorkDir) (\<lambda>e. case e of
       Some err \<Rightarrow> returnM (Some (wrapf ''failed to create installation iso: '' err))
     | None \<Rightarrow> ensureCreds env cd isoWorkDir))))"

text \<open>The function literal that runs under the lock, in three parts: with the identity secrets looked
  up, when the image does not exist yet, and as a whole.\<close>

definition buildWithIdentity :: "'w env \<Rightarrow> ImageClusterInstall \<Rightarrow> ClusterDeployment \<Rightarrow> BareMetalHost option \<Rightarrow> string \<Rightarrow> string \<Rightarrow> string \<Rightarrow> IdentityData \<times> bool \<times> goerr option \<Rightarrow> ('w world, goerr option) go" where
  "buildWithIdentity env ici cd bmh isoWorkDir psData caBundle identity = (case identity of (idData, secretsExist, e) \<Rightarrow>
     (case e of
        Some err \<Rightarrow> returnM (Some (wrapf ''failed to check existence of cluster identity secrets: '' err))
      | None \<Rightarrow>
          if secretsExist then
            bindM (os_MkdirTemp env) (\<lambda>t. case t of
              Inl err \<Rightarrow> returnM (Some (wrapf ''failed to create tempdir: '' err))
            | Inr tmpDirPath \<Rightarrow>
                deferM (buildImage env ici cd bmh isoWorkDir psData caBundle tmpDirPath (Some idData))
                  (\<lambda>_. bindM (os_RemoveAll env tmpDirPath) (\<lambda>_. returnM ())))
          else buildImage env ici cd bmh isoWorkDir psData caBundle isoWorkDir None))"

definition writeNewInputFiles :: "'w env \<Rightarrow> ImageClusterInstall \<Rightarrow> ClusterDeployment \<Rightarrow> BareMetalHost option \<Rightarrow> string \<Rightarrow> ('w world, goerr option) go" where
  "writeNewInputFiles env ici cd bmh isoWorkDir =
     bindM (os_RemoveAll env isoWorkDir) (\<lambda>_.
     bindM (os_MkdirAll env isoWorkDir) (\<lambda>m. case m of
       Inl err \<Rightarrow> returnM (Some err)
     | Inr _ \<Rightarrow>
     bindM (getValidPullSecret env (cd_PullSecretRef cd) (om_Namespace (cd_Meta cd))) (\<lambda>ps. case ps of
       Inl err \<Rightarrow> returnM (Some (wrapf ''failed to get valid pull secret: '' err))
     | Inr psData \<Rightarrow>
     bindM (getCABundle env (sp_CABundleRef (ici_Spec ici)) (om_Namespace (ici_Meta ici))) (\<lambda>ca. case ca of
       Inl err \<Rightarrow> returnM (Some (wrapf ''failed to get ca bundle: '' err))
     | Inr caBundle \<Rightarrow>
     bindM (generateExtraManifests env isoWorkDir ici) (\<lambda>e. case e of
       Some err \<Rightarrow> returnM (Some (wrapf ''failed to generate extra manifests: '' err))
     | None \<Rightarrow>
     bindM (ClusterIdentitySecrets env cd) (buildWithIdentity env ici cd bmh isoWorkDir psData caBundle))))))"

definition writeInputFiles :: "'w env \<Rightarrow> ImageClusterInstall \<Rightarrow> ClusterDeployment \<Rightarrow> BareMetalHost option \<Rightarrow> string \<Rightarrow> ('w world, goerr option) go" where
  "writeInputFiles env ici cd bmh filesDir =
     (let isoWorkDir = filepath_Join [filesDir, ClusterConfigDir] in
      bindM (verifyIsoAndAuthExists env isoWorkDir) (\<lambda>exists.
        if exists then ensureCreds env cd isoWorkDir
        else writeNewInputFiles env ici cd bmh isoWorkDir))"

definition writeInputData :: "'w env \<Rightarrow> ImageClusterInstallReconciler \<Rightarrow> ImageClusterInstall \<Rightarrow> ClusterDeployment \<Rightarrow> BareMetalHost option \<Rightarrow> ('w world, Result \<times> goerr option) go" where
  "writeInputData env r ici cd bmh =
     bindM (configDirs env r ici) (\<lambda>d. case d of
       Inl err \<Rightarrow> returnM (zeroResult, Some err)
     | Inr (lockDir, filesDir) \<Rightarrow>
         bindM (WithWriteLock env lockDir (writeInputFiles env ici cd bmh filesDir)) (\<lambda>(locked, lockErr, funcErr).
           case lockErr of
             Some err \<Rightarrow> returnM (zeroResult, Some (wrapf ''failed to acquire file lock: '' err))
           | None \<Rightarrow>
               (case funcErr of
                  Some err \<Rightarrow> returnM (zeroResult, Some (wrapf ''failed to write input data: '' err))
                | None \<Rightarrow>
                    if \<not> locked then returnM (requeueAfter (seconds 5), None)
                    else returnM (zeroResult, None))))"

text \<open>The condition is passed by pointer; its new value is the first result.\<close>

definition createImage :: "'w env \<Rightarrow> ImageClusterInstallReconciler \<Rightarrow> ImageClusterInstall \<Rightarrow> nsname \<Rightarrow> BareMetalHost option \<Rightarrow> ClusterDeployment \<Rightarrow> ClusterInstallCondition \<Rightarrow> ('w world, ClusterInstallCondition \<times> string \<times> Result \<times> goerr option) go" where
  "createImage env r ici req bmh cd cond =
     bindM (writeInputData env r ici cd bmh) (\<lambda>(res, err).
       if \<not> Result_IsZero res \<or> err \<noteq> None then
         (if err \<noteq> None
          then returnM (cond\<lparr>cc_Reason := ImageCreationFailedReason, cc_Message := ''failed to create image''\<rparr>, [], res, err)
          else returnM (cond\<lparr>cc_Reason := ImageCreationPendingReason,
                             cc_Message := ''could not acquire lock for image data''\<rparr>, [], res, err))
       else
         (case url_JoinPath env (rc_BaseURL r) [''images'', fst req, om_UID (ici_Meta ici) @ ''.iso''] of
            Inl err \<Rightarrow> returnM (cond\<lparr>cc_Message := ''failed to create image url''\<rparr>, [], zeroResult, Some err)
          | Inr imageUrl \<Rightarrow> returnM (cond, imageUrl, zeroResult, None)))"

section \<open>Requests\<close>

lemma emits_Installer [emits_intro]:
  "(\<And>e. fs_event e \<Longrightarrow> P e) \<Longrightarrow> emits P (WriteInstallConfig env ici cd ps ca file)"
  "(\<And>e. fs_event e \<Longrightarrow> P e) \<Longrightarrow> emits P (WriteImageBaseConfig env ici reg nm file)"
  "(\<And>e. fs_event e \<Longrightarrow> P e) \<Longrightarrow> emits P (CreateInstallationIso env dir)"
  "(\<And>e. fs_event e \<Longrightarrow> P e) \<Longrightarrow> emits P (WriteReinstallData env tmp dir idd)"
  unfolding WriteInstallConfig_def WriteImageBaseConfig_def CreateInstallationIso_def WriteReinstallData_def
    getBaseAssets_def writeSeedReconfig_def writeAuth_def Let_def
  by (intro emits_intro; simp)+

lemma emits_generateExtraManifests [emits_intro]:
  "(\<And>e. fs_event e \<Longrightarrow> P e) \<Longrightarrow> emits P (generateExtraManifests env dir ici)"
  unfolding generateExtraManifests_def writeInvokerCM_def writeIBIOStartTimeCM_def writeExtraConfigMap_def
    writeExtraManifest_def Let_def
  by (intro emits_intro; simp)

lemma emits_reads [emits_intro]:
  "emits P (getCABundle env ref ns)" "emits P (nmstateConfig env bmh)" "emits P (imageSetRegistry env ici)"
  unfolding getCABundle_def nmstateConfig_def imageSetRegistry_def Let_def by (intro emits_intro)+

lemma emits_all_exist [emits_intro]: "emits P (all_exist env files)"
  by (induction files) (auto simp: fileExists_def intro!: emits_intro)

lemma emits_writeImageBaseConfig [emits_intro]:
  "(\<And>e. fs_event e \<Longrightarrow> P e) \<Longrightarrow> emits P (writeImageBaseConfig env ici bmh file)"
  unfolding writeImageBaseConfig_def by (intro emits_intro)

lemma emits_ensureCreds [emits_intro]:
  "(\<And>e. credential_event cd e \<Longrightarrow> P e) \<Longrightarrow> emits P (ensureCreds env cd dir)"
  unfolding ensureCreds_def by (intro emits_intro)

lemma emits_writeInputFiles [emits_intro]:
  "(\<And>e. fs_event e \<Longrightarrow> P e) \<Longrightarrow> (\<And>e. credential_event cd e \<Longrightarrow> P e) \<Longrightarrow>
    emits P (writeInputFiles env ici cd bmh dir)"
  unfolding writeInputFiles_def writeNewInputFiles_def buildWithIdentity_def buildImage_def
    verifyIsoAndAuthExists_def Let_def
  by (intro emits_intro)

lemma emits_writeInputData [emits_intro]:
  "(\<And>e. fs_event e \<Longrightarrow> P e) \<Longrightarrow> (\<And>e. credential_event cd e \<Longrightarrow> P e) \<Longrightarrow>
    emits P (writeInputData env r ici cd bmh)"
  unfolding writeInputData_def configDirs_def by (intro emits_intro) simp_all

lemma emits_createImage [emits_intro]:
  "(\<And>e. fs_event e \<Longrightarrow> P e) \<Longrightarrow> (\<And>e. credential_event cd e \<Longrightarrow> P e) \<Longrightarrow>
    emits P (createImage env r ici req bmh cd cond)"
  unfolding createImage_def by (intro emits_intro)

section \<open>What a successful run leaves behind\<close>

text \<open>The three credential files of \<open>dir\<close> in the file system \<open>fs\<close> and requests that provide
  their contents as secrets.\<close>

definition creds_provided :: "'w env \<Rightarrow> ClusterDeployment \<Rightarrow> string \<Rightarrow> filesystem \<Rightarrow> event list \<Rightarrow> bool" where
  "creds_provided env cd dir fs es \<longleftrightarrow>
     (\<exists>password kubeconfig seed e1 e2 e3. es = e1 @ e2 @ e3
        \<and> fs (filepath_Join [dir, authDir, kubeAdminFile]) = Some (File password)
        \<and> provided env cd (KubeadminPasswordSecretName (om_Name (cd_Meta cd))) kubeAdminKey password e1
        \<and> fs (filepath_Join [dir, authDir, Kubeconfig]) = Some (File kubeconfig)
        \<and> provided env cd (KubeconfigSecretName (om_Name (cd_Meta cd))) Kubeconfig kubeconfig e2
        \<and> fs (filepath_Join [dir, ClusterConfigDir, SeedReconfigurationFileName]) = Some (File seed)
        \<and> provided env cd (SeedReconfigurationSecretName (om_Name (cd_Meta cd))) SeedReconfigurationFileName seed e3)"

lemma wp_ensureCreds:
  "wp (ensureCreds env cd dir)
     (\<lambda>err s'. \<exists>es. Trace s' = Trace s @ es \<and> (err = None \<longrightarrow> Fs s' = Fs s \<and> creds_provided env cd dir (Fs s) es))
     (\<lambda>_ _. False) s"
proof -
  have last: "wp (returnM None) (\<lambda>err s'. \<exists>es. Trace s' = Trace s1 @ es \<and> (err = None \<longrightarrow> Fs s' = Fs s \<and> es = [])) (\<lambda>_ _. False) s1"
    if "Fs s1 = Fs s" for s1 :: "'w world"
    using that by (simp add: wp_returnM)
  show ?thesis
    unfolding ensureCreds_def
    by (rule wp_mono [OF password.wp_then [OF kubeconfig.wp_then [OF seed.wp_then [OF last]]]])
      (assumption | rule refl | (auto simp: creds_provided_def)[1])+
qed

text \<open>The image is on disk (it was found, or the installer reported success in this run), and after
  that the credentials were provided; the only thing that can follow is the removal of the
  temporary directory.\<close>

definition image_ready :: "'w env \<Rightarrow> ClusterDeployment \<Rightarrow> string \<Rightarrow> event list \<Rightarrow> bool" where
  "image_ready env cd dir es \<longleftrightarrow>
     (\<exists>pre creds post fs. es = pre @ creds @ post
        \<and> (fs (filepath_Join [dir, IsoName]) \<noteq> None \<or> EvCreateISO dir True \<in> set pre)
        \<and> creds_provided env cd dir fs creds
        \<and> (post = [] \<or> (\<exists>tmp b. post = [EvRemoveAll tmp b])))"

lemma emits_any_Installer:
  "emits (\<lambda>_. True) (WriteInstallConfig env ici cd ps ca file)"
  "emits (\<lambda>_. True) (writeImageBaseConfig env ici bmh file)"
  "emits (\<lambda>_. True) (WriteReinstallData env tmp dir idd)"
  "emits (\<lambda>_. True) (generateExtraManifests env dir ici)"
  by (intro emits_intro; simp)+

lemma wp_CreateInstallationIso:
  "wp (CreateInstallationIso env dir) (\<lambda>err s'. Trace s' = Trace s @ [EvCreateISO dir (err = None)]) (\<lambda>_ _. False) s"
  by (auto simp: CreateInstallationIso_def wp split: prod.split option.split)

text \<open>The result of a run that started when the history was \<open>t\<close>.\<close>

definition built :: "'w env \<Rightarrow> ClusterDeployment \<Rightarrow> string \<Rightarrow> event list \<Rightarrow> goerr option \<Rightarrow> 'w world \<Rightarrow> bool" where
  "built env cd dir t err s' \<longleftrightarrow>
     (\<exists>es. Trace s' = t @ es \<and> (err = None \<longrightarrow>
        (\<exists>pre creds fs. es = pre @ creds \<and> EvCreateISO dir True \<in> set pre \<and> creds_provided env cd dir fs creds)))"

lemma built_fail [simp]: "built env cd dir t (Some e) s = extends t s"
  by (simp add: built_def extends_def)

lemma wp_buildImage_end:
  assumes "extends t s"
  shows "wp (bindM (CreateInstallationIso env dir) (\<lambda>e. case e of
       Some err \<Rightarrow> returnM (Some (wrapf ''failed to create installation iso: '' err))
     | None \<Rightarrow> ensureCreds env cd dir)) (built env cd dir t) (\<lambda>_ _. True) s"
proof -
  obtain es where es: "Trace s = t @ es" using assms by (auto simp: extends_def)
  show ?thesis
    unfolding wp_bindM
  proof (rule wp_mono [OF wp_CreateInstallationIso], goal_cases)
    case (1 err s1)
    show ?case
    proof (cases err)
      case None
      then have s1: "Trace s1 = t @ es @ [EvCreateISO dir True]" using 1 es by simp
      show ?thesis unfolding None option.case
      proof (rule wp_mono [OF wp_ensureCreds], goal_cases)
        case (1 err2 s2)
        then obtain ces where ces: "Trace s2 = Trace s1 @ ces"
          "err2 = None \<longrightarrow> creds_provided env cd dir (Fs s1) ces" by blast
        have "Trace s2 = t @ (es @ [EvCreateISO dir True]) @ ces" using s1 ces(1) by simp
        moreover have "EvCreateISO dir True \<in> set (es @ [EvCreateISO dir True])" by simp
        ultimately show ?case unfolding built_def using ces(2) by blast
      qed simp
    qed (use 1 es in \<open>simp add: wp_returnM extends_def\<close>)
  qed simp
qed

lemma wp_buildImage:
  assumes "extends t s"
  shows "wp (buildImage env ici cd bmh dir ps ca cfg re) (built env cd dir t) (\<lambda>_ _. True) s"
proof -
  have re: "emits (\<lambda>_. True) (case re of None \<Rightarrow> returnM None | Some idData \<Rightarrow> WriteReinstallData env cfg dir idData)"
    by (intro emits_intro emits_any_Installer)
  show ?thesis
    unfolding buildImage_def
    by (rule wp_then_err [OF emits_any_Installer(1) assms],
        simp, rule wp_then_err [OF emits_any_Installer(2)], assumption,
        simp, rule wp_then_err [OF re], assumption,
        simp, rule wp_buildImage_end, assumption, simp_all)
qed

lemma wp_fileExists:
  "wp (fileExists env f) (\<lambda>b s'. Trace s' = Trace s \<and> (b \<longrightarrow> Fs s' = Fs s \<and> Fs s f \<noteq> None)) (\<lambda>_ _. False) s"
  by (auto simp: fileExists_def wp call_defs stat_fs_def split: prod.split option.split sum.split)

lemma wp_all_exist:
  "wp (all_exist env files)
     (\<lambda>b s'. Trace s' = Trace s \<and> (b \<longrightarrow> Fs s' = Fs s \<and> list_all (\<lambda>f. Fs s f \<noteq> None) files)) (\<lambda>_ _. False) s"
proof (induction files arbitrary: s)
  case (Cons f files)
  show ?case
    unfolding all_exist.simps wp_bindM
  proof (rule wp_mono [OF wp_fileExists], goal_cases)
    case (1 b s1)
    show ?case
    proof (cases b)
      case True
      then have "Trace s1 = Trace s" "Fs s1 = Fs s" "Fs s f \<noteq> None" using 1 by auto
      then show ?thesis using Cons.IH [of s1] True by (simp add: wp_if)
    qed (use 1 in \<open>simp add: wp_returnM\<close>)
  qed simp
qed (simp add: wp_returnM)

definition ready :: "'w env \<Rightarrow> ClusterDeployment \<Rightarrow> string \<Rightarrow> event list \<Rightarrow> goerr option \<Rightarrow> 'w world \<Rightarrow> bool" where
  "ready env cd dir t err s' \<longleftrightarrow> (\<exists>es. Trace s' = t @ es \<and> (err = None \<longrightarrow> image_ready env cd dir es))"

lemma ready_fail [simp]: "ready env cd dir t (Some e) s = extends t s"
  by (simp add: ready_def extends_def)

lemma ready_Hub [simp]: "ready env cd dir t err (s\<lparr>Hub := h\<rparr>) = ready env cd dir t err s"
  by (simp add: ready_def)

lemma built_ready: "built env cd dir t err s \<Longrightarrow> ready env cd dir t err s"
  unfolding built_def ready_def image_ready_def by (metis append_Nil2)

lemma built_removed:
  assumes "built env cd dir t err s1" and "Trace s2 = Trace s1 @ [EvRemoveAll tmp b]"
  shows "ready env cd dir t err s2"
proof -
  obtain es where es: "Trace s1 = t @ es"
    "err = None \<longrightarrow> (\<exists>pre creds fs. es = pre @ creds \<and> EvCreateISO dir True \<in> set pre \<and> creds_provided env cd dir fs creds)"
    using assms(1) unfolding built_def by blast
  have "Trace s2 = t @ es @ [EvRemoveAll tmp b]" using assms(2) es(1) by simp
  moreover have "err = None \<longrightarrow> image_ready env cd dir (es @ [EvRemoveAll tmp b])"
    using es(2) unfolding image_ready_def by (metis append_assoc)
  ultimately show ?thesis unfolding ready_def by blast
qed

lemma wp_build_in_temp:
  assumes "extends t s"
  shows "wp (deferM (buildImage env ici cd bmh dir ps ca tmp re) (\<lambda>_. bindM (os_RemoveAll env tmp) (\<lambda>_. returnM ())))
    (ready env cd dir t) (\<lambda>_ _. True) s"
  unfolding wp_deferM
proof (rule wp_mono [OF wp_buildImage [OF assms]], goal_cases)
  case (1 err s1)
  show ?case
    unfolding call_defs wp_bindM wp_returnM_fun
    by (rule wp_noteM_any, rule built_removed [OF 1]) simp
next
  case (2 p s1)
  show ?case by (rule wp_mono [OF wp_True]) simp_all
qed

lemma wp_creds_found:
  "wp (verifyIsoAndAuthExists env dir)
     (\<lambda>exists s1. Trace s1 = Trace s
        \<and> (exists \<longrightarrow> wp (ensureCreds env cd dir) (ready env cd dir (Trace s)) (\<lambda>_ _. True) s1)) (\<lambda>_ _. False) s"
  unfolding verifyIsoAndAuthExists_def
proof (rule wp_mono [OF wp_all_exist], goal_cases)
  case (1 b s1)
  show ?case
  proof (intro conjI impI)
    assume b
    then have iso: "Fs s1 (filepath_Join [dir, IsoName]) \<noteq> None" using 1 by (simp add: image_files_def)
    show "wp (ensureCreds env cd dir) (ready env cd dir (Trace s)) (\<lambda>_ _. True) s1"
    proof (rule wp_mono [OF wp_ensureCreds], goal_cases)
      case (1 err s2)
      then obtain es where es: "Trace s2 = Trace s @ es" "err = None \<longrightarrow> creds_provided env cd dir (Fs s1) es"
        using \<open>Trace s1 = Trace s \<and> _\<close> by auto
      have "err = None \<longrightarrow> image_ready env cd dir es"
        unfolding image_ready_def using iso es(2) by (metis append_Nil append_Nil2)
      with es(1) show ?case unfolding ready_def by blast
    qed simp
  qed (use 1 in simp)
qed simp

lemma emits_any_reads:
  "emits (\<lambda>_. True) (getValidPullSecret env psRef ns)" "emits (\<lambda>_. True) (getCABundle env ref ns)"
  "emits (\<lambda>_. True) (os_MkdirTemp env)" "emits (\<lambda>_. True) (os_MkdirAll env p)" "emits (\<lambda>_. True) (os_RemoveAll env p)"
  "emits (\<lambda>_. True) (ClusterIdentitySecrets env cd)"
  by (intro emits_intro; simp)+

lemma wp_buildWithIdentity:
  assumes "extends t s"
  shows "wp (buildWithIdentity env ici cd bmh dir ps ca x) (ready env cd dir t) (\<lambda>_ _. True) s"
proof -
  obtain idData exist e where x: "x = (idData, exist, e)" by (metis prod_cases3)
  have new: "wp (buildImage env ici cd bmh dir ps ca dir None) (ready env cd dir t) (\<lambda>_ _. True) s"
    by (rule wp_mono [OF wp_buildImage [OF assms]]) (auto intro: built_ready)
  show ?thesis
  proof (cases e)
    case None
    show ?thesis
      unfolding buildWithIdentity_def x None prod.case option.case wp_if
      using new by (auto intro!: wp_then_sum [OF emits_any_reads(3) assms] wp_build_in_temp)
  qed (use assms in \<open>simp add: buildWithIdentity_def x wp_returnM\<close>)
qed

lemma wp_writeNewInputFiles:
  assumes "extends t s"
  shows "wp (writeNewInputFiles env ici cd bmh dir) (ready env cd dir t) (\<lambda>_ _. True) s"
  unfolding writeNewInputFiles_def wp_bindM [of "os_RemoveAll env dir"]
  by (rule wp_skip_ext [OF emits_any_reads(5) assms],
      rule wp_then_sum [OF emits_any_reads(4)], assumption, simp,
      rule wp_then_sum [OF emits_any_reads(1)], assumption, simp,
      rule wp_then_sum [OF emits_any_reads(2)], assumption, simp,
      rule wp_then_err [OF emits_any_Installer(4)], assumption, simp,
      subst wp_bindM, rule wp_skip_ext [OF emits_any_reads(6)], assumption, rule wp_buildWithIdentity, simp_all)

lemma wp_writeInputFiles:
  "wp (writeInputFiles env ici cd bmh filesDir)
     (ready env cd (filepath_Join [filesDir, ClusterConfigDir]) (Trace s)) (\<lambda>_ _. True) s"
  unfolding writeInputFiles_def Let_def wp_bindM [of "verifyIsoAndAuthExists env _"]
proof (rule wp_mono [OF wp_creds_found [of _ _ _ cd]], goal_cases)
  case (1 exists s1)
  then have ext: "extends (Trace s) s1" by (simp add: extends_def)
  show ?case
  proof (cases "exists")
    case True
    then show ?thesis using 1 by (simp only: wp_if simp_thms if_True)
  next
    case False
    show ?thesis unfolding wp_if if_not_P [OF False] by (rule wp_writeNewInputFiles [OF ext])
  qed
qed simp

lemma image_ready_prefix:
  assumes "image_ready env cd dir es"
  shows "image_ready env cd dir (p @ es)"
proof -
  obtain pre creds post fs where "es = pre @ creds @ post"
    "fs (filepath_Join [dir, IsoName]) \<noteq> None \<or> EvCreateISO dir True \<in> set pre"
    "creds_provided env cd dir fs creds" "post = [] \<or> (\<exists>tmp b. post = [EvRemoveAll tmp b])"
    using assms unfolding image_ready_def by blast
  then show ?thesis
    unfolding image_ready_def
    by (intro exI [of _ "p @ pre"] exI [of _ creds] exI [of _ post] exI [of _ fs]) auto
qed

lemma ready_prefix: "ready env cd dir (t @ p) err s \<Longrightarrow> ready env cd dir t err s"
  unfolding ready_def by (metis append_assoc image_ready_prefix)

abbreviation isoWorkDir_of :: "ImageClusterInstallReconciler \<Rightarrow> ImageClusterInstall \<Rightarrow> string" where
  "isoWorkDir_of r ici \<equiv> filepath_Join [filesDir_of r ici, ClusterConfigDir]"

lemma wp_writeInputData:
  "wp (writeInputData env r ici cd bmh)
     (\<lambda>(res, err) s'. ready env cd (isoWorkDir_of r ici) (Trace s) (if Result_IsZero res then err else Some (errorf [])) s'
        \<and> (res = zeroResult \<or> res = requeueAfter (seconds 5) \<and> err = None))
     (\<lambda>_ _. True) s"
  unfolding writeInputData_def configDirs_def call_defs wp_bindM [of "noteM _ _"] wp_bindM [of "bindM _ _"]
proof (rule wp_noteM_any, goal_cases)
  case (1 m h fs)
  let ?s1 = "s\<lparr>Hub := h, Fs := fs, Trace := Trace s @ [EvMkdirAll (filesDir_of r ici) (ok m)]\<rparr>"
  have ext: "extends (Trace s) ?s1" by (simp add: extends_def)
  show ?case
  proof (cases m)
    case (Inr u)
    have files: "wp (writeInputFiles env ici cd bmh (filesDir_of r ici))
        (\<lambda>e s2. ready env cd (isoWorkDir_of r ici) (Trace s) e s2) (\<lambda>_ _. True) s2"
      if "Trace s2 = Trace ?s1 @ es" for s2 es
    proof (rule wp_mono [OF wp_writeInputFiles], goal_cases)
      case (1 e s3)
      have "Trace s2 = Trace s @ [EvMkdirAll (filesDir_of r ici) (ok m)] @ es" using that by simp
      with 1 show ?case by (metis ready_prefix)
    qed simp
    show ?thesis
      unfolding Inr sum.case wp_returnM_fun wp_returnM prod.case wp_bindM [of "WithWriteLock _ _ _"]
    proof (rule wp_WithWriteLock, goal_cases)
      case (1 err s2 es)
      then have "extends (Trace s) s2" by (simp add: extends_def)
      then show ?case by (cases err) (simp_all add: wp_returnM)
    next
      case (2 p s2 es)
      then have "Trace s2 = Trace ?s1 @ es" by (simp add: Inr)
      then show ?case
        by (rule wp_mono [OF files]) (auto simp: wp_returnM wp_returnM_fun split: option.split)
    qed
  qed (use ext in \<open>simp add: wp_returnM_fun wp_returnM\<close>)
qed

section \<open>Properties\<close>

lemma wp_createImage:
  "wp (createImage env r ici req bmh cd cond)
     (\<lambda>(cond', imageUrl, res, err) s'.
        if err = None \<and> Result_IsZero res
        then cond' = cond
           \<and> url_JoinPath env (rc_BaseURL r) [''images'', fst req, om_UID (ici_Meta ici) @ ''.iso''] = Inr imageUrl
           \<and> (\<exists>es. image_ready env cd (isoWorkDir_of r ici) es \<and> Trace s' = Trace s @ es)
        else imageUrl = [] \<and> extends (Trace s) s'
           \<and> (if err = None
              then res = requeueAfter (seconds 5)
                 \<and> cond' = cond\<lparr>cc_Reason := ImageCreationPendingReason, cc_Message := ''could not acquire lock for image data''\<rparr>
              else res = zeroResult
                 \<and> (cond' = cond\<lparr>cc_Reason := ImageCreationFailedReason, cc_Message := ''failed to create image''\<rparr>
                    \<or> cond' = cond\<lparr>cc_Message := ''failed to create image url''\<rparr>)))
     (\<lambda>_ _. True) s"
  unfolding createImage_def wp_bindM
proof (rule wp_mono [OF wp_writeInputData], goal_cases)
  case (1 x s1)
  obtain res err where x: "x = (res, err)" by (cases x)
  have ext: "extends (Trace s) s1"
    using 1 unfolding x by (auto simp: ready_def extends_def)
  show ?case
    using 1 ext unfolding x
    by (auto simp: wp_if wp_returnM wp_returnM_fun wp_case_sum ready_def split: sum.split)
qed simp


end
