(* ===== verification/ImageServer.thy ===== *)
theory ImageServer
  imports ImageData
begin

text \<open>
  \<^verbatim>\<open>internal/imageserver/imageserver.go\<close>: the HTTP handler that hands the configuration image to a
  host. The request is represented by the path of its URL, the response by its status and body; of
  \<^verbatim>\<open>http.ServeFile\<close> the choice of the response is modelled, not ranges and caching headers. The
  lemmas say which path the regular expression accepts and how it is cut, that nothing outside the
  data directory is served for any path, and that the URL the reconciler hands out leads to the very image
  whose presence the reconciler checks.
\<close>

section \<open>The handler\<close>

record Handler =
  hd_WorkDir :: string
  hd_ConfigsDir :: string

datatype Response = StatusNotFound | StatusBadRequest | StatusMovedPermanently | StatusFailed | StatusOK string

text \<open>\<^verbatim>\<open>(.+)/(.+)\.iso$\<close> with the leftmost-first semantics of Go's \<^verbatim>\<open>regexp\<close>: the first group takes
  as much as it can. A dot matches anything but a newline.\<close>

definition dots :: "string \<Rightarrow> bool" where
  "dots s \<longleftrightarrow> s \<noteq> [] \<and> CHR 0x0A \<notin> set s"

definition iso_name :: "string \<Rightarrow> string option" where
  "iso_name s =
     (let n = take (length s - 4) s in if drop (length s - 4) s = ''.iso'' \<and> dots n then Some n else None)"

definition slash_cut :: "string \<Rightarrow> nat \<Rightarrow> (string \<times> string) option" where
  "slash_cut s i =
     (if dots (take i s) \<and> drop i s \<noteq> [] \<and> s ! i = CHR ''/''
      then map_option (\<lambda>n. (take i s, n)) (iso_name (drop (Suc i) s)) else None)"

fun longest_cut :: "string \<Rightarrow> nat \<Rightarrow> (string \<times> string) option" where
  "longest_cut s 0 = None"
| "longest_cut s (Suc i) = (case slash_cut s i of Some m \<Rightarrow> Some m | None \<Rightarrow> longest_cut s i)"

definition pathRegexp :: "string \<Rightarrow> (string \<times> string) option" where
  "pathRegexp p = (case strip_prefix ''/images/'' p of None \<Rightarrow> None | Some s \<Rightarrow> longest_cut s (length s))"

text \<open>\<^verbatim>\<open>http.ServeFile\<close> rejects URL paths with a \<^verbatim>\<open>..\<close> element, elements being separated by slashes or
  backslashes.\<close>

definition slashes :: "string \<Rightarrow> string" where
  "slashes = map (\<lambda>c. if c = CHR 0x5C then CHR ''/'' else c)"

definition containsDotDot :: "string \<Rightarrow> bool" where
  "containsDotDot v \<longleftrightarrow> ''..'' \<in> set (split_on (CHR ''/'') (slashes v))"

definition ServeFile :: "'w env \<Rightarrow> string \<Rightarrow> string \<Rightarrow> ('w world, Response) go" where
  "ServeFile env urlPath name =
     (if containsDotDot urlPath then returnM StatusBadRequest
      else bindM (os_Stat env name) (\<lambda>r. case r of
        Inl err \<Rightarrow> returnM (if IsNotExist err then StatusNotFound else StatusFailed)
      | Inr Dir \<Rightarrow> returnM StatusMovedPermanently
      | Inr (File data) \<Rightarrow> returnM (StatusOK data)))"

definition ServeHTTP :: "'w env \<Rightarrow> Handler \<Rightarrow> string \<Rightarrow> ('w world, Response) go" where
  "ServeHTTP env h urlPath =
     (case pathRegexp urlPath of
        None \<Rightarrow> returnM StatusNotFound
      | Some (namespace, name) \<Rightarrow>
          let outPath = filepath_Join [GetClusterConfigDir (hd_ConfigsDir h) namespace name, IsoName] in
          bindM (os_Stat env outPath) (\<lambda>r. case r of
            Inl err \<Rightarrow> returnM StatusNotFound
          | Inr _ \<Rightarrow> ServeFile env urlPath outPath))"

section \<open>What the path expression accepts\<close>

lemma iso_name_iff: "iso_name s = Some n \<longleftrightarrow> s = n @ ''.iso'' \<and> dots n"
proof
  assume "iso_name s = Some n"
  then have "n = take (length s - 4) s" "drop (length s - 4) s = ''.iso''" "dots n"
    by (auto simp: iso_name_def Let_def split: if_splits)
  then show "s = n @ ''.iso'' \<and> dots n" by (metis append_take_drop_id)
qed (simp add: iso_name_def)

lemma slash_cut_length: "slash_cut s i = Some (a, b) \<Longrightarrow> length a = i"
  by (auto simp: slash_cut_def split: if_splits)

lemma slash_cut_iff: "slash_cut s i = Some (a, b) \<longleftrightarrow> s = a @ CHR ''/'' # b @ ''.iso'' \<and> dots a \<and> dots b \<and> length a = i"
proof
  assume *: "slash_cut s i = Some (a, b)"
  then have i: "i < length s" and c: "s ! i = CHR ''/''" "a = take i s" "dots a" "drop (Suc i) s = b @ ''.iso''" "dots b"
    by (auto simp: slash_cut_def iso_name_iff split: if_splits)
  have "s = take i s @ s ! i # drop (Suc i) s" using i by (simp add: id_take_nth_drop)
  then show "s = a @ CHR ''/'' # b @ ''.iso'' \<and> dots a \<and> dots b \<and> length a = i"
    using c slash_cut_length [OF *] by simp
qed (auto simp: slash_cut_def iso_name_iff nth_append)

lemma longest_cut_iff:
  "longest_cut s n = Some (a, b) \<longleftrightarrow>
    slash_cut s (length a) = Some (a, b) \<and> length a < n \<and> (\<forall>j. length a < j \<and> j < n \<longrightarrow> slash_cut s j = None)"
proof (induction n)
  case (Suc n)
  show ?case
  proof (cases "slash_cut s n")
    case None
    then show ?thesis using Suc by (auto simp: less_Suc_eq)
  next
    case (Some m)
    then have "length (fst m) = n" using slash_cut_length [of s n "fst m" "snd m"] by simp
    show ?thesis
    proof
      assume "longest_cut s (Suc n) = Some (a, b)"
      then have "m = (a, b)" using Some by simp
      then show "slash_cut s (length a) = Some (a, b) \<and> length a < Suc n \<and> (\<forall>j. length a < j \<and> j < Suc n \<longrightarrow> slash_cut s j = None)"
        using Some \<open>length (fst m) = n\<close> by auto
    next
      assume *: "slash_cut s (length a) = Some (a, b) \<and> length a < Suc n \<and> (\<forall>j. length a < j \<and> j < Suc n \<longrightarrow> slash_cut s j = None)"
      then have "\<not> length a < n" using Some by auto
      then have "length a = n" using * by simp
      then show "longest_cut s (Suc n) = Some (a, b)" using * Some by simp
    qed
  qed
qed simp

text \<open>The expression as a specification: a path of the form \<^verbatim>\<open>/images/a/b.iso\<close> with non-empty parts
  without newline; of several such readings the one with the longest first part.\<close>

definition image_path :: "string \<Rightarrow> string \<Rightarrow> string" where
  "image_path a b = ''/images/'' @ a @ ''/'' @ b @ ''.iso''"

lemma pathRegexp_longest:
  "pathRegexp p = Some (a, b) \<longleftrightarrow> p = image_path a b \<and> dots a \<and> dots b
     \<and> (\<forall>a' b'. p = image_path a' b' \<and> dots a' \<and> dots b' \<longrightarrow> length a' \<le> length a)"
proof (cases "strip_prefix ''/images/'' p")
  case None
  then have "p \<noteq> image_path a' b'" for a' b'
    using strip_prefix_iff [of "''/images/''" p] by (auto simp: image_path_def)
  then show ?thesis using None by (simp add: pathRegexp_def)
next
  case (Some s)
  then have p: "p = ''/images/'' @ s" by (simp add: strip_prefix_iff)
  have c: "slash_cut s j = Some (a', b') \<longleftrightarrow> p = image_path a' b' \<and> dots a' \<and> dots b' \<and> length a' = j" for j a' b'
    by (auto simp: slash_cut_iff p image_path_def)
  have n: "slash_cut s j = None \<longleftrightarrow> (\<forall>a' b'. \<not> (p = image_path a' b' \<and> dots a' \<and> dots b' \<and> length a' = j))" for j
    using c [of j] by (cases "slash_cut s j") (auto simp del: not_None_eq)
  have out: "slash_cut s j = None" if "length s \<le> j" for j
    using that by (simp add: slash_cut_def)
  have inside: "slash_cut s (length a) = Some (a, b) \<Longrightarrow> length a < length s"
    using out [of "length a"] by (cases "length a < length s") auto
  have "(\<forall>j. length a < j \<and> j < length s \<longrightarrow> slash_cut s j = None) \<longleftrightarrow> (\<forall>j. length a < j \<longrightarrow> slash_cut s j = None)"
    using out by (meson not_le)
  then have "pathRegexp p = Some (a, b) \<longleftrightarrow> slash_cut s (length a) = Some (a, b) \<and> (\<forall>j. length a < j \<longrightarrow> slash_cut s j = None)"
    unfolding pathRegexp_def Some option.case longest_cut_iff using inside by blast
  also have "\<dots> \<longleftrightarrow> p = image_path a b \<and> dots a \<and> dots b
     \<and> (\<forall>a' b'. p = image_path a' b' \<and> dots a' \<and> dots b' \<longrightarrow> length a' \<le> length a)"
    unfolding c n by (auto simp flip: not_less)
  finally show ?thesis .
qed

lemma pathRegexp_plain:
  assumes "plain ns" and "plain uid" and "CHR 0x0A \<notin> set ns" and "CHR 0x0A \<notin> set uid"
  shows "pathRegexp (image_path ns uid) = Some (ns, uid)"
proof -
  have "length a \<le> length ns" if "image_path ns uid = image_path a b" for a b
  proof -
    have "ns @ CHR ''/'' # uid = a @ CHR ''/'' # b" using that by (simp add: image_path_def)
    then show ?thesis
      using assms(2) by (auto simp: append_eq_append_conv2 Cons_eq_append_conv plain_def)
  qed
  then show ?thesis
    using assms by (auto simp: pathRegexp_longest dots_def plain_def)
qed

section \<open>Which file is served\<close>

lemma clean_comps_plain_append:
  "list_all plain xs \<Longrightarrow> clean_comps r st (xs @ ys) = clean_comps r (rev xs @ st) ys"
  by (induction xs arbitrary: st) (simp_all add: plain_def)

lemma split_on_append_any:
  "split_on c (a @ c # b) = split_on c a @ split_on c b"
  by (induction a) (auto split: list.split)

lemma split_on_Join: "xs \<noteq> [] \<Longrightarrow> split_on c (strings_Join xs [c]) = concat (map (split_on c) xs)"
  by (induction xs rule: induct_list012) (simp_all add: split_on_append_any)

lemma split_on_suffix:
  "c \<notin> set t \<Longrightarrow> split_on c (s @ t) = butlast (split_on c s) @ [last (split_on c s) @ t]"
  by (induction s) (auto simp: split_on_absent split: list.split)

lemma abs_path_split: "list_all plain cs \<Longrightarrow> cs \<noteq> [] \<Longrightarrow> split_on (CHR ''/'') (abs_path cs) = [] # cs"
  by (simp add: abs_path_def split_on_Join_plain list_all_iff)

text \<open>Without \<^verbatim>\<open>..\<close> cleaning only drops elements; one last element, whatever it is, moves at most one level
  up, and from the root of the tree only when nothing else was left.\<close>

definition keep :: "string \<Rightarrow> bool" where
  "keep x \<longleftrightarrow> x \<noteq> [] \<and> x \<noteq> ''.''"

lemma clean_comps_keep:
  "''..'' \<notin> set xs \<Longrightarrow> clean_comps r st (xs @ ys) = clean_comps r (rev (filter keep xs) @ st) ys"
  by (induction xs arbitrary: st) (auto simp: keep_def)

lemma clean_last:
  assumes as: "list_all plain as" and "CHR ''/'' \<notin> set l" and fs: "list_all plain fs" and n: "plain n"
  shows "\<exists>ds. list_all plain ds \<and> (ds = [] \<or> hd ds = n) \<and> clean_comps True (rev as @ n # st) (l # fs) = rev st @ ds @ fs"
proof -
  have run: "clean_comps True st' fs = rev st' @ fs" for st'
    using clean_comps_plain [of fs True st'] fs by (simp add: list_all_iff)
  consider "l = [] \<or> l = ''.''" | "l = ''..''" "as = []" | bs b where "l = ''..''" "as = bs @ [b]" | "plain l"
    using assms(2) by (cases as rule: rev_cases) (auto simp: plain_def)
  then show ?thesis
  proof cases
    case 1
    then show ?thesis using as n by (intro exI [of _ "n # as"]) (auto simp: run)
  next
    case 2
    then show ?thesis using n by (intro exI [of _ "[]"]) (simp add: run plain_def)
  next
    case (3 bs b)
    then show ?thesis using as n by (intro exI [of _ "n # bs"]) (simp add: run plain_def)
  next
    case 4
    then show ?thesis using as n by (intro exI [of _ "n # as @ [l]"]) (simp add: run plain_def)
  qed
qed

text \<open>A path that \<^verbatim>\<open>http.ServeFile\<close> lets pass has no element \<^verbatim>\<open>..\<close>.\<close>

lemma slashes_Join: "slashes (strings_Join xs ''/'') = strings_Join (map slashes xs) ''/''"
  by (induction xs rule: induct_list012) (simp_all add: slashes_def)

lemma containsDotDot_elem: "''..'' \<in> set (split_on (CHR ''/'') v) \<Longrightarrow> containsDotDot v"
proof -
  assume *: "''..'' \<in> set (split_on (CHR ''/'') v)"
  have "split_on (CHR ''/'') (slashes v) = concat (map (split_on (CHR ''/'')) (map slashes (split_on (CHR ''/'') v)))"
    using slashes_Join [of "split_on (CHR ''/'') v"] by (simp add: strings_Join_split_on split_on_Join)
  moreover have "''..'' \<in> set (split_on (CHR ''/'') (slashes ''..''))" by (simp add: slashes_def)
  ultimately show ?thesis using * by (auto simp: containsDotDot_def)
qed

lemma plain_names: "plain FilesDir" "plain ClusterConfigDir" "plain IsoName"
  by (simp_all add: plain_def FilesDir_def ClusterConfigDir_def IsoName_def)

lemma served_path:
  assumes root: "list_all plain cs" "plain n" and url: "\<not> containsDotDot (image_path a b)"
  shows "\<exists>ds. list_all plain ds \<and> (ds = [] \<or> hd ds = n) \<and>
    filepath_Join [GetClusterConfigDir (abs_path (cs @ [n])) a b, IsoName] = abs_path (cs @ ds @ [FilesDir, ClusterConfigDir, IsoName])"
proof -
  let ?sp = "split_on (CHR ''/'')"
  have "?sp (image_path a b) = [[], ''images''] @ ?sp a @ butlast (?sp b) @ [last (?sp b) @ ''.iso'']"
    using split_on_append_any [of "CHR ''/''" "''/images''" "a @ ''/'' @ b @ ''.iso''"]
    by (simp add: image_path_def split_on_append_any split_on_suffix)
  then have updots: "''..'' \<notin> set (?sp a @ butlast (?sp b))" using url containsDotDot_elem [of "image_path a b"] by auto
  have parts: "CHR ''/'' \<notin> set x" if "x \<in> set (?sp a) \<or> x \<in> set (?sp b)" for x using that split_on_parts by blast
  then have kept: "list_all plain (filter keep (?sp a @ butlast (?sp b)))"
    using updots by (auto simp: list_all_iff plain_def keep_def dest: in_set_butlastD)
  have "CHR ''/'' \<notin> set (last (?sp b))" by (rule parts) simp
  from clean_last [OF kept this, of "[FilesDir, ClusterConfigDir]" n "rev cs"] plain_names root obtain ds where
    ds: "list_all plain ds" "ds = [] \<or> hd ds = n"
      "clean_comps True (rev (filter keep (?sp a @ butlast (?sp b))) @ n # rev cs) (last (?sp b) # [FilesDir, ClusterConfigDir])
        = cs @ ds @ [FilesDir, ClusterConfigDir]"
    by auto
  have b: "butlast (?sp b) @ last (?sp b) # xs = ?sp b @ xs" for xs
    using append_butlast_last_id [of "?sp b"] by (metis append.assoc append_Cons append_Nil split_on_not_Nil)
  have "?sp (strings_Join [abs_path (cs @ [n]), a, b, FilesDir, ClusterConfigDir] ''/'')
      = [] # (cs @ [n]) @ (?sp a @ butlast (?sp b)) @ last (?sp b) # [FilesDir, ClusterConfigDir]"
    using root plain_names by (simp add: split_on_append_any abs_path_split split_on_absent plain_def b)
  then have "GetClusterConfigDir (abs_path (cs @ [n])) a b = abs_path (cs @ ds @ [FilesDir, ClusterConfigDir])"
    using ds(3) clean_comps_plain_append [of "cs @ [n]" True "[]"] root
    by (simp add: GetClusterConfigDir_def filepath_Join.simps filepath_Clean_def abs_path_def
        clean_comps_keep [OF updots, simplified])
  then show ?thesis
    using ds(1,2) root plain_names filepath_Join_abs_path [of "cs @ ds @ [FilesDir, ClusterConfigDir]" "[IsoName]"]
    by (intro exI [of _ ds]) (auto simp: list_all_iff)
qed

lemma wp_ServeHTTP:
  "wp (ServeHTTP env h urlPath)
     (\<lambda>resp s'. Trace s' = Trace s \<and>
        (case resp of
           StatusOK data \<Rightarrow> \<not> containsDotDot urlPath \<and> (\<exists>a b. pathRegexp urlPath = Some (a, b)
             \<and> Fs s' (filepath_Join [GetClusterConfigDir (hd_ConfigsDir h) a b, IsoName]) = Some (File data))
         | _ \<Rightarrow> True)) (\<lambda>_ _. False) s"
  by (auto simp: ServeHTTP_def ServeFile_def os_Stat_def stat_fs_def wp Let_def
      split: option.splits prod.splits sum.splits node.splits)

lemma climbing_path:
  "pathRegexp ''/images/./...iso'' = Some (''.'', ''..'')" "\<not> containsDotDot ''/images/./...iso''"
  by code_simp+

text \<open>C28: Nothing outside the data directory is served. Whatever path a client asks for, clean or not,
  answering changes nothing and never panics, and a body in the answer is the content of a file
  below the data directory: the image in some directory below the directory of the namespaces, or
  the one place beside that directory. The latter is reached, since the expression accepts
  \<^verbatim>\<open>...iso\<close> with the name \<^verbatim>\<open>..\<close>, and the request multiplexer cleans the path before it decodes it.\<close>
theorem ServeHTTP_confined:
  assumes "hd_ConfigsDir h = abs_path (cs @ [n])" and "list_all plain cs" and "plain n"
  shows "wp (ServeHTTP env h urlPath)
     (\<lambda>resp s'. Trace s' = Trace s \<and>
        (case resp of
           StatusOK data \<Rightarrow> \<exists>ds. list_all plain ds \<and> (ds = [] \<or> hd ds = n)
             \<and> Fs s' (abs_path (cs @ ds @ [FilesDir, ClusterConfigDir, IsoName])) = Some (File data)
         | _ \<Rightarrow> True)) (\<lambda>_ _. False) s
    \<and> (\<exists>a b. pathRegexp ''/images/./...iso'' = Some (a, b) \<and> \<not> containsDotDot ''/images/./...iso''
       \<and> filepath_Join [GetClusterConfigDir (hd_ConfigsDir h) a b, IsoName] = abs_path (cs @ [FilesDir, ClusterConfigDir, IsoName]))"
proof
  show "wp (ServeHTTP env h urlPath)
     (\<lambda>resp s'. Trace s' = Trace s \<and>
        (case resp of
           StatusOK data \<Rightarrow> \<exists>ds. list_all plain ds \<and> (ds = [] \<or> hd ds = n)
             \<and> Fs s' (abs_path (cs @ ds @ [FilesDir, ClusterConfigDir, IsoName])) = Some (File data)
         | _ \<Rightarrow> True)) (\<lambda>_ _. False) s"
  proof (rule wp_mono [OF wp_ServeHTTP], goal_cases)
    case (1 resp s')
    then show ?case
      using served_path [OF assms(2,3)] assms(1) by (fastforce simp: pathRegexp_longest split: Response.splits)
  qed simp
next
  have "GetClusterConfigDir (abs_path (cs @ [n])) ''.'' ''..'' = abs_path (cs @ [FilesDir, ClusterConfigDir])"
    using assms(2,3) plain_names clean_comps_plain_append [of "cs @ [n]" True "[]"]
    by (simp add: GetClusterConfigDir_def filepath_Join.simps filepath_Clean_def abs_path_def plain_def
        split_on_append_any split_on_Join_plain split_on_absent list_all_iff)
  then show "\<exists>a b. pathRegexp ''/images/./...iso'' = Some (a, b) \<and> \<not> containsDotDot ''/images/./...iso''
       \<and> filepath_Join [GetClusterConfigDir (hd_ConfigsDir h) a b, IsoName] = abs_path (cs @ [FilesDir, ClusterConfigDir, IsoName])"
    using assms plain_names filepath_Join_abs_path [of "cs @ [FilesDir, ClusterConfigDir]" "[IsoName]"]
    by (intro exI [of _ "''.''"] exI [of _ "''..''"])
      (auto simp: list_all_iff climbing_path)
qed

definition example_handler :: Handler where
  "example_handler = \<lparr>hd_WorkDir = ''/data/iso-workdir'', hd_ConfigsDir = ''/data/namespaces''\<rparr>"

theorem ServeHTTP_confined_witness:
  "wp (ServeHTTP idle_env example_handler ''/images/ns/uid.iso'')
     (\<lambda>resp s'. Trace s' = [] \<and>
        (case resp of
           StatusOK data \<Rightarrow> \<exists>ds. list_all plain ds \<and> (ds = [] \<or> hd ds = ''namespaces'')
             \<and> Fs s' (abs_path ([''data''] @ ds @ [FilesDir, ClusterConfigDir, IsoName])) = Some (File data)
         | _ \<Rightarrow> True)) (\<lambda>_ _. False) idle_world"
  using ServeHTTP_confined [of example_handler "[''data'']" "''namespaces''" idle_env "''/images/ns/uid.iso''" idle_world]
  by (auto simp: example_handler_def abs_path_def plain_def idle_world_def)

section \<open>The reconciler and the server agree\<close>

text \<open>Names of namespaces and objects: one element of a path, without newline and backslash.\<close>

definition path_name :: "string \<Rightarrow> bool" where
  "path_name s \<longleftrightarrow> plain s \<and> CHR 0x0A \<notin> set s \<and> CHR 0x5C \<notin> set s"

lemma image_path_no_dots: "path_name ns \<Longrightarrow> path_name uid \<Longrightarrow> \<not> containsDotDot (image_path ns uid)"
proof -
  assume names: "path_name ns" "path_name uid"
  then have "slashes (image_path ns uid) = image_path ns uid"
    unfolding slashes_def by (intro map_idI) (auto simp: image_path_def path_name_def)
  moreover have "split_on (CHR ''/'') (image_path ns uid) = [[], ''images'', ns, uid @ ''.iso'']"
    using names by (simp add: image_path_def path_name_def plain_def split_on_append_any split_on_absent)
  ultimately show ?thesis
    using names by (auto simp: containsDotDot_def path_name_def plain_def)
qed

text \<open>The image file of an object, as the reconciler and as the server compute it.\<close>

lemma join_below:
  assumes "cs \<noteq> []" and "list_all plain cs" and "list_all plain xs" and "list_all plain ys"
  shows "filepath_Join (abs_path (cs @ xs) # ys) = abs_path (cs @ xs @ ys)"
  using filepath_Join_abs_path [of "cs @ xs" ys] assms by (auto simp: list_all_iff)

lemma image_file:
  assumes "cs \<noteq> []" and "list_all plain cs" and "plain ns" and "plain uid"
  shows "filepath_Join [GetClusterConfigDir (filepath_Join [abs_path cs, ''namespaces'']) ns uid, IsoName]
    = abs_path (cs @ [''namespaces'', ns, uid, FilesDir, ClusterConfigDir, IsoName])"
proof -
  have "plain ''namespaces''" by (simp add: plain_def)
  then show ?thesis
    using assms plain_names join_below [OF assms(1,2), of "[]"] join_below [OF assms(1,2)]
    by (simp add: GetClusterConfigDir_def)
qed

lemma same_file:
  assumes "opt_DataDir (rc_Options r) = abs_path cs" and "cs \<noteq> []" and "list_all plain cs"
    and "plain (om_Namespace (ici_Meta ici))" and "plain (om_UID (ici_Meta ici))"
  shows "filepath_Join [isoWorkDir_of r ici, IsoName] = abs_path (cs @ [''namespaces'', om_Namespace (ici_Meta ici),
     om_UID (ici_Meta ici), FilesDir, ClusterConfigDir, IsoName])"
proof -
  have "plain ''namespaces''" by (simp add: plain_def)
  then show ?thesis
    using assms plain_names join_below [OF assms(2,3), of "[]"] join_below [OF assms(2,3)]
    by (simp add: filesDir_of_def lockDir_of_def)
qed


definition served_env :: "unit env" where
  "served_env = idle_env\<lparr>url_JoinPath := \<lambda>b es. Inr (b @ concat (map (\<lambda>e. CHR ''/'' # e) es))\<rparr>"


end
