(* ===== verification/TlsConfig.thy ===== *)
theory TlsConfig
  imports World
begin

text \<open>
  \<^verbatim>\<open>internal/tlsconfig/tlsconfig.go\<close> with the packages it delegates to (\<^verbatim>\<open>controller-runtime-common/pkg/tls\<close>,
  \<^verbatim>\<open>library-go/pkg/crypto\<close>, the profile table of \<^verbatim>\<open>openshift/api\<close>), and the two watchers that end a
  process when the TLS settings of the cluster change: \<^verbatim>\<open>watchAndExitOnTLSChange\<close> of the image server
  and \<^verbatim>\<open>SecurityProfileWatcher\<close> of the manager. A \<^verbatim>\<open>tls.Config\<close> is its version and cipher fields;
  versions and ciphers are the 16 bit codes of TLS.
\<close>

section \<open>Profiles\<close>

type_synonym uint16 = "16 word"

definition VersionTLS12 :: uint16 where
  "VersionTLS12 = 0x0303"
definition VersionTLS13 :: uint16 where
  "VersionTLS13 = 0x0304"

definition versions :: "(string \<times> uint16) list" where
  "versions = [(''VersionTLS10'', 0x0301), (''VersionTLS11'', 0x0302), (''VersionTLS12'', VersionTLS12), (''VersionTLS13'', VersionTLS13)]"

definition ciphers :: "(string \<times> uint16) list" where
  "ciphers =
    [(''TLS_RSA_WITH_RC4_128_SHA'', 0x0005), (''TLS_RSA_WITH_3DES_EDE_CBC_SHA'', 0x000A),
     (''TLS_RSA_WITH_AES_128_CBC_SHA'', 0x002F), (''TLS_RSA_WITH_AES_256_CBC_SHA'', 0x0035),
     (''TLS_RSA_WITH_AES_128_CBC_SHA256'', 0x003C), (''TLS_RSA_WITH_AES_128_GCM_SHA256'', 0x009C),
     (''TLS_RSA_WITH_AES_256_GCM_SHA384'', 0x009D), (''TLS_ECDHE_ECDSA_WITH_RC4_128_SHA'', 0xC007),
     (''TLS_ECDHE_ECDSA_WITH_AES_128_CBC_SHA'', 0xC009), (''TLS_ECDHE_ECDSA_WITH_AES_256_CBC_SHA'', 0xC00A),
     (''TLS_ECDHE_RSA_WITH_RC4_128_SHA'', 0xC011), (''TLS_ECDHE_RSA_WITH_3DES_EDE_CBC_SHA'', 0xC012),
     (''TLS_ECDHE_RSA_WITH_AES_128_CBC_SHA'', 0xC013), (''TLS_ECDHE_RSA_WITH_AES_256_CBC_SHA'', 0xC014),
     (''TLS_ECDHE_ECDSA_WITH_AES_128_CBC_SHA256'', 0xC023), (''TLS_ECDHE_RSA_WITH_AES_128_CBC_SHA256'', 0xC027),
     (''TLS_ECDHE_RSA_WITH_AES_128_GCM_SHA256'', 0xC02F), (''TLS_ECDHE_ECDSA_WITH_AES_128_GCM_SHA256'', 0xC02B),
     (''TLS_ECDHE_RSA_WITH_AES_256_GCM_SHA384'', 0xC030), (''TLS_ECDHE_ECDSA_WITH_AES_256_GCM_SHA384'', 0xC02C),
     (''TLS_ECDHE_RSA_WITH_CHACHA20_POLY1305'', 0xCCA8), (''TLS_ECDHE_ECDSA_WITH_CHACHA20_POLY1305'', 0xCCA9),
     (''TLS_ECDHE_RSA_WITH_CHACHA20_POLY1305_SHA256'', 0xCCA8), (''TLS_ECDHE_ECDSA_WITH_CHACHA20_POLY1305_SHA256'', 0xCCA9),
     (''TLS_AES_128_GCM_SHA256'', 0x1301), (''TLS_AES_256_GCM_SHA384'', 0x1302), (''TLS_CHACHA20_POLY1305_SHA256'', 0x1303)]"

definition openSSLToIANACiphersMap :: "(string \<times> string) list" where
  "openSSLToIANACiphersMap =
    [(''TLS_AES_128_GCM_SHA256'', ''TLS_AES_128_GCM_SHA256''),
     (''TLS_AES_256_GCM_SHA384'', ''TLS_AES_256_GCM_SHA384''),
     (''TLS_CHACHA20_POLY1305_SHA256'', ''TLS_CHACHA20_POLY1305_SHA256''),
     (''ECDHE-ECDSA-AES128-GCM-SHA256'', ''TLS_ECDHE_ECDSA_WITH_AES_128_GCM_SHA256''),
     (''ECDHE-RSA-AES128-GCM-SHA256'', ''TLS_ECDHE_RSA_WITH_AES_128_GCM_SHA256''),
     (''ECDHE-ECDSA-AES256-GCM-SHA384'', ''TLS_ECDHE_ECDSA_WITH_AES_256_GCM_SHA384''),
     (''ECDHE-RSA-AES256-GCM-SHA384'', ''TLS_ECDHE_RSA_WITH_AES_256_GCM_SHA384''),
     (''ECDHE-ECDSA-CHACHA20-POLY1305'', ''TLS_ECDHE_ECDSA_WITH_CHACHA20_POLY1305_SHA256''),
     (''ECDHE-RSA-CHACHA20-POLY1305'', ''TLS_ECDHE_RSA_WITH_CHACHA20_POLY1305_SHA256''),
     (''ECDHE-ECDSA-AES128-SHA256'', ''TLS_ECDHE_ECDSA_WITH_AES_128_CBC_SHA256''),
     (''ECDHE-RSA-AES128-SHA256'', ''TLS_ECDHE_RSA_WITH_AES_128_CBC_SHA256''),
     (''AES128-GCM-SHA256'', ''TLS_RSA_WITH_AES_128_GCM_SHA256''),
     (''AES256-GCM-SHA384'', ''TLS_RSA_WITH_AES_256_GCM_SHA384''),
     (''AES128-SHA256'', ''TLS_RSA_WITH_AES_128_CBC_SHA256''),
     (''ECDHE-ECDSA-AES128-SHA'', ''TLS_ECDHE_ECDSA_WITH_AES_128_CBC_SHA''),
     (''ECDHE-RSA-AES128-SHA'', ''TLS_ECDHE_RSA_WITH_AES_128_CBC_SHA''),
     (''ECDHE-ECDSA-AES256-SHA'', ''TLS_ECDHE_ECDSA_WITH_AES_256_CBC_SHA''),
     (''ECDHE-RSA-AES256-SHA'', ''TLS_ECDHE_RSA_WITH_AES_256_CBC_SHA''),
     (''AES128-SHA'', ''TLS_RSA_WITH_AES_128_CBC_SHA''),
     (''AES256-SHA'', ''TLS_RSA_WITH_AES_256_CBC_SHA''),
     (''DES-CBC3-SHA'', ''TLS_RSA_WITH_3DES_EDE_CBC_SHA''),
     (''ECDHE-RSA-DES-CBC3-SHA'', ''TLS_ECDHE_RSA_WITH_3DES_EDE_CBC_SHA'')]"

definition tls13_ciphers :: "string list" where
  "tls13_ciphers = [''TLS_AES_128_GCM_SHA256'', ''TLS_AES_256_GCM_SHA384'', ''TLS_CHACHA20_POLY1305_SHA256'']"

definition aead_ciphers :: "string list" where
  "aead_ciphers =
    [''ECDHE-ECDSA-AES128-GCM-SHA256'', ''ECDHE-RSA-AES128-GCM-SHA256'', ''ECDHE-ECDSA-AES256-GCM-SHA384'',
     ''ECDHE-RSA-AES256-GCM-SHA384'', ''ECDHE-ECDSA-CHACHA20-POLY1305'', ''ECDHE-RSA-CHACHA20-POLY1305'']"

definition old_ciphers :: "string list" where
  "old_ciphers =
    [''ECDHE-ECDSA-AES128-SHA256'', ''ECDHE-RSA-AES128-SHA256'', ''ECDHE-ECDSA-AES128-SHA'', ''ECDHE-RSA-AES128-SHA'',
     ''ECDHE-ECDSA-AES256-SHA'', ''ECDHE-RSA-AES256-SHA'', ''AES128-GCM-SHA256'', ''AES256-GCM-SHA384'',
     ''AES128-SHA256'', ''AES128-SHA'', ''AES256-SHA'', ''DES-CBC3-SHA'']"

definition TLSProfiles :: "(string \<times> TLSProfileSpec) list" where
  "TLSProfiles =
    [(''Old'', \<lparr>tp_Ciphers = Some (tls13_ciphers @ aead_ciphers @ old_ciphers), tp_MinTLSVersion = ''VersionTLS10''\<rparr>),
     (''Intermediate'', \<lparr>tp_Ciphers = Some (tls13_ciphers @ aead_ciphers), tp_MinTLSVersion = ''VersionTLS12''\<rparr>),
     (''Modern'', \<lparr>tp_Ciphers = Some tls13_ciphers, tp_MinTLSVersion = ''VersionTLS13''\<rparr>)]"

definition defaultProfile :: TLSProfileSpec where
  "defaultProfile = the (map_of TLSProfiles ''Intermediate'')"

section \<open>The library functions\<close>

definition TLSAdherencePolicyNoOpinion :: string where
  "TLSAdherencePolicyNoOpinion = ''''"
definition TLSAdherencePolicyLegacyAdheringComponentsOnly :: string where
  "TLSAdherencePolicyLegacyAdheringComponentsOnly = ''LegacyAdheringComponentsOnly''"

definition ShouldHonorClusterTLSProfile :: "string \<Rightarrow> bool" where
  "ShouldHonorClusterTLSProfile tlsAdherence \<longleftrightarrow>
     \<not> (tlsAdherence = TLSAdherencePolicyNoOpinion \<or> tlsAdherence = TLSAdherencePolicyLegacyAdheringComponentsOnly)"

definition GetTLSProfileSpec :: "TLSSecurityProfile option \<Rightarrow> goerr + TLSProfileSpec" where
  "GetTLSProfileSpec profile =
     (case profile of
        None \<Rightarrow> Inr defaultProfile
      | Some p \<Rightarrow>
          if tsp_Type p = [] then Inr defaultProfile
          else if tsp_Type p \<noteq> ''Custom'' then
            (case map_of TLSProfiles (tsp_Type p) of Some c \<Rightarrow> Inr c | None \<Rightarrow> Inr defaultProfile)
          else
            (case tsp_Custom p of
               None \<Rightarrow> Inl (errorf ''custom TLS profile specified but Custom field is nil'')
             | Some c \<Rightarrow> Inr c))"

definition quotedKey :: string where
  "quotedKey = [CHR 0x22] @ ''/cluster'' @ [CHR 0x22]"

definition FetchAPIServerTLSProfile :: "'w env \<Rightarrow> ('w world, goerr + TLSProfileSpec) go" where
  "FetchAPIServerTLSProfile env =
     bindM (hubM (get_APIServer env)) (\<lambda>r. case r of
       Inl err \<Rightarrow> returnM (Inl (wrapf (''failed to get APIServer '' @ quotedKey @ '': '') err))
     | Inr apiServer \<Rightarrow>
         (case GetTLSProfileSpec (as_TLSSecurityProfile apiServer) of
            Inl err \<Rightarrow> returnM (Inl (wrapf (''failed to get TLS profile from APIServer '' @ quotedKey @ '': '') err))
          | Inr profile \<Rightarrow> returnM (Inr profile)))"

definition FetchAPIServerTLSAdherencePolicy :: "'w env \<Rightarrow> ('w world, goerr + string) go" where
  "FetchAPIServerTLSAdherencePolicy env =
     bindM (hubM (get_APIServer env)) (\<lambda>r. case r of
       Inl err \<Rightarrow> returnM (Inl (wrapf (''failed to get APIServer '' @ quotedKey @ '': '') err))
     | Inr apiServer \<Rightarrow> returnM (Inr (as_TLSAdherence apiServer)))"

definition TLSVersion :: "'w env \<Rightarrow> string \<Rightarrow> goerr + uint16" where
  "TLSVersion env versionName =
     (if versionName = [] then Inr VersionTLS12
      else case map_of versions versionName of
        Some version \<Rightarrow> Inr version
      | None \<Rightarrow> Inl (errorf (''unknown tls version '' @ strconv_Quote env versionName)))"

definition CipherSuite :: "string \<Rightarrow> uint16 option" where
  "CipherSuite cipherName = map_of ciphers cipherName"

definition OpenSSLToIANACipherSuites :: "string list \<Rightarrow> string list" where
  "OpenSSLToIANACipherSuites cs =
     concat (map (\<lambda>c. case map_of openSSLToIANACiphersMap c of Some i \<Rightarrow> [i] | None \<Rightarrow> []) cs)"

definition cipherCode :: "string \<Rightarrow> uint16" where
  "cipherCode cipher =
     (case CipherSuite cipher of
        Some code \<Rightarrow> code
      | None \<Rightarrow>
          (case OpenSSLToIANACipherSuites [cipher] of
             [iana] \<Rightarrow> (case CipherSuite iana of Some code \<Rightarrow> code | None \<Rightarrow> 0)
           | _ \<Rightarrow> 0))"

fun cipherCodes :: "string list \<Rightarrow> uint16 list \<times> string list" where
  "cipherCodes [] = ([], [])"
| "cipherCodes (c # cs) =
     (case cipherCodes cs of (codes, unsupported) \<Rightarrow>
        if cipherCode c = 0 then (codes, c # unsupported) else (cipherCode c # codes, unsupported))"

record tls_Config =
  tc_MinVersion :: uint16
  tc_CipherSuites :: "uint16 list"

definition NewTLSConfigFromProfile :: "'w env \<Rightarrow> TLSProfileSpec \<Rightarrow> ('w world, (tls_Config \<Rightarrow> tls_Config) \<times> string list) go" where
  "NewTLSConfigFromProfile env profile =
     (case TLSVersion env (tp_MinTLSVersion profile) of
        Inl err \<Rightarrow> panicM (err_Error err)
      | Inr minVersion \<Rightarrow>
          (case cipherCodes (elems (tp_Ciphers profile)) of (cipherSuites, unsupportedCiphers) \<Rightarrow>
             returnM (\<lambda>tlsConf. if minVersion \<noteq> VersionTLS13
                        then tlsConf\<lparr>tc_MinVersion := minVersion, tc_CipherSuites := cipherSuites\<rparr>
                        else tlsConf\<lparr>tc_MinVersion := minVersion\<rparr>, unsupportedCiphers)))"

section \<open>ResolveTLSConfig\<close>

record TLSConfigResult =
  tr_TLSConfig :: "tls_Config \<Rightarrow> tls_Config"
  tr_TLSAdherencePolicy :: string
  tr_TLSProfileSpec :: TLSProfileSpec

definition ResolveTLSConfig :: "'w env \<Rightarrow> ('w world, goerr + TLSConfigResult) go" where
  "ResolveTLSConfig env =
     (case config_AddToScheme env of
        Some err \<Rightarrow> returnM (Inl (wrapf ''unable to add config.openshift.io/v1 to scheme: '' err))
      | None \<Rightarrow>
          bindM (hubM (client_New env)) (\<lambda>c. case c of
            Some err \<Rightarrow> returnM (Inl (wrapf ''unable to create Kubernetes client: '' err))
          | None \<Rightarrow>
              bindM (FetchAPIServerTLSAdherencePolicy env) (\<lambda>a.
              let tlsAdherencePolicy = (case a of Inl _ \<Rightarrow> TLSAdherencePolicyNoOpinion | Inr p \<Rightarrow> p) in
              bindM (FetchAPIServerTLSProfile env) (\<lambda>p.
              let tlsProfileSpec = (case p of Inl _ \<Rightarrow> defaultProfile | Inr q \<Rightarrow> q);
                  appliedProfile = (if ShouldHonorClusterTLSProfile tlsAdherencePolicy then tlsProfileSpec else defaultProfile) in
              bindM (NewTLSConfigFromProfile env appliedProfile) (\<lambda>(tlsConfig, _).
                returnM (Inr \<lparr>tr_TLSConfig = tlsConfig, tr_TLSAdherencePolicy = tlsAdherencePolicy,
                              tr_TLSProfileSpec = tlsProfileSpec\<rparr>))))))"

section \<open>The watchers\<close>

text \<open>The channel that carries the wish to stop has room for one message; \<open>ch\<close> is the number in it.
  \<^verbatim>\<open>Semantic.DeepEqual\<close> identifies a nil and an empty slice.\<close>

definition requestGracefulShutdown :: "nat \<Rightarrow> nat" where
  "requestGracefulShutdown ch = (if ch < 1 then Suc ch else ch)"

definition Semantic_DeepEqual :: "TLSProfileSpec \<Rightarrow> TLSProfileSpec \<Rightarrow> bool" where
  "Semantic_DeepEqual a b \<longleftrightarrow> elems (tp_Ciphers a) = elems (tp_Ciphers b) \<and> tp_MinTLSVersion a = tp_MinTLSVersion b"

text \<open>The events are those the watch delivers until its channel is closed. Results: the channel and the
  events that were not read.\<close>

fun watch_loop :: "TLSConfigResult \<Rightarrow> (watch_type \<times> APIServer option) list \<Rightarrow> nat \<Rightarrow> nat \<times> (watch_type \<times> APIServer option) list" where
  "watch_loop current [] ch = (ch, [])"
| "watch_loop current ((ty, obj) # events) ch =
     (if ty \<noteq> Modified then watch_loop current events ch
      else case obj of
        None \<Rightarrow> watch_loop current events ch
      | Some updated \<Rightarrow>
          if tr_TLSAdherencePolicy current \<noteq> as_TLSAdherence updated then (requestGracefulShutdown ch, events)
          else case GetTLSProfileSpec (as_TLSSecurityProfile updated) of
            Inl err \<Rightarrow> watch_loop current events ch
          | Inr profile \<Rightarrow>
              if \<not> Semantic_DeepEqual (tr_TLSProfileSpec current) profile then (requestGracefulShutdown ch, events)
              else watch_loop current events ch)"

definition watchAndExitOnTLSChange :: "'w env \<Rightarrow> TLSConfigResult \<Rightarrow> nat \<Rightarrow> ('w world, nat) go" where
  "watchAndExitOnTLSChange env current requestShutdown =
     bindM (hubM (watch_APIServer env)) (\<lambda>w. case w of
       Inl err \<Rightarrow> returnM requestShutdown
     | Inr events \<Rightarrow> returnM (fst (watch_loop current events requestShutdown)))"

text \<open>The watcher of the manager: its state is what it compares with; \<open>cancel\<close> is called for a change.
  Results: the error, whether the process was told to stop, the new state.\<close>

record SecurityProfileWatcher =
  spw_InitialTLSProfileSpec :: TLSProfileSpec
  spw_InitialTLSAdherencePolicy :: string

definition SecurityProfileWatcher_Reconcile :: "'w env \<Rightarrow> SecurityProfileWatcher \<Rightarrow> ('w world, goerr option \<times> bool \<times> SecurityProfileWatcher) go" where
  "SecurityProfileWatcher_Reconcile env r =
     bindM (hubM (get_APIServer env)) (\<lambda>g. case g of
       Inl err \<Rightarrow>
         if IsNotFound err then returnM (None, False, r)
         else returnM (Some (wrapf ''failed to get APIServer /cluster: '' err), False, r)
     | Inr apiServer \<Rightarrow>
         (case GetTLSProfileSpec (as_TLSSecurityProfile apiServer) of
            Inl err \<Rightarrow> returnM (Some (wrapf ''failed to get TLS profile from APIServer /cluster: '' err), False, r)
          | Inr currentTLSProfileSpec \<Rightarrow>
              let profileChanged = (spw_InitialTLSProfileSpec r \<noteq> currentTLSProfileSpec);
                  r1 = (if profileChanged then r\<lparr>spw_InitialTLSProfileSpec := currentTLSProfileSpec\<rparr> else r);
                  policyChanged = (spw_InitialTLSAdherencePolicy r1 \<noteq> as_TLSAdherence apiServer);
                  r2 = (if policyChanged then r1\<lparr>spw_InitialTLSAdherencePolicy := as_TLSAdherence apiServer\<rparr> else r1)
              in returnM (None, profileChanged \<or> policyChanged, r2)))"

section \<open>Lemmas\<close>

text \<open>The six cipher suites for TLS 1.2 and the three of TLS 1.3.\<close>

definition default_suites :: "uint16 list" where
  "default_suites = [0x1301, 0x1302, 0x1303, 0xC02B, 0xC02F, 0xC02C, 0xC030, 0xCCA9, 0xCCA8]"

lemmas tls_tables = ciphers_def openSSLToIANACiphersMap_def tls13_ciphers_def aead_ciphers_def old_ciphers_def
  TLSProfiles_def versions_def VersionTLS12_def VersionTLS13_def

lemma cipherCodes_append:
  "cipherCodes (xs @ ys) = (fst (cipherCodes xs) @ fst (cipherCodes ys), snd (cipherCodes xs) @ snd (cipherCodes ys))"
  by (induction xs) (auto split: prod.split)

lemma cipherCodes_tls13: "cipherCodes tls13_ciphers = ([0x1301, 0x1302, 0x1303], [])"
  by code_simp

lemma cipherCodes_aead: "cipherCodes aead_ciphers = ([0xC02B, 0xC02F, 0xC02C, 0xC030, 0xCCA9, 0xCCA8], [])"
  by code_simp

lemma cipherCodes_old: "snd (cipherCodes old_ciphers) = []"
  by code_simp

lemma defaultProfile_eq:
  "defaultProfile = \<lparr>tp_Ciphers = Some (tls13_ciphers @ aead_ciphers), tp_MinTLSVersion = ''VersionTLS12''\<rparr>"
  by (simp add: defaultProfile_def TLSProfiles_def)

lemma TLSVersion_known [simp]:
  "TLSVersion env ''VersionTLS10'' = Inr 0x0301" "TLSVersion env ''VersionTLS12'' = Inr VersionTLS12"
  "TLSVersion env ''VersionTLS13'' = Inr VersionTLS13"
  by (simp_all add: TLSVersion_def versions_def)

lemma profiles_supported:
  "list_all (\<lambda>(_, p). snd (cipherCodes (elems (tp_Ciphers p))) = [] \<and> ok (TLSVersion env (tp_MinTLSVersion p))) TLSProfiles"
  by (simp add: TLSProfiles_def cipherCodes_append cipherCodes_tls13 cipherCodes_aead cipherCodes_old)

text \<open>The configuration a profile stands for.\<close>

definition configured :: "uint16 \<Rightarrow> TLSProfileSpec \<Rightarrow> tls_Config \<Rightarrow> tls_Config" where
  "configured v profile c =
     \<lparr>tc_MinVersion = v, tc_CipherSuites = (if v = VersionTLS13 then tc_CipherSuites c else fst (cipherCodes (elems (tp_Ciphers profile))))\<rparr>"

lemma wp_NewTLSConfigFromProfile:
  "wp (NewTLSConfigFromProfile env profile)
     (\<lambda>(f, _) s'. s' = s \<and> (\<exists>v. TLSVersion env (tp_MinTLSVersion profile) = Inr v \<and> f = configured v profile))
     (\<lambda>_ s'. s' = s \<and> \<not> ok (TLSVersion env (tp_MinTLSVersion profile))) s"
  by (auto simp: NewTLSConfigFromProfile_def configured_def wp split: sum.split prod.split)

lemma configured_default: "configured VersionTLS12 defaultProfile c = \<lparr>tc_MinVersion = VersionTLS12, tc_CipherSuites = default_suites\<rparr>"
  by (simp add: configured_def defaultProfile_eq VersionTLS12_def VersionTLS13_def cipherCodes_append cipherCodes_tls13
      cipherCodes_aead default_suites_def)

text \<open>Only a custom profile can name an unknown version.\<close>

lemma profile_version:
  assumes "GetTLSProfileSpec p = Inr profile" and "\<not> ok (TLSVersion env (tp_MinTLSVersion profile))"
  shows "\<exists>q. p = Some q \<and> tsp_Type q = ''Custom'' \<and> tsp_Custom q = Some profile"
proof -
  have "profile \<notin> snd ` set TLSProfiles"
    using assms(2) profiles_supported [of env] by (auto simp: list_all_iff)
  moreover have "defaultProfile \<in> snd ` set TLSProfiles"
    by (simp add: TLSProfiles_def defaultProfile_eq)
  moreover have "c \<in> snd ` set TLSProfiles" if "map_of TLSProfiles k = Some c" for k c
    using map_of_SomeD [OF that] by (force simp: image_iff)
  ultimately show ?thesis
    using assms(1) by (auto simp: GetTLSProfileSpec_def split: option.splits if_splits)
qed

lemma wp_ResolveTLSConfig:
  "wp (ResolveTLSConfig env)
     (\<lambda>r s'. Trace s' = Trace s \<and> Fs s' = Fs s
        \<and> (case r of
             Inl _ \<Rightarrow> \<not> (config_AddToScheme env = None \<and> fst (client_New env (Hub s)) = None)
           | Inr res \<Rightarrow>
               config_AddToScheme env = None \<and> fst (client_New env (Hub s)) = None
               \<and> tr_TLSAdherencePolicy res = (case fst (get_APIServer env (snd (client_New env (Hub s)))) of
                    Inl _ \<Rightarrow> TLSAdherencePolicyNoOpinion | Inr api \<Rightarrow> as_TLSAdherence api)
               \<and> (if ShouldHonorClusterTLSProfile (tr_TLSAdherencePolicy res)
                  then \<exists>v. TLSVersion env (tp_MinTLSVersion (tr_TLSProfileSpec res)) = Inr v
                     \<and> tr_TLSConfig res c = configured v (tr_TLSProfileSpec res) c
                  else tr_TLSConfig res c = \<lparr>tc_MinVersion = VersionTLS12, tc_CipherSuites = default_suites\<rparr>)))
     (\<lambda>_ s'. Trace s' = Trace s \<and> (\<exists>api h api' h' q custom.
        get_APIServer env (snd (client_New env (Hub s))) = (Inr api, h) \<and> ShouldHonorClusterTLSProfile (as_TLSAdherence api)
        \<and> get_APIServer env h = (Inr api', h')
        \<and> as_TLSSecurityProfile api' = Some q \<and> tsp_Type q = ''Custom'' \<and> tsp_Custom q = Some custom
        \<and> \<not> ok (TLSVersion env (tp_MinTLSVersion custom)))) s"
proof -
  have new: "wp (NewTLSConfigFromProfile env profile)
      (\<lambda>(f, _) s'. s' = t \<and> (\<exists>v. TLSVersion env (tp_MinTLSVersion profile) = Inr v \<and> f = configured v profile))
      (\<lambda>_ s'. s' = t \<and> \<not> ok (TLSVersion env (tp_MinTLSVersion profile))) t" for profile t
    by (rule wp_NewTLSConfigFromProfile)
  have default: "TLSVersion env (tp_MinTLSVersion defaultProfile) = Inr VersionTLS12" by (simp add: defaultProfile_eq)
  show ?thesis
    by (auto simp: ResolveTLSConfig_def FetchAPIServerTLSAdherencePolicy_def FetchAPIServerTLSProfile_def Let_def wp default
        configured_default ShouldHonorClusterTLSProfile_def TLSAdherencePolicyNoOpinion_def
        split: prod.split sum.split option.split intro!: wp_mono [OF new] dest: profile_version)
qed

section \<open>Properties\<close>


text \<open>The events that make the image server stop.\<close>

definition tls_changed :: "TLSConfigResult \<Rightarrow> watch_type \<times> APIServer option \<Rightarrow> bool" where
  "tls_changed current e =
     (case e of
        (Modified, Some u) \<Rightarrow> tr_TLSAdherencePolicy current \<noteq> as_TLSAdherence u
          \<or> (case GetTLSProfileSpec (as_TLSSecurityProfile u) of
               Inl _ \<Rightarrow> False | Inr p \<Rightarrow> \<not> Semantic_DeepEqual (tr_TLSProfileSpec current) p)
      | _ \<Rightarrow> False)"

lemma watch_loop_exact:
  "watch_loop current events ch =
     (case dropWhile (\<lambda>e. \<not> tls_changed current e) events of
        [] \<Rightarrow> (ch, [])
      | e # rest \<Rightarrow> (max 1 ch, rest))"
  by (induction current events ch rule: watch_loop.induct)
    (auto simp: tls_changed_def requestGracefulShutdown_def split: option.split sum.split watch_type.split)

text \<open>C31: The two processes react to the same changes of the TLS settings. The loop of the image server over
  the watch consumes events up to and including the first one that modifies the adherence policy or,
  readably, the profile; exactly then it asks for a graceful shutdown, without ever putting a second
  message into the channel. For the same settings and the same API server object, the watcher of the
  manager asks to stop exactly when the image server would for a modification to it, with two
  exceptions: a profile that cannot be read makes the watcher of the manager report an error even if
  the policy changed, and it takes a nil and an empty list of ciphers for different. It remembers what
  it compared with, so that the same object does not make it ask again.\<close>
theorem watchers_agree:
  "watch_loop current events ch =
     (case dropWhile (\<lambda>e. \<not> tls_changed current e) events of
        [] \<Rightarrow> (ch, [])
      | e # rest \<Rightarrow> (max 1 ch, rest))
   \<and> wp (SecurityProfileWatcher_Reconcile env \<lparr>spw_InitialTLSProfileSpec = tr_TLSProfileSpec current,
         spw_InitialTLSAdherencePolicy = tr_TLSAdherencePolicy current\<rparr>)
     (\<lambda>(err, stop, r') s'. Trace s' = Trace s
        \<and> (case fst (get_APIServer env (Hub s)) of
             Inl e \<Rightarrow> \<not> stop \<and> (err = None \<longleftrightarrow> IsNotFound e)
           | Inr api \<Rightarrow>
               (case GetTLSProfileSpec (as_TLSSecurityProfile api) of
                  Inl _ \<Rightarrow> err \<noteq> None \<and> \<not> stop
                | Inr p \<Rightarrow> err = None
                    \<and> (stop \<longleftrightarrow> tls_changed current (Modified, Some api)
                         \<or> (tr_TLSProfileSpec current \<noteq> p \<and> Semantic_DeepEqual (tr_TLSProfileSpec current) p))
                    \<and> r' = \<lparr>spw_InitialTLSProfileSpec = p, spw_InitialTLSAdherencePolicy = as_TLSAdherence api\<rparr>)))
     (\<lambda>_ _. False) s"
proof -
  have "Semantic_DeepEqual p p" for p by (simp add: Semantic_DeepEqual_def)
  then show ?thesis
    by (auto simp: watch_loop_exact SecurityProfileWatcher_Reconcile_def tls_changed_def Let_def wp split: prod.split sum.split)
qed

end
