(* ===== verification/ServerMain.thy ===== *)
theory ServerMain
  imports ImageServer TlsConfig
begin

text \<open>
  \<^verbatim>\<open>cmd/server/main.go\<close>: the process of the image server. Three goroutines run side by side: the main
  function, which waits for a signal or a change of the TLS settings and then shuts the server down;
  the listener; and the watch of the TLS settings. They meet in a channel and in the end of the
  process. Their interleavings are the runs of a step relation. \<^verbatim>\<open>log.Fatal\<close> ends the process with
  status 1, a panic with status 2; calls of the HTTP server are parameters.
\<close>

section \<open>The process\<close>

record Options =
  so_DataDir :: string
  so_Port :: string
  so_HTTPSKeyFile :: string
  so_HTTPSCertFile :: string

datatype 'a process = Exit nat | Running 'a

text \<open>The calls of \<^verbatim>\<open>net/http\<close>: both listeners report the error with which they end, \<open>None\<close> standing for
  \<^verbatim>\<open>http.ErrServerClosed\<close>.\<close>

record 'w http_calls =
  rest_GetConfig :: "('w, goerr option) call"
  ListenAndServe :: "string \<Rightarrow> ('w, goerr option) call"
  ListenAndServeTLS :: "string \<Rightarrow> tls_Config \<Rightarrow> string \<Rightarrow> string \<Rightarrow> ('w, goerr option) call"
  server_Shutdown :: "duration \<Rightarrow> ('w, goerr option) call"
  server_Close :: "('w, goerr option) call"

definition newHandler :: "Options \<Rightarrow> Handler" where
  "newHandler opts =
     \<lparr>hd_WorkDir = filepath_Join [so_DataDir opts, ''iso-workdir''], hd_ConfigsDir = filepath_Join [so_DataDir opts, ''namespaces'']\<rparr>"

definition prepare :: "'w env \<Rightarrow> (goerr + Options) \<Rightarrow> ('w world, (Options \<times> Handler) process) go" where
  "prepare env processed =
     (case processed of
        Inl err \<Rightarrow> returnM (Exit 1)
      | Inr opts \<Rightarrow>
          bindM (os_MkdirAll env (filepath_Join [so_DataDir opts, ''iso-workdir''])) (\<lambda>m. case m of
            Inl err \<Rightarrow> returnM (Exit 1)
          | Inr _ \<Rightarrow> returnM (Running (opts, newHandler opts))))"

definition emptyConfig :: tls_Config where
  "emptyConfig = \<lparr>tc_MinVersion = 0, tc_CipherSuites = []\<rparr>"

text \<open>The listener: with a key and a certificate it reads the TLS settings, which are also what the watch
  compares with. Results: the TLS configuration to serve with, and the settings to watch.\<close>

definition configure :: "'w env \<Rightarrow> 'w http_calls \<Rightarrow> Options \<Rightarrow> ('w world, (tls_Config option \<times> TLSConfigResult option) process) go" where
  "configure env http opts =
     (if so_HTTPSKeyFile opts \<noteq> [] \<and> so_HTTPSCertFile opts \<noteq> [] then
        bindM (hubM (rest_GetConfig http)) (\<lambda>g. case g of
          Some err \<Rightarrow> returnM (Exit 1)
        | None \<Rightarrow>
            bindM (ResolveTLSConfig env) (\<lambda>t. case t of
              Inl err \<Rightarrow> returnM (Exit 1)
            | Inr tlsResult \<Rightarrow> returnM (Running (Some (tr_TLSConfig tlsResult emptyConfig), Some tlsResult))))
      else returnM (Running (None, None)))"

definition serve :: "'w http_calls \<Rightarrow> Options \<Rightarrow> tls_Config option \<Rightarrow> ('w world, unit process) go" where
  "serve http opts mode =
     (let addr = '':'' @ so_Port opts in
      bindM (hubM (case mode of
          Some c \<Rightarrow> ListenAndServeTLS http addr c (so_HTTPSCertFile opts) (so_HTTPSKeyFile opts)
        | None \<Rightarrow> ListenAndServe http addr))
        (\<lambda>e. case e of Some err \<Rightarrow> returnM (Exit 1) | None \<Rightarrow> returnM (Running ())))"

text \<open>After a signal or a change of the TLS settings: thirty seconds for the open requests.\<close>

definition finish :: "'w http_calls \<Rightarrow> ('w world, nat) go" where
  "finish http =
     bindM (hubM (server_Shutdown http (seconds 30))) (\<lambda>e. case e of
       None \<Rightarrow> returnM 0
     | Some err \<Rightarrow>
         bindM (hubM (server_Close http)) (\<lambda>e2. case e2 of
           None \<Rightarrow> returnM 0
         | Some err2 \<Rightarrow> returnM 1))"

section \<open>The goroutines\<close>

datatype stop = BySignal | ByTLSChange

datatype main_state = Waiting | Stopping stop | Ended nat

datatype listener_state = Configuring | Listening "tls_Config option" | Closed

record 'w server_state =
  sv_main :: main_state
  sv_listener :: listener_state
  sv_watcher :: "TLSConfigResult option"
  sv_channel :: nat
  sv_world :: "'w world"

datatype server_event =
    Configured | ConfigFailed nat
  | Served | ServeFailed nat
  | Watched TLSConfigResult "goerr + (watch_type \<times> APIServer option) list"
  | Signalled | TLSNoticed
  | Finished nat

definition alive :: "'w server_state \<Rightarrow> bool" where
  "alive p \<longleftrightarrow> (case sv_main p of Ended _ \<Rightarrow> False | _ \<Rightarrow> True)"

text \<open>A step of one goroutine while the process runs. The watch reads events until it stops, and only then
  may have written to the channel; a blocking call is one step, at its end.\<close>

inductive server_step :: "'w env \<Rightarrow> 'w http_calls \<Rightarrow> Options \<Rightarrow> 'w server_state \<Rightarrow> server_event \<Rightarrow> 'w server_state \<Rightarrow> bool"
  for env http opts where
  configured: "alive p \<Longrightarrow> sv_listener p = Configuring \<Longrightarrow>
    configure env http opts (sv_world p) = (Ret (Running (mode, settings)), w) \<Longrightarrow>
    server_step env http opts p Configured (p\<lparr>sv_listener := Listening mode, sv_watcher := settings, sv_world := w\<rparr>)"
| config_failed: "alive p \<Longrightarrow> sv_listener p = Configuring \<Longrightarrow>
    configure env http opts (sv_world p) = (Ret (Exit n), w) \<Longrightarrow>
    server_step env http opts p (ConfigFailed n) (p\<lparr>sv_main := Ended n, sv_world := w\<rparr>)"
| config_panics: "alive p \<Longrightarrow> sv_listener p = Configuring \<Longrightarrow>
    configure env http opts (sv_world p) = (Panic msg, w) \<Longrightarrow>
    server_step env http opts p (ConfigFailed 2) (p\<lparr>sv_main := Ended 2, sv_world := w\<rparr>)"
| served: "alive p \<Longrightarrow> sv_listener p = Listening mode \<Longrightarrow>
    serve http opts mode (sv_world p) = (Ret (Running ()), w) \<Longrightarrow>
    server_step env http opts p Served (p\<lparr>sv_listener := Closed, sv_world := w\<rparr>)"
| serve_failed: "alive p \<Longrightarrow> sv_listener p = Listening mode \<Longrightarrow>
    serve http opts mode (sv_world p) = (Ret (Exit n), w) \<Longrightarrow>
    server_step env http opts p (ServeFailed n) (p\<lparr>sv_main := Ended n, sv_world := w\<rparr>)"
| watched: "alive p \<Longrightarrow> sv_watcher p = Some current \<Longrightarrow>
    watchAndExitOnTLSChange env current (sv_channel p) (sv_world p) = (Ret ch, w) \<Longrightarrow>
    server_step env http opts p (Watched current (fst (watch_APIServer env (Hub (sv_world p)))))
      (p\<lparr>sv_watcher := None, sv_channel := ch, sv_world := w\<rparr>)"
| signalled: "sv_main p = Waiting \<Longrightarrow> server_step env http opts p Signalled (p\<lparr>sv_main := Stopping BySignal\<rparr>)"
| noticed: "sv_main p = Waiting \<Longrightarrow> 0 < sv_channel p \<Longrightarrow>
    server_step env http opts p TLSNoticed (p\<lparr>sv_main := Stopping ByTLSChange, sv_channel := sv_channel p - 1\<rparr>)"
| finished: "sv_main p = Stopping r \<Longrightarrow> finish http (sv_world p) = (Ret n, w) \<Longrightarrow>
    server_step env http opts p (Finished n) (p\<lparr>sv_main := Ended n, sv_world := w\<rparr>)"

text \<open>The runs of the process from its start, with what happened in them, the latest event first.\<close>

inductive server_run :: "'w env \<Rightarrow> 'w http_calls \<Rightarrow> Options \<Rightarrow> server_event list \<Rightarrow> 'w server_state \<Rightarrow> bool"
  for env http opts where
  start: "prepare env (Inr opts) w0 = (Ret (Running (opts, newHandler opts)), w) \<Longrightarrow>
    server_run env http opts [] \<lparr>sv_main = Waiting, sv_listener = Configuring, sv_watcher = None, sv_channel = 0, sv_world = w\<rparr>"
| step: "server_run env http opts h p \<Longrightarrow> server_step env http opts p e p' \<Longrightarrow> server_run env http opts (e # h) p'"

inductive_cases server_stepE: "server_step env http opts p e p'"

section \<open>The invariant of the process\<close>

definition resolved :: "'w env \<Rightarrow> TLSConfigResult \<Rightarrow> bool" where
  "resolved env t \<longleftrightarrow> (\<exists>w w'. ResolveTLSConfig env w = (Ret (Inr t), w'))"

definition tls_change_seen :: "'w env \<Rightarrow> server_event list \<Rightarrow> bool" where
  "tls_change_seen env h \<longleftrightarrow> (\<exists>t es e. Watched t (Inr es) \<in> set h \<and> e \<in> set es \<and> tls_changed t e \<and> resolved env t)"

definition listens :: "'w env \<Rightarrow> Options \<Rightarrow> tls_Config option \<Rightarrow> bool" where
  "listens env opts mode \<longleftrightarrow>
     (case mode of
        None \<Rightarrow> so_HTTPSKeyFile opts = [] \<or> so_HTTPSCertFile opts = []
      | Some c \<Rightarrow> so_HTTPSKeyFile opts \<noteq> [] \<and> so_HTTPSCertFile opts \<noteq> []
          \<and> (\<exists>t. resolved env t \<and> c = tr_TLSConfig t emptyConfig
               \<and> (ShouldHonorClusterTLSProfile (tr_TLSAdherencePolicy t)
                  \<or> c = \<lparr>tc_MinVersion = VersionTLS12, tc_CipherSuites = default_suites\<rparr>)))"

definition ended_well :: "'w env \<Rightarrow> server_event list \<Rightarrow> bool" where
  "ended_well env h \<longleftrightarrow> (\<exists>h'. h = Finished 0 # h' \<and> (Signalled \<in> set h' \<or> tls_change_seen env h'))"

definition server_inv :: "'w env \<Rightarrow> Options \<Rightarrow> server_event list \<Rightarrow> 'w server_state \<Rightarrow> bool" where
  "server_inv env opts h p \<longleftrightarrow>
     (case sv_main p of
        Waiting \<Rightarrow> Signalled \<notin> set h \<and> TLSNoticed \<notin> set h
      | Stopping BySignal \<Rightarrow> Signalled \<in> set h
      | Stopping ByTLSChange \<Rightarrow> tls_change_seen env h
      | Ended n \<Rightarrow> n \<le> 2 \<and> (n = 0 \<longrightarrow> ended_well env h))
     \<and> sv_channel p \<le> 1 \<and> (0 < sv_channel p \<longrightarrow> tls_change_seen env h)
     \<and> (case sv_watcher p of Some t \<Rightarrow> resolved env t | None \<Rightarrow> True)
     \<and> (case sv_listener p of Listening mode \<Rightarrow> listens env opts mode | _ \<Rightarrow> True)"

lemma tls_change_seen_Cons: "tls_change_seen env h \<Longrightarrow> tls_change_seen env (e # h)"
  by (auto simp: tls_change_seen_def)

lemma resolvedI: "ResolveTLSConfig env w = (Ret (Inr t), w') \<Longrightarrow> resolved env t"
  by (auto simp: resolved_def)

lemma resolved_listens:
  assumes "resolved env t" and "so_HTTPSKeyFile opts \<noteq> []" and "so_HTTPSCertFile opts \<noteq> []"
  shows "listens env opts (Some (tr_TLSConfig t emptyConfig))"
proof -
  obtain w w' where "ResolveTLSConfig env w = (Ret (Inr t), w')" using assms(1) by (auto simp: resolved_def)
  then have "ShouldHonorClusterTLSProfile (tr_TLSAdherencePolicy t)
      \<or> tr_TLSConfig t emptyConfig = \<lparr>tc_MinVersion = VersionTLS12, tc_CipherSuites = default_suites\<rparr>"
    using wp_ResolveTLSConfig [of env w emptyConfig] by (auto simp: wp_def split: if_splits)
  then show ?thesis using assms by (auto simp: listens_def)
qed

lemma configure_cases:
  assumes "configure env http opts w = (out, w')"
  shows "case out of
      Ret (Running (mode, settings)) \<Rightarrow> listens env opts mode \<and> (case settings of Some t \<Rightarrow> resolved env t | None \<Rightarrow> True)
    | Ret (Exit n) \<Rightarrow> n = 1
    | Panic _ \<Rightarrow> True"
  using assms
  by (auto simp: configure_def bindM_def hubM_def returnM_def listens_def [of env opts None]
      split: if_splits prod.splits option.splits outcome.splits sum.splits intro: resolved_listens dest!: resolvedI)

lemma serve_cases: "serve http opts mode w = (out, w') \<Longrightarrow> case out of Ret (Exit n) \<Rightarrow> n = 1 | Ret (Running _) \<Rightarrow> True | Panic _ \<Rightarrow> False"
  by (auto simp: serve_def Let_def bindM_def hubM_def returnM_def split: prod.splits option.splits)

lemma finish_cases: "finish http w = (out, w') \<Longrightarrow> \<exists>n. out = Ret n \<and> n \<le> 1"
  by (auto simp: finish_def bindM_def hubM_def returnM_def split: prod.splits option.splits)

lemma watch_cases:
  assumes "watchAndExitOnTLSChange env t ch w = (Ret ch', w')" and "ch \<le> 1" and "resolved env t"
  shows "ch' \<le> 1 \<and> (0 < ch' \<longrightarrow> 0 < ch \<or> tls_change_seen env (Watched t (fst (watch_APIServer env (Hub w))) # h))"
proof (cases "watch_APIServer env (Hub w)")
  case (Pair r v)
  show ?thesis
  proof (cases r)
    case (Inl err)
    then show ?thesis using assms(1,2) Pair by (simp add: watchAndExitOnTLSChange_def bindM_def hubM_def returnM_def)
  next
    case (Inr es)
    then have "ch' = fst (watch_loop t es ch)"
      using assms(1) Pair by (simp add: watchAndExitOnTLSChange_def bindM_def hubM_def returnM_def)
    moreover have "tls_change_seen env (Watched t (Inr es) # h)" if "dropWhile (\<lambda>e. \<not> tls_changed t e) es = e # rest" for e rest
    proof -
      have "e \<in> set es" "tls_changed t e"
        using that set_dropWhileD [of e "\<lambda>e. \<not> tls_changed t e" es] hd_dropWhile [of "\<lambda>e. \<not> tls_changed t e" es] by auto
      then show ?thesis using assms(3) unfolding tls_change_seen_def by (intro exI [of _ t] exI [of _ es] exI [of _ e]) simp
    qed
    ultimately show ?thesis
      using assms(2) Pair Inr by (simp add: watch_loop_exact split: list.splits)
  qed
qed

lemma server_step_inv:
  assumes "server_step env http opts p e p'" and "server_inv env opts h p"
  shows "server_inv env opts (e # h) p'"
  using assms(1)
proof cases
  case (configured mode settings w)
  then show ?thesis
    using assms(2) configure_cases [OF configured(5)] by (auto simp: server_inv_def alive_def split: main_state.splits stop.splits intro: tls_change_seen_Cons)
next
  case (config_failed n w)
  then show ?thesis
    using assms(2) configure_cases [OF config_failed(5)] by (auto simp: server_inv_def split: main_state.splits intro: tls_change_seen_Cons)
next
  case (config_panics msg w)
  then show ?thesis
    using assms(2) by (auto simp: server_inv_def split: main_state.splits intro: tls_change_seen_Cons)
next
  case (served mode w)
  then show ?thesis
    using assms(2) by (auto simp: server_inv_def alive_def split: main_state.splits stop.splits intro: tls_change_seen_Cons)
next
  case (serve_failed mode n w)
  then show ?thesis
    using assms(2) serve_cases [OF serve_failed(5)] by (auto simp: server_inv_def split: main_state.splits intro: tls_change_seen_Cons)
next
  case (watched current ch w)
  then show ?thesis
    using assms(2) watch_cases [OF watched(5), of h]
    by (auto simp: server_inv_def alive_def split: main_state.splits stop.splits intro: tls_change_seen_Cons)
next
  case signalled
  then show ?thesis
    using assms(2) by (auto simp: server_inv_def split: main_state.splits stop.splits intro: tls_change_seen_Cons)
next
  case noticed
  then show ?thesis
    using assms(2) by (auto simp: server_inv_def split: main_state.splits stop.splits intro: tls_change_seen_Cons)
next
  case (finished r n w)
  then show ?thesis
    using assms(2) finish_cases [OF finished(4)]
    by (auto simp: server_inv_def ended_well_def split: main_state.splits stop.splits intro: tls_change_seen_Cons)
qed

lemma server_run_inv: "server_run env http opts h p \<Longrightarrow> server_inv env opts h p"
proof (induction rule: server_run.induct)
  case (step h p e p')
  then show ?case using server_step_inv by blast
qed (simp add: server_inv_def)

text \<open>The shutdown succeeds unless both the graceful and the forced one fail.\<close>

definition exit_status :: "'w http_calls \<Rightarrow> 'w world \<Rightarrow> nat" where
  "exit_status http w =
     (case server_Shutdown http (seconds 30) (Hub w) of
        (None, _) \<Rightarrow> 0
      | (Some _, v) \<Rightarrow> (case fst (server_Close http v) of None \<Rightarrow> 0 | Some _ \<Rightarrow> 1))"

lemma finish_exit: "\<exists>w'. finish http w = (Ret (exit_status http w), w')"
  by (auto simp: finish_def exit_status_def bindM_def hubM_def returnM_def split: prod.split option.split)

lemma stopping_ends:
  assumes "sv_main p = Stopping r"
  shows "\<exists>p'. server_step env http opts p (Finished (exit_status http (sv_world p))) p' \<and> sv_main p' = Ended (exit_status http (sv_world p))"
proof -
  obtain w' where "finish http (sv_world p) = (Ret (exit_status http (sv_world p)), w')" using finish_exit by blast
  from server_step.finished [OF assms this] show ?thesis by fastforce
qed

section \<open>Properties\<close>

text \<open>C14: The life of the image server. However its goroutines interleave: it listens in the clear only
  without key or certificate, and otherwise with the settings that were resolved, which are TLS 1.2
  with the default suites unless the cluster demands its own profile. It stops only for a signal or
  because the watch saw an event that changes the settings it started with, at most one request to stop
  being in the channel. While it runs, a signal leads to the end in two steps whatever the other
  goroutines do, and the status tells whether the graceful or the forced shutdown succeeded. Status
  0 is reached only that way; every other end has status 1, or 2 after a panic.\<close>
theorem server_lifecycle:
  assumes "server_run env http opts h p"
  shows "(case sv_listener p of Listening mode \<Rightarrow> listens env opts mode | _ \<Rightarrow> True)
    \<and> sv_channel p \<le> 1
    \<and> (case sv_main p of
         Waiting \<Rightarrow> Signalled \<notin> set h \<and> TLSNoticed \<notin> set h
           \<and> (\<exists>p' p''. server_step env http opts p Signalled p' \<and> server_step env http opts p' (Finished (exit_status http (sv_world p))) p''
                \<and> sv_main p'' = Ended (exit_status http (sv_world p)))
       | Stopping reason \<Rightarrow>
           (case reason of BySignal \<Rightarrow> Signalled \<in> set h | ByTLSChange \<Rightarrow> tls_change_seen env h)
           \<and> (\<exists>p'. server_step env http opts p (Finished (exit_status http (sv_world p))) p' \<and> sv_main p' = Ended (exit_status http (sv_world p)))
       | Ended n \<Rightarrow> n \<le> 2 \<and> (if n = 0 then ended_well env h else True))"
proof -
  have inv: "server_inv env opts h p" by (rule server_run_inv [OF assms])
  show ?thesis
  proof (cases "sv_main p")
    case Waiting
    let ?p = "p\<lparr>sv_main := Stopping BySignal\<rparr>"
    have "server_step env http opts p Signalled ?p" by (rule server_step.signalled [OF Waiting])
    moreover have "\<exists>p'. server_step env http opts ?p (Finished (exit_status http (sv_world p))) p' \<and> sv_main p' = Ended (exit_status http (sv_world p))"
      using stopping_ends [of ?p BySignal env http opts] by simp
    ultimately show ?thesis using inv Waiting by (auto simp: server_inv_def)
  next
    case (Stopping r)
    then show ?thesis using inv stopping_ends [OF Stopping, of env http opts] by (auto simp: server_inv_def split: stop.splits)
  next
    case (Ended n)
    then show ?thesis using inv by (simp add: server_inv_def)
  qed
qed

text \<open>A server without TLS that was signalled.\<close>

definition example_http :: "unit http_calls" where
  "example_http =
     \<lparr>rest_GetConfig = \<lambda>h. (None, h), ListenAndServe = \<lambda>_ h. (None, h), ListenAndServeTLS = \<lambda>_ _ _ _ h. (None, h),
      server_Shutdown = \<lambda>_ h. (Some (errorf ''timeout''), h), server_Close = \<lambda>h. (None, h)\<rparr>"

definition example_server :: Options where
  "example_server = \<lparr>so_DataDir = ''/data'', so_Port = ''8000'', so_HTTPSKeyFile = [], so_HTTPSCertFile = []\<rparr>"

lemma example_server_run: "\<exists>p. server_run idle_env example_http example_server [Signalled, Configured] p \<and> sv_listener p = Listening None \<and> sv_main p = Stopping BySignal"
proof -
  let ?p = "\<lambda>w. \<lparr>sv_main = Waiting, sv_listener = Configuring, sv_watcher = None, sv_channel = 0, sv_world = w\<rparr> :: unit server_state"
  have "\<exists>w. prepare idle_env (Inr example_server) idle_world = (Ret (Running (example_server, newHandler example_server)), w)"
    by (simp add: prepare_def os_MkdirAll_def noteM_def faultyM_def mkdirall_fs_def is_file_def list_ex_iff idle_env_def idle_world_def
        bindM_def returnM_def)
  then obtain w where "prepare idle_env (Inr example_server) idle_world = (Ret (Running (example_server, newHandler example_server)), w)" ..
  note start = server_run.start [OF this, of example_http]
  have "server_step idle_env example_http example_server (?p w) Configured ((?p w)\<lparr>sv_listener := Listening None, sv_watcher := None, sv_world := w\<rparr>)"
    by (rule server_step.configured) (simp_all add: alive_def configure_def example_server_def returnM_def)
  from server_run.step [OF server_run.step [OF start this] server_step.signalled] show ?thesis by fastforce
qed

theorem server_lifecycle_witness:
  "\<exists>p. listens (idle_env :: unit env) example_server None \<and> sv_main p = Stopping BySignal
     \<and> (\<exists>p'. server_step idle_env example_http example_server p (Finished 0) p' \<and> sv_main p' = Ended 0)"
proof -
  obtain p where p: "server_run idle_env example_http example_server [Signalled, Configured] p" "sv_listener p = Listening None"
      "sv_main p = Stopping BySignal"
    using example_server_run by blast
  have "exit_status example_http (sv_world p) = 0" by (simp add: exit_status_def example_http_def)
  then show ?thesis using server_lifecycle [OF p(1)] p(2,3) by auto
qed

end
