(* ===== verification/Conditions.thy ===== *)
theory Conditions
  imports World
begin

text \<open>
  \<^verbatim>\<open>controllers/conditions.go\<close>: the condition list of an ImageClusterInstall. The pure part
  (\<open>findCondition\<close>, \<open>setClusterInstallCondition\<close>) implements a map from condition types to
  (status, reason, message) triples; the locale \<open>condition_store\<close> states that contract, the
  interpretation \<open>conds\<close> discharges it for the code, and the controllers' setters are proved
  against it.
\<close>

type_synonym conditions = "ClusterInstallCondition list"

section \<open>Finding and setting one condition\<close>

fun findCondition :: "conditions \<Rightarrow> string \<Rightarrow> ClusterInstallCondition option" where
  "findCondition [] condType = None"
| "findCondition (c # cs) condType = (if cc_Type c = condType then Some c else findCondition cs condType)"

text \<open>Assignment through the pointer that \<^verbatim>\<open>findCondition\<close> returned.\<close>

fun write_found :: "conditions \<Rightarrow> string \<Rightarrow> ClusterInstallCondition \<Rightarrow> conditions" where
  "write_found [] condType v = []"
| "write_found (c # cs) condType v = (if cc_Type c = condType then v # cs else c # write_found cs condType v)"

text \<open>All callers pass the address of a field, so the nil guard of the code never fires.
  \<open>now\<close> is the time the function reads.\<close>

definition setClusterInstallCondition :: "gotime \<Rightarrow> conditions \<Rightarrow> ClusterInstallCondition \<Rightarrow> conditions \<times> bool" where
  "setClusterInstallCondition now conditions newCondition =
     (case findCondition conditions (cc_Type newCondition) of
        None \<Rightarrow>
          (conditions @ [newCondition\<lparr>cc_LastTransitionTime := now, cc_LastProbeTime := now\<rparr>], True)
      | Some existing \<Rightarrow>
          if cc_Status existing = cc_Status newCondition
             \<and> cc_Reason existing = cc_Reason newCondition
             \<and> cc_Message existing = cc_Message newCondition
          then (conditions, False)
          else
            let e1 = (if cc_Status existing \<noteq> cc_Status newCondition
                      then existing\<lparr>cc_Status := cc_Status newCondition, cc_LastTransitionTime := now\<rparr>
                      else existing);
                e2 = e1\<lparr>cc_LastProbeTime := now, cc_Reason := cc_Reason newCondition,
                        cc_Message := cc_Message newCondition\<rparr>
            in (write_found conditions (cc_Type newCondition) e2, True))"

definition mkCond :: "string \<Rightarrow> ConditionStatus \<Rightarrow> string \<Rightarrow> string \<Rightarrow> ClusterInstallCondition" where
  "mkCond t st r m = \<lparr>cc_Type = t, cc_Status = st, cc_LastProbeTime = 0, cc_LastTransitionTime = 0,
     cc_Reason = r, cc_Message = m\<rparr>"

lemma mkCond_simps [simp]:
  "cc_Type (mkCond t st r m) = t" "cc_Status (mkCond t st r m) = st"
  "cc_Reason (mkCond t st r m) = r" "cc_Message (mkCond t st r m) = m"
  by (simp_all add: mkCond_def)

section \<open>The contract: a map from types to status, reason and message\<close>

type_synonym triple = "ConditionStatus \<times> string \<times> string"

definition triple_of :: "ClusterInstallCondition \<Rightarrow> triple" where
  "triple_of c = (cc_Status c, cc_Reason c, cc_Message c)"

definition condView :: "conditions \<Rightarrow> string \<Rightarrow> triple option" where
  "condView cs t = map_option triple_of (findCondition cs t)"

lemma triple_of_mkCond [simp]: "triple_of (mkCond t st r m) = (st, r, m)"
  by (simp add: triple_of_def)

locale condition_store =
  fixes put :: "gotime \<Rightarrow> 'c \<Rightarrow> ClusterInstallCondition \<Rightarrow> 'c \<times> bool"
    and view :: "'c \<Rightarrow> string \<Rightarrow> triple option"
  assumes view_put: "view (fst (put now cs c)) = (view cs)(cc_Type c \<mapsto> triple_of c)"
    and put_reports: "snd (put now cs c) \<longleftrightarrow> view cs (cc_Type c) \<noteq> Some (triple_of c)"
begin

lemma view_put_same: "view (fst (put now cs c)) (cc_Type c) = Some (triple_of c)"
  by (simp add: view_put)

lemma view_put_other: "t \<noteq> cc_Type c \<Longrightarrow> view (fst (put now cs c)) t = view cs t"
  by (simp add: view_put)

lemma put_again: "\<not> snd (put now' (fst (put now cs c)) c)"
  by (simp add: put_reports view_put)

lemma put_unreported: "\<not> snd (put now cs c) \<Longrightarrow> view (fst (put now cs c)) = view cs"
  by (simp add: put_reports view_put fun_upd_idem)

lemma put_commute:
  assumes "cc_Type c \<noteq> cc_Type d"
  shows "view (fst (put now' (fst (put now cs c)) d)) = view (fst (put now2 (fst (put now3 cs d)) c))"
  using assms by (simp add: view_put fun_upd_twist)

text \<open>Three conditions of different types, set one after another, as the monitor does.\<close>

definition put3 :: "gotime \<Rightarrow> gotime \<Rightarrow> gotime \<Rightarrow> 'c \<Rightarrow> ClusterInstallCondition \<Rightarrow> ClusterInstallCondition \<Rightarrow> ClusterInstallCondition \<Rightarrow> 'c \<times> bool" where
  "put3 t1 t2 t3 cs a b c =
     (let (cs1, u1) = put t1 cs a; (cs2, u2) = put t2 cs1 b; (cs3, u3) = put t3 cs2 c
      in (cs3, u1 \<or> u2 \<or> u3))"

lemma put3_view:
  "view (fst (put3 t1 t2 t3 cs a b c)) =
    (view cs)(cc_Type a \<mapsto> triple_of a, cc_Type b \<mapsto> triple_of b, cc_Type c \<mapsto> triple_of c)"
proof -
  have "fst (put3 t1 t2 t3 cs a b c) = fst (put t3 (fst (put t2 (fst (put t1 cs a)) b)) c)"
    by (simp add: put3_def split: prod.split)
  then show ?thesis by (simp add: view_put)
qed

lemma put3_reports:
  assumes "cc_Type a \<noteq> cc_Type b" "cc_Type a \<noteq> cc_Type c" "cc_Type b \<noteq> cc_Type c"
  shows "snd (put3 t1 t2 t3 cs a b c) \<longleftrightarrow>
    view cs (cc_Type a) \<noteq> Some (triple_of a) \<or> view cs (cc_Type b) \<noteq> Some (triple_of b)
    \<or> view cs (cc_Type c) \<noteq> Some (triple_of c)"
proof -
  have "snd (put3 t1 t2 t3 cs a b c) \<longleftrightarrow> snd (put t1 cs a) \<or> snd (put t2 (fst (put t1 cs a)) b)
      \<or> snd (put t3 (fst (put t2 (fst (put t1 cs a)) b)) c)"
    by (auto simp: put3_def split: prod.split)
  then show ?thesis using assms by (simp add: put_reports view_put)
qed

end

lemma findCondition_type: "findCondition cs t = Some c \<Longrightarrow> cc_Type c = t"
  by (induction cs) (auto split: if_splits)

lemma findCondition_append:
  "findCondition (cs @ ds) t = (case findCondition cs t of None \<Rightarrow> findCondition ds t | Some c \<Rightarrow> Some c)"
  by (induction cs) simp_all

lemma findCondition_write_found:
  assumes "findCondition cs t = Some c" and "cc_Type v = t"
  shows "findCondition (write_found cs t v) u = (if u = t then Some v else findCondition cs u)"
  using assms by (induction cs) (auto split: if_splits)

lemma findCondition_None: "findCondition cs t = None \<longleftrightarrow> t \<notin> cc_Type ` set cs"
  by (induction cs) auto

interpretation conds: condition_store setClusterInstallCondition condView
proof unfold_locales
  fix now cs c
  show "condView (fst (setClusterInstallCondition now cs c)) = (condView cs)(cc_Type c \<mapsto> triple_of c)"
  proof (cases "findCondition cs (cc_Type c)")
    case None
    then show ?thesis
      by (auto simp: setClusterInstallCondition_def condView_def findCondition_append triple_of_def
          fun_eq_iff split: option.splits)
  next
    case (Some e)
    have "cc_Type e = cc_Type c"
      using Some by (rule findCondition_type)
    then show ?thesis
      using Some
      by (auto simp: setClusterInstallCondition_def condView_def triple_of_def fun_eq_iff Let_def
          findCondition_write_found [OF Some])
  qed
  show "snd (setClusterInstallCondition now cs c) \<longleftrightarrow> condView cs (cc_Type c) \<noteq> Some (triple_of c)"
    by (auto simp: setClusterInstallCondition_def condView_def triple_of_def Let_def split: option.splits)
qed

section \<open>Shape of the list\<close>

text \<open>At most one condition of each type.\<close>

definition distinct_types :: "conditions \<Rightarrow> bool" where
  "distinct_types cs \<longleftrightarrow> distinct (map cc_Type cs)"

lemma write_found_types: "cc_Type v = t \<Longrightarrow> map cc_Type (write_found cs t v) = map cc_Type cs"
  by (induction cs) auto

lemma setClusterInstallCondition_types:
  "map cc_Type (fst (setClusterInstallCondition now cs c)) =
    (if cc_Type c \<in> cc_Type ` set cs then map cc_Type cs else map cc_Type cs @ [cc_Type c])"
  using findCondition_None [of cs "cc_Type c"]
  by (auto simp: setClusterInstallCondition_def Let_def write_found_types dest: findCondition_type
      split: option.splits)

lemma setClusterInstallCondition_distinct:
  "distinct_types cs \<Longrightarrow> distinct_types (fst (setClusterInstallCondition now cs c))"
  by (auto simp: distinct_types_def setClusterInstallCondition_types)

text \<open>The transition time moves exactly when the status changes or the condition is new.\<close>

lemma setClusterInstallCondition_transition:
  "findCondition (fst (setClusterInstallCondition now cs c)) (cc_Type c) = Some e' \<Longrightarrow>
    cc_LastTransitionTime e' =
      (case findCondition cs (cc_Type c) of None \<Rightarrow> now
       | Some e \<Rightarrow> if cc_Status e = cc_Status c then cc_LastTransitionTime e else now)"
  using findCondition_type [of cs "cc_Type c"]
  by (auto simp: setClusterInstallCondition_def Let_def findCondition_append findCondition_write_found
      split: option.splits if_splits)

section \<open>The controllers' setters\<close>

definition setCond :: "'w env \<Rightarrow> ImageClusterInstall \<Rightarrow> ClusterInstallCondition \<Rightarrow> ('w world, ImageClusterInstall \<times> bool) go" where
  "setCond env ici c = bindM (hubM (time_Now env)) (\<lambda>now.
     case setClusterInstallCondition now (st_Conditions (ici_Status ici)) c of
       (cs, updated) \<Rightarrow> returnM (set_Conditions cs ici, updated))"

definition initialConditions :: conditions where
  "initialConditions =
    [mkCond ClusterInstallRequirementsMet ConditionUnknown ''Unknown'' ''Unknown'',
     mkCond ClusterInstallCompleted ConditionUnknown ''Unknown'' ''Unknown'',
     mkCond ClusterInstallFailed ConditionUnknown ''Unknown'' ''Unknown'',
     mkCond ClusterInstallStopped ConditionUnknown ''Unknown'' ''Unknown'']"

fun initialize_loop :: "'w env \<Rightarrow> conditions \<Rightarrow> ImageClusterInstall \<Rightarrow> bool \<Rightarrow> ('w world, ImageClusterInstall \<times> bool) go" where
  "initialize_loop env [] ici needToPatch = returnM (ici, needToPatch)"
| "initialize_loop env (c # cs) ici needToPatch =
     (if findCondition (st_Conditions (ici_Status ici)) (cc_Type c) = None
      then bindM (setCond env ici c) (\<lambda>(ici', set). initialize_loop env cs ici' (needToPatch \<or> set))
      else initialize_loop env cs ici needToPatch)"

definition initializeConditions :: "'w env \<Rightarrow> ImageClusterInstall \<Rightarrow> ('w world, goerr option \<times> ImageClusterInstall) go" where
  "initializeConditions env ici =
     bindM (initialize_loop env initialConditions ici False) (\<lambda>(ici', needToPatch).
       if \<not> needToPatch then returnM (None, ici') else Patch_ICI_Status env ici ici')"

definition setRequirementsMetCondition :: "'w env \<Rightarrow> ImageClusterInstall \<Rightarrow> ConditionStatus \<Rightarrow> string \<Rightarrow> string \<Rightarrow> ('w world, ImageClusterInstall) go" where
  "setRequirementsMetCondition env ici status reason msg =
     bindM (setCond env ici (mkCond ClusterInstallRequirementsMet status reason msg)) (\<lambda>(ici', updated).
       if \<not> updated then returnM ici'
       else bindM (Patch_ICI_Status env ici ici') (\<lambda>(_, ici''). returnM ici''))"

definition installationTimedout :: "ImageClusterInstall \<Rightarrow> bool" where
  "installationTimedout ici =
     (case findCondition (st_Conditions (ici_Status ici)) ClusterInstallFailed of
        None \<Rightarrow> False
      | Some cond \<Rightarrow> cc_Status cond = ConditionTrue \<and> cc_Reason cond = InstallTimedoutReason)"

definition InstallationCompleted :: "ImageClusterInstall \<Rightarrow> bool" where
  "InstallationCompleted ici =
     (case findCondition (st_Conditions (ici_Status ici)) ClusterInstallCompleted of
        None \<Rightarrow> False
      | Some cond \<Rightarrow> cc_Status cond = ConditionTrue)"

text \<open>The three monitor setters: three conditions in order, then one status patch if any changed.\<close>

definition set3M :: "'w env \<Rightarrow> ImageClusterInstall \<Rightarrow> ClusterInstallCondition \<Rightarrow> ClusterInstallCondition \<Rightarrow> ClusterInstallCondition \<Rightarrow> ('w world, goerr option \<times> ImageClusterInstall) go" where
  "set3M env ici completed stopped failed =
     bindM (setCond env ici completed) (\<lambda>(ici1, completedUpdated).
     bindM (setCond env ici1 stopped) (\<lambda>(ici2, stoppedUpdated).
     bindM (setCond env ici2 failed) (\<lambda>(ici3, failedUpdated).
       if \<not> completedUpdated \<and> \<not> stoppedUpdated \<and> \<not> failedUpdated then returnM (None, ici3)
       else Patch_ICI_Status env ici ici3)))"

definition setClusterInstallingConditions :: "'w env \<Rightarrow> ImageClusterInstall \<Rightarrow> string \<Rightarrow> ('w world, goerr option \<times> ImageClusterInstall) go" where
  "setClusterInstallingConditions env ici message =
     set3M env ici
       (mkCond ClusterInstallCompleted ConditionFalse InstallInProgressReason InstallInProgressMessage)
       (mkCond ClusterInstallStopped ConditionFalse InstallInProgressReason message)
       (mkCond ClusterInstallFailed ConditionFalse InstallInProgressReason InstallInProgressMessage)"

definition timeout_message :: "string \<Rightarrow> string" where
  "timeout_message timeout = ''Cluster failed to install within the timeout ('' @ timeout @ '')''"

definition setClusterTimeoutConditions :: "'w env \<Rightarrow> ImageClusterInstall \<Rightarrow> string \<Rightarrow> ('w world, goerr option \<times> ImageClusterInstall) go" where
  "setClusterTimeoutConditions env ici timeout =
     set3M env ici
       (mkCond ClusterInstallCompleted ConditionFalse InstallTimedoutReason (timeout_message timeout))
       (mkCond ClusterInstallStopped ConditionFalse InstallTimedoutReason InstallTimedoutMessage)
       (mkCond ClusterInstallFailed ConditionTrue InstallTimedoutReason (timeout_message timeout))"

definition setClusterInstalledConditions :: "'w env \<Rightarrow> ImageClusterInstall \<Rightarrow> ('w world, goerr option \<times> ImageClusterInstall) go" where
  "setClusterInstalledConditions env ici =
     set3M env ici
       (mkCond ClusterInstallCompleted ConditionTrue InstallSucceededReason InstallSucceededMessage)
       (mkCond ClusterInstallStopped ConditionTrue InstallSucceededReason InstallSucceededMessage)
       (mkCond ClusterInstallFailed ConditionFalse InstallSucceededReason InstallSucceededMessage)"

section \<open>What the setters write\<close>

abbreviation conditionsOf :: "ImageClusterInstall \<Rightarrow> conditions" where
  "conditionsOf ici \<equiv> st_Conditions (ici_Status ici)"

lemma InstallationCompleted_view:
  "InstallationCompleted ici \<longleftrightarrow>
    (\<exists>r m. condView (conditionsOf ici) ClusterInstallCompleted = Some (ConditionTrue, r, m))"
  by (auto simp: InstallationCompleted_def condView_def triple_of_def split: option.split)

lemma installationTimedout_view:
  "installationTimedout ici \<longleftrightarrow>
    (\<exists>m. condView (conditionsOf ici) ClusterInstallFailed = Some (ConditionTrue, InstallTimedoutReason, m))"
  by (auto simp: installationTimedout_def condView_def triple_of_def split: option.split)

lemma wp_setCond [wp]:
  "wp (setCond env ici c) Q E s =
    (case time_Now env (Hub s) of (now, h) \<Rightarrow>
       Q (set_Conditions (fst (setClusterInstallCondition now (conditionsOf ici) c)) ici,
          snd (setClusterInstallCondition now (conditionsOf ici) c)) (s\<lparr>Hub := h\<rparr>))"
  by (simp add: setCond_def wp split: prod.split)

lemma emits_setCond [emits_intro]: "emits P (setCond env ici c)"
  unfolding setCond_def by (intro emits_intro)

text \<open>The outcome of a setter in one equation: the three times it read, the conditions it computed
  and whether it sent them.\<close>

lemma set3M_run:
  "\<exists>t1 t2 t3 h.
    set3M env ici a b c s =
      (let p = conds.put3 t1 t2 t3 (conditionsOf ici) a b c;
           ici' = set_Conditions (fst p) ici; s1 = s\<lparr>Hub := h\<rparr>
       in if \<not> snd p then (Ret (None, ici'), s1) else Patch_ICI_Status env ici ici' s1)"
proof -
  obtain t1 h1 where 1: "time_Now env (Hub s) = (t1, h1)" by (cases "time_Now env (Hub s)")
  obtain t2 h2 where 2: "time_Now env h1 = (t2, h2)" by (cases "time_Now env h1")
  obtain t3 h3 where 3: "time_Now env h2 = (t3, h3)" by (cases "time_Now env h2")
  show ?thesis
    by (rule exI [of _ t1], rule exI [of _ t2], rule exI [of _ t3], rule exI [of _ h3])
      (simp add: set3M_def setCond_def bindM_def hubM_def returnM_def 1 2 3 conds.put3_def
        set_Conditions_def split: prod.split)
qed

lemma Patch_ICI_Status_run:
  "\<exists>h r. Patch_ICI_Status env base new s =
    (Ret (case r of Inl e \<Rightarrow> (Some e, new) | Inr o' \<Rightarrow> (None, o')),
     s\<lparr>Hub := h, Trace := Trace s @ [EvPatchICIStatus base new (ok r)]\<rparr>)"
  by (cases "patch_ImageClusterInstall_status env base new (Hub s)")
    (auto simp: Patch_ICI_Status_def patchM_def requestM_def bindM_def returnM_def ok_def split: sum.split)

text \<open>C1: Setting a condition refines a map update. Whatever the list holds, after
  \<^verbatim>\<open>setClusterInstallCondition\<close> the condition of the new type has the new status, reason and message
  and every other type is as before; the function reports a change exactly when the triple of that
  type differed; repeating the call reports no change; no type is duplicated; and the transition
  time moves exactly when the status changes or the condition is new.\<close>
theorem setClusterInstallCondition_refines_map:
  "condView (fst (setClusterInstallCondition now cs c)) = (condView cs)(cc_Type c \<mapsto> triple_of c)
   \<and> (snd (setClusterInstallCondition now cs c) \<longleftrightarrow> condView cs (cc_Type c) \<noteq> Some (triple_of c))
   \<and> \<not> snd (setClusterInstallCondition now' (fst (setClusterInstallCondition now cs c)) c)
   \<and> distinct_types (fst (setClusterInstallCondition now cs c)) = distinct_types cs
   \<and> map_option cc_LastTransitionTime
        (findCondition (fst (setClusterInstallCondition now cs c)) (cc_Type c)) =
      Some (case findCondition cs (cc_Type c) of None \<Rightarrow> now
       | Some e \<Rightarrow> if cc_Status e = cc_Status c then cc_LastTransitionTime e else now)"
proof (intro conjI)
  obtain e' where e': "findCondition (fst (setClusterInstallCondition now cs c)) (cc_Type c) = Some e'"
    using conds.view_put_same [of now cs c] by (auto simp: condView_def)
  then show "map_option cc_LastTransitionTime
        (findCondition (fst (setClusterInstallCondition now cs c)) (cc_Type c)) =
      Some (case findCondition cs (cc_Type c) of None \<Rightarrow> now
       | Some e \<Rightarrow> if cc_Status e = cc_Status c then cc_LastTransitionTime e else now)"
    using setClusterInstallCondition_transition [OF e'] by simp
qed (auto simp: conds.view_put conds.put_reports distinct_types_def setClusterInstallCondition_types)

section \<open>The status machine of an installation\<close>

text \<open>One step per call of a setter, under the guards of the two controllers: the monitor sets its
  three conditions only while the installation is not completed, and reports a timeout only once.\<close>

inductive cond_step :: "conditions \<Rightarrow> conditions \<Rightarrow> bool" where
  initialize: "\<lbrakk>c \<in> set initialConditions; findCondition cs (cc_Type c) = None\<rbrakk> \<Longrightarrow>
    cond_step cs (fst (setClusterInstallCondition now cs c))"
| requirements: "cond_step cs (fst (setClusterInstallCondition now cs
    (mkCond ClusterInstallRequirementsMet status reason msg)))"
| installing: "\<lbrakk>\<nexists>r m. condView cs ClusterInstallCompleted = Some (ConditionTrue, r, m)\<rbrakk> \<Longrightarrow>
    cond_step cs (fst (conds.put3 t1 t2 t3 cs
       (mkCond ClusterInstallCompleted ConditionFalse InstallInProgressReason InstallInProgressMessage)
       (mkCond ClusterInstallStopped ConditionFalse InstallInProgressReason message)
       (mkCond ClusterInstallFailed ConditionFalse InstallInProgressReason InstallInProgressMessage)))"
| timedout: "\<lbrakk>\<nexists>r m. condView cs ClusterInstallCompleted = Some (ConditionTrue, r, m);
    \<nexists>m. condView cs ClusterInstallFailed = Some (ConditionTrue, InstallTimedoutReason, m)\<rbrakk> \<Longrightarrow>
    cond_step cs (fst (conds.put3 t1 t2 t3 cs
       (mkCond ClusterInstallCompleted ConditionFalse InstallTimedoutReason (timeout_message timeout))
       (mkCond ClusterInstallStopped ConditionFalse InstallTimedoutReason InstallTimedoutMessage)
       (mkCond ClusterInstallFailed ConditionTrue InstallTimedoutReason (timeout_message timeout))))"
| installed: "\<lbrakk>\<nexists>r m. condView cs ClusterInstallCompleted = Some (ConditionTrue, r, m)\<rbrakk> \<Longrightarrow>
    cond_step cs (fst (conds.put3 t1 t2 t3 cs
       (mkCond ClusterInstallCompleted ConditionTrue InstallSucceededReason InstallSucceededMessage)
       (mkCond ClusterInstallStopped ConditionTrue InstallSucceededReason InstallSucceededMessage)
       (mkCond ClusterInstallFailed ConditionFalse InstallSucceededReason InstallSucceededMessage)))"

abbreviation cond_steps :: "conditions \<Rightarrow> conditions \<Rightarrow> bool" where
  "cond_steps \<equiv> cond_step\<^sup>*\<^sup>*"

text \<open>Completed, Failed and Stopped never contradict each other.\<close>

definition status_coherent :: "(string \<Rightarrow> triple option) \<Rightarrow> bool" where
  "status_coherent v \<longleftrightarrow>
     (\<forall>r m. v ClusterInstallCompleted = Some (ConditionTrue, r, m) \<longrightarrow>
        v ClusterInstallStopped = Some (ConditionTrue, InstallSucceededReason, InstallSucceededMessage)
        \<and> v ClusterInstallFailed = Some (ConditionFalse, InstallSucceededReason, InstallSucceededMessage))
   \<and> (\<forall>r m. v ClusterInstallFailed = Some (ConditionTrue, r, m) \<longrightarrow>
        r = InstallTimedoutReason
        \<and> v ClusterInstallCompleted = Some (ConditionFalse, InstallTimedoutReason, m)
        \<and> v ClusterInstallStopped = Some (ConditionFalse, InstallTimedoutReason, InstallTimedoutMessage))
   \<and> (\<forall>r m. v ClusterInstallStopped = Some (ConditionTrue, r, m) \<longrightarrow>
        v ClusterInstallCompleted = Some (ConditionTrue, InstallSucceededReason, InstallSucceededMessage))"

lemma findCondition_condView: "findCondition cs t = None \<longleftrightarrow> condView cs t = None"
  by (simp add: condView_def)

lemma initialConditions_cases:
  assumes "c \<in> set initialConditions"
  obtains t where "c = mkCond t ConditionUnknown ''Unknown'' ''Unknown''"
    and "t \<in> {ClusterInstallRequirementsMet, ClusterInstallCompleted, ClusterInstallFailed, ClusterInstallStopped}"
  using assms by (auto simp: initialConditions_def)

lemma status_coherent_cong:
  assumes "v ClusterInstallCompleted = w ClusterInstallCompleted"
    and "v ClusterInstallFailed = w ClusterInstallFailed"
    and "v ClusterInstallStopped = w ClusterInstallStopped"
  shows "status_coherent v = status_coherent w"
  unfolding status_coherent_def assms ..

lemma status_coherent_unknown:
  assumes "status_coherent v" and "v t = None"
  shows "status_coherent (v(t \<mapsto> (ConditionUnknown, r, m)))"
proof -
  let ?T = "{ClusterInstallCompleted, ClusterInstallFailed, ClusterInstallStopped}"
  let ?v = "v(t \<mapsto> (ConditionUnknown, r, m))"
  have C: "v ClusterInstallCompleted \<noteq> Some (ConditionTrue, r', m')"
    and F: "v ClusterInstallFailed \<noteq> Some (ConditionTrue, r', m')"
    and S: "v ClusterInstallStopped \<noteq> Some (ConditionTrue, r', m')" if "t \<in> ?T" for r' m'
    using assms that unfolding status_coherent_def by (metis insertE empty_iff option.distinct(1))+
  show ?thesis
  proof (cases "t \<in> ?T")
    case True
    have "?v u \<noteq> Some (ConditionTrue, r', m')" if "u \<in> ?T" for u r' m'
    proof (cases "u = t")
      case False
      then have "?v u = v u" by simp
      then show ?thesis using that C [OF True] F [OF True] S [OF True] by (metis insertE empty_iff)
    qed simp
    then show ?thesis unfolding status_coherent_def by blast
  next
    case False
    then show ?thesis using assms(1) by (subst status_coherent_cong [of _ v]) auto
  qed
qed

lemma cond_step_coherent:
  "cond_step cs cs' \<Longrightarrow> status_coherent (condView cs) \<Longrightarrow> status_coherent (condView cs')"
proof (induction rule: cond_step.induct)
  case (initialize c cs now)
  from initialize(1) obtain t where c: "c = mkCond t ConditionUnknown ''Unknown'' ''Unknown''"
    by (rule initialConditions_cases)
  have "condView cs t = None"
    using initialize(2) c by (simp add: findCondition_condView)
  moreover have "condView (fst (setClusterInstallCondition now cs c)) =
      (condView cs)(t \<mapsto> (ConditionUnknown, ''Unknown'', ''Unknown''))"
    using conds.view_put [of now cs c] c by (simp only: mkCond_simps triple_of_mkCond)
  ultimately show ?case
    using initialize(3) by (simp only: status_coherent_unknown)
next
  case (requirements cs now status reason msg)
  have "condView (fst (setClusterInstallCondition now cs (mkCond ClusterInstallRequirementsMet status reason msg))) t
      = condView cs t" if "t \<noteq> ClusterInstallRequirementsMet" for t
    using that by (simp add: conds.view_put_other)
  with requirements show ?case
    by (subst status_coherent_cong) simp_all
next
  case installing
  show ?case unfolding conds.put3_view status_coherent_def by simp
next
  case timedout
  show ?case unfolding conds.put3_view status_coherent_def by simp
next
  case installed
  show ?case unfolding conds.put3_view status_coherent_def by simp
qed

lemma cond_step_completed_stable:
  "cond_step cs cs' \<Longrightarrow> condView cs ClusterInstallCompleted = Some (ConditionTrue, r, m) \<Longrightarrow>
    t \<in> {ClusterInstallCompleted, ClusterInstallStopped, ClusterInstallFailed} \<Longrightarrow>
    condView cs t \<noteq> None \<Longrightarrow> condView cs' t = condView cs t"
proof (induction rule: cond_step.induct)
  case (initialize c cs now)
  then have "t \<noteq> cc_Type c" by (metis findCondition_condView)
  then show ?case by (simp add: conds.view_put)
next
  case (requirements cs now status reason msg)
  then have "t \<noteq> ClusterInstallRequirementsMet" by auto
  then show ?case by (simp add: conds.view_put)
qed simp_all

lemma cond_steps_coherent:
  "cond_steps cs cs' \<Longrightarrow> status_coherent (condView cs) \<Longrightarrow> status_coherent (condView cs')"
  by (induction rule: rtranclp_induct) (auto intro: cond_step_coherent)

lemma no_conditions_coherent: "status_coherent (condView [])"
  by (simp add: status_coherent_def condView_def)

text \<open>Completion is final.\<close>

lemma cond_steps_completed_stable:
  assumes "cond_steps cs cs'" and coh: "status_coherent (condView cs)"
    and completed: "condView cs ClusterInstallCompleted = Some (ConditionTrue, r, m)"
    and t: "t \<in> {ClusterInstallCompleted, ClusterInstallStopped, ClusterInstallFailed}"
  shows "condView cs' t = condView cs t"
proof -
  have some: "condView cs t \<noteq> None"
    if "t \<in> {ClusterInstallCompleted, ClusterInstallStopped, ClusterInstallFailed}" for t
    using that completed coh by (auto simp: status_coherent_def)
  have "\<forall>t \<in> {ClusterInstallCompleted, ClusterInstallStopped, ClusterInstallFailed}. condView cs' t = condView cs t"
    using assms(1)
  proof (induction rule: rtranclp_induct)
    case (step cs1 cs2)
    then have "condView cs1 ClusterInstallCompleted = Some (ConditionTrue, r, m)"
      using completed by simp
    then have "condView cs2 t = condView cs1 t"
      if "t \<in> {ClusterInstallCompleted, ClusterInstallStopped, ClusterInstallFailed}" for t
      using cond_step_completed_stable [OF step.hyps(2)] that step.IH some [OF that] by metis
    with step.IH show ?case by simp
  qed simp
  then show ?thesis using t by blast
qed

text \<open>The types of the conditions stay distinct and known.\<close>

definition known_types :: "string list" where
  "known_types = [ClusterInstallRequirementsMet, ClusterInstallCompleted, ClusterInstallFailed, ClusterInstallStopped]"

definition well_typed :: "conditions \<Rightarrow> bool" where
  "well_typed cs \<longleftrightarrow> distinct_types cs \<and> cc_Type ` set cs \<subseteq> set known_types"

lemma set_well_typed:
  "well_typed cs \<Longrightarrow> cc_Type c \<in> set known_types \<Longrightarrow> well_typed (fst (setClusterInstallCondition now cs c))"
  using setClusterInstallCondition_types [of now cs c]
  by (auto simp: well_typed_def setClusterInstallCondition_distinct simp flip: set_map split: if_splits)

lemma put3_well_typed:
  assumes "well_typed cs" and "{cc_Type a, cc_Type b, cc_Type c} \<subseteq> set known_types"
  shows "well_typed (fst (conds.put3 t1 t2 t3 cs a b c))"
proof -
  have "fst (conds.put3 t1 t2 t3 cs a b c) = fst (setClusterInstallCondition t3
      (fst (setClusterInstallCondition t2 (fst (setClusterInstallCondition t1 cs a)) b)) c)"
    by (simp add: conds.put3_def split: prod.split)
  then show ?thesis using assms by (simp add: set_well_typed)
qed

lemma cond_step_well_typed: "cond_step cs cs' \<Longrightarrow> well_typed cs \<Longrightarrow> well_typed cs'"
  by (induction rule: cond_step.induct)
    (auto simp: known_types_def initialConditions_def intro!: set_well_typed put3_well_typed)

lemma cond_steps_well_typed: "cond_steps cs cs' \<Longrightarrow> well_typed cs \<Longrightarrow> well_typed cs'"
  by (induction rule: rtranclp_induct) (auto intro: cond_step_well_typed)

end
