(* ===== verification/Hosts.thy ===== *)
theory Hosts
  imports World
begin

text \<open>
  \<^verbatim>\<open>controllers/common.go\<close>: the operations on DataImages and BareMetalHosts that both controllers
  use. The lemmas give, for each operation, the exact sequences of requests it can issue and how
  they relate to its result.
\<close>

section \<open>Annotations\<close>

definition rebootAnnotation :: string where
  "rebootAnnotation = ''reboot.metal3.io''"
definition rebootAnnotationValue :: string where
  "rebootAnnotationValue = ''''"
definition ibioManagedBMH :: string where
  "ibioManagedBMH = ''image-based-install-managed''"
definition postCleanupAnnotation :: string where
  "postCleanupAnnotation = ''imageclusterinstall.extensions.hive.openshift.io/post-cleanup''"
definition postCleanupAnnotationValue :: string where
  "postCleanupAnnotationValue = ''true''"

definition setAnnotationIfNotExists :: "ObjectMeta \<Rightarrow> string \<Rightarrow> string \<Rightarrow> ObjectMeta \<times> bool" where
  "setAnnotationIfNotExists meta key value =
     (let ann = (case om_Annotations meta of None \<Rightarrow> Map.empty | Some a \<Rightarrow> a) in
      if ann key = None then (meta\<lparr>om_Annotations := Some (ann(key \<mapsto> value))\<rparr>, True)
      else (meta\<lparr>om_Annotations := Some ann\<rparr>, False))"

definition annotationExists :: "ObjectMeta \<Rightarrow> string \<Rightarrow> bool" where
  "annotationExists meta key =
     (case om_Annotations meta of None \<Rightarrow> False | Some a \<Rightarrow> a key \<noteq> None)"

lemma setAnnotation_reports: "snd (setAnnotationIfNotExists meta key value) \<longleftrightarrow> \<not> annotationExists meta key"
  by (simp add: setAnnotationIfNotExists_def annotationExists_def Let_def split: option.split)

lemma setAnnotation_exists:
  "annotationExists (fst (setAnnotationIfNotExists meta key value)) k \<longleftrightarrow> k = key \<or> annotationExists meta k"
  by (auto simp: setAnnotationIfNotExists_def annotationExists_def Let_def split: option.split)

lemma setAnnotation_keeps:
  "annotationExists meta k \<Longrightarrow>
    map_get (om_Annotations (fst (setAnnotationIfNotExists meta key value))) k = map_get (om_Annotations meta) k"
  by (auto simp: setAnnotationIfNotExists_def annotationExists_def Let_def split: option.splits)

lemma setAnnotation_get:
  "map_get (om_Annotations (fst (setAnnotationIfNotExists meta key value))) k =
    (case map_get (om_Annotations meta) k of Some v \<Rightarrow> Some v | None \<Rightarrow> if k = key then Some value else None)"
  by (auto simp: setAnnotationIfNotExists_def Let_def split: option.split)

lemma setAnnotation_only:
  "fst (setAnnotationIfNotExists meta key value) =
    meta\<lparr>om_Annotations := om_Annotations (fst (setAnnotationIfNotExists meta key value))\<rparr>"
  by (simp add: setAnnotationIfNotExists_def Let_def)

lemma setAnnotation_other_fields [simp]:
  "om_Name (fst (setAnnotationIfNotExists meta key value)) = om_Name meta"
  "om_Namespace (fst (setAnnotationIfNotExists meta key value)) = om_Namespace meta"
  "om_Labels (fst (setAnnotationIfNotExists meta key value)) = om_Labels meta"
  "om_Finalizers (fst (setAnnotationIfNotExists meta key value)) = om_Finalizers meta"
  "om_DeletionTimestamp (fst (setAnnotationIfNotExists meta key value)) = om_DeletionTimestamp meta"
  by (simp_all add: setAnnotationIfNotExists_def Let_def)

section \<open>DataImages and hosts\<close>

definition getDataImage :: "'w env \<Rightarrow> string \<Rightarrow> string \<Rightarrow> ('w world, goerr + DataImage) go" where
  "getDataImage env namespace name = hubM (get_DataImage env (namespace, name))"

definition slashed :: "nsname \<Rightarrow> string" where
  "slashed k = fst k @ ''/'' @ snd k"

definition deleteDataImage :: "'w env \<Rightarrow> nsname \<Rightarrow> ('w world, DataImage option \<times> goerr option) go" where
  "deleteDataImage env dataImageRef =
     bindM (hubM (get_DataImage env dataImageRef)) (\<lambda>r. case r of
       Inl err \<Rightarrow>
         if IsNotFound err then returnM (None, None)
         else returnM (None, Some (wrapf (''failed to get DataImage '' @ slashed dataImageRef @ '': '') err))
     | Inr dataImage \<Rightarrow>
         bindM (requestM (EvDeleteDataImage (key_of (di_Meta dataImage))) (delete_DataImage env dataImage)) (\<lambda>r'. case r' of
           Inl err \<Rightarrow> returnM (Some dataImage, Some err)
         | Inr _ \<Rightarrow> returnM (Some dataImage, None)))"

definition rebootBMH :: "'w env \<Rightarrow> BareMetalHost \<Rightarrow> ('w world, goerr option) go" where
  "rebootBMH env bmh =
     (case setAnnotationIfNotExists (bmh_Meta bmh) rebootAnnotation rebootAnnotationValue of (meta, added) \<Rightarrow>
        if added then bindM (Patch_BMH env bmh (bmh\<lparr>bmh_Meta := meta\<rparr>)) (\<lambda>(err, _). returnM err)
        else returnM None)"

definition removeBMHDataImage :: "'w env \<Rightarrow> nsname \<Rightarrow> ('w world, DataImage option \<times> goerr option) go" where
  "removeBMHDataImage env bmhRef =
     bindM (deleteDataImage env bmhRef) (\<lambda>(dataImage, err).
       if err \<noteq> None \<or> dataImage = None then returnM (dataImage, err)
       else bindM (hubM (get_BareMetalHost env bmhRef)) (\<lambda>r. case r of
         Inl err \<Rightarrow>
           if IsNotFound err then returnM (None, None)
           else returnM (dataImage, Some (wrapf (''failed to get BareMetalHost '' @ slashed bmhRef @ '': '') err))
       | Inr bmh \<Rightarrow> bindM (rebootBMH env bmh) (\<lambda>err. returnM (dataImage, err))))"

text \<open>The callers pass a pointer; a nil one is dereferenced.\<close>

definition getBMH :: "'w env \<Rightarrow> BareMetalHostReference option \<Rightarrow> ('w world, goerr + BareMetalHost) go" where
  "getBMH env bmhRef =
     (case bmhRef of
        None \<Rightarrow> panicM ''invalid memory address or nil pointer dereference''
      | Some ref \<Rightarrow> hubM (get_BareMetalHost env (bmhr_key ref)))"

definition handlePostCleanup :: "'w env \<Rightarrow> ImageClusterInstall \<Rightarrow> ('w world, Result \<times> goerr option) go" where
  "handlePostCleanup env ici =
     (if \<not> annotationExists (ici_Meta ici) postCleanupAnnotation then returnM (zeroResult, None)
      else case sp_BareMetalHostRef (ici_Spec ici) of
        None \<Rightarrow> returnM (zeroResult, None)
      | Some ref \<Rightarrow>
          bindM (removeBMHDataImage env (bmhr_key ref)) (\<lambda>(_, err). case err of
            Some e \<Rightarrow> returnM (zeroResult, Some (wrapf (''failed to delete DataImage '' @ slashed (bmhr_key ref) @ '': '') e))
          | None \<Rightarrow>
              bindM (getDataImage env (bmhr_Namespace ref) (bmhr_Name ref)) (\<lambda>r. case r of
                Inl e \<Rightarrow>
                  if \<not> IsNotFound e
                  then returnM (zeroResult, Some (wrapf (''failed to get DataImage '' @ slashed (bmhr_key ref) @ '': '') e))
                  else returnM (zeroResult, None)
              | Inr _ \<Rightarrow> returnM (requeueAfter (minutes 1), None))))"

section \<open>Requests and results\<close>

text \<open>A host patch that only adds the reboot annotation to a host without it.\<close>

definition adds_reboot :: "BareMetalHost \<Rightarrow> BareMetalHost \<Rightarrow> bool" where
  "adds_reboot b b' \<longleftrightarrow>
     \<not> annotationExists (bmh_Meta b) rebootAnnotation
     \<and> b' = b\<lparr>bmh_Meta := fst (setAnnotationIfNotExists (bmh_Meta b) rebootAnnotation rebootAnnotationValue)\<rparr>"

lemma rebootBMH_alt:
  "rebootBMH env bmh =
     (if annotationExists (bmh_Meta bmh) rebootAnnotation then returnM None
      else bindM (Patch_BMH env bmh
             (bmh\<lparr>bmh_Meta := fst (setAnnotationIfNotExists (bmh_Meta bmh) rebootAnnotation rebootAnnotationValue)\<rparr>))
             (\<lambda>(err, _). returnM err))"
  using setAnnotation_reports [of "bmh_Meta bmh" rebootAnnotation rebootAnnotationValue]
  by (auto simp: rebootBMH_def split: prod.split)

lemma emits_rebootBMH [emits_intro]:
  "(\<And>b' ok. adds_reboot bmh b' \<Longrightarrow> P (EvPatchBMH bmh b' ok)) \<Longrightarrow> emits P (rebootBMH env bmh)"
  unfolding rebootBMH_alt call_defs adds_reboot_def by (intro emits_intro) simp

lemma emits_deleteDataImage [emits_intro]:
  "(\<And>k ok. P (EvDeleteDataImage k ok)) \<Longrightarrow> emits P (deleteDataImage env ref)"
  unfolding deleteDataImage_def by (intro emits_intro)

lemma emits_removeBMHDataImage [emits_intro]:
  "(\<And>k ok. P (EvDeleteDataImage k ok)) \<Longrightarrow> (\<And>b b' ok. adds_reboot b b' \<Longrightarrow> P (EvPatchBMH b b' ok)) \<Longrightarrow>
    emits P (removeBMHDataImage env ref)"
  unfolding removeBMHDataImage_def by (intro emits_intro)

text \<open>The requests that take a DataImage off a host.\<close>

definition detach_request :: "event \<Rightarrow> bool" where
  "detach_request e \<longleftrightarrow> (\<exists>k b. e = EvDeleteDataImage k b) \<or> (\<exists>h h' b. adds_reboot h h' \<and> e = EvPatchBMH h h' b)"

lemma emits_detach: "emits detach_request (removeBMHDataImage env ref)"
  by (rule emits_removeBMHDataImage) (auto simp: detach_request_def)

lemma wp_detach:
  "wp (removeBMHDataImage env ref) (\<lambda>_ s'. \<exists>es. Trace s' = Trace s @ es \<and> list_all detach_request es) (\<lambda>_ _. False) s"
  by (auto simp: removeBMHDataImage_def deleteDataImage_def rebootBMH_alt wp call_defs adds_reboot_def detach_request_def
      split: prod.split sum.split)

lemma emits_getBMH [emits_intro]: "emits P (getBMH env ref)"
  unfolding getBMH_def by (intro emits_intro)

lemma emits_handlePostCleanup [emits_intro]:
  "(\<And>k ok. P (EvDeleteDataImage k ok)) \<Longrightarrow> (\<And>b b' ok. adds_reboot b b' \<Longrightarrow> P (EvPatchBMH b b' ok)) \<Longrightarrow>
    emits P (handlePostCleanup env ici)"
  unfolding handlePostCleanup_def getDataImage_def by (intro emits_intro)


text \<open>The last read of the DataImage with key \<open>k\<close> in a run that ended in \<open>s'\<close> answered \<open>r\<close>.\<close>

definition last_read :: "'w env \<Rightarrow> nsname \<Rightarrow> goerr + DataImage \<Rightarrow> 'w world \<Rightarrow> bool" where
  "last_read env k r s' \<longleftrightarrow> (\<exists>h. get_DataImage env k h = (r, Hub s'))"

text \<open>C21: Cleanup after an installation. Without the post-cleanup annotation or without a host in the
  spec the cleanup does nothing. Otherwise it never panics; it ends in success without asking for
  another run only if the last read of the DataImage of that host answered that it does not exist;
  it asks for another run after a minute exactly when that read still found the DataImage; and the
  requests it issues are deletions of DataImages and patches adding the reboot annotation.\<close>
theorem handlePostCleanup_outcome:
  "wp (handlePostCleanup env ici)
     (\<lambda>(res, err) s'.
        case sp_BareMetalHostRef (ici_Spec ici) of
          None \<Rightarrow> s' = s \<and> res = zeroResult \<and> err = None
        | Some ref \<Rightarrow>
            if \<not> annotationExists (ici_Meta ici) postCleanupAnnotation
            then s' = s \<and> res = zeroResult \<and> err = None
            else (case err of
                    None \<Rightarrow> res = zeroResult \<and> (\<exists>e. IsNotFound e \<and> last_read env (bmhr_key ref) (Inl e) s')
                           \<or> res = requeueAfter (minutes 1) \<and> (\<exists>d. last_read env (bmhr_key ref) (Inr d) s')
                  | Some e \<Rightarrow> res = zeroResult))
     (\<lambda>_ _. False) s
   \<and> emits (\<lambda>e. (\<exists>k ok. e = EvDeleteDataImage k ok) \<or> (\<exists>b b' ok. adds_reboot b b' \<and> e = EvPatchBMH b b' ok))
       (handlePostCleanup env ici)"
proof
  have remove: "wp (removeBMHDataImage env ref) (\<lambda>_ _. True) (\<lambda>_ _. False) s" for ref s
    by (auto simp: removeBMHDataImage_def deleteDataImage_def rebootBMH_alt wp call_defs
      split: prod.split sum.split)
  show "wp (handlePostCleanup env ici)
     (\<lambda>(res, err) s'.
        case sp_BareMetalHostRef (ici_Spec ici) of
          None \<Rightarrow> s' = s \<and> res = zeroResult \<and> err = None
        | Some ref \<Rightarrow>
            if \<not> annotationExists (ici_Meta ici) postCleanupAnnotation
            then s' = s \<and> res = zeroResult \<and> err = None
            else (case err of
                    None \<Rightarrow> res = zeroResult \<and> (\<exists>e. IsNotFound e \<and> last_read env (bmhr_key ref) (Inl e) s')
                           \<or> res = requeueAfter (minutes 1) \<and> (\<exists>d. last_read env (bmhr_key ref) (Inr d) s')
                  | Some e \<Rightarrow> res = zeroResult))
     (\<lambda>_ _. False) s"
    unfolding handlePostCleanup_def
    by (cases "sp_BareMetalHostRef (ici_Spec ici)",
      auto simp: wp getDataImage_def last_read_def bmhr_key_def split: sum.splits option.splits prod.splits
        intro!: wp_mono [OF remove]) blast+
  show "emits (\<lambda>e. (\<exists>k ok. e = EvDeleteDataImage k ok) \<or> (\<exists>b b' ok. adds_reboot b b' \<and> e = EvPatchBMH b b' ok))
       (handlePostCleanup env ici)"
    by (intro emits_handlePostCleanup) blast+
qed

end
