(* ===== verification/HostConfig.thy ===== *)
theory HostConfig
  imports Conditions HostNetworks ImageData Hosts
begin

text \<open>
  The phases of the reconcile that touch the host: \<^verbatim>\<open>validateConfiguration\<close>, \<^verbatim>\<open>validateHost\<close>,
  \<^verbatim>\<open>ensureBMHDataImage\<close>, \<^verbatim>\<open>updateBMHProvisioningState\<close> and \<^verbatim>\<open>configureHost\<close>, with
  \<^verbatim>\<open>SetControllerReference\<close> of controllerutil. The condition and the objects in memory, passed by
  pointer in the code, are results here.
\<close>

section \<open>Owner references\<close>

text \<open>The group of an API version; nothing for a malformed one.\<close>

definition group_of :: "string \<Rightarrow> string option" where
  "group_of gv =
     (if gv = [] \<or> gv = ''/'' then Some []
      else case split_on (CHR ''/'') gv of
        [_] \<Rightarrow> Some []
      | [g, _] \<Rightarrow> Some g
      | _ \<Rightarrow> None)"

definition referSameObject :: "OwnerReference \<Rightarrow> OwnerReference \<Rightarrow> bool" where
  "referSameObject a b =
     (case (group_of (or_APIVersion a), group_of (or_APIVersion b)) of
        (Some ga, Some gb) \<Rightarrow> ga = gb \<and> or_Kind a = or_Kind b \<and> or_Name a = or_Name b
      | _ \<Rightarrow> False)"

fun upsertOwnerRef :: "OwnerReference \<Rightarrow> OwnerReference list \<Rightarrow> OwnerReference list" where
  "upsertOwnerRef ref [] = [ref]"
| "upsertOwnerRef ref (o' # os) = (if referSameObject o' ref then ref # os else o' # upsertOwnerRef ref os)"

definition validateOwner :: "ObjectMeta \<Rightarrow> ObjectMeta \<Rightarrow> goerr option" where
  "validateOwner owner object =
     (if om_Namespace owner = [] then None
      else if om_Namespace object = []
      then Some (errorf (''cluster-scoped resource must not have a namespace-scoped owner, owner's namespace '' @ om_Namespace owner))
      else if om_Namespace owner \<noteq> om_Namespace object
      then Some (errorf (''cross-namespace owner references are disallowed, owner's namespace '' @ om_Namespace owner
             @ '', obj's namespace '' @ om_Namespace object))
      else None)"

definition SetControllerReference :: "goerr + (string \<times> string) \<Rightarrow> ObjectMeta \<Rightarrow> ObjectMeta \<Rightarrow> goerr + ObjectMeta" where
  "SetControllerReference gvk owner controlled =
     (case validateOwner owner controlled of
        Some err \<Rightarrow> Inl err
      | None \<Rightarrow>
          (case gvk of
             Inl err \<Rightarrow> Inl err
           | Inr (gv, kind) \<Rightarrow>
               let ref = \<lparr>or_APIVersion = gv, or_Kind = kind, or_Name = om_Name owner, or_UID = om_UID owner,
                          or_Controller = Some True, or_BlockOwnerDeletion = Some True\<rparr> in
               (case List.find (\<lambda>o'. or_Controller o' = Some True) (om_OwnerReferences controlled) of
                  Some existing \<Rightarrow>
                    if \<not> referSameObject existing ref
                    then Inl (errorf (''Object '' @ om_Namespace controlled @ ''/'' @ om_Name controlled
                           @ '' is already owned by another '' @ or_Kind existing @ '' controller '' @ or_Name existing))
                    else Inr (controlled\<lparr>om_OwnerReferences := upsertOwnerRef ref (om_OwnerReferences controlled)\<rparr>)
                | None \<Rightarrow> Inr (controlled\<lparr>om_OwnerReferences := upsertOwnerRef ref (om_OwnerReferences controlled)\<rparr>))))"

section \<open>Validation phases\<close>

definition validateConfiguration :: "'w env \<Rightarrow> ImageClusterInstall \<Rightarrow> ClusterDeployment option \<Rightarrow> ClusterInstallCondition \<Rightarrow> ('w world, ClusterInstallCondition \<times> BareMetalHost option \<times> goerr option) go" where
  "validateConfiguration env ici cd cond =
     (case cd of
        None \<Rightarrow>
          (case sp_ClusterDeploymentRef (ici_Spec ici) of
             None \<Rightarrow> returnM (cond\<lparr>cc_Message := ''ClusterDeploymentRef is unset''\<rparr>, None, None)
           | Some name \<Rightarrow>
               if name = [] then returnM (cond\<lparr>cc_Message := ''ClusterDeploymentRef is unset''\<rparr>, None, None)
               else returnM (cond\<lparr>cc_Message := ''failed to get ClusterDeployment '' @ om_Namespace (ici_Meta ici) @ ''/'' @ name\<rparr>, None, None))
      | Some _ \<Rightarrow>
          (case sp_BareMetalHostRef (ici_Spec ici) of
             None \<Rightarrow> returnM (cond\<lparr>cc_Message := ''BareMetalHostRef is unset''\<rparr>, None, None)
           | Some ref \<Rightarrow>
               if bmhr_Name ref = [] then returnM (cond\<lparr>cc_Message := ''BareMetalHostRef is unset''\<rparr>, None, None)
               else
                 bindM (getBMH env (Some ref)) (\<lambda>b. case b of
                   Inl err \<Rightarrow> returnM (cond\<lparr>cc_Message := ''failed to get BareMetalHost '' @ slashed (bmhr_key ref)\<rparr>, None, None)
                 | Inr bmh \<Rightarrow>
                     if bmh_AutomatedCleaningMode bmh \<noteq> CleaningModeDisabled then
                       bindM (Patch_BMH env bmh (bmh\<lparr>bmh_AutomatedCleaningMode := CleaningModeDisabled\<rparr>)) (\<lambda>(e, bmh'). case e of
                         Some err \<Rightarrow>
                           returnM (cond\<lparr>cc_Reason := ConfigurationFailedReason,
                             cc_Message := ''failed to disable automated cleaning mode for BareMetalHost '' @ slashed (key_of (bmh_Meta bmh'))\<rparr>,
                             None, Some err)
                       | None \<Rightarrow> returnM (cond, Some bmh', None))
                     else returnM (cond, Some bmh, None))))"

definition validateHost :: "'w env \<Rightarrow> ImageClusterInstall \<Rightarrow> BareMetalHost \<Rightarrow> ClusterInstallCondition \<Rightarrow> ('w world, ClusterInstallCondition \<times> BareMetalHost \<times> Result \<times> goerr option) go" where
  "validateHost env ici bmh cond =
     (case validateBMH ici bmh cond of (cond', res, err) \<Rightarrow>
        if \<not> Result_IsZero res \<or> err \<noteq> None then returnM (cond', bmh, res, err)
        else if \<not> bmh_ExternallyProvisioned bmh then
          bindM (Patch_BMH env bmh (bmh\<lparr>bmh_ExternallyProvisioned := True\<rparr>)) (\<lambda>(e, bmh').
            returnM (cond', bmh', zeroResult, e))
        else returnM (cond', bmh, zeroResult, None))"

section \<open>Configuration of the host\<close>

text \<open>The error, or the DataImage with what to do next.\<close>

definition ensureBMHDataImage :: "'w env \<Rightarrow> BareMetalHost \<Rightarrow> string \<Rightarrow> ('w world, goerr + DataImage \<times> Result) go" where
  "ensureBMHDataImage env bmh url =
     (let ns = om_Namespace (bmh_Meta bmh); name = om_Name (bmh_Meta bmh) in
      bindM (getDataImage env ns name) (\<lambda>d. case d of
        Inr dataImage \<Rightarrow>
          if \<not> DeletionTimestamp_IsZero (di_Meta dataImage) then returnM (Inr (dataImage, requeueAfter (seconds 30)))
          else returnM (Inr (dataImage, zeroResult))
      | Inl err \<Rightarrow>
          if \<not> IsNotFound err then returnM (Inl err)
          else
            (case SetControllerReference (gvk_BareMetalHost env) (bmh_Meta bmh) (emptyMeta\<lparr>om_Name := name, om_Namespace := ns\<rparr>) of
               Inl e \<Rightarrow> returnM (Inl (wrapf ''failed to set controller reference for dataImage due to '' e))
             | Inr meta \<Rightarrow>
                 let new = \<lparr>di_Meta = meta, di_URL = url, di_AttachedImageURL = []\<rparr> in
                 bindM (requestM (EvCreateDataImage new) (create_DataImage env new)) (\<lambda>c. case c of
                   Inl e \<Rightarrow> returnM (Inl (wrapf ''failed to create dataImage due to '' e))
                 | Inr _ \<Rightarrow>
                     bindM (getDataImage env ns name) (\<lambda>d'. case d' of
                       Inl e \<Rightarrow> returnM (Inl e)
                     | Inr dataImage \<Rightarrow> returnM (Inr (dataImage, zeroResult)))))))"

text \<open>The host as it is patched: switched on, told to reboot unless an image is attached already,
  and marked as managed.\<close>

definition provisioned_host :: "BareMetalHost \<Rightarrow> DataImage \<Rightarrow> BareMetalHost" where
  "provisioned_host bmh dataImage =
     (let meta0 = bmh_Meta bmh;
          meta1 = (if di_AttachedImageURL dataImage = []
                   then fst (setAnnotationIfNotExists meta0 rebootAnnotation rebootAnnotationValue) else meta0);
          meta2 = fst (setAnnotationIfNotExists meta1 ibioManagedBMH [])
      in bmh\<lparr>bmh_Online := True, bmh_Meta := meta2\<rparr>)"

definition updateBMHProvisioningState :: "'w env \<Rightarrow> BareMetalHost \<Rightarrow> DataImage \<Rightarrow> ('w world, goerr option \<times> BareMetalHost) go" where
  "updateBMHProvisioningState env bmh dataImage =
     (if annotationExists (bmh_Meta bmh) ibioManagedBMH then returnM (None, bmh)
      else if bmh_ProvisioningState bmh \<noteq> StateAvailable \<and> bmh_ProvisioningState bmh \<noteq> StateExternallyProvisioned
      then returnM (None, bmh)
      else Patch_BMH env bmh (provisioned_host bmh dataImage))"

definition started_status :: "gotime \<Rightarrow> ImageClusterInstall \<Rightarrow> ImageClusterInstall" where
  "started_status now ici =
     ici\<lparr>ici_Status := (ici_Status ici)\<lparr>st_BareMetalHostRef := sp_BareMetalHostRef (ici_Spec ici),
           st_BootTime := (if Time_IsZero (st_BootTime (ici_Status ici)) then now else st_BootTime (ici_Status ici))\<rparr>\<rparr>"

text \<open>Setting the host in the status. The clock is read only when the boot time is not set.\<close>

definition setStarted :: "'w env \<Rightarrow> ImageClusterInstall \<Rightarrow> ('w world, goerr option \<times> ImageClusterInstall) go" where
  "setStarted env ici =
     (if st_BareMetalHostRef (ici_Status ici) \<noteq> None then returnM (None, ici)
      else if Time_IsZero (st_BootTime (ici_Status ici)) then
        bindM (hubM (time_Now env)) (\<lambda>now. Patch_ICI_Status env ici (started_status now ici))
      else Patch_ICI_Status env ici (started_status 0 ici))"

text \<open>Results: condition, object in memory, whether the reconcile goes on, what to do next, error.
  \<open>startHost\<close> is the part of \<^verbatim>\<open>configureHost\<close> after the DataImage has cooled down.\<close>

definition startHost :: "'w env \<Rightarrow> ImageClusterInstall \<Rightarrow> BareMetalHost \<Rightarrow> DataImage \<Rightarrow> ClusterInstallCondition \<Rightarrow> ('w world, ClusterInstallCondition \<times> ImageClusterInstall \<times> bool \<times> Result \<times> goerr option) go" where
  "startHost env ici bmh dataImage cond =
     bindM (updateBMHProvisioningState env bmh dataImage) (\<lambda>(e, bmh'). case e of
       Some err \<Rightarrow>
         returnM (cond\<lparr>cc_Message := ''failed to update BareMetalHost provisioning state''\<rparr>, ici, False, zeroResult, Some err)
     | None \<Rightarrow>
         if \<not> annotationExists (bmh_Meta bmh') ibioManagedBMH then
           returnM (cond\<lparr>cc_Reason := HostConfigurationPendingReason,
              cc_Message := ''waiting for BMH provisioning state to be StateAvailable or StateExternallyProvisioned, current state is: ''
                @ bmh_ProvisioningState bmh'\<rparr>, ici, False, zeroResult, None)
         else
           bindM (setStarted env ici) (\<lambda>(e', ici'). case e' of
             Some err \<Rightarrow> returnM (cond\<lparr>cc_Message := ''failed to set Status.BareMetalHostRef''\<rparr>, ici', False, zeroResult, Some err)
           | None \<Rightarrow> returnM (cond, ici', True, zeroResult, None)))"

definition configureHost :: "'w env \<Rightarrow> ImageClusterInstallReconciler \<Rightarrow> ImageClusterInstall \<Rightarrow> string \<Rightarrow> BareMetalHost \<Rightarrow> ClusterInstallCondition \<Rightarrow> ('w world, ClusterInstallCondition \<times> ImageClusterInstall \<times> bool \<times> Result \<times> goerr option) go" where
  "configureHost env r ici imageUrl bmh cond =
     bindM (ensureBMHDataImage env bmh imageUrl) (\<lambda>d. case d of
       Inl err \<Rightarrow> returnM (cond\<lparr>cc_Message := ''failed to create BareMetalHost DataImage''\<rparr>, ici, False, zeroResult, Some err)
     | Inr (dataImage, res) \<Rightarrow>
         if \<not> Result_IsZero res then
           returnM (cond\<lparr>cc_Reason := HostConfigurationPendingReason, cc_Message := ''previous DataImage is being deleted''\<rparr>,
                    ici, False, res, None)
         else
           bindM (hubM (time_Now env)) (\<lambda>now.
             if om_CreationTimestamp (di_Meta dataImage) + opt_DataImageCoolDownPeriod (rc_Options r) > now then
               returnM (cond\<lparr>cc_Reason := HostConfigurationPendingReason, cc_Message := ''waiting for DataImage to cool down''\<rparr>,
                        ici, False, requeueAfter (opt_DataImageCoolDownPeriod (rc_Options r)), None)
             else startHost env ici bmh dataImage cond))"

section \<open>What the phases request and report\<close>

lemma wp_Patch_BMH [wp]:
  "wp (Patch_BMH env base new) Q E s =
    (case patch_BareMetalHost env base new (Hub s) of
       (Inl e, h) \<Rightarrow> Q (Some e, new) (s\<lparr>Hub := h, Trace := Trace s @ [EvPatchBMH base new False]\<rparr>)
     | (Inr o', h) \<Rightarrow> Q (None, o') (s\<lparr>Hub := h, Trace := Trace s @ [EvPatchBMH base new True]\<rparr>))"
  by (simp add: Patch_BMH_def wp)

lemma wp_Patch_ICI_Status [wp]:
  "wp (Patch_ICI_Status env base new) Q E s =
    (case patch_ImageClusterInstall_status env base new (Hub s) of
       (Inl e, h) \<Rightarrow> Q (Some e, new) (s\<lparr>Hub := h, Trace := Trace s @ [EvPatchICIStatus base new False]\<rparr>)
     | (Inr o', h) \<Rightarrow> Q (None, o') (s\<lparr>Hub := h, Trace := Trace s @ [EvPatchICIStatus base new True]\<rparr>))"
  by (simp add: Patch_ICI_Status_def wp)

text \<open>The server accepted a patch of a host and answered with \<open>bmh'\<close>.\<close>

definition patched_host :: "'w env \<Rightarrow> BareMetalHost \<Rightarrow> BareMetalHost \<Rightarrow> BareMetalHost \<Rightarrow> bool" where
  "patched_host env bmh new bmh' \<longleftrightarrow> (\<exists>h h'. patch_BareMetalHost env bmh new h = (Inr bmh', h'))"

text \<open>The host handed on is the one the spec refers to, read in this run, with automatic cleaning
  switched off before or by an accepted patch.\<close>

definition host_secured :: "'w env \<Rightarrow> BareMetalHostReference \<Rightarrow> BareMetalHost \<Rightarrow> event list \<Rightarrow> bool" where
  "host_secured env ref bmh' es \<longleftrightarrow>
     (\<exists>bmh h h'. get_BareMetalHost env (bmhr_key ref) h = (Inr bmh, h')
        \<and> (let new = bmh\<lparr>bmh_AutomatedCleaningMode := CleaningModeDisabled\<rparr> in
           if bmh_AutomatedCleaningMode bmh = CleaningModeDisabled then es = [] \<and> bmh' = bmh
           else es = [EvPatchBMH bmh new True] \<and> patched_host env bmh new bmh'))"

lemma wp_validateConfiguration:
  "wp (validateConfiguration env ici cd cond)
     (\<lambda>(cond', bmh, err) s'. \<exists>es. Trace s' = Trace s @ es \<and> cc_Status cond' = cc_Status cond
        \<and> (case bmh of
             Some b \<Rightarrow> cd \<noteq> None \<and> cond' = cond \<and> err = None
               \<and> (\<exists>ref. sp_BareMetalHostRef (ici_Spec ici) = Some ref \<and> host_secured env ref b es)
           | None \<Rightarrow> cc_Reason cond' = (if err = None then cc_Reason cond else ConfigurationFailedReason)))
     (\<lambda>_ _. False) s"
  unfolding validateConfiguration_def getBMH_def host_secured_def patched_host_def
  by (auto simp: wp Let_def split: option.split sum.split prod.split) (metis+)?

text \<open>What the hardware checks ask of a host: it is externally provisioned or exempt from inspection,
  or it is available, was inspected and has its addresses in the machine networks.\<close>

definition host_fit :: "ImageClusterInstall \<Rightarrow> BareMetalHost \<Rightarrow> bool" where
  "host_fit ici bmh \<longleftrightarrow>
     bmh_ExternallyProvisioned bmh
     \<or> om_Annotations (bmh_Meta bmh) \<noteq> None \<and> \<not> isInspectionEnabled bmh
     \<or> bmh_ProvisioningState bmh = StateAvailable
       \<and> (case bmh_HardwareDetails bmh of None \<Rightarrow> False
          | Some nics \<Rightarrow> validateBMHMachineNetworks (sp_MachineNetwork (ici_Spec ici))
                          (elems (sp_MachineNetworks (ici_Spec ici))) nics = None)"

text \<open>The host is fit and externally provisioned, before or by an accepted patch.\<close>

definition host_validated :: "'w env \<Rightarrow> ImageClusterInstall \<Rightarrow> BareMetalHost \<Rightarrow> BareMetalHost \<Rightarrow> event list \<Rightarrow> bool" where
  "host_validated env ici bmh bmh' es \<longleftrightarrow> host_fit ici bmh
     \<and> (let new = bmh\<lparr>bmh_ExternallyProvisioned := True\<rparr> in
        if bmh_ExternallyProvisioned bmh then es = [] \<and> bmh' = bmh
        else es = [EvPatchBMH bmh new True] \<and> patched_host env bmh new bmh')"

lemma validateBMH_outcome:
  assumes "validateBMH ici bmh cond = (cond', res, err)"
  shows "cc_Status cond' = cc_Status cond"
    and "err \<noteq> None \<Longrightarrow> res = zeroResult \<and> cc_Reason cond' = cc_Reason cond"
    and "err = None \<Longrightarrow> res = zeroResult \<and> cond' = cond \<and> host_fit ici bmh
      \<or> res = requeueAfter (seconds 30) \<and> cc_Reason cond' = HostValidationPendingReason"
  using assms by (auto simp: validateBMH_def host_fit_def Let_def split: if_splits option.splits)

lemma wp_validateHost:
  "wp (validateHost env ici bmh cond)
     (\<lambda>(cond', bmh', res, err) s'. \<exists>es. Trace s' = Trace s @ es
        \<and> (if Result_IsZero res \<and> err = None then host_validated env ici bmh bmh' es \<and> cond' = cond
           else cc_Status cond' = cc_Status cond
             \<and> (if err = None then res = requeueAfter (seconds 30) \<and> cc_Reason cond' = HostValidationPendingReason
                else res = zeroResult \<and> cc_Reason cond' = cc_Reason cond)))
     (\<lambda>_ _. False) s"
proof (cases "bmh_ExternallyProvisioned bmh")
  case True
  then show ?thesis by (simp add: validateHost_def validateBMH_def wp host_validated_def host_fit_def Let_def)
next
  case False
  obtain cond' res err where v: "validateBMH ici bmh cond = (cond', res, err)" by (cases "validateBMH ici bmh cond") auto
  note outcome = validateBMH_outcome [OF v]
  consider e where "err = Some e" | "err = None" "res = zeroResult" "cond' = cond" "host_fit ici bmh"
    | "err = None" "res = requeueAfter (seconds 30)" "cc_Reason cond' = HostValidationPendingReason"
    using outcome(3) by (cases err) auto
  then show ?thesis
    by cases (use outcome(1,2) False in
      \<open>auto simp: validateHost_def v wp host_validated_def patched_host_def Let_def split: sum.split prod.split\<close>)
qed

text \<open>The DataImage that carries the configuration image to the host: the one that exists, which is
  not being deleted, or the one just created under the name of the host, owned by it.\<close>

definition data_image_for :: "BareMetalHost \<Rightarrow> string \<Rightarrow> DataImage \<Rightarrow> event list \<Rightarrow> bool" where
  "data_image_for bmh url d es \<longleftrightarrow>
     es = [] \<and> DeletionTimestamp_IsZero (di_Meta d)
     \<or> (\<exists>new. es = [EvCreateDataImage new True] \<and> di_URL new = url \<and> key_of (di_Meta new) = key_of (bmh_Meta bmh)
          \<and> map or_Name (om_OwnerReferences (di_Meta new)) = [om_Name (bmh_Meta bmh)])"

lemma SetControllerReference_fresh:
  "SetControllerReference gvk owner (emptyMeta\<lparr>om_Name := n, om_Namespace := ns\<rparr>) = Inr m \<Longrightarrow>
    key_of m = (ns, n) \<and> map or_Name (om_OwnerReferences m) = [om_Name owner]"
  by (auto simp: SetControllerReference_def emptyMeta_def key_of_def split: option.splits sum.splits)

lemma wp_ensureBMHDataImage:
  "wp (ensureBMHDataImage env bmh url)
     (\<lambda>r s'. \<exists>es. Trace s' = Trace s @ es
        \<and> (case r of Inl _ \<Rightarrow> True
           | Inr (d, res) \<Rightarrow> if Result_IsZero res then data_image_for bmh url d es else res = requeueAfter (seconds 30) \<and> es = []))
     (\<lambda>_ _. False) s"
  unfolding ensureBMHDataImage_def getDataImage_def data_image_for_def
  by (auto simp: wp Let_def key_of_def split: sum.split prod.split dest!: SetControllerReference_fresh)

text \<open>The patch that switches the host on and marks it as managed, and the status that records the host
  and the start of the installation; each is left out exactly when it was done before.\<close>

definition host_started :: "ImageClusterInstall \<Rightarrow> BareMetalHost \<Rightarrow> DataImage \<Rightarrow> event list \<Rightarrow> bool" where
  "host_started ici bmh d es \<longleftrightarrow>
     (\<exists>host status. es = host @ status
        \<and> (host = [] \<and> annotationExists (bmh_Meta bmh) ibioManagedBMH
           \<or> host = [EvPatchBMH bmh (provisioned_host bmh d) True] \<and> \<not> annotationExists (bmh_Meta bmh) ibioManagedBMH
               \<and> bmh_ProvisioningState bmh \<in> {StateAvailable, StateExternallyProvisioned})
        \<and> (status = [] \<and> st_BareMetalHostRef (ici_Status ici) \<noteq> None
           \<or> (\<exists>t. status = [EvPatchICIStatus ici (started_status t ici) True] \<and> st_BareMetalHostRef (ici_Status ici) = None)))"

text \<open>Everything a configured host has seen, in order: its DataImage, cooled down, then the start.\<close>

definition host_configured :: "ImageClusterInstallReconciler \<Rightarrow> ImageClusterInstall \<Rightarrow> string \<Rightarrow> BareMetalHost \<Rightarrow> event list \<Rightarrow> bool" where
  "host_configured r ici url bmh es \<longleftrightarrow>
     (\<exists>d now image start. es = image @ start
        \<and> data_image_for bmh url d image
        \<and> om_CreationTimestamp (di_Meta d) + opt_DataImageCoolDownPeriod (rc_Options r) \<le> now
        \<and> host_started ici bmh d start)"

lemma wp_updateBMHProvisioningState:
  "wp (updateBMHProvisioningState env bmh d)
     (\<lambda>(err, bmh') s'. \<exists>es. Trace s' = Trace s @ es
        \<and> (es = [] \<and> err = None \<and> bmh' = bmh
             \<and> (annotationExists (bmh_Meta bmh) ibioManagedBMH
                \<or> bmh_ProvisioningState bmh \<notin> {StateAvailable, StateExternallyProvisioned})
           \<or> es = [EvPatchBMH bmh (provisioned_host bmh d) (err = None)] \<and> \<not> annotationExists (bmh_Meta bmh) ibioManagedBMH
             \<and> bmh_ProvisioningState bmh \<in> {StateAvailable, StateExternallyProvisioned}))
     (\<lambda>_ _. False) s"
  unfolding updateBMHProvisioningState_def by (auto simp: wp split: sum.split prod.split)

lemma wp_setStarted:
  "wp (setStarted env ici)
     (\<lambda>(err, ici') s'. \<exists>es. Trace s' = Trace s @ es
        \<and> (es = [] \<and> err = None \<and> st_BareMetalHostRef (ici_Status ici) \<noteq> None
           \<or> (\<exists>t. es = [EvPatchICIStatus ici (started_status t ici) (err = None)] \<and> st_BareMetalHostRef (ici_Status ici) = None)))
     (\<lambda>_ _. False) s"
  unfolding setStarted_def by (auto simp: wp split: sum.split prod.split)

lemma wp_startHost:
  "wp (startHost env ici bmh d cond)
     (\<lambda>(cond', ici', continue, res, err) s'. \<exists>es. Trace s' = Trace s @ es \<and> res = zeroResult
        \<and> (if continue then host_started ici bmh d es \<and> cond' = cond \<and> err = None
           else cc_Status cond' = cc_Status cond
             \<and> cc_Reason cond' = (if err = None then HostConfigurationPendingReason else cc_Reason cond)))
     (\<lambda>_ _. False) s"
  unfolding startHost_def wp_bindM [of "updateBMHProvisioningState env bmh d"]
proof (rule wp_mono [OF wp_updateBMHProvisioningState], goal_cases)
  case (1 x s1)
  obtain e bmh' where x: "x = (e, bmh')" by (cases x)
  from 1 x obtain host where host: "Trace s1 = Trace s @ host"
    and how: "host = [] \<and> e = None \<and> bmh' = bmh
             \<and> (annotationExists (bmh_Meta bmh) ibioManagedBMH
                \<or> bmh_ProvisioningState bmh \<notin> {StateAvailable, StateExternallyProvisioned})
           \<or> host = [EvPatchBMH bmh (provisioned_host bmh d) (e = None)] \<and> \<not> annotationExists (bmh_Meta bmh) ibioManagedBMH
             \<and> bmh_ProvisioningState bmh \<in> {StateAvailable, StateExternallyProvisioned}" by blast
  show ?case
  proof (cases "e = None \<and> annotationExists (bmh_Meta bmh') ibioManagedBMH")
    case True
    have "wp (setStarted env ici) (\<lambda>(e', ici') s'. \<exists>es. Trace s' = Trace s @ es
        \<and> (if e' = None then host_started ici bmh d es else True)) (\<lambda>_ _. False) s1"
    proof (rule wp_mono [OF wp_setStarted], goal_cases)
      case (1 y s2)
      then obtain status where "Trace s2 = Trace s1 @ status"
        and "status = [] \<and> fst y = None \<and> st_BareMetalHostRef (ici_Status ici) \<noteq> None
           \<or> (\<exists>t. status = [EvPatchICIStatus ici (started_status t ici) (fst y = None)] \<and> st_BareMetalHostRef (ici_Status ici) = None)"
        by (cases y) auto
      then show ?case
        using how True host unfolding host_started_def by (cases y) auto
    qed simp
    then show ?thesis
      unfolding x using True by (auto simp: wp split: option.split elim!: wp_mono)
  qed (use x host in \<open>auto simp: wp split: option.split\<close>)
qed simp

lemma wp_configureHost:
  "wp (configureHost env r ici url bmh cond)
     (\<lambda>(cond', ici', continue, res, err) s'. \<exists>es. Trace s' = Trace s @ es
        \<and> (if continue then host_configured r ici url bmh es \<and> cond' = cond \<and> res = zeroResult \<and> err = None
           else cc_Status cond' = cc_Status cond
             \<and> cc_Reason cond' = (if err = None then HostConfigurationPendingReason else cc_Reason cond)
             \<and> (if err = None then res \<in> {zeroResult, requeueAfter (seconds 30), requeueAfter (opt_DataImageCoolDownPeriod (rc_Options r))}
                else res = zeroResult)))
     (\<lambda>_ _. False) s"
  unfolding configureHost_def wp_bindM [of "ensureBMHDataImage env bmh url"]
proof (rule wp_mono [OF wp_ensureBMHDataImage], goal_cases)
  case (1 x s1)
  then obtain image where image: "Trace s1 = Trace s @ image" by blast
  show ?case
  proof (cases x)
    case (Inr p)
    obtain d res where p: "p = (d, res)" by (cases p)
    show ?thesis
    proof (cases "Result_IsZero res")
      case True
      then have di: "data_image_for bmh url d image" using 1 image Inr p by auto
      obtain now h where now: "time_Now env (Hub s1) = (now, h)" by (cases "time_Now env (Hub s1)")
      have "wp (startHost env ici bmh d cond)
         (\<lambda>(cond', ici', continue, res, err) s'. \<exists>es. Trace s' = Trace s @ es
            \<and> (if continue then host_configured r ici url bmh es \<and> cond' = cond \<and> res = zeroResult \<and> err = None
               else cc_Status cond' = cc_Status cond
                 \<and> cc_Reason cond' = (if err = None then HostConfigurationPendingReason else cc_Reason cond)
                 \<and> (if err = None then res \<in> {zeroResult, requeueAfter (seconds 30), requeueAfter (opt_DataImageCoolDownPeriod (rc_Options r))}
                else res = zeroResult)))
         (\<lambda>_ _. False) (s1\<lparr>Hub := h\<rparr>)"
        if "om_CreationTimestamp (di_Meta d) + opt_DataImageCoolDownPeriod (rc_Options r) \<le> now"
      proof (rule wp_mono [OF wp_startHost], goal_cases)
        case (1 y s2)
        then obtain es where es: "Trace s2 = Trace s1 @ es" "fst (snd (snd y)) \<Longrightarrow> host_started ici bmh d es"
          by (cases y) auto
        then have "fst (snd (snd y)) \<Longrightarrow> host_configured r ici url bmh (image @ es)"
          using di that unfolding host_configured_def by blast
        then show ?case
          using image es(1) 1 by (cases y) (auto intro!: exI [of _ "image @ es"])
      qed simp
      then show ?thesis
        using True Inr p now image by (simp add: wp)
    qed (use 1 image Inr p in \<open>auto simp: wp\<close>)
  qed (use image in \<open>simp add: wp\<close>)
qed simp

section \<open>Properties\<close>

text \<open>C22: The host is prepared once. Bringing the host into its provisioning state never panics and sends
  at most one patch, only to a host that is not managed yet and is available or externally
  provisioned. The patch switches the host on, marks it as managed, asks for a reboot exactly when
  no image is attached, keeps the value of every annotation that was present and changes nothing
  else; on the patched host the function does nothing.\<close>
theorem updateBMHProvisioningState_once:
  "wp (updateBMHProvisioningState env bmh d)
     (\<lambda>(err, bmh') s'.
        if bmh_ProvisioningState bmh \<in> {StateAvailable, StateExternallyProvisioned}
           \<and> \<not> annotationExists (bmh_Meta bmh) ibioManagedBMH
        then Trace s' = Trace s @ [EvPatchBMH bmh (provisioned_host bmh d) (err = None)]
        else s' = s \<and> err = None \<and> bmh' = bmh)
     (\<lambda>_ _. False) s
   \<and> map_get (om_Annotations (bmh_Meta (provisioned_host bmh d))) k =
      (case map_get (om_Annotations (bmh_Meta bmh)) k of
         Some v \<Rightarrow> Some v
       | None \<Rightarrow> if k = ibioManagedBMH \<or> k = rebootAnnotation \<and> di_AttachedImageURL d = [] then Some [] else None)
   \<and> provisioned_host bmh d = bmh\<lparr>bmh_Online := True, bmh_Meta := (bmh_Meta bmh)\<lparr>om_Annotations :=
        om_Annotations (bmh_Meta (provisioned_host bmh d))\<rparr>\<rparr>
   \<and> updateBMHProvisioningState env (provisioned_host bmh d) d' = returnM (None, provisioned_host bmh d)"
proof (intro conjI)
  show "wp (updateBMHProvisioningState env bmh d)
     (\<lambda>(err, bmh') s'.
        if bmh_ProvisioningState bmh \<in> {StateAvailable, StateExternallyProvisioned}
           \<and> \<not> annotationExists (bmh_Meta bmh) ibioManagedBMH
        then Trace s' = Trace s @ [EvPatchBMH bmh (provisioned_host bmh d) (err = None)]
        else s' = s \<and> err = None \<and> bmh' = bmh)
     (\<lambda>_ _. False) s"
    unfolding updateBMHProvisioningState_def by (auto simp: wp split: sum.split prod.split)
  show "map_get (om_Annotations (bmh_Meta (provisioned_host bmh d))) k =
      (case map_get (om_Annotations (bmh_Meta bmh)) k of
         Some v \<Rightarrow> Some v
       | None \<Rightarrow> if k = ibioManagedBMH \<or> k = rebootAnnotation \<and> di_AttachedImageURL d = [] then Some [] else None)"
    by (auto simp: provisioned_host_def Let_def setAnnotation_get rebootAnnotationValue_def split: option.split)
  show "provisioned_host bmh d = bmh\<lparr>bmh_Online := True, bmh_Meta := (bmh_Meta bmh)\<lparr>om_Annotations :=
        om_Annotations (bmh_Meta (provisioned_host bmh d))\<rparr>\<rparr>"
    by (simp add: provisioned_host_def Let_def setAnnotationIfNotExists_def)
  show "updateBMHProvisioningState env (provisioned_host bmh d) d' = returnM (None, provisioned_host bmh d)"
    by (simp add: updateBMHProvisioningState_def provisioned_host_def Let_def setAnnotation_exists)
qed

end
