(* ===== verification/StatusMachine.thy ===== *)
theory StatusMachine
  imports Conditions HostConfig
begin

text \<open>
  How the two controllers change the status of an ImageClusterInstall. A status patch either sets
  conditions along the steps of the status machine or records the start of the installation; the
  locale \<open>status_writer\<close> is the contract of a controller whose patches all do, with what follows
  for the statuses it writes. Both controllers interpret it.
\<close>

definition status_step :: "ImageClusterInstall \<Rightarrow> ImageClusterInstall \<Rightarrow> bool" where
  "status_step i i' \<longleftrightarrow>
     (\<exists>cs. cond_steps (conditionsOf i) cs \<and> i' = set_Conditions cs i)
     \<or> st_BareMetalHostRef (ici_Status i) = None \<and> (\<exists>t. i' = started_status t i)"

text \<open>Every status patch among the requests is a step, and no other request changes a status.\<close>

definition status_request :: "event \<Rightarrow> bool" where
  "status_request e = (case e of
     EvPatchICIStatus i i' _ \<Rightarrow> status_step i i'
   | EvPatchICI i i' _ \<Rightarrow> ici_Status i' = ici_Status i
   | EvUpdateICIStatus _ _ \<Rightarrow> False
   | _ \<Rightarrow> True)"

lemma status_request_simps [simp]:
  "status_request (EvPatchICIStatus i i' b) = status_step i i'"
  "status_request (EvPatchICI i i' b) = (ici_Status i' = ici_Status i)"
  "status_request (EvPatchBMH h h' b)" "status_request (EvPatchConfigMap c c' b)" "status_request (EvPatchSecret x x' b)"
  "status_request (EvCreateSecret x b)" "status_request (EvUpdateSecret x b)" "status_request (EvCreateDataImage d b)"
  "status_request (EvDeleteDataImage k b)" "fs_event e \<Longrightarrow> status_request e"
  by (auto simp: status_request_def fs_event_def split: event.splits)

lemma detach_request_status: "detach_request e \<Longrightarrow> status_request e"
  by (auto simp: detach_request_def)

locale status_writer =
  fixes run :: "('w world, 'a) go"
  assumes writes: "emits status_request run"
begin

lemma written_step:
  assumes "run s = (r, s')" and "Trace s' = Trace s @ es" and "EvPatchICIStatus i i' b \<in> set es"
  shows "status_step i i'"
proof -
  obtain es' where "Trace s' = Trace s @ es'" "\<forall>e \<in> set es'. status_request e"
    using writes assms(1) by (rule emits_Trace)
  then have "status_request (EvPatchICIStatus i i' b)" using assms(2,3) by auto
  then show ?thesis by simp
qed

end

section \<open>Steps keep the status coherent\<close>

lemma started_status_simps [simp]:
  "ici_Meta (started_status t i) = ici_Meta i" "ici_Spec (started_status t i) = ici_Spec i"
  "conditionsOf (started_status t i) = conditionsOf i"
  "st_InstallRestarts (ici_Status (started_status t i)) = st_InstallRestarts (ici_Status i)"
  "st_BareMetalHostRef (ici_Status (started_status t i)) = sp_BareMetalHostRef (ici_Spec i)"
  "st_BootTime (ici_Status (started_status t i)) = (if Time_IsZero (st_BootTime (ici_Status i)) then t else st_BootTime (ici_Status i))"
  by (simp_all add: started_status_def)

lemma status_step_coherent:
  "status_step i i' \<Longrightarrow> status_coherent (condView (conditionsOf i)) \<Longrightarrow> status_coherent (condView (conditionsOf i'))"
  by (auto simp: status_step_def intro: cond_steps_coherent)

text \<open>A step changes the status only, and it never moves the boot time or the host of an installation
  that has both.\<close>

lemma status_step_frame:
  "status_step i i' \<Longrightarrow> ici_Meta i' = ici_Meta i \<and> ici_Spec i' = ici_Spec i
     \<and> (Time_IsZero (st_BootTime (ici_Status i)) \<or> st_BootTime (ici_Status i') = st_BootTime (ici_Status i))
     \<and> (st_BareMetalHostRef (ici_Status i) = None \<or> st_BareMetalHostRef (ici_Status i') = st_BareMetalHostRef (ici_Status i))"
  by (auto simp: status_step_def split: if_splits)

section \<open>The setters take steps\<close>

lemma initialize_loop_steps:
  "set cs \<subseteq> set initialConditions \<Longrightarrow>
    wp (initialize_loop env cs ici b)
      (\<lambda>(ici', _) _. \<exists>ds. cond_steps (conditionsOf ici) ds \<and> ici' = set_Conditions ds ici) (\<lambda>_ _. False) s"
proof (induction cs arbitrary: ici b s)
  case Nil
  have "cond_steps (conditionsOf ici) (conditionsOf ici) \<and> ici = set_Conditions (conditionsOf ici) ici" by simp
  then show ?case unfolding initialize_loop.simps wp_returnM by blast
next
  case (Cons c cs ici b s)
  show ?case
  proof (cases "findCondition (conditionsOf ici) (cc_Type c)")
    case None
    obtain now h where now: "time_Now env (Hub s) = (now, h)" by (cases "time_Now env (Hub s)")
    let ?ds = "fst (setClusterInstallCondition now (conditionsOf ici) c)"
    have step: "cond_step (conditionsOf ici) ?ds"
      using Cons.prems None by (intro cond_step.initialize) auto
    have "wp (initialize_loop env cs (set_Conditions ?ds ici) b')
        (\<lambda>(ici', _) _. \<exists>ds. cond_steps (conditionsOf ici) ds \<and> ici' = set_Conditions ds ici) (\<lambda>_ _. False) s1" for b' s1
    proof (rule wp_mono [OF Cons.IH], goal_cases)
      case (2 x s')
      then obtain ds where "cond_steps ?ds ds" "fst x = set_Conditions ds (set_Conditions ?ds ici)" by auto
      then have "cond_steps (conditionsOf ici) ds \<and> fst x = set_Conditions ds ici"
        using step by (auto simp: set_Conditions_def intro: converse_rtranclp_into_rtranclp)
      then show ?case by (cases x) auto
    qed (use Cons.prems in simp_all)
    then show ?thesis by (simp add: None wp now)
  qed (use Cons in simp)
qed

lemma emits_initialize_loop [emits_intro]: "emits P (initialize_loop env cs ici b)"
  by (induction env cs ici b rule: initialize_loop.induct) (auto intro!: emits_intro)

lemma emits_initializeConditions [emits_intro]:
  assumes "\<And>i i' b. status_step i i' \<Longrightarrow> P (EvPatchICIStatus i i' b)"
  shows "emits P (initializeConditions env ici)"
  unfolding initializeConditions_def
proof (rule emits_bindM_wp [OF emits_initialize_loop, where R = "\<lambda>(ici', _). status_step ici ici'"], goal_cases)
  case (1 s)
  show ?case
    by (rule wp_mono [OF initialize_loop_steps [OF subset_refl]]) (auto simp: status_step_def)
next
  case (2 x)
  then show ?case by (cases x) (auto simp: Patch_ICI_Status_def intro!: emits_intro assms)
qed

lemma emits_setRequirementsMetCondition [emits_intro]:
  assumes "\<And>i i' b. status_step i i' \<Longrightarrow> P (EvPatchICIStatus i i' b)"
  shows "emits P (setRequirementsMetCondition env ici status reason msg)"
  unfolding setRequirementsMetCondition_def
proof (rule emits_bindM_wp [OF emits_setCond, where R = "\<lambda>(ici', _). status_step ici ici'"], goal_cases)
  case (1 s)
  show ?case
    by (auto simp: wp status_step_def split: prod.split intro!: r_into_rtranclp cond_step.requirements)
next
  case (2 x)
  then show ?case by (cases x) (auto simp: Patch_ICI_Status_def intro!: emits_intro assms)
qed

text \<open>The setters of the monitor: at most one status patch, whose conditions are three puts in a row.\<close>

lemma wp_set3M:
  "wp (set3M env ici a b c)
     (\<lambda>(err, _) s'. \<exists>t1 t2 t3. let p = conds.put3 t1 t2 t3 (conditionsOf ici) a b c in
        if snd p then Trace s' = Trace s @ [EvPatchICIStatus ici (set_Conditions (fst p) ici) (err = None)]
        else Trace s' = Trace s \<and> err = None)
     (\<lambda>_ _. False) s"
proof -
  obtain t1 t2 t3 h where run: "set3M env ici a b c s =
      (let p = conds.put3 t1 t2 t3 (conditionsOf ici) a b c;
           ici' = set_Conditions (fst p) ici; s1 = s\<lparr>Hub := h\<rparr>
       in if \<not> snd p then (Ret (None, ici'), s1) else Patch_ICI_Status env ici ici' s1)"
    using set3M_run [of env ici a b c s] by (elim exE)
  let ?p = "conds.put3 t1 t2 t3 (conditionsOf ici) a b c"
  have "wp (set3M env ici a b c)
     (\<lambda>(err, _) s'. if snd ?p then Trace s' = Trace s @ [EvPatchICIStatus ici (set_Conditions (fst ?p) ici) (err = None)]
        else Trace s' = Trace s \<and> err = None) (\<lambda>_ _. False) s"
    using Patch_ICI_Status_run [of env ici "set_Conditions (fst ?p) ici" "s\<lparr>Hub := h\<rparr>"]
    unfolding wp_def run Let_def by (cases "snd ?p") (auto split: sum.split)
  then show ?thesis
    unfolding Let_def by (rule wp_mono) blast+
qed

text \<open>A setter that may run: not after completion, and a timeout is set once.\<close>

lemma setter_steps:
  assumes "\<not> InstallationCompleted ici"
  shows "cond_step (conditionsOf ici) (fst (conds.put3 t1 t2 t3 (conditionsOf ici)
       (mkCond ClusterInstallCompleted ConditionFalse InstallInProgressReason InstallInProgressMessage)
       (mkCond ClusterInstallStopped ConditionFalse InstallInProgressReason message)
       (mkCond ClusterInstallFailed ConditionFalse InstallInProgressReason InstallInProgressMessage)))"
    and "\<not> installationTimedout ici \<Longrightarrow> cond_step (conditionsOf ici) (fst (conds.put3 t1 t2 t3 (conditionsOf ici)
       (mkCond ClusterInstallCompleted ConditionFalse InstallTimedoutReason (timeout_message timeout))
       (mkCond ClusterInstallStopped ConditionFalse InstallTimedoutReason InstallTimedoutMessage)
       (mkCond ClusterInstallFailed ConditionTrue InstallTimedoutReason (timeout_message timeout))))"
    and "cond_step (conditionsOf ici) (fst (conds.put3 t1 t2 t3 (conditionsOf ici)
       (mkCond ClusterInstallCompleted ConditionTrue InstallSucceededReason InstallSucceededMessage)
       (mkCond ClusterInstallStopped ConditionTrue InstallSucceededReason InstallSucceededMessage)
       (mkCond ClusterInstallFailed ConditionFalse InstallSucceededReason InstallSucceededMessage)))"
  using assms
  by (auto simp: InstallationCompleted_view installationTimedout_view intro: cond_step.installing cond_step.timedout cond_step.installed)

text \<open>What a setter reports and sends when it starts at history \<open>t\<close>: no request, or one patch that is
  a step, after which the installation is completed exactly if the setter completes it.\<close>

definition set_by :: "ImageClusterInstall \<Rightarrow> bool \<Rightarrow> goerr option \<Rightarrow> event list \<Rightarrow> bool" where
  "set_by ici completes err es \<longleftrightarrow>
     es = [] \<and> err = None \<and> \<not> completes
     \<or> (\<exists>i'. es = [EvPatchICIStatus ici i' (err = None)] \<and> status_step ici i' \<and> InstallationCompleted i' = completes)"

lemma wp_setters:
  assumes "\<not> InstallationCompleted ici"
  shows "wp (setClusterInstallingConditions env ici message)
      (\<lambda>(err, _) s'. \<exists>es. Trace s' = Trace s @ es \<and> set_by ici False err es) (\<lambda>_ _. False) s"
    and "\<not> installationTimedout ici \<Longrightarrow> wp (setClusterTimeoutConditions env ici timeout)
      (\<lambda>(err, _) s'. \<exists>es. Trace s' = Trace s @ es \<and> set_by ici False err es) (\<lambda>_ _. False) s"
    and "wp (setClusterInstalledConditions env ici)
      (\<lambda>(err, _) s'. \<exists>es. Trace s' = Trace s @ es \<and> set_by ici True err es) (\<lambda>_ _. False) s"
proof -
  have put: "\<exists>es. Trace s' = Trace s @ es \<and> set_by ici completes err es"
    if sent: "let p = conds.put3 t1 t2 t3 (conditionsOf ici) (mkCond ClusterInstallCompleted st x y) b c in
        if snd p then Trace s' = Trace s @ [EvPatchICIStatus ici (set_Conditions (fst p) ici) (err = None)]
        else Trace s' = Trace s \<and> err = None"
      and step: "cond_step (conditionsOf ici) (fst (conds.put3 t1 t2 t3 (conditionsOf ici) (mkCond ClusterInstallCompleted st x y) b c))"
      and types: "cc_Type b = ClusterInstallStopped" "cc_Type c = ClusterInstallFailed" and completes: "completes = (st = ConditionTrue)"
    for s s' :: "'w world" and t1 t2 t3 st x y b c err completes
  proof -
    let ?p = "conds.put3 t1 t2 t3 (conditionsOf ici) (mkCond ClusterInstallCompleted st x y) b c"
    have "status_step ici (set_Conditions (fst ?p) ici)"
      using step unfolding status_step_def by blast
    moreover have "InstallationCompleted (set_Conditions (fst ?p) ici) = completes"
      by (simp add: InstallationCompleted_view conds.put3_view types completes)
    moreover have "\<not> completes" if "\<not> snd ?p"
      using that assms types by (auto simp: conds.put3_reports InstallationCompleted_view completes)
    ultimately show ?thesis
      using sent unfolding set_by_def Let_def by (cases "snd ?p") auto
  qed
  show "wp (setClusterInstallingConditions env ici message)
      (\<lambda>(err, _) s'. \<exists>es. Trace s' = Trace s @ es \<and> set_by ici False err es) (\<lambda>_ _. False) s"
    unfolding setClusterInstallingConditions_def
    by (rule wp_mono [OF wp_set3M]) (auto intro!: put setter_steps(1) [OF assms])
  show "wp (setClusterInstalledConditions env ici)
      (\<lambda>(err, _) s'. \<exists>es. Trace s' = Trace s @ es \<and> set_by ici True err es) (\<lambda>_ _. False) s"
    unfolding setClusterInstalledConditions_def
    by (rule wp_mono [OF wp_set3M]) (auto intro!: put setter_steps(3) [OF assms])
  assume "\<not> installationTimedout ici"
  then show "wp (setClusterTimeoutConditions env ici timeout)
      (\<lambda>(err, _) s'. \<exists>es. Trace s' = Trace s @ es \<and> set_by ici False err es) (\<lambda>_ _. False) s"
    unfolding setClusterTimeoutConditions_def
    by (intro wp_mono [OF wp_set3M]) (auto intro!: put setter_steps(2) [OF assms])
qed

section \<open>The setters settle\<close>

text \<open>A status patch wakes up the reconciler, and the monitor once the boot time is set. A setter settles
  if, on the object it sent, it sends nothing more: then it cannot keep the controllers busy.\<close>

definition quiet :: "('w world, 'a) go \<Rightarrow> bool" where
  "quiet m \<longleftrightarrow> (\<forall>s. Trace (snd (m s)) = Trace s)"

definition settles :: "(ImageClusterInstall \<Rightarrow> ('w world, 'a) go) \<Rightarrow> bool" where
  "settles run \<longleftrightarrow> (\<forall>ici. emits (\<lambda>e. case e of EvPatchICIStatus _ new _ \<Rightarrow> quiet (run new) | _ \<Rightarrow> True) (run ici))"

lemma quiet_wpI: "(\<And>s. wp m (\<lambda>_ s'. Trace s' = Trace s) (\<lambda>_ s'. Trace s' = Trace s) s) \<Longrightarrow> quiet m"
proof (unfold quiet_def, rule allI)
  fix s assume "\<And>s. wp m (\<lambda>_ s'. Trace s' = Trace s) (\<lambda>_ s'. Trace s' = Trace s) s"
  from this [of s] show "Trace (snd (m s)) = Trace s" by (simp add: wp_def split: prod.splits outcome.splits)
qed

lemma set3M_quiet:
  assumes types: "cc_Type a \<noteq> cc_Type b" "cc_Type a \<noteq> cc_Type c" "cc_Type b \<noteq> cc_Type c"
    and there: "condView (conditionsOf ici) (cc_Type a) = Some (triple_of a)"
      "condView (conditionsOf ici) (cc_Type b) = Some (triple_of b)" "condView (conditionsOf ici) (cc_Type c) = Some (triple_of c)"
  shows "quiet (set3M env ici a b c)"
  by (rule quiet_wpI, rule wp_mono [OF wp_set3M]) (auto simp: Let_def conds.put3_reports [OF types] there)

lemma set3M_settles:
  assumes types: "cc_Type a \<noteq> cc_Type b" "cc_Type a \<noteq> cc_Type c" "cc_Type b \<noteq> cc_Type c"
  shows "settles (\<lambda>ici. set3M env ici a b c)"
proof -
  have "quiet (set3M env (set_Conditions (fst (conds.put3 t1 t2 t3 cs a b c)) ici) a b c)" for t1 t2 t3 cs ici
    by (rule set3M_quiet [OF types]) (simp_all add: conds.put3_view types types [symmetric])
  then show ?thesis
    unfolding settles_def by (intro allI emits_wpI wp_mono [OF wp_set3M]) (auto simp: Let_def split: if_splits)
qed

lemma requirements_settle: "settles (\<lambda>ici. setRequirementsMetCondition env ici status reason msg)"
proof -
  let ?c = "mkCond ClusterInstallRequirementsMet status reason msg"
  have "quiet (setRequirementsMetCondition env (set_Conditions (fst (setClusterInstallCondition t cs ?c)) ici) status reason msg)" for t cs ici
    by (rule quiet_wpI) (simp add: setRequirementsMetCondition_def wp conds.put_reports conds.view_put split: prod.split)
  then show ?thesis
    unfolding settles_def
    by (intro allI emits_wpI) (auto simp: setRequirementsMetCondition_def Patch_ICI_Status_def wp split: prod.split sum.split)
qed

lemma findCondition_types: "findCondition cs t = None \<longleftrightarrow> t \<notin> cc_Type ` set cs"
  by (induction cs) auto

lemma initialize_loop_types:
  "wp (initialize_loop env cs ici b)
     (\<lambda>(ici', _) s'. Trace s' = Trace s \<and> cc_Type ` set (conditionsOf ici) \<union> cc_Type ` set cs \<subseteq> cc_Type ` set (conditionsOf ici'))
     (\<lambda>_ _. False) s"
proof (induction cs arbitrary: ici b s)
  case (Cons c cs ici b s)
  have types: "cc_Type ` set (conditionsOf ici) \<union> {cc_Type c} \<subseteq> cc_Type ` set (fst (setClusterInstallCondition now (conditionsOf ici) c))" for now
    using setClusterInstallCondition_types [of now "conditionsOf ici" c] by (auto simp flip: set_map)
  have "wp (initialize_loop env cs (set_Conditions (fst (setClusterInstallCondition now (conditionsOf ici) c)) ici) b')
      (\<lambda>(ici', _) s'. Trace s' = Trace s \<and> cc_Type ` set (conditionsOf ici) \<union> cc_Type ` set (c # cs) \<subseteq> cc_Type ` set (conditionsOf ici'))
      (\<lambda>_ _. False) s1" if "Trace s1 = Trace s" for now b' s1
    by (rule wp_mono [OF Cons]) (use that subset_trans [OF types [of now]] in auto)
  moreover have "wp (initialize_loop env cs ici b)
      (\<lambda>(ici', _) s'. Trace s' = Trace s \<and> cc_Type ` set (conditionsOf ici) \<union> cc_Type ` set (c # cs) \<subseteq> cc_Type ` set (conditionsOf ici'))
      (\<lambda>_ _. False) s" if "cc_Type c \<in> cc_Type ` set (conditionsOf ici)"
    by (rule wp_mono [OF Cons]) (use that in auto)
  ultimately show ?case
    by (simp add: wp findCondition_types split: prod.split option.split)
qed (simp add: wp)

lemma initialize_loop_none:
  "cc_Type ` set cs \<subseteq> cc_Type ` set (conditionsOf ici) \<Longrightarrow> initialize_loop env cs ici b = returnM (ici, b)"
  by (induction cs) (auto simp: findCondition_types)

lemma initialize_settles: "settles (initializeConditions env)"
proof -
  have q: "quiet (initializeConditions env ici)" if "cc_Type ` set initialConditions \<subseteq> cc_Type ` set (conditionsOf ici)" for ici :: ImageClusterInstall
    by (rule quiet_wpI) (simp add: initializeConditions_def initialize_loop_none [OF that] wp)
  let ?P = "\<lambda>e. case e of EvPatchICIStatus _ new _ \<Rightarrow> quiet (initializeConditions env new) | _ \<Rightarrow> True"
  have "emits ?P (initializeConditions env ici)" for ici
    unfolding initializeConditions_def [of env ici]
  proof (rule emits_bindM_wp [OF emits_initialize_loop,
      where R = "\<lambda>(ici', _). cc_Type ` set initialConditions \<subseteq> cc_Type ` set (conditionsOf ici')"], goal_cases)
    case (1 s)
    show ?case by (rule wp_mono [OF initialize_loop_types]) auto
  next
    case (2 x)
    then show ?case by (cases x) (auto simp: Patch_ICI_Status_def intro!: emits_intro q)
  qed
  then show ?thesis unfolding settles_def by blast
qed

text \<open>C11: Writing the status comes to rest. Every setter of the two controllers sends nothing when it is
  applied again to an object it sent itself, whatever the time: writing the status, which wakes up
  the controllers, does not make them write the same conditions again.\<close>
theorem setters_settle:
  "settles (initializeConditions env)
   \<and> settles (\<lambda>ici. setRequirementsMetCondition env ici status reason msg)
   \<and> settles (\<lambda>ici. setClusterInstallingConditions env ici message)
   \<and> settles (\<lambda>ici. setClusterTimeoutConditions env ici timeout)
   \<and> settles (\<lambda>ici. setClusterInstalledConditions env ici)"
  unfolding setClusterInstallingConditions_def setClusterTimeoutConditions_def setClusterInstalledConditions_def
  by (intro conjI initialize_settles requirements_settle set3M_settles) simp_all

end
