(* ===== verification/Finalizer.thy ===== *)
theory Finalizer
  imports ImageData Hosts
begin

text \<open>
  \<^verbatim>\<open>handleFinalizer\<close> of the reconciler, with the finalizer helpers of controllerutil: the finalizer is
  added before anything is created for an ImageClusterInstall and removed last, after its files and
  its DataImage are gone.
\<close>

definition clusterInstallFinalizerName :: string where
  "clusterInstallFinalizerName = ''imageclusterinstall.extensions.hive.openshift.io/deprovision''"

definition AddFinalizer :: "ObjectMeta \<Rightarrow> string \<Rightarrow> ObjectMeta \<times> bool" where
  "AddFinalizer o' finalizer =
     (if list_ex (\<lambda>e. e = finalizer) (om_Finalizers o') then (o', False)
      else (o'\<lparr>om_Finalizers := om_Finalizers o' @ [finalizer]\<rparr>, True))"

definition RemoveFinalizer :: "ObjectMeta \<Rightarrow> string \<Rightarrow> ObjectMeta \<times> bool" where
  "RemoveFinalizer o' finalizer =
     (let f = filter (\<lambda>e. e \<noteq> finalizer) (om_Finalizers o')
      in (o'\<lparr>om_Finalizers := f\<rparr>, length (om_Finalizers o') \<noteq> length f))"

definition removeFinalizer :: "'w env \<Rightarrow> ImageClusterInstall \<Rightarrow> ('w world, goerr option \<times> ImageClusterInstall) go" where
  "removeFinalizer env ici =
     (case RemoveFinalizer (ici_Meta ici) clusterInstallFinalizerName of (meta, removed) \<Rightarrow>
        if removed then Patch_ICI env ici (ici\<lparr>ici_Meta := meta\<rparr>)
        else returnM (None, ici\<lparr>ici_Meta := meta\<rparr>))"

text \<open>The end of the deletion branch: the DataImage, then the finalizer.\<close>

definition finishDeletion :: "'w env \<Rightarrow> ImageClusterInstall \<Rightarrow> ('w world, Result \<times> bool \<times> goerr option \<times> ImageClusterInstall) go" where
  "finishDeletion env ici =
     (let finish = bindM (removeFinalizer env ici) (\<lambda>(err, ici'). returnM (zeroResult, True, err, ici'))
      in case sp_BareMetalHostRef (ici_Spec ici) of
           None \<Rightarrow> finish
         | Some ref \<Rightarrow>
             bindM (removeBMHDataImage env (bmhr_key ref)) (\<lambda>(dataImage, e). case e of
               Some err \<Rightarrow> returnM (zeroResult, True,
                 Some (wrapf (''failed to delete DataImage '' @ slashed (bmhr_key ref) @ '': '') err), ici)
             | None \<Rightarrow>
                 if dataImage \<noteq> None then returnM (requeueAfter (minutes 1), True, None, ici)
                 else finish))"

text \<open>Removing the directory of the object under its lock.\<close>

definition removeFiles :: "'w env \<Rightarrow> ImageClusterInstall \<Rightarrow> string \<Rightarrow> ('w world, Result \<times> bool \<times> goerr option \<times> ImageClusterInstall) go" where
  "removeFiles env ici lockDir =
     bindM (WithWriteLock env lockDir
         (bindM (os_RemoveAll env lockDir) (\<lambda>x. returnM (case x of Inl e \<Rightarrow> Some e | Inr _ \<Rightarrow> None))))
       (\<lambda>(locked, lockErr, funcErr). case lockErr of
         Some err \<Rightarrow> returnM (zeroResult, True, Some (wrapf ''failed to acquire file lock: '' err), ici)
       | None \<Rightarrow>
           (case funcErr of
              Some err \<Rightarrow> returnM (zeroResult, True, Some (wrapf ''failed to write input data: '' err), ici)
            | None \<Rightarrow>
                if \<not> locked then returnM (requeueAfter (seconds 5), True, None, ici)
                else finishDeletion env ici))"

text \<open>Results: what to do next, whether to stop the reconcile, the error, the object in memory.\<close>

definition handleFinalizer :: "'w env \<Rightarrow> ImageClusterInstallReconciler \<Rightarrow> ImageClusterInstall \<Rightarrow> ('w world, Result \<times> bool \<times> goerr option \<times> ImageClusterInstall) go" where
  "handleFinalizer env r ici =
     (if DeletionTimestamp_IsZero (ici_Meta ici) then
        (case AddFinalizer (ici_Meta ici) clusterInstallFinalizerName of (meta, added) \<Rightarrow>
           if added then
             bindM (Patch_ICI env ici (ici\<lparr>ici_Meta := meta\<rparr>)) (\<lambda>(err, ici').
               returnM (\<lparr>rs_Requeue = True, rs_RequeueAfter = 0\<rparr>, True, err, ici'))
           else returnM (zeroResult, False, None, ici))
      else
        bindM (configDirs env r ici) (\<lambda>d. case d of
          Inl err \<Rightarrow> returnM (zeroResult, True, Some err, ici)
        | Inr (lockDir, _) \<Rightarrow>
            bindM (os_Stat env lockDir) (\<lambda>st. case st of
              Inr _ \<Rightarrow>
                removeFiles env ici lockDir
            | Inl err \<Rightarrow>
                if \<not> IsNotExist err
                then returnM (zeroResult, True, Some (wrapf (''failed to stat config directory '' @ lockDir @ '': '') err), ici)
                else finishDeletion env ici)))"

section \<open>Lemmas\<close>

lemma AddFinalizer_spec:
  "snd (AddFinalizer m f) \<longleftrightarrow> f \<notin> set (om_Finalizers m)"
  "f \<in> set (om_Finalizers (fst (AddFinalizer m f)))"
  by (auto simp: AddFinalizer_def list_ex_iff)

lemma RemoveFinalizer_spec:
  "snd (RemoveFinalizer m f) \<longleftrightarrow> f \<in> set (om_Finalizers m)"
proof -
  have "length (filter (\<lambda>e. e \<noteq> f) xs) < length xs \<longleftrightarrow> f \<in> set xs" for xs :: "string list"
    by (induction xs) (auto simp: less_Suc_eq_le)
  moreover have "length (filter (\<lambda>e. e \<noteq> f) xs) \<le> length xs" for xs :: "string list"
    by simp
  ultimately show ?thesis unfolding RemoveFinalizer_def Let_def snd_conv by (metis nat_less_le)
qed

text \<open>The last read saw that the DataImage, or the host it belongs to, does not exist.\<close>

definition image_gone :: "'w env \<Rightarrow> nsname \<Rightarrow> 'w world \<Rightarrow> bool" where
  "image_gone env k s \<longleftrightarrow>
     (\<exists>h e. IsNotFound e \<and> (get_DataImage env k h = (Inl e, Hub s) \<or> get_BareMetalHost env k h = (Inl e, Hub s)))"

definition not_ici_patch :: "event \<Rightarrow> bool" where
  "not_ici_patch e = (case e of EvPatchICI _ _ _ \<Rightarrow> False | _ \<Rightarrow> True)"

lemma not_ici_patch_simps [simp]:
  "not_ici_patch (EvPatchBMH b b' x)" "not_ici_patch (EvDeleteDataImage k x)" "\<not> not_ici_patch (EvPatchICI i i' x)"
  "fs_event e \<Longrightarrow> not_ici_patch e"
  by (auto simp: not_ici_patch_def fs_event_def split: event.splits)

lemma wp_removeBMHDataImage_gone:
  "wp (removeBMHDataImage env k)
     (\<lambda>(d, err) s'. Fs s' = Fs s \<and> (\<exists>es. Trace s' = Trace s @ es \<and> (\<forall>e \<in> set es. not_ici_patch e))
        \<and> (d = None \<and> err = None \<longrightarrow> image_gone env k s'))
     (\<lambda>_ _. False) s"
  unfolding removeBMHDataImage_def deleteDataImage_def rebootBMH_alt call_defs
  by (auto simp: wp image_gone_def split: prod.split sum.split)

text \<open>How the deletion of an object can end, started when the history was \<open>t\<close>: some step did not
  finish and the object is untouched, or files and DataImage are gone in the state \<open>s1\<close> and the only
  thing left was to take the finalizer off.\<close>

definition deletion_end :: "'w env \<Rightarrow> ImageClusterInstallReconciler \<Rightarrow> ImageClusterInstall \<Rightarrow> event list \<Rightarrow> Result \<times> bool \<times> goerr option \<times> ImageClusterInstall \<Rightarrow> 'w world \<Rightarrow> bool" where
  "deletion_end env r ici t out s' \<longleftrightarrow> (case out of (res, stop, err, ici') \<Rightarrow>
     stop \<and>
     ((res \<noteq> zeroResult \<or> (\<exists>e. err = Some e)) \<and> ici' = ici
        \<and> (\<exists>es. Trace s' = t @ es \<and> list_all not_ici_patch es)
      \<or> res = zeroResult \<and> (\<exists>s1 es. Trace s1 = t @ es \<and> list_all not_ici_patch es
          \<and> Fs s1 (lockDir_of r ici) = None
          \<and> (case sp_BareMetalHostRef (ici_Spec ici) of None \<Rightarrow> True | Some ref \<Rightarrow> image_gone env (bmhr_key ref) s1)
          \<and> (if clusterInstallFinalizerName \<in> set (om_Finalizers (ici_Meta ici))
             then Patch_ICI env ici (ici\<lparr>ici_Meta := (ici_Meta ici)\<lparr>om_Finalizers :=
                    filter (\<lambda>f. f \<noteq> clusterInstallFinalizerName) (om_Finalizers (ici_Meta ici))\<rparr>\<rparr>) s1
                  = (Ret (err, ici'), s')
             else s' = s1 \<and> err = None \<and> ici' = ici))))"

lemma wp_removeFinalizer:
  assumes "Trace s = t @ es" and "list_all not_ici_patch es" and "Fs s (lockDir_of r ici) = None"
    and "case sp_BareMetalHostRef (ici_Spec ici) of None \<Rightarrow> True | Some ref \<Rightarrow> image_gone env (bmhr_key ref) s"
  shows "wp (bindM (removeFinalizer env ici) (\<lambda>(err, ici'). returnM (zeroResult, True, err, ici')))
    (deletion_end env r ici t) (\<lambda>_ _. False) s"
proof (cases "clusterInstallFinalizerName \<in> set (om_Finalizers (ici_Meta ici))")
  case True
  let ?new = "ici\<lparr>ici_Meta := (ici_Meta ici)\<lparr>om_Finalizers :=
    filter (\<lambda>f. f \<noteq> clusterInstallFinalizerName) (om_Finalizers (ici_Meta ici))\<rparr>\<rparr>"
  have "removeFinalizer env ici = Patch_ICI env ici ?new"
    using True RemoveFinalizer_spec [of "ici_Meta ici" clusterInstallFinalizerName]
    by (auto simp: removeFinalizer_def RemoveFinalizer_def Let_def)
  moreover have "wp (Patch_ICI env ici ?new) (\<lambda>_ _. True) (\<lambda>_ _. False) s"
    by (auto simp: call_defs wp split: prod.split sum.split)
  then obtain err ici' s' where run: "Patch_ICI env ici ?new s = (Ret (err, ici'), s')"
    by (auto simp: wp_def split: prod.splits outcome.splits)
  ultimately show ?thesis
    using assms True by (auto simp: wp_def bindM_def returnM_def deletion_end_def)
next
  case False
  then have "filter (\<lambda>f. f \<noteq> clusterInstallFinalizerName) (om_Finalizers (ici_Meta ici)) = om_Finalizers (ici_Meta ici)"
    by (auto simp: filter_id_conv)
  then have "removeFinalizer env ici = returnM (None, ici)"
    by (simp add: removeFinalizer_def RemoveFinalizer_def Let_def)
  then show ?thesis
    using assms False by (auto simp: wp deletion_end_def)
qed

lemma wp_finishDeletion:
  assumes "Trace s = t @ es" and "list_all not_ici_patch es" and "Fs s (lockDir_of r ici) = None"
  shows "wp (finishDeletion env ici) (deletion_end env r ici t) (\<lambda>_ _. False) s"
proof (cases "sp_BareMetalHostRef (ici_Spec ici)")
  case None
  then show ?thesis
    unfolding finishDeletion_def Let_def None option.case
    by (intro wp_removeFinalizer [OF assms]) (simp add: None)
next
  case (Some ref)
  show ?thesis
    unfolding finishDeletion_def Let_def Some option.case wp_bindM [of "removeBMHDataImage _ _"]
  proof (rule wp_mono [OF wp_removeBMHDataImage_gone], goal_cases)
    case (1 x s1)
    obtain d err where x: "x = (d, err)" by (cases x)
    obtain es1 where es1: "Trace s1 = t @ es @ es1" "list_all not_ici_patch (es @ es1)"
      using 1 assms unfolding x by (auto simp: list_all_iff)
    have fs: "Fs s1 (lockDir_of r ici) = None" using 1 assms(3) unfolding x by auto
    consider e where "err = Some e" | "err = None" "d \<noteq> None" | "err = None" "d = None" by (cases err) auto
    then show ?case
    proof cases
      case 3
      then have "image_gone env (bmhr_key ref) s1" using 1 unfolding x by auto
      then show ?thesis
        unfolding x 3 prod.case option.case
        using wp_removeFinalizer [OF es1 fs] by (simp add: Some)
    qed (use es1 in \<open>auto simp: x wp_returnM deletion_end_def\<close>)
  qed simp
qed

lemma removeall_fs_gone: "snd (removeall_fs p fs) p = None"
  by (simp add: removeall_fs_def below_def)

lemma wp_RemoveAll_locked:
  "wp (bindM (os_RemoveAll env p) (\<lambda>x. returnM (case x of Inl e \<Rightarrow> Some e | Inr _ \<Rightarrow> None)))
     (\<lambda>e s'. \<exists>b. Trace s' = Trace s @ [EvRemoveAll p b] \<and> (e = None \<longrightarrow> Fs s' p = None)) (\<lambda>_ _. False) s"
  using removeall_fs_gone [of p "Fs s"]
  by (auto simp: call_defs wp removeall_fs_def split: prod.split option.split)

lemma wp_configDirs:
  "wp (configDirs env r ici)
     (\<lambda>d s'. (\<exists>b. Trace s' = Trace s @ [EvMkdirAll (filesDir_of r ici) b])
        \<and> (\<forall>x. d = Inr x \<longrightarrow> x = (lockDir_of r ici, filesDir_of r ici))) (\<lambda>_ _. False) s"
  unfolding configDirs_def call_defs wp_bindM
  by (rule wp_noteM_any) (auto simp: wp_returnM_fun wp_returnM split: sum.split)

lemma wp_Stat:
  "wp (os_Stat env p) (\<lambda>st s'. Trace s' = Trace s \<and> (\<forall>e. st = Inl e \<and> IsNotExist e \<longrightarrow> Fs s' p = None)) (\<lambda>_ _. False) s"
  by (auto simp: call_defs wp stat_fs_def IsNotExist_def split: prod.split option.split)

lemma wp_deletion_stop:
  assumes "Trace s1 = t @ es" "list_all not_ici_patch es" "res \<noteq> zeroResult \<or> (\<exists>e. err = Some e)"
  shows "wp (returnM (res, True, err, ici)) (deletion_end env r ici t) E s1"
  using assms by (auto simp: wp_returnM deletion_end_def)

lemma wp_removeFiles:
  assumes "Trace s = t @ es" and "list_all not_ici_patch es"
  shows "wp (removeFiles env ici (lockDir_of r ici)) (deletion_end env r ici t) (\<lambda>_ _. False) s"
  unfolding removeFiles_def wp_bindM [of "WithWriteLock _ _ _"]
proof (rule wp_WithWriteLock, goal_cases)
  case (1 err s1 es1)
  then have es1: "Trace s1 = t @ es @ es1" "list_all not_ici_patch (es @ es1)"
    using assms by (auto simp: list_all_iff)
  show ?case using wp_deletion_stop [OF es1] by (cases err) simp_all
next
  case (2 p s1 es1)
  let ?dir = "lockDir_of r ici"
  show ?case
  proof (rule wp_mono [OF wp_RemoveAll_locked], goal_cases)
    case (1 e s2)
    then obtain b where b: "Trace s2 = Trace s1 @ [EvRemoveAll ?dir b]" "e = None \<longrightarrow> Fs s2 ?dir = None" by blast
    then have es2: "Trace (s2\<lparr>Hub := h\<rparr>) = t @ es @ es1 @ [EvRemoveAll ?dir b]"
        "list_all not_ici_patch (es @ es1 @ [EvRemoveAll ?dir b])" for h
      using assms 2 by (auto simp: list_all_iff)
    show ?case
      using b(2) wp_deletion_stop [OF es2] wp_finishDeletion [OF es2, of _ r ici env] by (cases e) simp_all
  qed simp
qed

text \<open>A patch that only touches the finalizers.\<close>

definition finalizer_patch :: "event \<Rightarrow> bool" where
  "finalizer_patch e \<longleftrightarrow> (\<exists>i fs b. e = EvPatchICI i (i\<lparr>ici_Meta := (ici_Meta i)\<lparr>om_Finalizers := fs\<rparr>\<rparr>) b)"

lemma finalizer_patchI: "finalizer_patch (EvPatchICI i (i\<lparr>ici_Meta := (ici_Meta i)\<lparr>om_Finalizers := fs\<rparr>\<rparr>) b)"
  unfolding finalizer_patch_def by blast

lemma emits_removeFinalizer [emits_intro]:
  "(\<And>e. finalizer_patch e \<Longrightarrow> P e) \<Longrightarrow> emits P (removeFinalizer env ici)"
  unfolding removeFinalizer_def RemoveFinalizer_def Let_def Patch_ICI_def prod.case
  by (intro emits_intro) (simp add: finalizer_patchI)

lemma emits_handleFinalizer [emits_intro]:
  assumes "\<And>e. finalizer_patch e \<Longrightarrow> P e" and "\<And>e. fs_event e \<Longrightarrow> P e"
    and "\<And>k ok. P (EvDeleteDataImage k ok)" and "\<And>b b' ok. adds_reboot b b' \<Longrightarrow> P (EvPatchBMH b b' ok)"
  shows "emits P (handleFinalizer env r ici)"
proof -
  have add: "emits P (Patch_ICI env ici (ici\<lparr>ici_Meta := meta\<rparr>))" if "AddFinalizer (ici_Meta ici) f = (meta, True)" for f meta
    using that unfolding Patch_ICI_def AddFinalizer_def
    by (auto split: if_splits intro!: emits_patchM assms(1) finalizer_patchI)
  have finish: "emits P (finishDeletion env ici)"
    unfolding finishDeletion_def Let_def by (intro emits_intro assms(1,3,4))
  have files: "emits P (removeFiles env ici dir)" for dir
    unfolding removeFiles_def by (intro emits_intro finish assms(2)) simp_all
  show ?thesis
    unfolding handleFinalizer_def configDirs_def Let_def
    by (intro emits_intro finish files) (simp_all add: add assms(2))
qed

lemma handleFinalizer_present:
  "DeletionTimestamp_IsZero (ici_Meta ici) \<Longrightarrow> clusterInstallFinalizerName \<in> set (om_Finalizers (ici_Meta ici)) \<Longrightarrow>
    handleFinalizer env r ici = returnM (zeroResult, False, None, ici)"
  by (simp add: handleFinalizer_def AddFinalizer_def list_ex_iff)

lemma wp_handleFinalizer:
  "wp (handleFinalizer env r ici)
     (\<lambda>out s'.
        if \<not> DeletionTimestamp_IsZero (ici_Meta ici) then deletion_end env r ici (Trace s) out s'
        else (case out of (res, stop, err, ici') \<Rightarrow>
          if clusterInstallFinalizerName \<in> set (om_Finalizers (ici_Meta ici))
          then s' = s \<and> res = zeroResult \<and> \<not> stop \<and> err = None \<and> ici' = ici
          else stop \<and> rs_Requeue res
             \<and> Trace s' = Trace s @ [EvPatchICI ici (ici\<lparr>ici_Meta := (ici_Meta ici)\<lparr>om_Finalizers :=
                  om_Finalizers (ici_Meta ici) @ [clusterInstallFinalizerName]\<rparr>\<rparr>) (err = None)]))
     (\<lambda>_ _. False) s"
proof (cases "DeletionTimestamp_IsZero (ici_Meta ici)")
  case True
  then show ?thesis
    by (auto simp: handleFinalizer_def AddFinalizer_def list_ex_iff wp call_defs split: prod.split sum.split)
next
  case False
  show ?thesis
    unfolding handleFinalizer_def if_not_P [OF False] wp_bindM [of "configDirs env r ici"]
  proof (rule wp_mono [OF wp_configDirs], goal_cases)
    case (1 d s1)
    then obtain b where es: "Trace s1 = Trace s @ [EvMkdirAll (filesDir_of r ici) b]" by blast
    show ?case
    proof (cases d)
      case (Inr x)
      then have x: "x = (lockDir_of r ici, filesDir_of r ici)" using 1 by blast
      show ?thesis
        unfolding Inr x sum.case prod.case wp_bindM [of "os_Stat env _"]
      proof (rule wp_mono [OF wp_Stat], goal_cases)
        case (1 st s2)
        then have es2: "Trace s2 = Trace s @ [EvMkdirAll (filesDir_of r ici) b]" using es by simp
        show ?case
          using False 1 wp_deletion_stop [OF es2] wp_finishDeletion [OF es2, of r ici env] wp_removeFiles [OF es2, of env ici r]
          by (cases st) (auto simp: wp_if)
      qed simp
    qed (use False wp_deletion_stop [OF es] in simp)
  qed simp
qed

text \<open>C26: The finalizer protects the files and the DataImage. On an object that is not being deleted
  the finalizer is added if it is missing, with exactly one patch that changes nothing else, and the
  reconcile stops and runs again; if it is present nothing happens. On an object that is being
  deleted the reconcile always stops, and a patch that removes the finalizer (and changes nothing
  else) is only sent in a state in which the directory of the object does not exist and the last
  read saw that its DataImage, or the host, does not exist; before that point no patch is sent.\<close>
theorem handleFinalizer_order:
  "wp (handleFinalizer env r ici)
     (\<lambda>out s'.
        if \<not> DeletionTimestamp_IsZero (ici_Meta ici) then deletion_end env r ici (Trace s) out s'
        else (case out of (res, stop, err, ici') \<Rightarrow>
          if clusterInstallFinalizerName \<in> set (om_Finalizers (ici_Meta ici))
          then s' = s \<and> res = zeroResult \<and> \<not> stop \<and> err = None \<and> ici' = ici
          else stop \<and> rs_Requeue res
             \<and> Trace s' = Trace s @ [EvPatchICI ici (ici\<lparr>ici_Meta := (ici_Meta ici)\<lparr>om_Finalizers :=
                  om_Finalizers (ici_Meta ici) @ [clusterInstallFinalizerName]\<rparr>\<rparr>) (err = None)]))
     (\<lambda>_ _. False) s"
  by (rule wp_handleFinalizer)

end
