(* ===== verification/Backup.thy ===== *)
theory Backup
  imports Hosts Credentials
begin

text \<open>
  Labelling of the objects an ImageClusterInstall refers to, so that they are part of a backup
  (\<^verbatim>\<open>setBackupLabel\<close> and \<^verbatim>\<open>label*ForBackup\<close> of the reconciler), and the two annotations that guard a restore.
\<close>

definition backupLabel :: string where
  "backupLabel = ''cluster.open-cluster-management.io/backup''"
definition backupLabelValue :: string where
  "backupLabelValue = ''true''"
definition restoreStatusAnnotation :: string where
  "restoreStatusAnnotation = ''velero.io/restore-status''"
definition restoreStatusAnnotationValue :: string where
  "restoreStatusAnnotationValue = ''true''"
definition restoreSourceLabel :: string where
  "restoreSourceLabel = ''velero.io/restore-name''"

definition setBackupLabel :: "ObjectMeta \<Rightarrow> ObjectMeta \<times> bool" where
  "setBackupLabel obj =
     (let labels = (case om_Labels obj of None \<Rightarrow> Map.empty | Some l \<Rightarrow> l) in
      if labels backupLabel = Some backupLabelValue then (obj, False)
      else (obj\<lparr>om_Labels := Some (labels(backupLabel \<mapsto> backupLabelValue))\<rparr>, True))"

definition labelConfigMapForBackup :: "'w env \<Rightarrow> nsname \<Rightarrow> ('w world, goerr option) go" where
  "labelConfigMapForBackup env key =
     bindM (hubM (get_ConfigMap env key)) (\<lambda>r. case r of
       Inl err \<Rightarrow> returnM (Some err)
     | Inr cm \<Rightarrow>
         (case setBackupLabel (cm_Meta cm) of (meta, updated) \<Rightarrow>
            if updated then bindM (Patch_ConfigMap env cm (cm\<lparr>cm_Meta := meta\<rparr>)) (\<lambda>(err, _). returnM err)
            else returnM None))"

definition labelSecretForBackup :: "'w env \<Rightarrow> nsname \<Rightarrow> ('w world, goerr option) go" where
  "labelSecretForBackup env key =
     bindM (hubM (get_Secret_noncached env key)) (\<lambda>r. case r of
       Inl err \<Rightarrow> returnM (Some err)
     | Inr secret \<Rightarrow>
         (case setBackupLabel (sec_Meta secret) of (meta, updated) \<Rightarrow>
            if updated then bindM (Patch_Secret env secret (secret\<lparr>sec_Meta := meta\<rparr>)) (\<lambda>(err, _). returnM err)
            else returnM None))"

definition labelBMHForBackup :: "'w env \<Rightarrow> BareMetalHostReference option \<Rightarrow> ('w world, goerr option) go" where
  "labelBMHForBackup env bmhRef =
     bindM (getBMH env bmhRef) (\<lambda>r. case r of
       Inl err \<Rightarrow> returnM (Some err)
     | Inr bmh \<Rightarrow>
         (case setBackupLabel (bmh_Meta bmh) of (meta, updated) \<Rightarrow>
            if updated then bindM (Patch_BMH env bmh (bmh\<lparr>bmh_Meta := meta\<rparr>)) (\<lambda>(err, _). returnM err)
            else returnM None))"

text \<open>The errors are logged and dropped.\<close>

definition whenM :: "bool \<Rightarrow> ('s, 'a) go \<Rightarrow> ('s, unit) go" where
  "whenM b m = (if b then bindM m (\<lambda>_. returnM ()) else returnM ())"

fun label_manifests :: "'w env \<Rightarrow> string \<Rightarrow> string list \<Rightarrow> ('w world, unit) go" where
  "label_manifests env ns [] = returnM ()"
| "label_manifests env ns (ref # refs) =
     bindM (labelConfigMapForBackup env (ns, ref)) (\<lambda>_. label_manifests env ns refs)"

definition labelReferencedObjectsForBackup :: "'w env \<Rightarrow> ImageClusterInstall \<Rightarrow> ClusterDeployment option \<Rightarrow> ('w world, unit) go" where
  "labelReferencedObjectsForBackup env ici cd =
     (let ns = om_Namespace (ici_Meta ici) in
      bindM (case sp_CABundleRef (ici_Spec ici) of
               None \<Rightarrow> returnM ()
             | Some ref \<Rightarrow> whenM True (labelConfigMapForBackup env (ns, ref))) (\<lambda>_.
      bindM (label_manifests env ns (elems (sp_ExtraManifestsRefs (ici_Spec ici)))) (\<lambda>_.
      bindM (case cd of
               None \<Rightarrow> returnM ()
             | Some c \<Rightarrow>
                 bindM (labelSecretForBackup env
                          (om_Namespace (cd_Meta c), SeedReconfigurationSecretName (om_Name (cd_Meta c)))) (\<lambda>_.
                 (case cd_PullSecretRef c of
                    None \<Rightarrow> returnM ()
                  | Some ps \<Rightarrow> whenM True (labelSecretForBackup env (om_Namespace (cd_Meta c), ps))))) (\<lambda>_.
      bindM (whenM (sp_BareMetalHostRef (ici_Spec ici) \<noteq> None)
               (labelBMHForBackup env (sp_BareMetalHostRef (ici_Spec ici)))) (\<lambda>_.
      (case sp_ClusterMetadata (ici_Spec ici) of
         None \<Rightarrow> returnM ()
       | Some md \<Rightarrow>
           bindM (labelSecretForBackup env (ns, md_AdminKubeconfigSecretRef md)) (\<lambda>_.
           (case md_AdminPasswordSecretRef md of
              None \<Rightarrow> returnM ()
            | Some ref \<Rightarrow> whenM True (labelSecretForBackup env (ns, ref))))))))))"

section \<open>Restore\<close>

definition iciIsBeingRestored :: "ImageClusterInstall \<Rightarrow> bool" where
  "iciIsBeingRestored ici \<longleftrightarrow>
     map_get (om_Labels (ici_Meta ici)) restoreSourceLabel \<noteq> None
     \<and> st_Conditions (ici_Status ici) = []
     \<and> st_InstallRestarts (ici_Status ici) = 0
     \<and> st_BareMetalHostRef (ici_Status ici) = None
     \<and> Time_IsZero (st_BootTime (ici_Status ici))"

definition ensureRestoreStatusAnnotation :: "'w env \<Rightarrow> ImageClusterInstall \<Rightarrow> ('w world, goerr option \<times> ImageClusterInstall) go" where
  "ensureRestoreStatusAnnotation env ici =
     (case setAnnotationIfNotExists (ici_Meta ici) restoreStatusAnnotation restoreStatusAnnotationValue of (meta, added) \<Rightarrow>
        if \<not> added then returnM (None, ici\<lparr>ici_Meta := meta\<rparr>)
        else Patch_ICI env ici (ici\<lparr>ici_Meta := meta\<rparr>))"

definition ensurePostCleanupAnnotation :: "'w env \<Rightarrow> ImageClusterInstall \<Rightarrow> ('w world, goerr option \<times> ImageClusterInstall) go" where
  "ensurePostCleanupAnnotation env ici =
     (case setAnnotationIfNotExists (ici_Meta ici) postCleanupAnnotation postCleanupAnnotationValue of (meta, added) \<Rightarrow>
        if \<not> added then returnM (None, ici\<lparr>ici_Meta := meta\<rparr>)
        else Patch_ICI env ici (ici\<lparr>ici_Meta := meta\<rparr>))"

section \<open>Lemmas\<close>

lemma setBackupLabel_spec:
  "snd (setBackupLabel m) \<longleftrightarrow> map_get (om_Labels m) backupLabel \<noteq> Some backupLabelValue"
  "map_get (om_Labels (fst (setBackupLabel m))) k = (if k = backupLabel then Some backupLabelValue else map_get (om_Labels m) k)"
  by (auto simp: setBackupLabel_def Let_def split: option.splits)

text \<open>Two objects' metadata that differ in the backup label only.\<close>

definition labelled :: "ObjectMeta \<Rightarrow> ObjectMeta \<Rightarrow> bool" where
  "labelled m m' \<longleftrightarrow> map_get (om_Labels m) backupLabel \<noteq> Some backupLabelValue
     \<and> (\<exists>l. m' = m\<lparr>om_Labels := Some (l(backupLabel \<mapsto> backupLabelValue))\<rparr> \<and> (\<forall>k. map_get (om_Labels m) k = l k))"

lemma setBackupLabel_labelled: "setBackupLabel m = (m', True) \<Longrightarrow> labelled m m'"
  by (auto simp: setBackupLabel_def labelled_def Let_def split: option.splits if_splits)

text \<open>A patch that only adds the backup label.\<close>

definition backup_patch :: "event \<Rightarrow> bool" where
  "backup_patch e \<longleftrightarrow>
     (\<exists>c m b. labelled (cm_Meta c) m \<and> e = EvPatchConfigMap c (c\<lparr>cm_Meta := m\<rparr>) b)
     \<or> (\<exists>c m b. labelled (sec_Meta c) m \<and> e = EvPatchSecret c (c\<lparr>sec_Meta := m\<rparr>) b)
     \<or> (\<exists>c m b. labelled (bmh_Meta c) m \<and> e = EvPatchBMH c (c\<lparr>bmh_Meta := m\<rparr>) b)"

lemma emits_whenM [emits_intro]: "emits P m \<Longrightarrow> emits P (whenM b m)"
  unfolding whenM_def by (intro emits_intro)

lemma emits_labels [emits_intro]:
  assumes "\<And>e. backup_patch e \<Longrightarrow> P e"
  shows "emits P (labelConfigMapForBackup env key)" "emits P (labelSecretForBackup env key)"
    "emits P (labelBMHForBackup env ref)"
  unfolding labelConfigMapForBackup_def labelSecretForBackup_def labelBMHForBackup_def call_defs
  by (intro emits_intro assms; auto simp: backup_patch_def dest!: setBackupLabel_labelled)+

lemma emits_label_manifests [emits_intro]:
  "(\<And>e. backup_patch e \<Longrightarrow> P e) \<Longrightarrow> emits P (label_manifests env ns refs)"
  by (induction env ns refs rule: label_manifests.induct) (auto intro!: emits_intro)

lemma emits_labelReferenced [emits_intro]:
  "(\<And>e. backup_patch e \<Longrightarrow> P e) \<Longrightarrow> emits P (labelReferencedObjectsForBackup env ici cd)"
  unfolding labelReferencedObjectsForBackup_def Let_def by (intro emits_intro)

lemma panic_free_whenM [panic_free_intro]: "(b \<Longrightarrow> panic_free m) \<Longrightarrow> panic_free (whenM b m)"
  unfolding whenM_def by (intro panic_free_intro)

lemma panic_free_labels [panic_free_intro]:
  "panic_free (labelConfigMapForBackup env key)" "panic_free (labelSecretForBackup env key)"
  "ref \<noteq> None \<Longrightarrow> panic_free (labelBMHForBackup env ref)"
  unfolding labelConfigMapForBackup_def labelSecretForBackup_def labelBMHForBackup_def call_defs getBMH_def
  by (auto intro!: panic_free_intro)

lemma panic_free_label_manifests [panic_free_intro]: "panic_free (label_manifests env ns refs)"
  by (induction env ns refs rule: label_manifests.induct) (auto intro!: panic_free_intro)

text \<open>C38: Backup labelling. Labelling the referenced objects never panics, whatever references are
  missing or dangling, and every request it issues is a patch of a ConfigMap, a secret or a host
  that did not carry the backup label, adding that label and changing nothing else.\<close>
theorem labelReferencedObjectsForBackup_safe:
  "panic_free (labelReferencedObjectsForBackup env ici cd)
   \<and> emits backup_patch (labelReferencedObjectsForBackup env ici cd)"
proof
  show "panic_free (labelReferencedObjectsForBackup env ici cd)"
    unfolding labelReferencedObjectsForBackup_def Let_def by (intro panic_free_intro)
  show "emits backup_patch (labelReferencedObjectsForBackup env ici cd)"
    by (rule emits_labelReferenced)
qed

end
