(* ===== verification/Metadata.thy ===== *)
theory Metadata
  imports Credentials
begin

text \<open>
  \<^verbatim>\<open>setClusterInstallMetadata\<close> and \<^verbatim>\<open>generateInfraID\<close> of the reconciler: where the cluster and
  infrastructure IDs of an installation come from. Random identifiers are drawn from the
  environment.
\<close>

section \<open>Infrastructure IDs\<close>

definition is_alnum_dash :: "char \<Rightarrow> bool" where
  "is_alnum_dash c = (let n = of_char c :: nat in
     (65 \<le> n \<and> n \<le> 90) \<or> (97 \<le> n \<and> n \<le> 122) \<or> (48 \<le> n \<and> n \<le> 57) \<or> n = 45)"

text \<open>The replacement of \<^verbatim>\<open>[^A-Za-z0-9-]\<close>; a character of several bytes yields several dashes here and
  one in Go, which the next step makes equal.\<close>

definition dash_out :: "string \<Rightarrow> string" where
  "dash_out base = map (\<lambda>c. if is_alnum_dash c then c else CHR ''-'') base"

text \<open>The replacement of runs of dashes by one dash.\<close>

fun squeeze :: "string \<Rightarrow> string" where
  "squeeze [] = []"
| "squeeze (c # cs) =
     (if c = CHR ''-'' \<and> cs \<noteq> [] \<and> hd cs = CHR ''-'' then squeeze cs else c # squeeze cs)"

definition infraID_base :: "string \<Rightarrow> string" where
  "infraID_base base =
     (let b1 = squeeze (dash_out base);
          maxBaseLen = 21;
          b2 = (if length b1 > maxBaseLen then take maxBaseLen b1 else b1)
      in TrimRight_char (CHR ''-'') b2)"

definition generateInfraID :: "'w env \<Rightarrow> string \<Rightarrow> ('w world, string) go" where
  "generateInfraID env base =
     bindM (hubM (rand_String env 5)) (\<lambda>suffix. returnM (infraID_base base @ ''-'' @ suffix))"

section \<open>Cluster metadata\<close>

text \<open>The comparison of the existing references dereferences \<^verbatim>\<open>AdminPasswordSecretRef\<close>, which may be
  nil.\<close>

definition metadata_complete :: "ClusterDeployment \<Rightarrow> ClusterMetadata option \<Rightarrow> bool outcome" where
  "metadata_complete cd metadata =
     (case metadata of
        None \<Rightarrow> Ret False
      | Some md \<Rightarrow>
          if md_ClusterID md \<noteq> [] \<and> md_InfraID md \<noteq> []
             \<and> md_AdminKubeconfigSecretRef md = KubeconfigSecretName (om_Name (cd_Meta cd))
          then (case md_AdminPasswordSecretRef md of
                  None \<Rightarrow> Panic ''invalid memory address or nil pointer dereference''
                | Some ref \<Rightarrow> Ret (ref = KubeadminPasswordSecretName (om_Name (cd_Meta cd))))
          else Ret False)"

definition chooseClusterID :: "'w env \<Rightarrow> ClusterMetadata option \<Rightarrow> string \<Rightarrow> ('w world, string) go" where
  "chooseClusterID env metadata secretClusterID =
     (case metadata of
        Some md \<Rightarrow> if md_ClusterID md \<noteq> [] then returnM (md_ClusterID md)
                   else if secretClusterID \<noteq> [] then returnM secretClusterID else hubM (uuid_New env)
      | None \<Rightarrow> if secretClusterID \<noteq> [] then returnM secretClusterID else hubM (uuid_New env))"

definition chooseInfraID :: "'w env \<Rightarrow> ClusterDeployment \<Rightarrow> ClusterMetadata option \<Rightarrow> string \<Rightarrow> ('w world, string) go" where
  "chooseInfraID env cd metadata secretInfraID =
     (case metadata of
        Some md \<Rightarrow> if md_InfraID md \<noteq> [] then returnM (md_InfraID md)
                   else if secretInfraID \<noteq> [] then returnM secretInfraID else generateInfraID env (cd_ClusterName cd)
      | None \<Rightarrow> if secretInfraID \<noteq> [] then returnM secretInfraID else generateInfraID env (cd_ClusterName cd))"

definition with_metadata :: "ClusterMetadata \<Rightarrow> ImageClusterInstall \<Rightarrow> ImageClusterInstall" where
  "with_metadata md ici = ici\<lparr>ici_Spec := (ici_Spec ici)\<lparr>sp_ClusterMetadata := Some md\<rparr>\<rparr>"

definition setClusterInstallMetadata :: "'w env \<Rightarrow> ImageClusterInstall \<Rightarrow> ClusterDeployment \<Rightarrow> ('w world, goerr option \<times> ImageClusterInstall) go" where
  "setClusterInstallMetadata env ici cd =
     (let metadata = sp_ClusterMetadata (ici_Spec ici) in
      case metadata_complete cd metadata of
        Panic p \<Rightarrow> panicM p
      | Ret complete \<Rightarrow>
          if complete then returnM (None, ici)
          else bindM (SeedReconfigSecretClusterIDs env cd) (\<lambda>(secretClusterID, secretInfraID, e). case e of
            Some err \<Rightarrow> returnM (Some (wrapf ''failed to get seed reconfiguration secret: '' err), ici)
          | None \<Rightarrow>
              bindM (chooseClusterID env metadata secretClusterID) (\<lambda>clusterID.
              bindM (chooseInfraID env cd metadata secretInfraID) (\<lambda>infraID.
                Patch_ICI env ici (with_metadata
                  \<lparr>md_ClusterID = clusterID, md_InfraID = infraID,
                   md_AdminKubeconfigSecretRef = KubeconfigSecretName (om_Name (cd_Meta cd)),
                   md_AdminPasswordSecretRef = Some (KubeadminPasswordSecretName (om_Name (cd_Meta cd)))\<rparr> ici)))))"

section \<open>Lemmas\<close>

lemma set_squeeze: "set (squeeze s) \<subseteq> set s"
  by (induction s rule: squeeze.induct) auto

lemma hd_squeeze: "s \<noteq> [] \<Longrightarrow> squeeze s \<noteq> [] \<and> hd (squeeze s) = hd s"
  by (induction s rule: squeeze.induct) auto

definition no_double_dash :: "string \<Rightarrow> bool" where
  "no_double_dash s \<longleftrightarrow> (\<forall>i. Suc i < length s \<longrightarrow> \<not> (s ! i = CHR ''-'' \<and> s ! Suc i = CHR ''-''))"

lemma no_double_dash_Cons:
  "no_double_dash (c # cs) \<longleftrightarrow> no_double_dash cs \<and> (cs = [] \<or> \<not> (c = CHR ''-'' \<and> hd cs = CHR ''-''))"
proof
  assume A: "no_double_dash (c # cs)"
  have "no_double_dash cs"
    unfolding no_double_dash_def using A unfolding no_double_dash_def
    by (metis Suc_less_eq length_Cons nth_Cons_Suc)
  moreover have "cs \<noteq> [] \<Longrightarrow> \<not> (c = CHR ''-'' \<and> hd cs = CHR ''-'')"
    using A unfolding no_double_dash_def by (metis hd_conv_nth length_Cons length_greater_0_conv not_less_eq nth_Cons_0 nth_Cons_Suc)
  ultimately show "no_double_dash cs \<and> (cs = [] \<or> \<not> (c = CHR ''-'' \<and> hd cs = CHR ''-''))" by blast
next
  assume B: "no_double_dash cs \<and> (cs = [] \<or> \<not> (c = CHR ''-'' \<and> hd cs = CHR ''-''))"
  show "no_double_dash (c # cs)"
    unfolding no_double_dash_def
  proof (intro allI impI)
    fix i assume "Suc i < length (c # cs)"
    then show "\<not> ((c # cs) ! i = CHR ''-'' \<and> (c # cs) ! Suc i = CHR ''-'')"
      using B by (cases i) (auto simp: no_double_dash_def hd_conv_nth)
  qed
qed

lemma no_double_dash_Nil [simp]: "no_double_dash []"
  by (simp add: no_double_dash_def)

lemma no_double_dash_squeeze: "no_double_dash (squeeze s)"
proof (induction s rule: squeeze.induct)
  case (2 c cs)
  then show ?case using hd_squeeze [of cs] by (cases "cs = []") (auto simp: no_double_dash_Cons)
qed simp

lemma no_double_dash_prefix: "no_double_dash (s @ t) \<Longrightarrow> no_double_dash s"
  by (induction s) (auto simp: no_double_dash_Cons)

lemma no_double_dash_append:
  "no_double_dash s \<Longrightarrow> no_double_dash t \<Longrightarrow> s = [] \<or> t = [] \<or> last s \<noteq> CHR ''-'' \<or> hd t \<noteq> CHR ''-'' \<Longrightarrow>
    no_double_dash (s @ t)"
proof (induction s)
  case (Cons a s)
  then show ?case by (cases "s = []") (auto simp: no_double_dash_Cons)
qed simp

lemma infraID_base_facts:
  "length (infraID_base b) \<le> 21" "list_all is_alnum_dash (infraID_base b)"
  "no_double_dash (infraID_base b)" "infraID_base b = [] \<or> last (infraID_base b) \<noteq> CHR ''-''"
proof -
  let ?b1 = "squeeze (dash_out b)"
  let ?b2 = "if length ?b1 > 21 then take 21 ?b1 else ?b1"
  have eq: "infraID_base b = TrimRight_char (CHR ''-'') ?b2"
    by (simp add: infraID_base_def Let_def)
  have set: "set ?b2 \<subseteq> set (dash_out b)"
    using set_squeeze [of "dash_out b"] by (auto dest: in_set_takeD)
  show "length (infraID_base b) \<le> 21"
    unfolding eq by (rule order_trans [OF TrimRight_char_length]) simp
  have "is_alnum_dash c" if "c \<in> set (dash_out b)" for c
    using that by (auto simp: dash_out_def is_alnum_dash_def)
  then show "list_all is_alnum_dash (infraID_base b)"
    unfolding eq list_all_iff using TrimRight_char_set set by blast
  have "no_double_dash ?b2"
    using no_double_dash_squeeze [of "dash_out b"] no_double_dash_prefix [of "take 21 ?b1" "drop 21 ?b1"] by auto
  moreover obtain k where "?b2 = infraID_base b @ replicate k (CHR ''-'')"
    using TrimRight_char_suffix [of ?b2 "CHR ''-''"] unfolding eq by blast
  ultimately show "no_double_dash (infraID_base b)"
    by (simp only: no_double_dash_prefix)
  show "infraID_base b = [] \<or> last (infraID_base b) \<noteq> CHR ''-''"
    unfolding eq using TrimRight_char_last by blast
qed

lemma emits_choose [emits_intro]:
  "emits P (chooseClusterID env metadata sid)" "emits P (chooseInfraID env cd metadata sid)"
  unfolding chooseClusterID_def chooseInfraID_def generateInfraID_def by (intro emits_intro)+

text \<open>Metadata \<open>md\<close> that keeps the IDs of the old metadata and names the secrets of the cluster.\<close>

definition keeps_ids :: "ClusterDeployment \<Rightarrow> ClusterMetadata option \<Rightarrow> ClusterMetadata \<Rightarrow> bool" where
  "keeps_ids cd old md \<longleftrightarrow>
     (case old of None \<Rightarrow> True
      | Some o' \<Rightarrow> (md_ClusterID o' = [] \<or> md_ClusterID md = md_ClusterID o')
               \<and> (md_InfraID o' = [] \<or> md_InfraID md = md_InfraID o'))
     \<and> md_AdminKubeconfigSecretRef md = KubeconfigSecretName (om_Name (cd_Meta cd))
     \<and> md_AdminPasswordSecretRef md = Some (KubeadminPasswordSecretName (om_Name (cd_Meta cd)))"

lemma wp_chooseClusterID:
  "wp (chooseClusterID env old sid)
     (\<lambda>i s'. Trace s' = Trace s \<and> (case old of None \<Rightarrow> True | Some o' \<Rightarrow> md_ClusterID o' = [] \<or> i = md_ClusterID o'))
     (\<lambda>_ _. False) s"
  by (auto simp: chooseClusterID_def wp split: option.split prod.split)

lemma wp_chooseInfraID:
  "wp (chooseInfraID env cd old sid)
     (\<lambda>i s'. Trace s' = Trace s \<and> (case old of None \<Rightarrow> True | Some o' \<Rightarrow> md_InfraID o' = [] \<or> i = md_InfraID o'))
     (\<lambda>_ _. False) s"
  by (auto simp: chooseInfraID_def generateInfraID_def wp split: option.split prod.split)

lemma wp_SeedIDs: "wp (SeedReconfigSecretClusterIDs env cd) (\<lambda>_ s'. Trace s' = Trace s) (\<lambda>_ _. False) s"
  unfolding SeedReconfigSecretClusterIDs_def getSecretContent_def
  by (auto simp: wp split: option.split prod.split sum.split)

text \<open>The nil reference the comparison runs into.\<close>

definition lacks_password_ref :: "ClusterDeployment \<Rightarrow> ImageClusterInstall \<Rightarrow> bool" where
  "lacks_password_ref cd ici \<longleftrightarrow>
     (\<exists>md. sp_ClusterMetadata (ici_Spec ici) = Some md \<and> md_ClusterID md \<noteq> [] \<and> md_InfraID md \<noteq> []
        \<and> md_AdminKubeconfigSecretRef md = KubeconfigSecretName (om_Name (cd_Meta cd))
        \<and> md_AdminPasswordSecretRef md = None)"

lemma metadata_complete_Panic:
  "(\<exists>p. metadata_complete cd (sp_ClusterMetadata (ici_Spec ici)) = Panic p) \<longleftrightarrow> lacks_password_ref cd ici"
  by (auto simp: metadata_complete_def lacks_password_ref_def split: option.split)

lemma metadata_complete_True:
  "metadata_complete cd (sp_ClusterMetadata (ici_Spec ici)) = Ret True \<Longrightarrow>
    \<exists>md. sp_ClusterMetadata (ici_Spec ici) = Some md \<and> md_ClusterID md \<noteq> [] \<and> md_InfraID md \<noteq> []"
  by (auto simp: metadata_complete_def split: option.splits if_splits)

lemma wp_setClusterInstallMetadata:
  "wp (setClusterInstallMetadata env ici cd)
     (\<lambda>(err, ici') s'. \<not> lacks_password_ref cd ici
        \<and> (Trace s' = Trace s \<and> ici' = ici
             \<and> (case err of Some _ \<Rightarrow> True
                | None \<Rightarrow> \<exists>md. sp_ClusterMetadata (ici_Spec ici) = Some md \<and> md_ClusterID md \<noteq> [] \<and> md_InfraID md \<noteq> [])
           \<or> (\<exists>md. keeps_ids cd (sp_ClusterMetadata (ici_Spec ici)) md
                \<and> Trace s' = Trace s @ [EvPatchICI ici (with_metadata md ici) (err = None)])))
     (\<lambda>_ s'. s' = s \<and> lacks_password_ref cd ici) s"
proof (cases "metadata_complete cd (sp_ClusterMetadata (ici_Spec ici))")
  case (Panic p)
  then have "lacks_password_ref cd ici" using metadata_complete_Panic by blast
  then show ?thesis by (simp add: setClusterInstallMetadata_def Let_def Panic wp)
next
  case (Ret b)
  then have lacks: "\<not> lacks_password_ref cd ici" using metadata_complete_Panic [of cd ici] by simp
  let ?Q = "\<lambda>(err, ici') s'. \<not> lacks_password_ref cd ici
        \<and> (Trace s' = Trace s \<and> ici' = ici
             \<and> (case err of Some _ \<Rightarrow> True
                | None \<Rightarrow> \<exists>md. sp_ClusterMetadata (ici_Spec ici) = Some md \<and> md_ClusterID md \<noteq> [] \<and> md_InfraID md \<noteq> [])
           \<or> (\<exists>md. keeps_ids cd (sp_ClusterMetadata (ici_Spec ici)) md
                \<and> Trace s' = Trace s @ [EvPatchICI ici (with_metadata md ici) (err = None)]))"
  show ?thesis
  proof (cases b)
    case True
    then show ?thesis
      using metadata_complete_True [of cd ici] lacks by (simp add: setClusterInstallMetadata_def Let_def Ret wp)
  next
    case False
    have patch: "wp (Patch_ICI env ici (with_metadata md ici)) ?Q E s1"
      if "Trace s1 = Trace s" "keeps_ids cd (sp_ClusterMetadata (ici_Spec ici)) md" for md s1 E
      using that lacks by (auto simp: call_defs wp split: prod.split sum.split)
    show ?thesis
      unfolding setClusterInstallMetadata_def Let_def Ret outcome.case if_not_P [OF False]
        wp_bindM [of "SeedReconfigSecretClusterIDs _ _"]
    proof (rule wp_mono [OF wp_SeedIDs], goal_cases)
      case (1 x s1)
      obtain sc si e where x: "x = (sc, si, e)" by (metis prod_cases3)
      show ?case
      proof (cases e)
        case None
        show ?thesis
          unfolding x None prod.case option.case wp_bindM
          by (rule wp_mono [OF wp_chooseClusterID], rule wp_mono [OF wp_chooseInfraID], rule patch)
            (use 1 in \<open>auto simp: keeps_ids_def split: option.splits\<close>)
      qed (use 1 lacks in \<open>simp add: x wp_returnM\<close>)
    qed simp
  qed
qed

text \<open>C32: Stable IDs. Setting the cluster metadata either finds it complete and sends nothing, or
  fails without a request, or sends exactly one patch, which sets the metadata and nothing else,
  keeps every ID that was already set and names the secrets of the cluster. It panics, before any
  request, exactly when IDs and kubeconfig reference are in place but the password reference is
  nil.\<close>
theorem setClusterInstallMetadata_ids:
  "wp (setClusterInstallMetadata env ici cd)
     (\<lambda>(err, ici') s'. \<not> lacks_password_ref cd ici
        \<and> (Trace s' = Trace s \<and> ici' = ici
             \<and> (case err of Some _ \<Rightarrow> True
                | None \<Rightarrow> \<exists>md. sp_ClusterMetadata (ici_Spec ici) = Some md \<and> md_ClusterID md \<noteq> [] \<and> md_InfraID md \<noteq> [])
           \<or> (\<exists>md. keeps_ids cd (sp_ClusterMetadata (ici_Spec ici)) md
                \<and> Trace s' = Trace s @ [EvPatchICI ici (with_metadata md ici) (err = None)])))
     (\<lambda>_ s'. s' = s \<and> lacks_password_ref cd ici) s"
  by (rule wp_setClusterInstallMetadata)

text \<open>C39: Infrastructure IDs. If the random source returns five letters or digits, as it documents, a
  generated infrastructure ID has at most 27 characters, all letters, digits or dashes, no two
  dashes in a row and no dash at the end, whatever the name of the cluster.\<close>
theorem generateInfraID_valid:
  assumes "\<And>h. length (fst (rand_String env 5 h)) = 5
      \<and> list_all (\<lambda>c. is_alnum_dash c \<and> c \<noteq> CHR ''-'') (fst (rand_String env 5 h))"
  shows "wp (generateInfraID env name)
    (\<lambda>infraID s'. length infraID \<le> 27 \<and> list_all is_alnum_dash infraID \<and> no_double_dash infraID
       \<and> last infraID \<noteq> CHR ''-'' \<and> Trace s' = Trace s) (\<lambda>_ _. False) s"
proof -
  obtain suffix h where run: "rand_String env 5 (Hub s) = (suffix, h)" by (cases "rand_String env 5 (Hub s)")
  then have len: "length suffix = 5" and chars: "list_all (\<lambda>c. is_alnum_dash c \<and> c \<noteq> CHR ''-'') suffix"
    using assms [of "Hub s"] by simp_all
  then have ne: "suffix \<noteq> []" by auto
  have nodash: "no_double_dash suffix"
    using chars by (auto simp: no_double_dash_def list_all_iff)
  then have "no_double_dash (CHR ''-'' # suffix)"
    using chars ne by (auto simp: no_double_dash_Cons list_all_iff)
  then have "no_double_dash (infraID_base name @ CHR ''-'' # suffix)"
    using infraID_base_facts(3,4) [of name] by (intro no_double_dash_append) auto
  moreover have "last suffix \<noteq> CHR ''-''" using chars ne by (auto simp: list_all_iff)
  moreover have "is_alnum_dash (CHR ''-'')" by (simp add: is_alnum_dash_def)
  ultimately show ?thesis
    using infraID_base_facts(1,2) [of name] len chars ne
    by (auto simp: generateInfraID_def wp run list_all_iff)
qed

text \<open>A source of random text that always answers \<^verbatim>\<open>bcdfg\<close> meets the hypothesis.\<close>
theorem generateInfraID_valid_witness:
  "wp (generateInfraID (idle_env\<lparr>rand_String := \<lambda>n h. (''bcdfg'', h)\<rparr>) ''my cluster--name_1'')
    (\<lambda>infraID s'. length infraID \<le> 27 \<and> list_all is_alnum_dash infraID \<and> no_double_dash infraID
       \<and> last infraID \<noteq> CHR ''-'' \<and> Trace s' = Trace idle_world) (\<lambda>_ _. False) idle_world"
  by (rule generateInfraID_valid) (simp add: is_alnum_dash_def)

end
