(* ===== verification/Reconciler.thy ===== *)
theory Reconciler
  imports StatusMachine Finalizer Backup Metadata
begin

text \<open>
  \<^verbatim>\<open>ImageClusterInstallReconciler.Reconcile\<close> and the watch mappings that trigger it. The four phases run
  between the creation of the RequirementsMet condition and the deferred call that writes it; the
  condition and the object, captured by the deferred closure, are results of \<open>reconcilePhases\<close>, also
  when a phase panics.
\<close>

section \<open>Reconcile\<close>

definition getCD :: "'w env \<Rightarrow> ImageClusterInstall \<Rightarrow> ('w world, goerr + ClusterDeployment) go" where
  "getCD env ici =
     (case sp_ClusterDeploymentRef (ici_Spec ici) of
        None \<Rightarrow> panicM ''invalid memory address or nil pointer dereference''
      | Some name \<Rightarrow> hubM (get_ClusterDeployment env (om_Namespace (ici_Meta ici), name)))"

text \<open>The part of \<^verbatim>\<open>Reconcile\<close> that looks up the ClusterDeployment; an error is logged.\<close>

definition referencedCD :: "'w env \<Rightarrow> ImageClusterInstall \<Rightarrow> ('w world, ClusterDeployment option) go" where
  "referencedCD env ici =
     (case sp_ClusterDeploymentRef (ici_Spec ici) of
        None \<Rightarrow> returnM None
      | Some name \<Rightarrow>
          if name = [] then returnM None
          else bindM (getCD env ici) (\<lambda>r. case r of Inl err \<Rightarrow> returnM None | Inr cd \<Rightarrow> returnM (Some cd)))"

definition attachedMessage :: string where
  "attachedMessage = ''configuration image is attached to the referenced host''"

text \<open>Nothing is left to do when the installation has started and its files are in place.\<close>

definition alreadyStarted :: "'w env \<Rightarrow> ImageClusterInstallReconciler \<Rightarrow> ImageClusterInstall \<Rightarrow> ('w world, bool \<times> ImageClusterInstall) go" where
  "alreadyStarted env r ici =
     (if Time_IsZero (st_BootTime (ici_Status ici)) then returnM (False, ici)
      else
        bindM (case findCondition (st_Conditions (ici_Status ici)) ClusterInstallRequirementsMet of
                 None \<Rightarrow> returnM ici
               | Some cond \<Rightarrow>
                   if cc_Status cond = ConditionFalse
                   then setRequirementsMetCondition env ici ConditionTrue HostConfigurationSucceededReason attachedMessage
                   else returnM ici) (\<lambda>ici'.
        bindM (verifyIsoAndAuthExists env
                 (GetClusterConfigDir (filepath_Join [opt_DataDir (rc_Options r), ''namespaces''])
                    (om_Namespace (ici_Meta ici')) (om_UID (ici_Meta ici')))) (\<lambda>exists.
          returnM (exists, ici'))))"

definition configureHostPhase :: "'w env \<Rightarrow> ImageClusterInstallReconciler \<Rightarrow> ImageClusterInstall \<Rightarrow> string \<Rightarrow> BareMetalHost \<Rightarrow> ClusterInstallCondition \<Rightarrow> ('w world, ImageClusterInstall \<times> ClusterInstallCondition \<times> (Result \<times> goerr option) outcome) go" where
  "configureHostPhase env r ici imageUrl bmh cond =
     bindM (configureHost env r ici imageUrl bmh (cond\<lparr>cc_Reason := HostConfigurationFailedReason\<rparr>))
       (\<lambda>(cond', ici', continueReconcile, res, err).
          if \<not> continueReconcile \<or> \<not> Result_IsZero res \<or> err \<noteq> None then returnM (ici', cond', Ret (res, err))
          else returnM (ici', cond'\<lparr>cc_Status := ConditionTrue, cc_Reason := HostConfigurationSucceededReason,
                                    cc_Message := attachedMessage\<rparr>, Ret (zeroResult, None)))"

definition createImagePhase :: "'w env \<Rightarrow> ImageClusterInstallReconciler \<Rightarrow> nsname \<Rightarrow> ImageClusterInstall \<Rightarrow> ClusterDeployment \<Rightarrow> BareMetalHost \<Rightarrow> ClusterInstallCondition \<Rightarrow> ('w world, ImageClusterInstall \<times> ClusterInstallCondition \<times> (Result \<times> goerr option) outcome) go" where
  "createImagePhase env r req ici cd bmh cond =
     (let cond1 = cond\<lparr>cc_Reason := ImageCreationFailedReason\<rparr> in
      bindM (catchM (createImage env r ici req (Some bmh) cd cond1)) (\<lambda>out. case out of
        Panic p \<Rightarrow> returnM (ici, cond1, Panic p)
      | Ret (cond2, imageUrl, res, err) \<Rightarrow>
          if \<not> Result_IsZero res \<or> err \<noteq> None then returnM (ici, cond2, Ret (res, err))
          else configureHostPhase env r ici imageUrl bmh cond2))"

definition validateHostPhase :: "'w env \<Rightarrow> ImageClusterInstallReconciler \<Rightarrow> nsname \<Rightarrow> ImageClusterInstall \<Rightarrow> ClusterDeployment \<Rightarrow> BareMetalHost \<Rightarrow> ClusterInstallCondition \<Rightarrow> ('w world, ImageClusterInstall \<times> ClusterInstallCondition \<times> (Result \<times> goerr option) outcome) go" where
  "validateHostPhase env r req ici cd bmh cond =
     bindM (validateHost env ici bmh (cond\<lparr>cc_Reason := HostValidationFailedReason\<rparr>)) (\<lambda>(cond1, bmh', res, err).
       if \<not> Result_IsZero res \<or> err \<noteq> None then returnM (ici, cond1, Ret (res, err))
       else
         bindM (catchM (setClusterInstallMetadata env ici cd)) (\<lambda>out. case out of
           Panic p \<Rightarrow> returnM (ici, cond1, Panic p)
         | Ret (e, ici') \<Rightarrow>
             (case e of
                Some err \<Rightarrow>
                  returnM (ici', cond1\<lparr>cc_Message := ''failed to set ClusterMetaData in ImageClusterInstall''\<rparr>, Ret (zeroResult, Some err))
              | None \<Rightarrow> createImagePhase env r req ici' cd bmh' cond1)))"

text \<open>Results: the object and the condition as the deferred call sees them, and the outcome.\<close>

definition reconcilePhases :: "'w env \<Rightarrow> ImageClusterInstallReconciler \<Rightarrow> nsname \<Rightarrow> ImageClusterInstall \<Rightarrow> ClusterDeployment option \<Rightarrow> ClusterInstallCondition \<Rightarrow> ('w world, ImageClusterInstall \<times> ClusterInstallCondition \<times> (Result \<times> goerr option) outcome) go" where
  "reconcilePhases env r req ici cd cond =
     bindM (validateConfiguration env ici cd (cond\<lparr>cc_Reason := ConfigurationPendingReason\<rparr>)) (\<lambda>(cond1, bmh, err).
       case (cd, bmh, err) of
         (Some cd', Some bmh', None) \<Rightarrow> validateHostPhase env r req ici cd' bmh' cond1
       | _ \<Rightarrow> returnM (ici, cond1, Ret (zeroResult, err)))"

definition reconcileRequirements :: "'w env \<Rightarrow> ImageClusterInstallReconciler \<Rightarrow> nsname \<Rightarrow> ImageClusterInstall \<Rightarrow> ClusterDeployment option \<Rightarrow> ('w world, Result \<times> goerr option) go" where
  "reconcileRequirements env r req ici cd =
     bindM (reconcilePhases env r req ici cd (mkCond ClusterInstallRequirementsMet ConditionFalse ''Unknown'' ''Unknown''))
       (\<lambda>(ici', cond, out).
          bindM (setRequirementsMetCondition env ici' (cc_Status cond) (cc_Reason cond) (cc_Message cond)) (\<lambda>_.
            case out of Ret v \<Rightarrow> returnM v | Panic p \<Rightarrow> panicM p))"

definition reconcileInstall :: "'w env \<Rightarrow> ImageClusterInstallReconciler \<Rightarrow> nsname \<Rightarrow> ImageClusterInstall \<Rightarrow> ClusterDeployment option \<Rightarrow> ('w world, Result \<times> goerr option) go" where
  "reconcileInstall env r req ici cd =
     bindM (alreadyStarted env r ici) (\<lambda>(done, ici1).
       if done then returnM (zeroResult, None)
       else if iciIsBeingRestored ici1 then returnM (zeroResult, None)
       else
         bindM (ensureRestoreStatusAnnotation env ici1) (\<lambda>(e2, ici2). case e2 of
           Some err \<Rightarrow> returnM (zeroResult, Some err)
         | None \<Rightarrow>
             bindM (ensurePostCleanupAnnotation env ici2) (\<lambda>(e3, ici3). case e3 of
               Some err \<Rightarrow> returnM (zeroResult, Some err)
             | None \<Rightarrow>
                 bindM (initializeConditions env ici3) (\<lambda>(e4, ici4). case e4 of
                   Some err \<Rightarrow> returnM (zeroResult, Some err)
                 | None \<Rightarrow> reconcileRequirements env r req ici4 cd))))"

text \<open>The reconcile of the object that was read.\<close>

definition reconcileObject :: "'w env \<Rightarrow> ImageClusterInstallReconciler \<Rightarrow> nsname \<Rightarrow> ImageClusterInstall \<Rightarrow> ('w world, Result \<times> goerr option) go" where
  "reconcileObject env r req ici =
     bindM (handleFinalizer env r ici) (\<lambda>(res, stop, err, ici').
       if \<not> Result_IsZero res \<or> stop \<or> err \<noteq> None then returnM (res, err)
       else
         bindM (referencedCD env ici') (\<lambda>cd.
         bindM (labelReferencedObjectsForBackup env ici' cd) (\<lambda>_.
           if InstallationCompleted ici' then
             bindM (handlePostCleanup env ici') (\<lambda>(res, err). case err of
               Some e \<Rightarrow> returnM (zeroResult, Some e)
             | None \<Rightarrow> returnM (res, None))
           else reconcileInstall env r req ici' cd)))"

definition Reconcile :: "'w env \<Rightarrow> ImageClusterInstallReconciler \<Rightarrow> nsname \<Rightarrow> ('w world, Result \<times> goerr option) go" where
  "Reconcile env r req =
     bindM (hubM (get_ImageClusterInstall env req)) (\<lambda>g. case g of
       Inl err \<Rightarrow> returnM (zeroResult, IgnoreNotFound err)
     | Inr ici \<Rightarrow> reconcileObject env r req ici)"

section \<open>Watches\<close>

definition Group :: string where
  "Group = ''extensions.hive.openshift.io''"

definition mapBMHToICI :: "'w env \<Rightarrow> nsname \<Rightarrow> ('w world, nsname list) go" where
  "mapBMHToICI env obj =
     bindM (hubM (get_BareMetalHost env obj)) (\<lambda>b. case b of
       Inl err \<Rightarrow> returnM []
     | Inr _ \<Rightarrow>
         bindM (hubM (list_ImageClusterInstall_by_host env (snd obj) (fst obj))) (\<lambda>l. case l of
           Inl err \<Rightarrow> returnM []
         | Inr items \<Rightarrow>
             returnM (map (\<lambda>ici. key_of (ici_Meta ici)) (filter (\<lambda>ici. Time_IsZero (st_BootTime (ici_Status ici))) items))))"

definition mapCDToICI :: "'w env \<Rightarrow> nsname \<Rightarrow> ('w world, nsname list) go" where
  "mapCDToICI env obj =
     bindM (hubM (get_ClusterDeployment env obj)) (\<lambda>c. case c of
       Inl err \<Rightarrow> returnM []
     | Inr cd \<Rightarrow>
         (case cd_ClusterInstallRef cd of
            None \<Rightarrow> returnM []
          | Some ref \<Rightarrow>
              if cir_Group ref = Group \<and> cir_Kind ref = ''ImageClusterInstall''
              then returnM [(fst obj, cir_Name ref)] else returnM []))"

text \<open>The values under which the cache indexes an ImageClusterInstall.\<close>

definition index_bareMetalHostRef_name :: "ImageClusterInstall \<Rightarrow> string list" where
  "index_bareMetalHostRef_name ici =
     (case sp_BareMetalHostRef (ici_Spec ici) of None \<Rightarrow> [] | Some ref \<Rightarrow> [bmhr_Name ref])"

definition index_bareMetalHostRef_namespace :: "ImageClusterInstall \<Rightarrow> string list" where
  "index_bareMetalHostRef_namespace ici =
     (case sp_BareMetalHostRef (ici_Spec ici) of None \<Rightarrow> [] | Some ref \<Rightarrow> [bmhr_Namespace ref])"

section \<open>What the phases achieve\<close>

text \<open>How the reason of an unmet requirement fits the way the reconcile ends: pending reasons without
  an error, with the interval of the phase; failures with an error; a panic as the failure of the
  phase it happened in.\<close>

definition explains :: "duration \<Rightarrow> string \<Rightarrow> (Result \<times> goerr option) outcome \<Rightarrow> bool" where
  "explains cooldown reason out \<longleftrightarrow>
     (case out of
        Panic _ \<Rightarrow> reason \<in> {HostValidationFailedReason, ImageCreationFailedReason}
      | Ret (res, err) \<Rightarrow>
          if err \<noteq> None
          then res = zeroResult \<and> reason \<in> {ConfigurationFailedReason, HostValidationFailedReason,
                 ImageCreationFailedReason, HostConfigurationFailedReason}
          else reason = ConfigurationPendingReason \<and> res = zeroResult
            \<or> reason = HostValidationPendingReason \<and> res = requeueAfter (seconds 30)
            \<or> reason = ImageCreationPendingReason \<and> res = requeueAfter (seconds 5)
            \<or> reason = HostConfigurationPendingReason
              \<and> res \<in> {zeroResult, requeueAfter (seconds 30), requeueAfter cooldown})"

text \<open>The end of the phases: the requirement is met, or the condition says why not.\<close>

definition phases_end :: "duration \<Rightarrow> bool \<Rightarrow> ClusterInstallCondition \<Rightarrow> (Result \<times> goerr option) outcome \<Rightarrow> bool" where
  "phases_end cooldown achieved cond out \<longleftrightarrow>
     (if cc_Status cond = ConditionTrue
      then achieved \<and> out = Ret (zeroResult, None)
         \<and> cc_Reason cond = HostConfigurationSucceededReason \<and> cc_Message cond = attachedMessage
      else cc_Status cond = ConditionFalse \<and> explains cooldown (cc_Reason cond) out)"

abbreviation cooldown_of :: "ImageClusterInstallReconciler \<Rightarrow> duration" where
  "cooldown_of r \<equiv> opt_DataImageCoolDownPeriod (rc_Options r)"

text \<open>The postcondition of a phase started at history \<open>t\<close> that achieves \<open>A\<close> of the requests it issued.\<close>

definition phases_post :: "duration \<Rightarrow> event list \<Rightarrow> (event list \<Rightarrow> bool) \<Rightarrow> ImageClusterInstall \<times> ClusterInstallCondition \<times> (Result \<times> goerr option) outcome \<Rightarrow> 'w world \<Rightarrow> bool" where
  "phases_post cooldown t A = (\<lambda>(ici', cond', out) s'. \<exists>es. Trace s' = t @ es \<and> phases_end cooldown (A es) cond' out)"

lemma phases_post_stop:
  "Trace s' = t @ es \<Longrightarrow> cc_Status cond = ConditionFalse \<Longrightarrow> explains c (cc_Reason cond) out \<Longrightarrow>
    phases_post c t A (ici, cond, out) s'"
  by (simp add: phases_post_def phases_end_def)

lemma wp_phase_after:
  assumes "wp m (phases_post c (Trace s1) A) E s1" and "Trace s1 = t @ pre" and "\<And>es. A es \<Longrightarrow> B (pre @ es)"
  shows "wp m (phases_post c t B) E s1"
proof (rule wp_mono [OF assms(1)], goal_cases)
  case (1 y s2)
  then obtain es where "Trace s2 = Trace s1 @ es" "phases_end c (A es) (fst (snd y)) (snd (snd y))"
    by (auto simp: phases_post_def)
  then show ?case
    using assms(2,3) by (auto simp: phases_post_def phases_end_def intro!: exI [of _ "pre @ es"] split: if_splits)
qed

lemma wp_configureHostPhase:
  assumes "cc_Status cond = ConditionFalse"
  shows "wp (configureHostPhase env r ici url bmh cond)
    (phases_post (cooldown_of r) (Trace s) (host_configured r ici url bmh)) (\<lambda>_ _. False) s"
  unfolding configureHostPhase_def wp_bindM
proof (rule wp_mono [OF wp_configureHost], goal_cases)
  case (1 x s1)
  obtain cond' ici' continue res err where x: "x = (cond', ici', continue, res, err)" by (metis prod_cases5)
  show ?case
  proof (cases continue)
    case True
    then show ?thesis using 1 unfolding x by (auto simp: wp phases_post_def phases_end_def)
  next
    case False
    then show ?thesis
      using 1 assms unfolding x by (auto simp: wp explains_def intro!: phases_post_stop split: if_splits)
  qed
qed simp

text \<open>The image is on disk with its credentials, its URL names it, and the host got it.\<close>

definition image_attached :: "'w env \<Rightarrow> ImageClusterInstallReconciler \<Rightarrow> nsname \<Rightarrow> ImageClusterInstall \<Rightarrow> ClusterDeployment \<Rightarrow> BareMetalHost \<Rightarrow> event list \<Rightarrow> bool" where
  "image_attached env r req ici cd bmh es \<longleftrightarrow>
     (\<exists>image host url. es = image @ host
        \<and> image_ready env cd (isoWorkDir_of r ici) image
        \<and> url_JoinPath env (rc_BaseURL r) [''images'', fst req, om_UID (ici_Meta ici) @ ''.iso''] = Inr url
        \<and> host_configured r ici url bmh host)"

lemma emits_any_createImage: "emits (\<lambda>_. True) (createImage env r ici req bmh cd cond)"
  by (rule emits_createImage) simp_all

lemma wp_createImagePhase:
  assumes "cc_Status cond = ConditionFalse"
  shows "wp (createImagePhase env r req ici cd bmh cond)
    (phases_post (cooldown_of r) (Trace s) (image_attached env r req ici cd bmh)) (\<lambda>_ _. False) s"
  unfolding createImagePhase_def Let_def wp_bindM wp_catchM
proof (rule wp_mono [OF wp_extends [OF emits_any_createImage wp_createImage]], goal_cases)
  case (1 x s1)
  obtain cond' url res err where x: "x = (cond', url, res, err)" by (metis prod_cases4)
  show ?case
  proof (cases "err = None \<and> Result_IsZero res")
    case True
    then obtain image where image: "image_ready env cd (isoWorkDir_of r ici) image" "Trace s1 = Trace s @ image"
      and url: "url_JoinPath env (rc_BaseURL r) [''images'', fst req, om_UID (ici_Meta ici) @ ''.iso''] = Inr url"
      and cond': "cc_Status cond' = ConditionFalse"
      using 1 assms unfolding x by auto
    have "image_attached env r req ici cd bmh (image @ host)" if "host_configured r ici url bmh host" for host
      using that image(1) url unfolding image_attached_def by blast
    then show ?thesis
      using True wp_phase_after [OF wp_configureHostPhase [OF cond'] image(2)] unfolding x by simp
  next
    case False
    then show ?thesis
      using 1 assms unfolding x
      by (auto simp: wp extends_def explains_def intro!: phases_post_stop split: if_splits)
  qed
next
  case (2 p s1)
  then show ?case
    using assms by (auto simp: wp extends_def explains_def intro!: phases_post_stop)
qed

text \<open>The identity of the cluster is in the object: it was before, or an accepted patch put it there.\<close>

definition identity_set :: "ClusterDeployment \<Rightarrow> ImageClusterInstall \<Rightarrow> ImageClusterInstall \<Rightarrow> event list \<Rightarrow> bool" where
  "identity_set cd ici ici' es \<longleftrightarrow>
     es = [] \<and> ici' = ici
       \<and> (\<exists>md. sp_ClusterMetadata (ici_Spec ici) = Some md \<and> md_ClusterID md \<noteq> [] \<and> md_InfraID md \<noteq> [])
     \<or> (\<exists>md. keeps_ids cd (sp_ClusterMetadata (ici_Spec ici)) md \<and> es = [EvPatchICI ici (with_metadata md ici) True])"

definition host_ready :: "'w env \<Rightarrow> ImageClusterInstallReconciler \<Rightarrow> nsname \<Rightarrow> ImageClusterInstall \<Rightarrow> ClusterDeployment \<Rightarrow> BareMetalHost \<Rightarrow> event list \<Rightarrow> bool" where
  "host_ready env r req ici cd bmh es \<longleftrightarrow>
     (\<exists>valid ident attached bmh' ici'. es = valid @ ident @ attached
        \<and> host_validated env ici bmh bmh' valid
        \<and> identity_set cd ici ici' ident
        \<and> image_attached env r req ici' cd bmh' attached)"

lemma host_readyI:
  "host_validated env ici bmh bmh' valid \<Longrightarrow> identity_set cd ici ici' ident \<Longrightarrow>
    image_attached env r req ici' cd bmh' attached \<Longrightarrow> host_ready env r req ici cd bmh (valid @ ident @ attached)"
  unfolding host_ready_def by blast

lemma wp_identity:
  "wp (setClusterInstallMetadata env ici cd)
     (\<lambda>(err, ici') s'. \<exists>es. Trace s' = Trace s @ es \<and> (if err = None then identity_set cd ici ici' es else True))
     (\<lambda>_ s'. s' = s) s"
  by (rule wp_mono [OF wp_setClusterInstallMetadata])
    (auto simp: identity_set_def split: option.splits)

lemma wp_validateHostPhase:
  assumes "cc_Status cond = ConditionFalse"
  shows "wp (validateHostPhase env r req ici cd bmh cond)
    (phases_post (cooldown_of r) (Trace s) (host_ready env r req ici cd bmh)) (\<lambda>_ _. False) s"
  unfolding validateHostPhase_def wp_bindM [of "validateHost _ _ _ _"]
proof (rule wp_mono [OF wp_validateHost], goal_cases)
  case (1 x s1)
  obtain cond1 bmh' res err where x: "x = (cond1, bmh', res, err)" by (metis prod_cases4)
  show ?case
  proof (cases "err = None \<and> Result_IsZero res")
    case False
    then show ?thesis
      using 1 assms unfolding x by (auto simp: wp explains_def intro!: phases_post_stop split: if_splits)
  next
    case True
    then obtain valid where valid: "host_validated env ici bmh bmh' valid" "Trace s1 = Trace s @ valid"
      and cond1: "cond1 = cond\<lparr>cc_Reason := HostValidationFailedReason\<rparr>"
      using 1 unfolding x by auto
    have image: "wp (createImagePhase env r req ici' cd bmh' cond1)
        (phases_post (cooldown_of r) (Trace s) (host_ready env r req ici cd bmh)) (\<lambda>_ _. False) s2"
      if "identity_set cd ici ici' ident" "Trace s2 = Trace s1 @ ident" for ici' ident s2
      by (rule wp_phase_after [OF wp_createImagePhase, where pre = "valid @ ident"])
        (use that valid in \<open>auto simp: cond1 assms intro: host_readyI\<close>)
    have "wp (setClusterInstallMetadata env ici cd)
       (\<lambda>a. wp (case a of (e, ici') \<Rightarrow> (case e of
            Some err \<Rightarrow> returnM (ici', cond1\<lparr>cc_Message := ''failed to set ClusterMetaData in ImageClusterInstall''\<rparr>, Ret (zeroResult, Some err))
          | None \<Rightarrow> createImagePhase env r req ici' cd bmh' cond1))
          (phases_post (cooldown_of r) (Trace s) (host_ready env r req ici cd bmh)) (\<lambda>_ _. False))
       (\<lambda>p. phases_post (cooldown_of r) (Trace s) (host_ready env r req ici cd bmh) (ici, cond1, Panic p)) s1"
    proof (rule wp_mono [OF wp_identity], goal_cases)
      case (1 y s2)
      then obtain ident where "Trace s2 = Trace s1 @ ident"
        "fst y = None \<Longrightarrow> identity_set cd ici (snd y) ident" by auto
      then show ?case
        using image valid(2) cond1 assms
        by (cases y; cases "fst y") (auto simp: wp explains_def intro!: phases_post_stop)
    qed (use valid cond1 assms in \<open>auto simp: explains_def intro!: phases_post_stop\<close>)
    then show ?thesis
      using True unfolding x by (simp add: wp_bindM wp_catchM wp_returnM_fun)
  qed
qed simp

text \<open>All requirements of an installation, in the order in which they are met.\<close>

definition requirements_met :: "'w env \<Rightarrow> ImageClusterInstallReconciler \<Rightarrow> nsname \<Rightarrow> ImageClusterInstall \<Rightarrow> ClusterDeployment option \<Rightarrow> event list \<Rightarrow> bool" where
  "requirements_met env r req ici cd es \<longleftrightarrow>
     (\<exists>secured ready ref bmh cd'. es = secured @ ready \<and> cd = Some cd'
        \<and> sp_BareMetalHostRef (ici_Spec ici) = Some ref \<and> host_secured env ref bmh secured
        \<and> host_ready env r req ici cd' bmh ready)"

lemma wp_reconcilePhases:
  assumes "cc_Status cond = ConditionFalse"
  shows "wp (reconcilePhases env r req ici cd cond)
    (phases_post (cooldown_of r) (Trace s) (requirements_met env r req ici cd)) (\<lambda>_ _. False) s"
  unfolding reconcilePhases_def wp_bindM
proof (rule wp_mono [OF wp_validateConfiguration], goal_cases)
  case (1 x s1)
  obtain cond1 bmh err where x: "x = (cond1, bmh, err)" by (metis prod_cases3)
  show ?case
  proof (cases bmh)
    case None
    then show ?thesis
      using 1 assms unfolding x by (cases cd) (auto simp: wp explains_def intro!: phases_post_stop split: if_splits)
  next
    case (Some b)
    then obtain cd' ref secured where ok: "cd = Some cd'" "err = None" "sp_BareMetalHostRef (ici_Spec ici) = Some ref"
        "host_secured env ref b secured" "Trace s1 = Trace s @ secured" "cc_Status cond1 = ConditionFalse"
      using 1 assms unfolding x by auto
    then have "requirements_met env r req ici cd (secured @ es)" if "host_ready env r req ici cd' b es" for es
      using that unfolding requirements_met_def by blast
    then show ?thesis
      using wp_phase_after [OF wp_validateHostPhase [OF ok(6)] ok(5)] unfolding x Some ok(1,2) by simp
  qed
qed simp

section \<open>What a reconcile may request\<close>

definition metadata_patch :: "event \<Rightarrow> bool" where
  "metadata_patch e \<longleftrightarrow> (\<exists>i md b. e = EvPatchICI i (with_metadata md i) b)"

definition annotation_patch :: "event \<Rightarrow> bool" where
  "annotation_patch e \<longleftrightarrow>
     (\<exists>i k v b. e = EvPatchICI i (i\<lparr>ici_Meta := fst (setAnnotationIfNotExists (ici_Meta i) k v)\<rparr>) b
        \<and> k \<in> {restoreStatusAnnotation, postCleanupAnnotation} \<and> \<not> annotationExists (ici_Meta i) k)"

text \<open>The three patches that prepare a host.\<close>

definition preparation :: "event \<Rightarrow> bool" where
  "preparation e \<longleftrightarrow>
     (\<exists>h b. e = EvPatchBMH h (h\<lparr>bmh_AutomatedCleaningMode := CleaningModeDisabled\<rparr>) b)
     \<or> (\<exists>h b. e = EvPatchBMH h (h\<lparr>bmh_ExternallyProvisioned := True\<rparr>) b)
     \<or> (\<exists>h d b. e = EvPatchBMH h (provisioned_host h d) b \<and> \<not> annotationExists (bmh_Meta h) ibioManagedBMH
          \<and> bmh_ProvisioningState h \<in> {StateAvailable, StateExternallyProvisioned})"

lemma preparation_intros:
  "preparation (EvPatchBMH h (h\<lparr>bmh_AutomatedCleaningMode := CleaningModeDisabled\<rparr>) b)"
  "preparation (EvPatchBMH h (h\<lparr>bmh_ExternallyProvisioned := True\<rparr>) b)"
  "\<not> annotationExists (bmh_Meta h) ibioManagedBMH \<Longrightarrow>
    bmh_ProvisioningState h = StateAvailable \<or> bmh_ProvisioningState h = StateExternallyProvisioned \<Longrightarrow>
    preparation (EvPatchBMH h (provisioned_host h d) b)"
  unfolding preparation_def by blast+

definition install_request :: "event \<Rightarrow> bool" where
  "install_request e \<longleftrightarrow>
     fs_event e \<or> (\<exists>cd. credential_event cd e) \<or> annotation_patch e \<or> metadata_patch e
     \<or> (\<exists>i i' b. e = EvPatchICIStatus i i' b \<and> status_step i i') \<or> preparation e \<or> (\<exists>d b. e = EvCreateDataImage d b)"

lemma install_request_intros:
  "fs_event e \<Longrightarrow> install_request e" "credential_event cd e \<Longrightarrow> install_request e"
  "annotation_patch e \<Longrightarrow> install_request e" "metadata_patch e \<Longrightarrow> install_request e"
  "status_step i i' \<Longrightarrow> install_request (EvPatchICIStatus i i' b)" "preparation e \<Longrightarrow> install_request e"
  "install_request (EvCreateDataImage d b)"
  unfolding install_request_def by blast+

lemma emits_validateConfiguration [emits_intro]:
  "(\<And>e. preparation e \<Longrightarrow> P e) \<Longrightarrow> emits P (validateConfiguration env ici cd cond)"
  unfolding validateConfiguration_def Patch_BMH_def
  by (intro emits_intro) (auto intro: preparation_intros)

lemma emits_validateHost [emits_intro]:
  "(\<And>e. preparation e \<Longrightarrow> P e) \<Longrightarrow> emits P (validateHost env ici bmh cond)"
  unfolding validateHost_def Patch_BMH_def
  by (intro emits_intro) (auto intro: preparation_intros)

lemma emits_setClusterInstallMetadata [emits_intro]:
  "(\<And>e. metadata_patch e \<Longrightarrow> P e) \<Longrightarrow> emits P (setClusterInstallMetadata env ici cd)"
  unfolding setClusterInstallMetadata_def Patch_ICI_def Let_def
  by (intro emits_intro) (auto simp: metadata_patch_def)

lemma emits_updateBMHProvisioningState [emits_intro]:
  "(\<And>e. preparation e \<Longrightarrow> P e) \<Longrightarrow> emits P (updateBMHProvisioningState env bmh d)"
  unfolding updateBMHProvisioningState_def Patch_BMH_def
  by (intro emits_intro) (auto intro: preparation_intros)

lemma emits_setStarted [emits_intro]:
  "(\<And>i i' b. status_step i i' \<Longrightarrow> P (EvPatchICIStatus i i' b)) \<Longrightarrow> emits P (setStarted env ici)"
  unfolding setStarted_def Patch_ICI_Status_def
  by (intro emits_intro) (auto simp: status_step_def)

lemma emits_ensureBMHDataImage [emits_intro]:
  "(\<And>d b. P (EvCreateDataImage d b)) \<Longrightarrow> emits P (ensureBMHDataImage env bmh url)"
  unfolding ensureBMHDataImage_def getDataImage_def Let_def by (intro emits_intro)

lemma emits_ensureAnnotations [emits_intro]:
  assumes "\<And>e. annotation_patch e \<Longrightarrow> P e"
  shows "emits P (ensureRestoreStatusAnnotation env ici)" "emits P (ensurePostCleanupAnnotation env ici)"
proof -
  have patch: "emits P (Patch_ICI env ici (ici\<lparr>ici_Meta := meta\<rparr>))"
    if ann: "setAnnotationIfNotExists (ici_Meta ici) k v = (meta, True)"
      and k: "k \<in> {restoreStatusAnnotation, postCleanupAnnotation}" for k v meta
  proof -
    have "annotation_patch (EvPatchICI ici (ici\<lparr>ici_Meta := fst (setAnnotationIfNotExists (ici_Meta ici) k v)\<rparr>) b)" for b
      using ann k setAnnotation_reports [of "ici_Meta ici" k v] unfolding annotation_patch_def by (metis snd_conv)
    then show ?thesis
      unfolding Patch_ICI_def by (intro emits_patchM assms) (simp add: ann)
  qed
  show "emits P (ensureRestoreStatusAnnotation env ici)" "emits P (ensurePostCleanupAnnotation env ici)"
    unfolding ensureRestoreStatusAnnotation_def ensurePostCleanupAnnotation_def
    by (intro emits_intro; simp add: patch)+
qed

lemma emits_referencedCD [emits_intro]: "emits P (referencedCD env ici)"
  unfolding referencedCD_def getCD_def by (intro emits_intro)

lemma emits_alreadyStarted [emits_intro]:
  "(\<And>i i' b. status_step i i' \<Longrightarrow> P (EvPatchICIStatus i i' b)) \<Longrightarrow> emits P (alreadyStarted env r ici)"
  unfolding alreadyStarted_def verifyIsoAndAuthExists_def by (intro emits_intro)

lemma emits_reconcileInstall:
  assumes "\<And>e. install_request e \<Longrightarrow> P e"
  shows "emits P (reconcileInstall env r req ici cd)"
  unfolding reconcileInstall_def reconcileRequirements_def reconcilePhases_def validateHostPhase_def createImagePhase_def
    configureHostPhase_def configureHost_def startHost_def Let_def
  by (intro emits_intro; intro assms; blast intro: install_request_intros)

text \<open>What the state of the object allows.\<close>

definition allowed :: "ImageClusterInstall \<Rightarrow> event \<Rightarrow> bool" where
  "allowed ici e \<longleftrightarrow>
     (if \<not> DeletionTimestamp_IsZero (ici_Meta ici) then finalizer_patch e \<or> fs_event e \<or> detach_request e
      else if clusterInstallFinalizerName \<notin> set (om_Finalizers (ici_Meta ici)) then finalizer_patch e
      else backup_patch e
        \<or> (if InstallationCompleted ici then detach_request e
           else \<not> iciIsBeingRestored ici \<and> install_request e))"

lemma emits_deleting:
  assumes "\<not> DeletionTimestamp_IsZero (ici_Meta ici)"
  shows "emits (allowed ici) (reconcileObject env r req ici)"
  unfolding reconcileObject_def
proof (rule emits_bindM_wp [OF emits_handleFinalizer, where R = "\<lambda>(_, stop, _). stop"], goal_cases)
  case (5 s)
  show ?case
    by (rule wp_mono [OF wp_handleFinalizer]) (use assms in \<open>auto simp: deletion_end_def\<close>)
next
  case (6 x)
  then show ?case by (cases x) (auto intro: emits_intro)
qed (use assms in \<open>auto simp: allowed_def detach_request_def\<close>)

lemma emits_adding_finalizer:
  assumes "DeletionTimestamp_IsZero (ici_Meta ici)" "clusterInstallFinalizerName \<notin> set (om_Finalizers (ici_Meta ici))"
  shows "emits (allowed ici) (reconcileObject env r req ici)"
proof -
  have "reconcileObject env r req ici =
      bindM (Patch_ICI env ici (ici\<lparr>ici_Meta := (ici_Meta ici)\<lparr>om_Finalizers :=
        om_Finalizers (ici_Meta ici) @ [clusterInstallFinalizerName]\<rparr>\<rparr>)) (\<lambda>(err, ici'). returnM (\<lparr>rs_Requeue = True, rs_RequeueAfter = 0\<rparr>, err))"
    using assms by (auto simp: reconcileObject_def handleFinalizer_def AddFinalizer_def list_ex_iff bindM_assoc
        intro!: arg_cong [of _ _ "bindM _"] split: prod.split)
  then show ?thesis
    using assms by (auto simp: Patch_ICI_def allowed_def intro!: emits_intro finalizer_patchI)
qed

lemma reconcileInstall_restored:
  "iciIsBeingRestored ici \<Longrightarrow> reconcileInstall env r req ici cd = returnM (zeroResult, None)"
  by (simp add: reconcileInstall_def alreadyStarted_def iciIsBeingRestored_def)

lemma emits_reconcileObject: "emits (allowed ici) (reconcileObject env r req ici)"
proof (cases "DeletionTimestamp_IsZero (ici_Meta ici) \<and> clusterInstallFinalizerName \<in> set (om_Finalizers (ici_Meta ici))")
  case True
  then have install: "emits (allowed ici) (reconcileInstall env r req ici cd)" if "\<not> InstallationCompleted ici" for cd
    using that reconcileInstall_restored [of ici env r req cd]
    by (cases "iciIsBeingRestored ici") (auto simp: allowed_def intro!: emits_reconcileInstall emits_returnM)
  have cleanup: "emits (allowed ici) (handlePostCleanup env ici)" if "InstallationCompleted ici"
    by (rule emits_handlePostCleanup) (use that True in \<open>auto simp: allowed_def detach_request_def\<close>)
  show ?thesis
    unfolding reconcileObject_def using True
    by (auto simp: handleFinalizer_present allowed_def intro!: emits_bindM emits_referencedCD emits_labelReferenced
        install cleanup emits_returnM split: prod.split option.split)
qed (use emits_deleting emits_adding_finalizer in blast)

section \<open>The reconciler as a writer of statuses\<close>

lemma install_request_status: "install_request e \<Longrightarrow> status_request e"
  by (auto simp: install_request_def credential_event_def annotation_patch_def metadata_patch_def with_metadata_def
      preparation_def)

lemma allowed_status: "allowed ici e \<Longrightarrow> status_request e"
  by (auto simp: allowed_def finalizer_patch_def detach_request_def backup_patch_def dest: install_request_status
      split: if_splits)

lemma emits_Reconcile_status: "emits status_request (Reconcile env r req)"
  unfolding Reconcile_def
  by (intro emits_intro emits_mono [OF emits_reconcileObject allowed_status])

interpretation reconciler: status_writer "Reconcile env r req" for env r req
  by unfold_locales (rule emits_Reconcile_status)

section \<open>Properties\<close>


text \<open>C5: What a reconcile touches depends on the state of the object. While an object is being deleted,
  a reconcile only touches its files, detaches its DataImage and takes the finalizer off. Before
  the finalizer is in place nothing but the finalizer is added. After completion, apart from backup
  labels, it only detaches the DataImage; while a restore is in progress it only sets backup
  labels. Otherwise every request is one of the installation: files, credentials, the restore and
  cleanup annotations, the cluster metadata, a step of the status machine, a preparation of the
  host, or the creation of a DataImage. An object that does not exist is left alone.\<close>
theorem Reconcile_allowed:
  "Reconcile env r req s =
     (case get_ImageClusterInstall env req (Hub s) of
        (Inl err, h) \<Rightarrow> (Ret (zeroResult, if IsNotFound err then None else Some err), s\<lparr>Hub := h\<rparr>)
      | (Inr ici, h) \<Rightarrow> reconcileObject env r req ici (s\<lparr>Hub := h\<rparr>))
   \<and> emits (allowed ici) (reconcileObject env r req ici)"
proof
  show "Reconcile env r req s =
     (case get_ImageClusterInstall env req (Hub s) of
        (Inl err, h) \<Rightarrow> (Ret (zeroResult, if IsNotFound err then None else Some err), s\<lparr>Hub := h\<rparr>)
      | (Inr ici, h) \<Rightarrow> reconcileObject env r req ici (s\<lparr>Hub := h\<rparr>))"
    by (simp add: Reconcile_def bindM_def hubM_def returnM_def IgnoreNotFound_def split: prod.split sum.split)
  show "emits (allowed ici) (reconcileObject env r req ici)"
    by (rule emits_reconcileObject)
qed

end
