(* ===== verification/Monitor.thy ===== *)
theory Monitor
  imports StatusMachine SpokeStatus Hosts
begin

text \<open>
  \<^verbatim>\<open>controllers/imageclusterinstall_monitor.go\<close>: the second controller, which follows a started
  installation until the cluster is up, and reports progress, timeout and completion in the status.
  The object is passed by pointer in the code; its new value is a result here.
\<close>

definition installTimeoutAnnotation :: string where
  "installTimeoutAnnotation = ''imageclusterinstall.extensions.hive.openshift.io/install-timeout''"

record ImageClusterInstallMonitor =
  mon_DefaultInstallTimeout :: duration
  mon_Options :: ImageClusterInstallReconcilerOptions

definition example_monitor :: ImageClusterInstallMonitor where
  "example_monitor = \<lparr>mon_DefaultInstallTimeout = minutes 60, mon_Options = example_options\<rparr>"

section \<open>Operations\<close>

text \<open>Setting the timeout conditions when the time is over; an error of the patch is logged.\<close>

definition expire :: "'w env \<Rightarrow> ImageClusterInstall \<Rightarrow> duration \<Rightarrow> ('w world, bool \<times> goerr option \<times> ImageClusterInstall) go" where
  "expire env ici timeout =
     bindM (hubM (time_Now env)) (\<lambda>now.
       if st_BootTime (ici_Status ici) + timeout < now then
         bindM (setClusterTimeoutConditions env ici (Duration_String timeout)) (\<lambda>(_, ici'). returnM (True, None, ici'))
       else returnM (False, None, ici))"

definition handleClusterTimeout :: "'w env \<Rightarrow> ImageClusterInstall \<Rightarrow> duration \<Rightarrow> ('w world, bool \<times> goerr option \<times> ImageClusterInstall) go" where
  "handleClusterTimeout env ici defaultTimeout =
     (if installationTimedout ici then returnM (True, None, ici)
      else case map_get (om_Annotations (ici_Meta ici)) installTimeoutAnnotation of
        None \<Rightarrow> expire env ici defaultTimeout
      | Some timeoutOverride \<Rightarrow>
          (case ParseDuration timeoutOverride of
             Inl err \<Rightarrow> returnM (False,
               Some (wrapf (''failed to parse install timeout annotation value '' @ timeoutOverride @ '': '') err), ici)
           | Inr timeout \<Rightarrow> expire env ici timeout))"

text \<open>Results: what to do next, whether to stop, the error.\<close>

definition handleDataImageDeletion :: "'w env \<Rightarrow> ImageClusterInstall \<Rightarrow> nsname \<Rightarrow> ('w world, Result \<times> bool \<times> goerr option) go" where
  "handleDataImageDeletion env ici bmhRef =
     bindM (getDataImage env (fst bmhRef) (snd bmhRef)) (\<lambda>d. case d of
       Inl err \<Rightarrow> if \<not> IsNotFound err then returnM (zeroResult, True, Some err) else returnM (zeroResult, False, None)
     | Inr dataImage \<Rightarrow>
         if \<not> DeletionTimestamp_IsZero (di_Meta dataImage) then
           bindM (setClusterInstallingConditions env ici ''Waiting for DataImage to be deleted'') (\<lambda>_.
             returnM (requeueAfter (minutes 1), True, None))
         else returnM (zeroResult, False, None))"

text \<open>The client of the installed cluster, given by its kubeconfig.\<close>

definition spokeClient :: "'w env \<Rightarrow> ImageClusterInstall \<Rightarrow> ('w world, goerr + string) go" where
  "spokeClient env ici =
     (let unset = errorf ''kubeconfig secret must be set to get spoke client'' in
      case sp_ClusterMetadata (ici_Spec ici) of
        None \<Rightarrow> returnM (Inl unset)
      | Some md \<Rightarrow>
          if md_AdminKubeconfigSecretRef md = [] then returnM (Inl unset)
          else
            let key = (om_Namespace (ici_Meta ici), md_AdminKubeconfigSecretRef md) in
            bindM (hubM (get_Secret env key)) (\<lambda>r. case r of
              Inl err \<Rightarrow> returnM (Inl (wrapf (''failed to get admin kubeconfig secret '' @ slashed key @ '': '') err))
            | Inr secret \<Rightarrow>
                if sec_Data secret = None
                then returnM (Inl (errorf (''Secret '' @ slashed (key_of (sec_Meta secret)) @ '' does not contain any data'')))
                else
                  (case map_get (sec_Data secret) ''kubeconfig'' of
                     None \<Rightarrow> returnM (Inl (errorf (''Secret data for '' @ slashed (key_of (sec_Meta secret)) @ '' does not contain kubeconfig'')))
                   | Some kubeconfig \<Rightarrow>
                       if kubeconfig = []
                       then returnM (Inl (errorf (''Secret data for '' @ slashed (key_of (sec_Meta secret)) @ '' does not contain kubeconfig'')))
                       else
                         (case kubeconfig_parse env kubeconfig of
                            Some err \<Rightarrow> returnM (Inl (wrapf ''failed to get clientconfig from kubeconfig data: '' err))
                          | None \<Rightarrow>
                              (case kubeconfig_rest env kubeconfig of
                                 Some err \<Rightarrow> returnM (Inl (wrapf ''failed to get restconfig for kube client: '' err))
                               | None \<Rightarrow>
                                   bindM (hubM (spoke_new env kubeconfig)) (\<lambda>e. case e of
                                     Some err \<Rightarrow> returnM (Inl (wrapv ''failed to initialize spoke client: '' err))
                                   | None \<Rightarrow> returnM (Inr kubeconfig)))))))"

text \<open>The branches of \<^verbatim>\<open>checkClusterStatus\<close> for a cluster that is not yet and that is installed.\<close>

definition stillInstalling :: "'w env \<Rightarrow> ImageClusterInstallMonitor \<Rightarrow> ImageClusterInstall \<Rightarrow> string \<Rightarrow> ('w world, Result \<times> goerr option) go" where
  "stillInstalling env r ici message =
     bindM (handleClusterTimeout env ici (mon_DefaultInstallTimeout r)) (\<lambda>(timedout, e, ici'). case e of
       Some err \<Rightarrow> returnM (zeroResult, Some err)
     | None \<Rightarrow>
         if timedout then returnM (requeueAfter (minutes 60), None)
         else
           bindM (setClusterInstallingConditions env ici' message) (\<lambda>_. returnM (requeueAfter (minutes 1), None)))"

definition finishInstall :: "'w env \<Rightarrow> ImageClusterInstall \<Rightarrow> nsname \<Rightarrow> ('w world, Result \<times> goerr option) go" where
  "finishInstall env ici bmhRef =
     bindM (removeBMHDataImage env bmhRef) (\<lambda>(_, e). case e of
       Some err \<Rightarrow> returnM (zeroResult, Some err)
     | None \<Rightarrow>
         bindM (handleDataImageDeletion env ici bmhRef) (\<lambda>(res, stop, e2).
           if stop \<or> e2 \<noteq> None then returnM (res, e2)
           else
             bindM (setClusterInstalledConditions env ici) (\<lambda>(e3, _). case e3 of
               Some err \<Rightarrow> returnM (zeroResult, Some err)
             | None \<Rightarrow> returnM (zeroResult, None))))"

definition checkClusterStatus :: "'w env \<Rightarrow> ImageClusterInstallMonitor \<Rightarrow> ImageClusterInstall \<Rightarrow> BareMetalHost \<Rightarrow> ('w world, Result \<times> goerr option) go" where
  "checkClusterStatus env r ici bmh =
     (let bmhRef = key_of (bmh_Meta bmh) in
      bindM (handleDataImageDeletion env ici bmhRef) (\<lambda>(res, stop, e).
        if stop \<or> e \<noteq> None then returnM (res, e)
        else
          bindM (spokeClient env ici) (\<lambda>c. case c of
            Inl err \<Rightarrow> returnM (zeroResult, Some err)
          | Inr client \<Rightarrow>
              bindM (GetClusterInstallStatus env client) (\<lambda>status.
                if \<not> inst_Installed status then stillInstalling env r ici (status_String status)
                else finishInstall env ici bmhRef))))"

definition monitorInstallationProgress :: "'w env \<Rightarrow> ImageClusterInstallMonitor \<Rightarrow> ImageClusterInstall \<Rightarrow> ('w world, Result \<times> goerr option) go" where
  "monitorInstallationProgress env r ici =
     bindM (getBMH env (st_BareMetalHostRef (ici_Status ici))) (\<lambda>b. case b of
       Inl err \<Rightarrow> returnM (zeroResult, Some err)
     | Inr bmh \<Rightarrow>
         if \<not> bmh_PoweredOn bmh then stillInstalling env r ici ''Waiting for BMH to power on''
         else
           bindM (checkClusterStatus env r ici bmh) (\<lambda>(res, e). case e of
             Some err \<Rightarrow> returnM (zeroResult, Some err)
           | None \<Rightarrow> returnM (res, None)))"

definition monitorObject :: "'w env \<Rightarrow> ImageClusterInstallMonitor \<Rightarrow> ImageClusterInstall \<Rightarrow> ('w world, Result \<times> goerr option) go" where
  "monitorObject env r ici =
     (if Time_IsZero (st_BootTime (ici_Status ici)) then returnM (zeroResult, None)
      else if InstallationCompleted ici then returnM (zeroResult, None)
      else monitorInstallationProgress env r ici)"

definition Monitor_Reconcile :: "'w env \<Rightarrow> ImageClusterInstallMonitor \<Rightarrow> nsname \<Rightarrow> ('w world, Result \<times> goerr option) go" where
  "Monitor_Reconcile env r req =
     bindM (hubM (get_ImageClusterInstall env req)) (\<lambda>g. case g of
       Inl err \<Rightarrow> returnM (zeroResult, IgnoreNotFound err)
     | Inr ici \<Rightarrow> monitorObject env r ici)"

section \<open>Lemmas\<close>

text \<open>A report of progress or of a timeout: at most one patch, a step that does not complete.\<close>

definition reported :: "ImageClusterInstall \<Rightarrow> event list \<Rightarrow> bool" where
  "reported ici es \<longleftrightarrow>
     es = [] \<or> (\<exists>i' b. es = [EvPatchICIStatus ici i' b] \<and> status_step ici i' \<and> \<not> InstallationCompleted i')"

lemma reported_Nil [simp]: "reported ici []"
  by (simp add: reported_def)

lemma set_by_reported: "set_by ici False err es \<Longrightarrow> reported ici es"
  by (auto simp: set_by_def reported_def)

lemma wp_handleClusterTimeout:
  assumes "\<not> InstallationCompleted ici"
  shows "wp (handleClusterTimeout env ici def)
    (\<lambda>(timedout, err, ici') s'. \<exists>es. Trace s' = Trace s @ es \<and> reported ici es
       \<and> (if timedout then err = None else es = [] \<and> ici' = ici)) (\<lambda>_ _. False) s"
proof (cases "installationTimedout ici")
  case False
  have expire: "wp (expire env ici d)
      (\<lambda>(timedout, err, ici') s'. \<exists>es. Trace s' = Trace s @ es \<and> reported ici es
         \<and> (if timedout then err = None else es = [] \<and> ici' = ici)) (\<lambda>_ _. False) s" for d
  proof -
    have over: "wp (setClusterTimeoutConditions env ici x)
        (\<lambda>_ s'. \<exists>es. Trace s' = Trace s @ es \<and> reported ici es) (\<lambda>_ _. False) (s\<lparr>Hub := h\<rparr>)" for x h
      by (rule wp_mono [OF wp_setters(2) [OF assms False]]) (auto dest: set_by_reported)
    show ?thesis
      unfolding expire_def by (auto simp: wp split: prod.split intro!: wp_mono [OF over])
  qed
  show ?thesis
    using False by (auto simp: handleClusterTimeout_def wp split: option.split sum.split intro!: wp_mono [OF expire])
qed (simp add: handleClusterTimeout_def wp)

lemma wp_stillInstalling:
  assumes "\<not> InstallationCompleted ici"
  shows "wp (stillInstalling env r ici message)
    (\<lambda>(res, err) s'. \<exists>es. Trace s' = Trace s @ es \<and> reported ici es
       \<and> (if err = None then res \<in> {requeueAfter (minutes 1), requeueAfter (minutes 60)} else res = zeroResult)) (\<lambda>_ _. False) s"
  unfolding stillInstalling_def wp_bindM [of "handleClusterTimeout _ _ _"]
proof (rule wp_mono [OF wp_handleClusterTimeout [OF assms]], goal_cases)
  case (1 x s1)
  have install: "wp (setClusterInstallingConditions env ici message)
      (\<lambda>_ s'. \<exists>es. Trace s' = Trace s1 @ es \<and> reported ici es) (\<lambda>_ _. False) s1"
    by (rule wp_mono [OF wp_setters(1) [OF assms]]) (auto dest: set_by_reported)
  show ?case
    using 1 by (cases x) (auto simp: wp split: option.split if_splits intro!: wp_mono [OF install])
qed simp

text \<open>The last read of the DataImage found none, or one that is not being deleted.\<close>

definition image_settled :: "'w env \<Rightarrow> nsname \<Rightarrow> 'w world \<Rightarrow> bool" where
  "image_settled env k s \<longleftrightarrow>
     (\<exists>e. IsNotFound e \<and> last_read env k (Inl e) s) \<or> (\<exists>d. DeletionTimestamp_IsZero (di_Meta d) \<and> last_read env k (Inr d) s)"

lemma wp_handleDataImageDeletion:
  assumes "\<not> InstallationCompleted ici"
  shows "wp (handleDataImageDeletion env ici k)
    (\<lambda>(res, stop, err) s'. \<exists>es. Trace s' = Trace s @ es \<and> reported ici es
       \<and> (if stop then res = (if err = None then requeueAfter (minutes 1) else zeroResult)
          else es = [] \<and> err = None \<and> image_settled env k s')) (\<lambda>_ _. False) s"
proof -
  have install: "wp (setClusterInstallingConditions env ici message)
      (\<lambda>_ s'. \<exists>es. Trace s' = Trace s @ es \<and> reported ici es) (\<lambda>_ _. False) (s\<lparr>Hub := h\<rparr>)" for message h
    by (rule wp_mono [OF wp_setters(1) [OF assms]]) (auto dest: set_by_reported)
  show ?thesis
    unfolding handleDataImageDeletion_def getDataImage_def
    by (auto simp: wp image_settled_def last_read_def split: prod.split sum.split intro!: wp_mono [OF install])
qed

text \<open>One run of the monitor on an installation in progress: it may detach the DataImage and then sends
  at most one status patch, a step; the DataImage is touched and completion is written only when
  the cluster has reported itself installed; without an error the run ends either with an interval
  after which it runs again, or with the accepted patch that completes the installation, sent after
  the last read found no DataImage that is still being deleted.\<close>

definition watched :: "'w env \<Rightarrow> ImageClusterInstall \<Rightarrow> event list \<Rightarrow> Result \<times> goerr option \<Rightarrow> bool" where
  "watched env ici es out \<longleftrightarrow> (case out of (res, err) \<Rightarrow>
     (\<exists>detach rest. es = detach @ rest \<and> list_all detach_request detach
        \<and> (detach = [] \<or> (\<exists>c h. spoke_installed env c h))
        \<and> (reported ici rest
             \<and> (if err = None then res \<in> {requeueAfter (minutes 1), requeueAfter (minutes 60)} else res = zeroResult)
           \<or> res = zeroResult
             \<and> (\<exists>i'. rest = [EvPatchICIStatus ici i' (err = None)] \<and> status_step ici i' \<and> InstallationCompleted i')
             \<and> (\<exists>c h. spoke_installed env c h) \<and> (\<exists>k s1. image_settled env k s1))))"

text \<open>The ways a run that detached \<open>detach\<close> can end.\<close>

definition detached :: "'w env \<Rightarrow> event list \<Rightarrow> bool" where
  "detached env detach \<longleftrightarrow> list_all detach_request detach \<and> (detach = [] \<or> (\<exists>c h. spoke_installed env c h))"

abbreviation watched_post :: "'w env \<Rightarrow> ImageClusterInstall \<Rightarrow> event list \<Rightarrow> Result \<times> goerr option \<Rightarrow> 'w world \<Rightarrow> bool" where
  "watched_post env ici t out s' \<equiv> \<exists>es. Trace s' = t @ es \<and> watched env ici es out"

lemma watched_stop:
  assumes "Trace s' = t @ detach @ rest" and "detached env detach" and "reported ici rest"
    and "if err = None then res \<in> {requeueAfter (minutes 1), requeueAfter (minutes 60)} else res = zeroResult"
  shows "watched_post env ici t (res, err) s'"
proof -
  have "watched env ici (detach @ rest) (res, err)"
    using assms(2-4) unfolding watched_def detached_def prod.case by blast
  then show ?thesis using assms(1) by blast
qed

lemma wp_complete:
  assumes "\<not> InstallationCompleted ici" and "Trace s = t @ detach" and "detached env detach"
    and "spoke_installed env c h" and "image_settled env k s"
  shows "wp (bindM (setClusterInstalledConditions env ici) (\<lambda>(e3, _). case e3 of
        Some err \<Rightarrow> returnM (zeroResult, Some err) | None \<Rightarrow> returnM (zeroResult, None)))
      (watched_post env ici t) (\<lambda>_ _. False) s"
  unfolding wp_bindM
proof (rule wp_mono [OF wp_setters(3) [OF assms(1)]], goal_cases)
  case (1 y s1)
  then obtain i' where i': "Trace s1 = t @ detach @ [EvPatchICIStatus ici i' (fst y = None)]"
      "status_step ici i'" "InstallationCompleted i'"
    using assms(2) by (auto simp: set_by_def)
  then have "watched env ici (detach @ [EvPatchICIStatus ici i' (fst y = None)]) (zeroResult, fst y)"
    using assms(3-5) unfolding watched_def detached_def prod.case by blast
  with i'(1) have "watched_post env ici t (zeroResult, fst y) s1" by blast
  then show ?case by (cases y) (auto simp: wp split: option.split)
qed simp

text \<open>A look at the DataImage, then \<open>k\<close> unless it is being deleted.\<close>

lemma wp_image_then:
  assumes "\<not> InstallationCompleted ici" and "Trace s = t @ detach" and "detached env detach"
    and go_on: "\<And>s1. Trace s1 = t @ detach \<Longrightarrow> image_settled env ref s1 \<Longrightarrow> wp m (watched_post env ici t) (\<lambda>_ _. False) s1"
  shows "wp (bindM (handleDataImageDeletion env ici ref) (\<lambda>(res, stop, e).
      if stop \<or> e \<noteq> None then returnM (res, e) else m)) (watched_post env ici t) (\<lambda>_ _. False) s"
  unfolding wp_bindM
proof (rule wp_mono [OF wp_handleDataImageDeletion [OF assms(1)]], goal_cases)
  case (1 y s1)
  obtain res halt err where y: "y = (res, halt, err)" by (metis prod_cases3)
  from 1 obtain es where es: "Trace s1 = Trace s @ es" "reported ici es"
    "if halt then res = (if err = None then requeueAfter (minutes 1) else zeroResult)
     else es = [] \<and> err = None \<and> image_settled env ref s1" unfolding y by blast
  have "Trace s1 = t @ detach @ es" using es(1) assms(2) by simp
  then show ?case
    using es(3) go_on [of s1] watched_stop [OF _ assms(3) es(2), of s1 t err res]
    by (cases halt) (auto simp: y wp_returnM split: if_splits)
qed simp

lemma wp_finishInstall:
  assumes "\<not> InstallationCompleted ici" and installed: "spoke_installed env c h"
  shows "wp (finishInstall env ici k) (watched_post env ici (Trace s)) (\<lambda>_ _. False) s"
  unfolding finishInstall_def wp_bindM [of "removeBMHDataImage _ _"]
proof (rule wp_mono [OF wp_detach], goal_cases)
  case (1 x s1)
  then obtain detach where detach: "Trace s1 = Trace s @ detach" "detached env detach"
    using installed unfolding detached_def by blast
  show ?case
    using wp_image_then [OF assms(1) detach wp_complete [OF assms(1) _ detach(2) installed]] detach(1)
      watched_stop [of s1 "Trace s" detach "[]", OF _ detach(2)]
    by (cases x) (auto simp: wp_returnM split: option.split)
qed simp

lemma detached_Nil: "detached env []"
  by (simp add: detached_def)

lemma wp_still_watched:
  assumes "\<not> InstallationCompleted ici"
  shows "wp (stillInstalling env r ici message) (watched_post env ici (Trace s)) (\<lambda>_ _. False) s"
proof (rule wp_mono [OF wp_stillInstalling [OF assms]], goal_cases)
  case (1 x s1)
  then show ?case
    using watched_stop [OF _ detached_Nil, of s1 "Trace s"] by (cases x) fastforce
qed simp

lemma wp_spokeClient: "wp (spokeClient env ici) (\<lambda>_ s'. Trace s' = Trace s) (\<lambda>_ _. False) s"
  unfolding spokeClient_def Let_def by (auto simp: wp split: option.split sum.split prod.split)

lemma wp_checkClusterStatus:
  assumes "\<not> InstallationCompleted ici"
  shows "wp (checkClusterStatus env r ici bmh) (watched_post env ici (Trace s)) (\<lambda>_ _. False) s"
  unfolding checkClusterStatus_def Let_def
proof (rule wp_image_then [OF assms _ detached_Nil], goal_cases)
  case (2 s1)
  show ?case
    unfolding wp_bindM [of "spokeClient _ _"]
  proof (rule wp_mono [OF wp_spokeClient], goal_cases)
    case (1 x s2)
    then have s2: "Trace s2 = Trace s" using 2 by simp
    show ?case
    proof (cases x)
      case (Inr client)
      obtain status h where run: "GetClusterInstallStatus env client s2 = (Ret status, s2\<lparr>Hub := h\<rparr>)"
        "inst_Installed status = spoke_installed env client (Hub s2)"
        using GetClusterInstallStatus_run [of env client s2] by (elim exE conjE)
      let ?s3 = "s2\<lparr>Hub := h\<rparr>"
      have t: "Trace ?s3 = Trace s" using s2 by simp
      have "wp (if \<not> inst_Installed status then stillInstalling env r ici (status_String status)
              else finishInstall env ici (key_of (bmh_Meta bmh))) (watched_post env ici (Trace s)) (\<lambda>_ _. False) ?s3"
        using wp_still_watched [OF assms, of env r "status_String status" ?s3]
          wp_finishInstall [OF assms, of env client "Hub s2" "key_of (bmh_Meta bmh)" ?s3] run(2) unfolding t by simp
      then show ?thesis
        unfolding Inr using run(1) by (simp add: wp_def bindM_def)
    qed (use s2 watched_stop [OF _ detached_Nil, of s2 "Trace s" "[]"] in \<open>simp add: wp_returnM\<close>)
  qed simp
qed simp

lemma wp_monitorObject:
  "wp (monitorObject env r ici)
     (\<lambda>out s'. if Time_IsZero (st_BootTime (ici_Status ici)) \<or> InstallationCompleted ici
        then s' = s \<and> out = (zeroResult, None)
        else st_BareMetalHostRef (ici_Status ici) \<noteq> None \<and> watched_post env ici (Trace s) out s')
     (\<lambda>_ s'. s' = s \<and> \<not> Time_IsZero (st_BootTime (ici_Status ici)) \<and> \<not> InstallationCompleted ici
        \<and> st_BareMetalHostRef (ici_Status ici) = None) s"
proof (cases "Time_IsZero (st_BootTime (ici_Status ici)) \<or> InstallationCompleted ici")
  case True
  then show ?thesis by (auto simp: monitorObject_def wp)
next
  case False
  then have nc: "\<not> InstallationCompleted ici" by simp
  show ?thesis
  proof (cases "st_BareMetalHostRef (ici_Status ici)")
    case None
    then show ?thesis
      using False by (simp add: monitorObject_def monitorInstallationProgress_def getBMH_def wp)
  next
    case (Some ref)
    have check: "wp (checkClusterStatus env r ici bmh) (watched_post env ici (Trace s)) (\<lambda>_ _. False) (s\<lparr>Hub := h\<rparr>)" for bmh h
      using wp_checkClusterStatus [OF nc, of env r bmh "s\<lparr>Hub := h\<rparr>"] by simp
    have still: "wp (stillInstalling env r ici m) (watched_post env ici (Trace s)) (\<lambda>_ _. False) (s\<lparr>Hub := h\<rparr>)" for m h
      using wp_still_watched [OF nc, of env r m "s\<lparr>Hub := h\<rparr>"] by simp
    have err: "watched_post env ici (Trace s) (zeroResult, Some e) (s\<lparr>Hub := h\<rparr>)" for e h
      by (rule watched_stop [OF _ detached_Nil, of _ _ "[]"]) simp_all
    have "watched env ici es (res, Some e) \<Longrightarrow> res = zeroResult" for es res e
      by (auto simp: watched_def)
    then have zero: "watched env ici es (res, Some e) \<Longrightarrow> watched env ici es (zeroResult, Some e)" for es res e
      by metis
    show ?thesis
      using False err
      by (auto simp: monitorObject_def monitorInstallationProgress_def getBMH_def Some wp split: prod.split sum.split option.split
          intro: zero intro!: wp_mono [OF check] wp_mono [OF still])
  qed
qed

lemma watched_status: "watched env ici es out \<Longrightarrow> \<forall>e \<in> set es. status_request e"
  by (auto simp: watched_def reported_def list_all_iff dest!: bspec detach_request_status)

lemma emits_Monitor_status: "emits status_request (Monitor_Reconcile env r req)"
proof -
  have "emits status_request (monitorObject env r ici)" for ici
    by (rule emits_wpI, rule wp_mono [OF wp_monitorObject]) (auto split: if_splits dest!: watched_status)
  then show ?thesis unfolding Monitor_Reconcile_def by (intro emits_intro)
qed

interpretation monitor: status_writer "Monitor_Reconcile env r req" for env r req
  by unfold_locales (rule emits_Monitor_status)

lemma wp_timeout_sent:
  assumes "\<not> installationTimedout ici"
  shows "wp (setClusterTimeoutConditions env ici d)
    (\<lambda>_ s'. \<exists>cs b. Trace s' = Trace s @ [EvPatchICIStatus ici (set_Conditions cs ici) b]
       \<and> installationTimedout (set_Conditions cs ici)) (\<lambda>_ _. False) s"
  unfolding setClusterTimeoutConditions_def
proof (rule wp_mono [OF wp_set3M], goal_cases)
  case (1 x s1)
  let ?p = "\<lambda>t1 t2 t3. conds.put3 t1 t2 t3 (conditionsOf ici)
     (mkCond ClusterInstallCompleted ConditionFalse InstallTimedoutReason (timeout_message d))
     (mkCond ClusterInstallStopped ConditionFalse InstallTimedoutReason InstallTimedoutMessage)
     (mkCond ClusterInstallFailed ConditionTrue InstallTimedoutReason (timeout_message d))"
  have "snd (?p t1 t2 t3)" for t1 t2 t3
    using assms by (auto simp: conds.put3_reports installationTimedout_view)
  then obtain t1 t2 t3 where "Trace s1 = Trace s @ [EvPatchICIStatus ici (set_Conditions (fst (?p t1 t2 t3)) ici) (fst x = None)]"
    using 1 by (cases x) (auto simp: Let_def)
  moreover have "installationTimedout (set_Conditions (fst (?p t1 t2 t3)) ici)"
    by (simp add: installationTimedout_view conds.put3_view)
  ultimately show ?case by blast
qed simp

section \<open>Properties\<close>


text \<open>C24: Timeouts. An installation that already timed out is reported as such without a request. An
  unreadable timeout annotation is an error without a request. Otherwise the timeout is the one of
  the annotation or else the default, the installation has timed out exactly when boot time plus
  timeout lies before the current time, and exactly then one status patch is sent, which sets
  Failed=True with the timeout reason and changes nothing but conditions.\<close>
theorem handleClusterTimeout_exact:
  "wp (handleClusterTimeout env ici defaultTimeout)
     (\<lambda>(timedout, err, ici') s'.
        if installationTimedout ici then s' = s \<and> timedout \<and> err = None
        else case (case map_get (om_Annotations (ici_Meta ici)) installTimeoutAnnotation of
                     None \<Rightarrow> Inr defaultTimeout | Some v \<Rightarrow> ParseDuration v) of
          Inl e \<Rightarrow> s' = s \<and> \<not> timedout \<and> err \<noteq> None
        | Inr timeout \<Rightarrow>
            err = None \<and> (timedout \<longleftrightarrow> st_BootTime (ici_Status ici) + timeout < fst (time_Now env (Hub s)))
            \<and> (if timedout
               then \<exists>cs b. Trace s' = Trace s @ [EvPatchICIStatus ici (set_Conditions cs ici) b]
                      \<and> installationTimedout (set_Conditions cs ici)
               else Trace s' = Trace s))
     (\<lambda>_ _. False) s"
proof (cases "installationTimedout ici")
  case False
  have over: "wp (setClusterTimeoutConditions env ici d)
      (\<lambda>_ s'. \<exists>cs b. Trace s' = Trace s @ [EvPatchICIStatus ici (set_Conditions cs ici) b]
         \<and> installationTimedout (set_Conditions cs ici)) (\<lambda>_ _. False) (s\<lparr>Hub := h\<rparr>)" for d h
    using wp_timeout_sent [OF False, of env d "s\<lparr>Hub := h\<rparr>"] by simp
  show ?thesis
    using False
    by (auto simp: handleClusterTimeout_def expire_def wp split: option.split sum.split prod.split intro!: wp_mono [OF over])
qed (simp add: handleClusterTimeout_def wp)

text \<open>C29: A timeout means what it says. An annotation that holds a duration as Go prints it is read back
  as that duration, for every 64 bit duration, and decides the timeout instead of the default.
  Whatever text the annotation holds, a duration read from it fits 64 bits.\<close>
theorem timeout_annotation_roundtrip:
  assumes "- (2 ^ 63) \<le> d" and "d < 2 ^ 63" and "\<not> installationTimedout ici"
    and "map_get (om_Annotations (ici_Meta ici)) installTimeoutAnnotation = Some (Duration_String d)"
  shows "handleClusterTimeout env ici defaultTimeout = expire env ici d
    \<and> (case ParseDuration annotation of Inl _ \<Rightarrow> True | Inr t \<Rightarrow> - (2 ^ 63) \<le> t \<and> t < 2 ^ 63)"
  using assms ParseDuration_String [of d] ParseDuration_bounds [of annotation]
  by (auto simp: handleClusterTimeout_def split: sum.split)

definition annotated_ici :: ImageClusterInstall where
  "annotated_ici = example_ici\<lparr>ici_Meta := (example_meta ''ici'')\<lparr>om_Annotations :=
     Some (Map.empty(installTimeoutAnnotation \<mapsto> Duration_String (minutes 90)))\<rparr>\<rparr>"

theorem timeout_annotation_roundtrip_witness:
  "handleClusterTimeout (idle_env :: unit env) annotated_ici (minutes 60) = expire idle_env annotated_ici (minutes 90)"
  using timeout_annotation_roundtrip [of "minutes 90" annotated_ici "idle_env :: unit env" "minutes 60"]
  by (simp add: annotated_ici_def example_defs installationTimedout_def)

end
