(* ===== verification/Webhook.thy ===== *)
theory Webhook
  imports HostNetworks
begin

text \<open>
  \<^verbatim>\<open>api/v1alpha1/imageclusterinstall_webhook.go\<close>: admission of ImageClusterInstalls. The SSH key parser
  is third-party code and a parameter \<open>ssh_ParseAuthorizedKey\<close>; the host-name check of
  apimachinery is modelled.
\<close>

section \<open>Host names\<close>

definition is_lower_alnum :: "char \<Rightarrow> bool" where
  "is_lower_alnum c = (let n = of_char c :: nat in (97 \<le> n \<and> n \<le> 122) \<or> (48 \<le> n \<and> n \<le> 57))"

text \<open>The expression \<^verbatim>\<open>[a-z0-9]([-a-z0-9]*[a-z0-9])?\<close> on a whole label.\<close>

definition dns1123Label :: "string \<Rightarrow> bool" where
  "dns1123Label l \<longleftrightarrow> l \<noteq> [] \<and> is_lower_alnum (hd l) \<and> is_lower_alnum (last l)
     \<and> list_all (\<lambda>c. is_lower_alnum c \<or> c = CHR ''-'') l"

definition dns1123Subdomain :: "string \<Rightarrow> bool" where
  "dns1123Subdomain s = list_all dns1123Label (split_on (CHR ''.'') s)"

definition MaxLenError :: "nat \<Rightarrow> string" where
  "MaxLenError n = ''must be no more than '' @ show_nat n @ '' characters''"

definition dns1123SubdomainErrorMsg :: string where
  "dns1123SubdomainErrorMsg =
     ''a lowercase RFC 1123 subdomain must consist of lower case alphanumeric characters, '' @ [CHR 0x27] @ ''-'' @ [CHR 0x27]
     @ '' or '' @ [CHR 0x27] @ ''.'' @ [CHR 0x27] @ '', and must start and end with an alphanumeric character''
     @ '' (e.g. '' @ [CHR 0x27] @ ''example.com'' @ [CHR 0x27] @ '', regex used for validation is '' @ [CHR 0x27]
     @ ''[a-z0-9]([-a-z0-9]*[a-z0-9])?('' @ [CHR 0x5C] @ ''.[a-z0-9]([-a-z0-9]*[a-z0-9])?)*'' @ [CHR 0x27] @ '')''"

definition IsDNS1123Subdomain :: "string \<Rightarrow> string list" where
  "IsDNS1123Subdomain value =
     (if length value > 253 then [MaxLenError 253] else [])
     @ (if \<not> dns1123Subdomain value then [dns1123SubdomainErrorMsg] else [])"

section \<open>Field checks\<close>

definition isValidHostname :: "string \<Rightarrow> goerr option" where
  "isValidHostname hostname =
     (if hostname = [] then None
      else let errs = IsDNS1123Subdomain hostname in
        if errs \<noteq> [] then Some (errorf (strings_Join errs '';'')) else None)"

definition isValidSSHPublicKey :: "(string \<Rightarrow> goerr option) \<Rightarrow> string \<Rightarrow> goerr option" where
  "isValidSSHPublicKey ssh_ParseAuthorizedKey pubKeyString =
     (if pubKeyString = [] then None
      else map_option (wrapf ''error parsing public key: '') (ssh_ParseAuthorizedKey (TrimSpace pubKeyString)))"

definition isValidNetworkCidr :: "string \<Rightarrow> goerr option" where
  "isValidNetworkCidr networkCIDR =
     (if networkCIDR = [] then Some (errorf ''network CIDR is empty'')
      else case ParseCIDR networkCIDR of
        Inl err \<Rightarrow> Some (wrapf ''error parsing network, check that it is valid CIDR: '' err)
      | Inr _ \<Rightarrow> None)"

fun machineNetworks_loop :: "nat \<Rightarrow> MachineNetworkEntry list \<Rightarrow> goerr option" where
  "machineNetworks_loop i [] = None"
| "machineNetworks_loop i (network # networks) =
     (case isValidNetworkCidr (mn_CIDR network) of
        Some err \<Rightarrow> Some (wrapf (''machine network '' @ show_nat i @ '': '') err)
      | None \<Rightarrow> machineNetworks_loop (Suc i) networks)"

definition isValidMachineNetworks :: "string \<Rightarrow> MachineNetworkEntry list \<Rightarrow> goerr option" where
  "isValidMachineNetworks legacyMachineNetwork machineNetworks =
     (case (if legacyMachineNetwork \<noteq> [] then isValidNetworkCidr legacyMachineNetwork else None) of
        Some err \<Rightarrow> Some err
      | None \<Rightarrow> machineNetworks_loop 0 machineNetworks)"

definition isValidProxy :: "Proxy option \<Rightarrow> string list \<Rightarrow> goerr option" where
  "isValidProxy proxy machineNetworks =
     (if proxy \<noteq> None \<and> machineNetworks = []
      then Some (errorf ''machine network must be set when proxy is defined'') else None)"

section \<open>Admission\<close>

definition validate :: "(string \<Rightarrow> goerr option) \<Rightarrow> ImageClusterInstall \<Rightarrow> goerr option" where
  "validate ssh_ParseAuthorizedKey r =
     (case isValidSSHPublicKey ssh_ParseAuthorizedKey (sp_SSHKey (ici_Spec r)) of
        Some err \<Rightarrow> Some (wrapv ''invalid ssh key: '' err)
      | None \<Rightarrow>
     (case isValidHostname (sp_Hostname (ici_Spec r)) of
        Some err \<Rightarrow> Some (wrapf ''invalid hostname: '' err)
      | None \<Rightarrow>
     (case isValidMachineNetworks (sp_MachineNetwork (ici_Spec r)) (elems (sp_MachineNetworks (ici_Spec r))) of
        Some err \<Rightarrow> Some (wrapf ''invalid machine network: '' err)
      | None \<Rightarrow>
          map_option (wrapf ''invalid proxy: '')
            (isValidProxy (sp_Proxy (ici_Spec r))
              (webhook_getEffectiveMachineNetworks (sp_MachineNetwork (ici_Spec r))
                 (elems (sp_MachineNetworks (ici_Spec r))))))))"

definition installationStarted :: "ImageClusterInstall \<Rightarrow> bool" where
  "installationStarted r \<longleftrightarrow> st_BareMetalHostRef (ici_Status r) \<noteq> None"

definition isSpecUpdate :: "ImageClusterInstall \<Rightarrow> ImageClusterInstall \<Rightarrow> bool" where
  "isSpecUpdate oldClusterInstall newClusterInstall =
     ((ici_Spec oldClusterInstall)\<lparr>sp_ClusterMetadata := None\<rparr>
      \<noteq> (ici_Spec newClusterInstall)\<lparr>sp_ClusterMetadata := None\<rparr>)"

text \<open>The old object of an update request has some runtime type.\<close>

datatype runtime_Object = ImageClusterInstallObj ImageClusterInstall | OtherObj

definition ValidateCreate :: "(string \<Rightarrow> goerr option) \<Rightarrow> ImageClusterInstall \<Rightarrow> goerr option" where
  "ValidateCreate ssh_ParseAuthorizedKey r = validate ssh_ParseAuthorizedKey r"

definition ValidateUpdate :: "(string \<Rightarrow> goerr option) \<Rightarrow> ImageClusterInstall \<Rightarrow> runtime_Object \<Rightarrow> goerr option" where
  "ValidateUpdate ssh_ParseAuthorizedKey r old =
     (case validate ssh_ParseAuthorizedKey r of
        Some err \<Rightarrow> Some err
      | None \<Rightarrow>
          (case old of
             OtherObj \<Rightarrow> Some (errorf ''old object is not an ImageClusterInstall'')
           | ImageClusterInstallObj oldClusterInstall \<Rightarrow>
               if \<not> isSpecUpdate oldClusterInstall r then None
               else if installationStarted oldClusterInstall
               then Some (errorf ''cannot update ImageClusterInstall when the configImage is ready'')
               else None))"

definition ValidateDelete :: "ImageClusterInstall \<Rightarrow> goerr option" where
  "ValidateDelete r = None"

section \<open>Lemmas\<close>

lemma machineNetworks_loop_None:
  "machineNetworks_loop i ns = None \<longleftrightarrow> (\<forall>n \<in> set ns. isValidNetworkCidr (mn_CIDR n) = None)"
  by (induction i ns rule: machineNetworks_loop.induct) (auto split: option.splits)

lemma isValidNetworkCidr_None: "isValidNetworkCidr c = None \<longleftrightarrow> (\<exists>a n. cidr_parts c = Some (a, n))"
proof -
  have "cidr_parts [] = None" by (simp add: cidr_parts_def)
  then show ?thesis
    by (auto simp: isValidNetworkCidr_def ParseCIDR_parts split: option.split)
qed

lemma validate_None:
  "validate ssh r = None \<longleftrightarrow>
    isValidSSHPublicKey ssh (sp_SSHKey (ici_Spec r)) = None
    \<and> isValidHostname (sp_Hostname (ici_Spec r)) = None
    \<and> isValidMachineNetworks (sp_MachineNetwork (ici_Spec r)) (elems (sp_MachineNetworks (ici_Spec r))) = None
    \<and> isValidProxy (sp_Proxy (ici_Spec r)) (webhook_getEffectiveMachineNetworks
        (sp_MachineNetwork (ici_Spec r)) (elems (sp_MachineNetworks (ici_Spec r)))) = None"
  by (auto simp: validate_def split: option.split)

lemma isValidMachineNetworks_effective:
  assumes "isValidMachineNetworks legacy networks = None"
    and "c \<in> set (webhook_getEffectiveMachineNetworks legacy networks)"
  shows "\<exists>a n. cidr_parts c = Some (a, n)"
  using assms
  by (auto simp: isValidMachineNetworks_def webhook_getEffectiveMachineNetworks_def
      machineNetworks_loop_None isValidNetworkCidr_None split: if_splits option.splits)

section \<open>The regular expression\<close>

text \<open>The expressions of \<^verbatim>\<open>validation.go\<close> as data, with the usual meaning of matching a whole text.\<close>

datatype regexp = Class "char \<Rightarrow> bool" | Seq regexp regexp | Star regexp | Opt regexp

inductive matches :: "regexp \<Rightarrow> string \<Rightarrow> bool" where
  Class: "P c \<Longrightarrow> matches (Class P) [c]"
| Seq: "matches r s \<Longrightarrow> matches q t \<Longrightarrow> matches (Seq r q) (s @ t)"
| Star0: "matches (Star r) []"
| Star1: "matches r s \<Longrightarrow> matches (Star r) t \<Longrightarrow> matches (Star r) (s @ t)"
| Opt0: "matches (Opt r) []"
| Opt1: "matches r s \<Longrightarrow> matches (Opt r) s"

inductive_simps matches_Class: "matches (Class P) s"
inductive_simps matches_Seq: "matches (Seq r q) s"
inductive_simps matches_Opt: "matches (Opt r) s"
inductive_cases matches_StarE: "matches (Star r) s"

definition dns1123LabelFmt :: regexp where
  "dns1123LabelFmt =
     Seq (Class is_lower_alnum)
       (Opt (Seq (Star (Class (\<lambda>c. is_lower_alnum c \<or> c = CHR ''-''))) (Class is_lower_alnum)))"

definition dns1123SubdomainFmt :: regexp where
  "dns1123SubdomainFmt = Seq dns1123LabelFmt (Star (Seq (Class (\<lambda>c. c = CHR ''.'')) dns1123LabelFmt))"

lemma matches_Star_Class: "matches (Star (Class P)) s \<longleftrightarrow> list_all P s"
proof
  assume "matches (Star (Class P)) s"
  then show "list_all P s"
    by (induction "Star (Class P)" s rule: matches.induct) (auto simp: matches_Class)
next
  assume "list_all P s"
  then show "matches (Star (Class P)) s"
  proof (induction s)
    case (Cons c s)
    then show ?case using matches.Star1 [of "Class P" "[c]" s] by (simp add: matches_Class)
  qed (rule matches.Star0)
qed

lemma matches_label: "matches dns1123LabelFmt l \<longleftrightarrow> dns1123Label l"
proof
  assume "matches dns1123LabelFmt l"
  then show "dns1123Label l"
    by (auto simp: dns1123LabelFmt_def matches_Seq matches_Opt matches_Class matches_Star_Class dns1123Label_def)
next
  assume L: "dns1123Label l"
  then obtain c t where l: "l = c # t" by (cases l) (auto simp: dns1123Label_def)
  show "matches dns1123LabelFmt l"
  proof (cases t rule: rev_cases)
    case Nil
    then show ?thesis using L l matches.Seq [OF matches.Class [of is_lower_alnum c] matches.Opt0]
      by (simp add: dns1123LabelFmt_def dns1123Label_def)
  next
    case (snoc m d)
    have "matches (Seq (Star (Class (\<lambda>c. is_lower_alnum c \<or> c = CHR ''-''))) (Class is_lower_alnum)) (m @ [d])"
      using L l snoc by (intro matches.Seq) (auto simp: matches_Star_Class matches_Class dns1123Label_def)
    then show ?thesis using L l snoc matches.Seq [OF matches.Class [of is_lower_alnum c] matches.Opt1]
      by (simp add: dns1123LabelFmt_def dns1123Label_def)
  qed
qed

lemma dns1123Label_no_dot: "dns1123Label l \<Longrightarrow> CHR ''.'' \<notin> set l"
  by (auto simp: dns1123Label_def list_all_iff is_lower_alnum_def Let_def)

lemma matches_dotted:
  "matches (Star (Seq (Class (\<lambda>c. c = CHR ''.'')) dns1123LabelFmt)) t \<longleftrightarrow>
    t = [] \<or> (\<exists>u. t = CHR ''.'' # u \<and> dns1123Subdomain u)" (is "matches ?R t \<longleftrightarrow> ?S t")
proof
  assume "matches ?R t"
  then show "?S t"
  proof (induction ?R t rule: matches.induct)
    case (Star1 s t)
    then obtain l where l: "s = CHR ''.'' # l" "dns1123Label l"
      by (auto simp: matches_Seq matches_Class matches_label)
    then show ?case using Star1 dns1123Label_no_dot [of l]
      by (auto simp: dns1123Subdomain_def split_on_absent split_on_append)
  qed simp
next
  have *: "matches ?R (CHR ''.'' # strings_Join ls ''.'')" if "ls \<noteq> []" "list_all dns1123Label ls" for ls
    using that
  proof (induction ls)
    case (Cons l ls)
    have one: "matches (Seq (Class (\<lambda>c. c = CHR ''.'')) dns1123LabelFmt) ([CHR ''.''] @ l)"
      using Cons.prems by (intro matches.Seq) (auto simp: matches_Class matches_label)
    show ?case
    proof (cases "ls = []")
      case True
      then show ?thesis using matches.Star1 [OF one matches.Star0] by simp
    next
      case False
      then show ?thesis using matches.Star1 [OF one] Cons by (simp add: strings_Join_Cons)
    qed
  qed simp
  assume "?S t"
  then show "matches ?R t"
    using *[of "split_on (CHR ''.'') (tl t)"] matches.Star0
    by (auto simp: dns1123Subdomain_def strings_Join_split_on)
qed

lemma matches_subdomain: "matches dns1123SubdomainFmt s \<longleftrightarrow> dns1123Subdomain s"
proof
  assume "matches dns1123SubdomainFmt s"
  then obtain l t where "s = l @ t" "dns1123Label l" "t = [] \<or> (\<exists>u. t = CHR ''.'' # u \<and> dns1123Subdomain u)"
    by (auto simp: dns1123SubdomainFmt_def matches_Seq matches_label matches_dotted)
  then show "dns1123Subdomain s"
    using dns1123Label_no_dot [of l] by (auto simp: dns1123Subdomain_def split_on_absent split_on_append)
next
  assume S: "dns1123Subdomain s"
  obtain l ls where ls: "split_on (CHR ''.'') s = l # ls"
    by (cases "split_on (CHR ''.'') s") auto
  then have s: "s = l @ (if ls = [] then [] else CHR ''.'' # strings_Join ls ''.'')"
    using strings_Join_split_on [of "CHR ''.''" s] by (auto simp: strings_Join_Cons)
  have "split_on (CHR ''.'') (strings_Join ls ''.'') = ls" if "ls \<noteq> []"
    using that split_on_parts [of "CHR ''.''" s] ls by (intro split_on_strings_Join) auto
  then have tail: "matches (Star (Seq (Class (\<lambda>c. c = CHR ''.'')) dns1123LabelFmt))
      (if ls = [] then [] else CHR ''.'' # strings_Join ls ''.'')"
    unfolding matches_dotted using S ls by (auto simp: dns1123Subdomain_def)
  have "matches dns1123LabelFmt l"
    using S ls by (simp add: dns1123Subdomain_def matches_label)
  then show "matches dns1123SubdomainFmt s"
    unfolding dns1123SubdomainFmt_def by (subst s) (rule matches.Seq [OF _ tail])
qed

section \<open>Properties\<close>


text \<open>C9: Frozen after start. An update that passes the field checks is admitted exactly when the
  old object has no host in its status (the installation has not started) or the two specs are
  equal except for the cluster metadata.\<close>
theorem ValidateUpdate_accepts_iff:
  "ValidateUpdate ssh_ParseAuthorizedKey r (ImageClusterInstallObj old) = None \<longleftrightarrow>
    ValidateCreate ssh_ParseAuthorizedKey r = None
    \<and> (st_BareMetalHostRef (ici_Status old) = None
       \<or> (\<exists>metadata. ici_Spec r = (ici_Spec old)\<lparr>sp_ClusterMetadata := metadata\<rparr>))"
proof -
  have "\<not> isSpecUpdate old r \<longleftrightarrow> (\<exists>metadata. ici_Spec r = (ici_Spec old)\<lparr>sp_ClusterMetadata := metadata\<rparr>)"
    (is "?L \<longleftrightarrow> ?R")
  proof
    assume ?L
    then show ?R
      by (intro exI [of _ "sp_ClusterMetadata (ici_Spec r)"], cases "ici_Spec old", cases "ici_Spec r")
        (simp add: isSpecUpdate_def)
  qed (auto simp: isSpecUpdate_def)
  then show ?thesis
    by (auto simp: ValidateUpdate_def ValidateCreate_def installationStarted_def split: option.split)
qed

end
