(* ===== verification/Wiring.thy ===== *)
theory Wiring
  imports Reconciler Monitor Webhook TlsConfig
begin

text \<open>
  How the controllers and the webhook are connected to the manager: \<^verbatim>\<open>SetupWithManager\<close> of both controllers,
  \<^verbatim>\<open>addIndexforBaremetalHostRef\<close>, \<^verbatim>\<open>SetupWebhookWithManager\<close>, and the vendored code of controller-runtime that
  turns an event of a watch into requests for a controller. Registration itself is a call of the
  manager and a parameter.
\<close>

section \<open>Events\<close>

text \<open>The watched objects. Of a host and a cluster deployment the handlers only read the name.\<close>

datatype object = ICIObject ImageClusterInstall | HostObject nsname | DeploymentObject nsname

datatype kind = KindImageClusterInstall | KindBareMetalHost | KindClusterDeployment

fun object_key :: "object \<Rightarrow> nsname" where
  "object_key (ICIObject ici) = key_of (ici_Meta ici)"
| "object_key (HostObject k) = k"
| "object_key (DeploymentObject k) = k"

fun object_kind :: "object \<Rightarrow> kind" where
  "object_kind (ICIObject _) = KindImageClusterInstall"
| "object_kind (HostObject _) = KindBareMetalHost"
| "object_kind (DeploymentObject _) = KindClusterDeployment"

datatype watch_event = CreateEvent object | UpdateEvent object object | DeleteEvent object | GenericEvent object

text \<open>The object of an event, which for an update is the new one, and the objects an event carries.\<close>

fun event_object :: "watch_event \<Rightarrow> object" where
  "event_object (CreateEvent x) = x"
| "event_object (UpdateEvent _ x) = x"
| "event_object (DeleteEvent x) = x"
| "event_object (GenericEvent x) = x"

fun event_objects :: "watch_event \<Rightarrow> object list" where
  "event_objects (UpdateEvent old new) = [old, new]"
| "event_objects e = [event_object e]"

section \<open>The controllers\<close>

record 'w controller =
  ctl_Name :: string
  ctl_MaxConcurrentReconciles :: int
  ctl_For :: kind
  ctl_Watches :: "(kind \<times> (nsname \<Rightarrow> ('w world, nsname list) go)) list"
  ctl_EventFilters :: "(watch_event \<Rightarrow> ('w world, bool) go) list"
  ctl_Reconciler :: "nsname \<Rightarrow> ('w world, Result \<times> goerr option) go"

record validator =
  val_Create :: "ImageClusterInstall \<Rightarrow> goerr option"
  val_Update :: "ImageClusterInstall \<Rightarrow> runtime_Object \<Rightarrow> goerr option"
  val_Delete :: "ImageClusterInstall \<Rightarrow> goerr option"

datatype 'w registration =
    IndexField kind string "object \<Rightarrow> string list"
  | Controller "'w controller"
  | TLSWatcher SecurityProfileWatcher
  | Webhook kind validator
  | HealthzCheck string
  | ReadyzCheck string

text \<open>Registering in sequence, up to the first error; results in what was registered and the error.\<close>

fun register :: "('w registration \<Rightarrow> ('w, goerr option) call) \<Rightarrow> 'w registration list \<Rightarrow>
    ('w world, 'w registration list \<times> goerr option) go" where
  "register mgr [] = returnM ([], None)"
| "register mgr (x # xs) =
     bindM (hubM (mgr x)) (\<lambda>e. case e of
       Some err \<Rightarrow> returnM ([], Some err)
     | None \<Rightarrow> bindM (register mgr xs) (\<lambda>(ys, e'). returnM (x # ys, e')))"

definition addIndexforBaremetalHostRef :: "'w registration list" where
  "addIndexforBaremetalHostRef =
     [IndexField KindImageClusterInstall ''.spec.bareMetalHostRef.name''
        (\<lambda>rawObj. case rawObj of ICIObject ici \<Rightarrow> index_bareMetalHostRef_name ici | _ \<Rightarrow> []),
      IndexField KindImageClusterInstall ''.spec.bareMetalHostRef.namespace''
        (\<lambda>rawObj. case rawObj of ICIObject ici \<Rightarrow> index_bareMetalHostRef_namespace ici | _ \<Rightarrow> [])]"

definition reconciler_controller :: "'w env \<Rightarrow> ImageClusterInstallReconciler \<Rightarrow> 'w controller" where
  "reconciler_controller env r =
     \<lparr>ctl_Name = ''ImageClusterInstallReconciler'',
      ctl_MaxConcurrentReconciles = opt_MaxConcurrentReconciles (rc_Options r),
      ctl_For = KindImageClusterInstall,
      ctl_Watches = [(KindBareMetalHost, mapBMHToICI env), (KindClusterDeployment, mapCDToICI env)],
      ctl_EventFilters = [],
      ctl_Reconciler = Reconcile env r\<rparr>"

definition Reconciler_SetupWithManager :: "'w env \<Rightarrow> ('w registration \<Rightarrow> ('w, goerr option) call) \<Rightarrow> ImageClusterInstallReconciler \<Rightarrow>
    ('w world, 'w registration list \<times> goerr option) go" where
  "Reconciler_SetupWithManager env mgr r =
     bindM (register mgr addIndexforBaremetalHostRef) (\<lambda>(xs, e). case e of
       Some err \<Rightarrow> returnM (xs, Some err)
     | None \<Rightarrow> bindM (register mgr [Controller (reconciler_controller env r)]) (\<lambda>(ys, e'). returnM (xs @ ys, e')))"

text \<open>The filter of the monitor. The new object of an update is asserted to be an ImageClusterInstall.\<close>

fun bootTimeInitialized :: "watch_event \<Rightarrow> ('w world, bool) go" where
  "bootTimeInitialized (UpdateEvent _ (ICIObject obj)) = returnM (\<not> Time_IsZero (st_BootTime (ici_Status obj)))"
| "bootTimeInitialized (UpdateEvent _ _) = panicM ''interface conversion''"
| "bootTimeInitialized (CreateEvent _) = returnM False"
| "bootTimeInitialized (DeleteEvent _) = returnM False"
| "bootTimeInitialized (GenericEvent _) = returnM False"

definition monitor_controller :: "'w env \<Rightarrow> ImageClusterInstallMonitor \<Rightarrow> 'w controller" where
  "monitor_controller env r =
     \<lparr>ctl_Name = ''ImageClusterInstallMonitor'',
      ctl_MaxConcurrentReconciles = opt_MaxConcurrentReconciles (mon_Options r),
      ctl_For = KindImageClusterInstall,
      ctl_Watches = [],
      ctl_EventFilters = [bootTimeInitialized],
      ctl_Reconciler = Monitor_Reconcile env r\<rparr>"

definition Monitor_SetupWithManager :: "'w env \<Rightarrow> ('w registration \<Rightarrow> ('w, goerr option) call) \<Rightarrow> ImageClusterInstallMonitor \<Rightarrow>
    ('w world, 'w registration list \<times> goerr option) go" where
  "Monitor_SetupWithManager env mgr r = register mgr [Controller (monitor_controller env r)]"

definition SetupWebhookWithManager :: "(string \<Rightarrow> goerr option) \<Rightarrow> ('w registration \<Rightarrow> ('w, goerr option) call) \<Rightarrow>
    ('w world, 'w registration list \<times> goerr option) go" where
  "SetupWebhookWithManager ssh_ParseAuthorizedKey mgr =
     register mgr [Webhook KindImageClusterInstall
       \<lparr>val_Create = ValidateCreate ssh_ParseAuthorizedKey, val_Update = ValidateUpdate ssh_ParseAuthorizedKey, val_Delete = ValidateDelete\<rparr>]"

section \<open>From events to requests\<close>

text \<open>All filters are asked until one refuses.\<close>

fun passes :: "(watch_event \<Rightarrow> ('w world, bool) go) list \<Rightarrow> watch_event \<Rightarrow> ('w world, bool) go" where
  "passes [] e = returnM True"
| "passes (p # ps) e = bindM (p e) (\<lambda>b. if \<not> b then returnM False else passes ps e)"

definition EnqueueRequestForObject :: "watch_event \<Rightarrow> nsname list" where
  "EnqueueRequestForObject e = [object_key (event_object e)]"

text \<open>The requests of one map function, without those that were added before.\<close>

fun mapAndEnqueue :: "nsname list \<Rightarrow> nsname list \<Rightarrow> nsname list" where
  "mapAndEnqueue reqs [] = reqs"
| "mapAndEnqueue reqs (q # qs) = mapAndEnqueue (if q \<in> set reqs then reqs else reqs @ [q]) qs"

fun EnqueueRequestsFromMapFunc :: "(nsname \<Rightarrow> ('w world, nsname list) go) \<Rightarrow> nsname list \<Rightarrow> object list \<Rightarrow> ('w world, nsname list) go" where
  "EnqueueRequestsFromMapFunc fn reqs [] = returnM reqs"
| "EnqueueRequestsFromMapFunc fn reqs (x # xs) =
     bindM (fn (object_key x)) (\<lambda>qs. EnqueueRequestsFromMapFunc fn (mapAndEnqueue reqs qs) xs)"

fun watches_loop :: "'w controller \<Rightarrow> (kind \<times> (nsname \<Rightarrow> ('w world, nsname list) go)) list \<Rightarrow> watch_event \<Rightarrow> ('w world, nsname list) go" where
  "watches_loop c [] e = returnM []"
| "watches_loop c ((k, fn) # ws) e =
     bindM (if k \<noteq> object_kind (event_object e) then returnM []
            else bindM (passes (ctl_EventFilters c) e) (\<lambda>b.
              if b then EnqueueRequestsFromMapFunc fn [] (event_objects e) else returnM []))
       (\<lambda>qs. bindM (watches_loop c ws e) (\<lambda>rs. returnM (qs @ rs)))"

definition requests :: "'w controller \<Rightarrow> watch_event \<Rightarrow> ('w world, nsname list) go" where
  "requests c e =
     bindM (if ctl_For c \<noteq> object_kind (event_object e) then returnM []
            else bindM (passes (ctl_EventFilters c) e) (\<lambda>b. returnM (if b then EnqueueRequestForObject e else [])))
       (\<lambda>qs. bindM (watches_loop c (ctl_Watches c) e) (\<lambda>rs. returnM (qs @ rs)))"

section \<open>Which events wake which controller\<close>

lemma mapAndEnqueue_set: "set (mapAndEnqueue reqs qs) = set reqs \<union> set qs"
  by (induction qs arbitrary: reqs) auto

lemma mapAndEnqueue_distinct: "distinct reqs \<Longrightarrow> distinct (mapAndEnqueue reqs qs)"
  by (induction qs arbitrary: reqs) auto

text \<open>A map function that answers from the cache.\<close>

lemma EnqueueRequestsFromMapFunc_stable:
  assumes "\<And>x. x \<in> set xs \<Longrightarrow> fn (object_key x) s = (Ret qs, s)" and "distinct reqs"
  shows "\<exists>ks. EnqueueRequestsFromMapFunc fn reqs xs s = (Ret ks, s) \<and> distinct ks
    \<and> set ks = set reqs \<union> (if xs = [] then {} else set qs)"
  using assms
proof (induction xs arbitrary: reqs)
  case (Cons x xs)
  have "fn (object_key x) s = (Ret qs, s)" by (rule Cons.prems) simp
  moreover obtain ks where "EnqueueRequestsFromMapFunc fn (mapAndEnqueue reqs qs) xs s = (Ret ks, s)" "distinct ks"
      "set ks = set reqs \<union> set qs"
    using Cons.IH [of "mapAndEnqueue reqs qs"] Cons.prems
    by (auto simp: mapAndEnqueue_set mapAndEnqueue_distinct split: if_splits)
  ultimately show ?case by (simp add: bindM_def)
qed (simp add: returnM_def)

lemma event_objects_not_Nil [simp]: "event_objects e \<noteq> []"
  by (cases e) simp_all

lemma event_object_in: "event_object e \<in> set (event_objects e)"
  by (cases e) simp_all

lemma bindM_Ret: "m s = (Ret x, s') \<Longrightarrow> bindM m f s = f x s'"
  by (simp add: bindM_def)

definition refers_to :: "nsname \<Rightarrow> ImageClusterInstall \<Rightarrow> bool" where
  "refers_to k ici \<longleftrightarrow> map_option bmhr_key (sp_BareMetalHostRef (ici_Spec ici)) = Some k"

lemma refers_to_index:
  "index_bareMetalHostRef_name i = [snd k] \<and> index_bareMetalHostRef_namespace i = [fst k] \<longleftrightarrow> refers_to k i"
  by (cases k) (auto simp: refers_to_def index_bareMetalHostRef_name_def index_bareMetalHostRef_namespace_def bmhr_key_def
      split: option.split)

lemma mapBMHToICI_stable:
  assumes "\<And>n ns h. list_ImageClusterInstall_by_host env n ns h =
      (Inr (filter (\<lambda>i. index_bareMetalHostRef_name i = [n] \<and> index_bareMetalHostRef_namespace i = [ns]) store), h)"
    and "\<And>h. get_BareMetalHost env k h = (Inr bmh, h)"
  shows "mapBMHToICI env k s =
    (Ret (map (\<lambda>i. key_of (ici_Meta i)) (filter (\<lambda>i. refers_to k i \<and> Time_IsZero (st_BootTime (ici_Status i))) store)), s)"
  by (simp add: mapBMHToICI_def bindM_def hubM_def returnM_def assms refers_to_index conj_commute)

lemma mapCDToICI_stable:
  assumes "\<And>h. get_ClusterDeployment env k h = (Inr cd, h)"
  shows "mapCDToICI env k s =
    (Ret (case cd_ClusterInstallRef cd of
            Some ref \<Rightarrow> if cir_Group ref = Group \<and> cir_Kind ref = ''ImageClusterInstall'' then [(fst k, cir_Name ref)] else []
          | None \<Rightarrow> []), s)"
  by (simp add: mapCDToICI_def bindM_def hubM_def returnM_def assms split: option.split)

lemma requests_mapped:
  assumes "\<And>x. x \<in> set (event_objects e) \<Longrightarrow> object_kind x = k \<and> fn (object_key x) s = (Ret qs, s)"
    and "ctl_EventFilters c = []" and "ctl_For c \<noteq> k"
    and "ctl_Watches c = ws @ (k, fn) # ws'" and "k \<notin> fst ` set (ws @ ws')"
  shows "\<exists>ks. requests c e s = (Ret ks, s) \<and> distinct ks \<and> set ks = set qs"
proof -
  have kind: "object_kind (event_object e) = k" using assms(1) event_object_in by blast
  have other: "watches_loop c us e s = (Ret [], s)" if "k \<notin> fst ` set us" for us
    using that by (induction us) (auto simp: kind bindM_def returnM_def)
  obtain ks where ks: "EnqueueRequestsFromMapFunc fn [] (event_objects e) s = (Ret ks, s)" "distinct ks" "set ks = set qs"
    using EnqueueRequestsFromMapFunc_stable [of "event_objects e" fn s qs "[]"] assms(1) by auto
  have "watches_loop c ws' e s = (Ret [], s)" by (rule other) (use assms(5) in auto)
  then have "watches_loop c (us @ (k, fn) # ws') e s = (Ret ks, s)" if "k \<notin> fst ` set us" for us
    using that ks(1) by (induction us) (auto simp: kind bindM_def returnM_def assms(2))
  from this [of ws] have "watches_loop c (ctl_Watches c) e s = (Ret ks, s)" using assms(4,5) by auto
  then show ?thesis
    using assms(3) ks by (simp add: requests_def kind bindM_def returnM_def)
qed

lemma requests_other:
  assumes "ctl_For c \<noteq> object_kind (event_object e)" and "ctl_Watches c = []"
  shows "requests c e s = (Ret [], s)"
  using assms by (simp add: requests_def bindM_def returnM_def)

lemma requests_ici:
  assumes "event_object e = ICIObject ici"
  shows "requests (reconciler_controller env r) e s = (Ret [key_of (ici_Meta ici)], s)"
    and "requests (monitor_controller env m) e s =
      (Ret (case e of UpdateEvent _ _ \<Rightarrow> if Time_IsZero (st_BootTime (ici_Status ici)) then [] else [key_of (ici_Meta ici)] | _ \<Rightarrow> []), s)"
proof -
  note run = requests_def reconciler_controller_def monitor_controller_def EnqueueRequestForObject_def bindM_def returnM_def assms
  show "requests (reconciler_controller env r) e s = (Ret [key_of (ici_Meta ici)], s)"
    by (simp add: run)
  show "requests (monitor_controller env m) e s =
      (Ret (case e of UpdateEvent _ _ \<Rightarrow> if Time_IsZero (st_BootTime (ici_Status ici)) then [] else [key_of (ici_Meta ici)] | _ \<Rightarrow> []), s)"
    using assms by (cases e) (simp_all add: run)
qed

lemma requests_host:
  assumes "set (event_objects e) = {HostObject k}" and "mapBMHToICI env k s = (Ret qs, s)"
  shows "\<exists>ks. requests (reconciler_controller env r) e s = (Ret ks, s) \<and> distinct ks \<and> set ks = set qs"
    and "requests (monitor_controller env m) e s = (Ret [], s)"
proof -
  have kind: "event_object e = HostObject k" using event_object_in [of e] assms(1) by simp
  show "\<exists>ks. requests (reconciler_controller env r) e s = (Ret ks, s) \<and> distinct ks \<and> set ks = set qs"
    by (rule requests_mapped [where k = KindBareMetalHost and fn = "mapBMHToICI env" and ws = "[]"
          and ws' = "[(KindClusterDeployment, mapCDToICI env)]"])
      (use assms in \<open>auto simp: reconciler_controller_def\<close>)
  show "requests (monitor_controller env m) e s = (Ret [], s)"
    by (rule requests_other) (simp_all add: monitor_controller_def kind)
qed

lemma requests_deployment:
  assumes "set (event_objects e) = {DeploymentObject k}" and "mapCDToICI env k s = (Ret qs, s)"
  shows "\<exists>ks. requests (reconciler_controller env r) e s = (Ret ks, s) \<and> distinct ks \<and> set ks = set qs"
    and "requests (monitor_controller env m) e s = (Ret [], s)"
proof -
  have kind: "event_object e = DeploymentObject k" using event_object_in [of e] assms(1) by simp
  show "\<exists>ks. requests (reconciler_controller env r) e s = (Ret ks, s) \<and> distinct ks \<and> set ks = set qs"
    by (rule requests_mapped [where k = KindClusterDeployment and fn = "mapCDToICI env"
          and ws = "[(KindBareMetalHost, mapBMHToICI env)]" and ws' = "[]"])
      (use assms in \<open>auto simp: reconciler_controller_def\<close>)
  show "requests (monitor_controller env m) e s = (Ret [], s)"
    by (rule requests_other) (simp_all add: monitor_controller_def kind)
qed


text \<open>A cache with one object that refers to the host, and a deployment that refers to it.\<close>

definition example_cd :: ClusterDeployment where
  "example_cd =
     \<lparr>cd_Meta = example_meta ''cd'', cd_PullSecretRef = None, cd_ClusterName = ''name'', cd_BaseDomain = ''domain'',
      cd_ClusterInstallRef = Some \<lparr>cir_Group = Group, cir_Kind = ''ImageClusterInstall'', cir_Name = ''ici''\<rparr>\<rparr>"

definition example_cache :: "unit env" where
  "example_cache = idle_env\<lparr>get_BareMetalHost := \<lambda>_ h. (Inr example_host, h),
     get_ClusterDeployment := \<lambda>_ h. (Inr example_cd, h),
     list_ImageClusterInstall_by_host := \<lambda>n ns h.
       (Inr (filter (\<lambda>i. index_bareMetalHostRef_name i = [n] \<and> index_bareMetalHostRef_namespace i = [ns]) [example_ici]), h)\<rparr>"


end
