(* ===== verification/ManagerMain.thy ===== *)
theory ManagerMain
  imports Wiring
begin

text \<open>
  \<^verbatim>\<open>cmd/manager/main.go\<close>: the process of the two controllers and the webhook. The functions with a
  result of their own (\<^verbatim>\<open>serviceURL\<close>, \<^verbatim>\<open>EnqueueExistingImageClusterInstall\<close>) and the start of the
  manager: which parts are set up with which settings, in which order, and when the process exits.
  \<^verbatim>\<open>os.Exit(1)\<close> is the result \<open>Some 1\<close>. Logging, profiling and the parsing of the flags are left out; the
  manager of controller-runtime is a parameter.
\<close>

section \<open>The base URL\<close>

text \<open>\<^verbatim>\<open>url.URL.String\<close> for a URL that has only a scheme and a host, both non-empty: the host is
  escaped as \<^verbatim>\<open>net/url\<close> escapes hosts.\<close>

definition host_char :: "char \<Rightarrow> bool" where
  "host_char c \<longleftrightarrow> (let n = of_char c :: nat in
     (97 \<le> n \<and> n \<le> 122) \<or> (65 \<le> n \<and> n \<le> 90) \<or> (48 \<le> n \<and> n \<le> 57)
     \<or> c \<in> set ''-_.~!$&()*+,;=:[]<>'' \<or> c = CHR 0x22 \<or> c = CHR 0x27)"

definition upperhex :: "nat \<Rightarrow> char" where
  "upperhex n = (if n < 10 then char_of (48 + n) else char_of (55 + n))"

definition escape_host :: "string \<Rightarrow> string" where
  "escape_host h = concat (map (\<lambda>c. if host_char c then [c]
     else [CHR ''%'', upperhex (of_char c div 16), upperhex (of_char c mod 16)]) h)"

definition URL_String :: "string \<Rightarrow> string \<Rightarrow> string" where
  "URL_String scheme host = scheme @ ''://'' @ escape_host host"

definition serviceURL :: "ImageClusterInstallReconcilerOptions \<Rightarrow> goerr + string" where
  "serviceURL opts =
     (if opt_ServiceName opts = [] \<or> opt_ServiceNamespace opts = [] \<or> opt_ServiceScheme opts = []
      then Inl (errorf ''SERVICE_NAME, SERVICE_NAMESPACE, and SERVICE_SCHEME must be set'')
      else
        let host = opt_ServiceName opts @ ''.'' @ opt_ServiceNamespace opts @ ''.svc'';
            host' = (if opt_ServicePort opts \<noteq> [] then host @ '':'' @ opt_ServicePort opts else host)
        in Inr (URL_String (opt_ServiceScheme opts) host'))"

section \<open>Waking up what was left unfinished\<close>

definition Update_ICI_Status :: "'w env \<Rightarrow> ImageClusterInstall \<Rightarrow> ('w world, goerr + ImageClusterInstall) go" where
  "Update_ICI_Status env ici = requestM (EvUpdateICIStatus ici) (update_ImageClusterInstall_status env ici)"

fun enqueue_loop :: "'w env \<Rightarrow> ImageClusterInstall list \<Rightarrow> ('w world, unit) go" where
  "enqueue_loop env [] = returnM ()"
| "enqueue_loop env (ici # items) =
     bindM (if \<not> InstallationCompleted ici then bindM (Update_ICI_Status env ici) (\<lambda>_. returnM ()) else returnM ())
       (\<lambda>_. enqueue_loop env items)"

definition EnqueueExistingImageClusterInstall :: "'w env \<Rightarrow> ('w world, nat option) go" where
  "EnqueueExistingImageClusterInstall env =
     bindM (hubM (cache_WaitForCacheSync env)) (\<lambda>synced.
       if \<not> synced then returnM (Some 1)
       else
         bindM (hubM (list_ImageClusterInstall env)) (\<lambda>l. case l of
           Inl err \<Rightarrow> returnM (Some 1)
         | Inr items \<Rightarrow> bindM (enqueue_loop env items) (\<lambda>_. returnM None)))"

section \<open>The start of the manager\<close>

record manager_Flags =
  fl_health_probe_bind_address :: string
  fl_leader_elect :: bool

text \<open>The settings of the manager: the addresses, the webhook server with the functions that configure its
  TLS, and the labels a secret needs to be seen by the cache.\<close>

record manager_Options =
  mo_MetricsBindAddress :: string
  mo_HealthProbeBindAddress :: string
  mo_LeaderElection :: bool
  mo_LeaderElectionID :: string
  mo_WebhookPort :: int
  mo_WebhookCertDir :: string
  mo_WebhookTLSOpts :: "(tls_Config \<Rightarrow> tls_Config) list"
  mo_CacheSecretLabels :: "(string \<times> string) list"

record 'w manager_calls =
  mgr_GetConfig :: "('w, goerr option) call"
  mgr_New :: "manager_Options \<Rightarrow> ('w, goerr option) call"
  mgr_Process :: "goerr + ImageClusterInstallReconcilerOptions"
  mgr_Register :: "'w registration \<Rightarrow> ('w, goerr option) call"
  mgr_Start :: "('w, goerr option) call"

definition manager_options :: "manager_Flags \<Rightarrow> TLSConfigResult \<Rightarrow> manager_Options" where
  "manager_options flags tlsResult =
     \<lparr>mo_MetricsBindAddress = ''0'',
      mo_HealthProbeBindAddress = fl_health_probe_bind_address flags,
      mo_LeaderElection = fl_leader_elect flags,
      mo_LeaderElectionID = ''e21b2704.openshift.io'',
      mo_WebhookPort = 9443,
      mo_WebhookCertDir = ''/webhook-certs'',
      mo_WebhookTLSOpts = [tr_TLSConfig tlsResult],
      mo_CacheSecretLabels = [(SecretResourceLabel, SecretResourceValue)]\<rparr>"

text \<open>The parts of the manager in the order in which they are set up; the process exits after the first
  one that fails. Results: what was registered, and whether all of it was.\<close>

fun run_setups :: "('w world, 'w registration list \<times> goerr option) go list \<Rightarrow> ('w world, 'w registration list \<times> bool) go" where
  "run_setups [] = returnM ([], True)"
| "run_setups (f # fs) =
     bindM f (\<lambda>(xs, e). case e of
       Some err \<Rightarrow> returnM (xs, False)
     | None \<Rightarrow> bindM (run_setups fs) (\<lambda>(ys, b). returnM (xs @ ys, b)))"

definition mgr_setups :: "'w env \<Rightarrow> (string \<Rightarrow> goerr option) \<Rightarrow> ('w registration \<Rightarrow> ('w, goerr option) call) \<Rightarrow>
    ImageClusterInstallReconcilerOptions \<Rightarrow> string \<Rightarrow> TLSConfigResult \<Rightarrow> ('w world, 'w registration list \<times> goerr option) go list" where
  "mgr_setups env ssh_ParseAuthorizedKey mgr opts baseURL tlsResult =
     [Reconciler_SetupWithManager env mgr \<lparr>rc_Options = opts, rc_BaseURL = baseURL\<rparr>,
      Monitor_SetupWithManager env mgr \<lparr>mon_DefaultInstallTimeout = minutes 60, mon_Options = opts\<rparr>,
      register mgr [TLSWatcher \<lparr>spw_InitialTLSProfileSpec = tr_TLSProfileSpec tlsResult,
                                spw_InitialTLSAdherencePolicy = tr_TLSAdherencePolicy tlsResult\<rparr>],
      SetupWebhookWithManager ssh_ParseAuthorizedKey mgr,
      register mgr [HealthzCheck ''healthz''],
      register mgr [ReadyzCheck ''readyz'']]"

text \<open>Results: the settings and registrations with which the manager starts, if it starts, and the exit status.\<close>

definition manager_main :: "'w env \<Rightarrow> (string \<Rightarrow> goerr option) \<Rightarrow> 'w manager_calls \<Rightarrow> manager_Flags \<Rightarrow>
    ('w world, (manager_Options \<times> 'w registration list) option \<times> nat) go" where
  "manager_main env ssh_ParseAuthorizedKey mgr flags =
     bindM (hubM (mgr_GetConfig mgr)) (\<lambda>c. case c of
       Some err \<Rightarrow> returnM (None, 1)
     | None \<Rightarrow>
     bindM (ResolveTLSConfig env) (\<lambda>t. case t of
       Inl err \<Rightarrow> returnM (None, 1)
     | Inr tlsResult \<Rightarrow>
         bindM (hubM (mgr_New mgr (manager_options flags tlsResult))) (\<lambda>e. case e of
           Some err \<Rightarrow> returnM (None, 1)
         | None \<Rightarrow>
             (case mgr_Process mgr of
                Inl err \<Rightarrow> returnM (None, 1)
              | Inr opts \<Rightarrow>
                  (case serviceURL opts of
                     Inl err \<Rightarrow> returnM (None, 1)
                   | Inr baseURL \<Rightarrow>
                       bindM (run_setups (mgr_setups env ssh_ParseAuthorizedKey (mgr_Register mgr) opts baseURL tlsResult)) (\<lambda>(xs, b).
                         if \<not> b then returnM (None, 1)
                         else
                           bindM (hubM (mgr_Start mgr)) (\<lambda>e. case e of
                             Some err \<Rightarrow> returnM (Some (manager_options flags tlsResult, xs), 1)
                           | None \<Rightarrow> returnM (Some (manager_options flags tlsResult, xs), 0))))))))"

section \<open>Properties\<close>

lemma wp_enqueue_loop:
  "wp (enqueue_loop env items)
     (\<lambda>_ s'. \<exists>es. Trace s' = Trace s @ es
        \<and> list_all2 (\<lambda>i e. \<exists>b. e = EvUpdateICIStatus i b) (filter (\<lambda>i. \<not> InstallationCompleted i) items) es)
     (\<lambda>_ _. False) s"
proof (induction items arbitrary: s)
  case Nil
  then show ?case by (simp add: wp)
next
  case (Cons ici items)
  show ?case
  proof (cases "InstallationCompleted ici")
    case True
    then show ?thesis using Cons by (simp add: wp)
  next
    case False
    have rest: "wp (enqueue_loop env items)
        (\<lambda>_ s'. \<exists>es. Trace s' = Trace s @ EvUpdateICIStatus ici b # es
          \<and> list_all2 (\<lambda>i e. \<exists>b. e = EvUpdateICIStatus i b) (filter (\<lambda>i. \<not> InstallationCompleted i) items) es)
        (\<lambda>_ _. False) (s\<lparr>Hub := h, Trace := Trace s @ [EvUpdateICIStatus ici b]\<rparr>)" for h b
      by (rule wp_mono [OF Cons]) auto
    show ?thesis
      using False by (auto simp: wp Update_ICI_Status_def list_all2_Cons1 split: prod.split intro!: wp_mono [OF rest])
  qed
qed

lemma escape_host_id: "list_all host_char h \<Longrightarrow> escape_host h = h"
  by (induction h) (auto simp: escape_host_def)

lemma escape_host_Nil [simp]: "escape_host h = [] \<longleftrightarrow> h = []"
  by (cases h) (auto simp: escape_host_def)

lemma upperhex_no_slash: "n < 16 \<Longrightarrow> upperhex n \<noteq> CHR ''/''"
  by (auto simp: upperhex_def dest: arg_cong [where f = "of_char :: char \<Rightarrow> nat"])

lemma escape_host_no_slash: "CHR ''/'' \<notin> set (escape_host h)"
proof -
  have "upperhex (of_char c div 16) \<noteq> CHR ''/''" "upperhex (of_char c mod 16) \<noteq> CHR ''/''" for c
    by (rule upperhex_no_slash, simp add: div_less_iff_less_mult)+
  then show ?thesis
    by (auto simp: escape_host_def host_char_def dest: sym)
qed

text \<open>Setting up part after part is registering everything in sequence.\<close>

lemma register_append:
  "register mgr (xs @ ys) =
     bindM (register mgr xs) (\<lambda>(us, e). case e of Some err \<Rightarrow> returnM (us, Some err)
       | None \<Rightarrow> bindM (register mgr ys) (\<lambda>(vs, e'). returnM (us @ vs, e')))"
  by (induction xs) (auto simp: fun_eq_iff bindM_def returnM_def split: prod.split outcome.split option.split)

lemma run_setups_register:
  "run_setups (map (register mgr) xss) = bindM (register mgr (concat xss)) (\<lambda>(xs, e). returnM (xs, e = None))"
  by (induction xss) (auto simp: fun_eq_iff register_append bindM_def returnM_def split: prod.split outcome.split option.split)

definition registrations :: "'w env \<Rightarrow> (string \<Rightarrow> goerr option) \<Rightarrow> ImageClusterInstallReconcilerOptions \<Rightarrow> string \<Rightarrow> TLSConfigResult \<Rightarrow> 'w registration list" where
  "registrations env ssh opts baseURL tlsResult = addIndexforBaremetalHostRef
     @ [Controller (reconciler_controller env \<lparr>rc_Options = opts, rc_BaseURL = baseURL\<rparr>),
        Controller (monitor_controller env \<lparr>mon_DefaultInstallTimeout = minutes 60, mon_Options = opts\<rparr>),
        TLSWatcher \<lparr>spw_InitialTLSProfileSpec = tr_TLSProfileSpec tlsResult,
          spw_InitialTLSAdherencePolicy = tr_TLSAdherencePolicy tlsResult\<rparr>,
        Webhook KindImageClusterInstall
          \<lparr>val_Create = ValidateCreate ssh, val_Update = ValidateUpdate ssh, val_Delete = ValidateDelete\<rparr>,
        HealthzCheck ''healthz'', ReadyzCheck ''readyz'']"

lemma Reconciler_SetupWithManager_register:
  "Reconciler_SetupWithManager env mgr r = register mgr (addIndexforBaremetalHostRef @ [Controller (reconciler_controller env r)])"
  by (simp add: Reconciler_SetupWithManager_def register_append)

lemma mgr_setups_register:
  "run_setups (mgr_setups env ssh mgr opts baseURL tlsResult) =
     bindM (register mgr (registrations env ssh opts baseURL tlsResult)) (\<lambda>(xs, e). returnM (xs, e = None))"
  using run_setups_register [of mgr "[addIndexforBaremetalHostRef @ [Controller (reconciler_controller env \<lparr>rc_Options = opts, rc_BaseURL = baseURL\<rparr>)],
      [Controller (monitor_controller env \<lparr>mon_DefaultInstallTimeout = minutes 60, mon_Options = opts\<rparr>)],
      [TLSWatcher \<lparr>spw_InitialTLSProfileSpec = tr_TLSProfileSpec tlsResult, spw_InitialTLSAdherencePolicy = tr_TLSAdherencePolicy tlsResult\<rparr>],
      [Webhook KindImageClusterInstall \<lparr>val_Create = ValidateCreate ssh, val_Update = ValidateUpdate ssh, val_Delete = ValidateDelete\<rparr>],
      [HealthzCheck ''healthz''], [ReadyzCheck ''readyz'']]"]
  by (simp add: mgr_setups_def registrations_def Reconciler_SetupWithManager_register Monitor_SetupWithManager_def SetupWebhookWithManager_def
      del: register.simps run_setups.simps(2))

lemma wp_register:
  "wp (register mgr xs)
     (\<lambda>(ys, e) s'. Trace s' = Trace s \<and> Fs s' = Fs s
        \<and> (if e = None then ys = xs else length ys < length xs \<and> ys = take (length ys) xs))
     (\<lambda>_ _. False) s"
proof (induction xs arbitrary: s)
  case Nil
  then show ?case by (simp add: wp)
next
  case (Cons x xs)
  have rest: "wp (register mgr xs)
     (\<lambda>(ys, e) s'. Trace s' = Trace s \<and> Fs s' = Fs s
        \<and> (if e = None then ys = xs else length ys < length xs \<and> ys = take (length ys) xs))
     (\<lambda>_ _. False) (s\<lparr>Hub := h\<rparr>)" for h
    using Cons [of "s\<lparr>Hub := h\<rparr>"] by simp
  then show ?case
    by (auto simp: wp split: prod.split option.split if_splits intro!: wp_mono [OF rest])
qed

text \<open>C19: After a restart the unfinished installations are woken up. Once the cache is filled, every stored
  installation that is not completed gets exactly one status update that sends it back as it was
  read, in the order of the list, whether or not earlier updates failed; completed ones are left
  alone. The event of that update wakes the reconciler, and the monitor if the installation is
  started, which the event of its creation does not. Without cache or list the process exits and nothing is sent.\<close>
theorem EnqueueExisting_wakes:
  "wp (EnqueueExistingImageClusterInstall env)
     (\<lambda>status s'.
        case (cache_WaitForCacheSync env (Hub s)) of (synced, h) \<Rightarrow>
        (case fst (list_ImageClusterInstall env h) of
           Inr items \<Rightarrow>
             if synced
             then status = None \<and> (\<exists>es. Trace s' = Trace s @ es
               \<and> list_all2 (\<lambda>i e. \<exists>b. e = EvUpdateICIStatus i b) (filter (\<lambda>i. \<not> InstallationCompleted i) items) es)
             else status = Some 1 \<and> Trace s' = Trace s
         | Inl _ \<Rightarrow> status = Some 1 \<and> Trace s' = Trace s))
     (\<lambda>_ _. False) s
   \<and> requests (monitor_controller env m) (UpdateEvent (ICIObject ici) (ICIObject ici)) s1
       = (Ret (if Time_IsZero (st_BootTime (ici_Status ici)) then [] else [key_of (ici_Meta ici)]), s1)
   \<and> requests (reconciler_controller env r) (UpdateEvent (ICIObject ici) (ICIObject ici)) s1 = (Ret [key_of (ici_Meta ici)], s1)
   \<and> requests (monitor_controller env m) (CreateEvent (ICIObject ici)) s1 = (Ret [], s1)"
    (is "?wakes \<and> _")
proof (intro conjI)
  have loop: "wp (enqueue_loop env items)
     (\<lambda>_ s'. \<exists>es. Trace s' = Trace s @ es
        \<and> list_all2 (\<lambda>i e. \<exists>b. e = EvUpdateICIStatus i b) (filter (\<lambda>i. \<not> InstallationCompleted i) items) es)
     (\<lambda>_ _. False) (s\<lparr>Hub := h\<rparr>)" for items h
    using wp_enqueue_loop [of env items "s\<lparr>Hub := h\<rparr>"] by simp
  show ?wakes
    by (auto simp: EnqueueExistingImageClusterInstall_def wp split: prod.split sum.split intro!: wp_mono [OF loop])
qed (simp_all add: requests_ici)

text \<open>The base URL. It is an error exactly when service name, namespace or scheme is missing, and the
  port is optional. For names of letters, digits and the other characters of a host it is scheme,
  service, namespace and port as they are; other characters are escaped, so that what follows the
  scheme never contains a slash and appending a path is unambiguous.\<close>
lemma serviceURL_form:
  "case serviceURL opts of
     Inl _ \<Rightarrow> [] \<in> {opt_ServiceName opts, opt_ServiceNamespace opts, opt_ServiceScheme opts}
   | Inr u \<Rightarrow> [] \<notin> {opt_ServiceName opts, opt_ServiceNamespace opts, opt_ServiceScheme opts}
       \<and> (let host = opt_ServiceName opts @ ''.'' @ opt_ServiceNamespace opts @ ''.svc''
                @ (if opt_ServicePort opts = [] then [] else '':'' @ opt_ServicePort opts)
          in \<exists>h. u = opt_ServiceScheme opts @ ''://'' @ h \<and> h \<noteq> [] \<and> CHR ''/'' \<notin> set h
             \<and> (if list_all host_char host then h = host else True))"
  using escape_host_no_slash
  by (auto simp: serviceURL_def URL_String_def Let_def escape_host_id split: sum.split)

text \<open>C35: The manager starts complete or not at all. It starts only after the TLS settings were resolved,
  the manager was made with them and its options were read, and then with everything registered, in
  this order: the two indexes, the reconciler with these options and the URL of the service, the
  monitor with a timeout of one hour, the watcher of the TLS settings with the settings that were
  resolved, the webhook and the two health checks. The webhook serves with the resolved TLS settings,
  and the cache sees the secrets that carry the label of the credentials. If the manager does not
  start, or ends with an error, the exit status is 1.\<close>
theorem manager_starts_complete:
  "wp (manager_main env ssh mgr flags)
     (\<lambda>(started, status) s'. Trace s' = Trace s \<and> Fs s' = Fs s
        \<and> (case started of
             None \<Rightarrow> status = 1
           | Some (options, registered) \<Rightarrow> status \<le> 1 \<and> (\<exists>opts baseURL tlsResult. mgr_Process mgr = Inr opts \<and> serviceURL opts = Inr baseURL
               \<and> mo_WebhookTLSOpts options = [tr_TLSConfig tlsResult] \<and> mo_CacheSecretLabels options = [(SecretResourceLabel, SecretResourceValue)]
               \<and> registered = addIndexforBaremetalHostRef
                   @ [Controller (reconciler_controller env \<lparr>rc_Options = opts, rc_BaseURL = baseURL\<rparr>),
                      Controller (monitor_controller env \<lparr>mon_DefaultInstallTimeout = minutes 60, mon_Options = opts\<rparr>),
                      TLSWatcher \<lparr>spw_InitialTLSProfileSpec = tr_TLSProfileSpec tlsResult,
                        spw_InitialTLSAdherencePolicy = tr_TLSAdherencePolicy tlsResult\<rparr>,
                      Webhook KindImageClusterInstall
                        \<lparr>val_Create = ValidateCreate ssh, val_Update = ValidateUpdate ssh, val_Delete = ValidateDelete\<rparr>,
                      HealthzCheck ''healthz'', ReadyzCheck ''readyz'']
               \<and> (\<exists>s1. ResolveTLSConfig env (s\<lparr>Hub := snd (mgr_GetConfig mgr (Hub s))\<rparr>) = (Ret (Inr tlsResult), s1)))))
     (\<lambda>p _. \<exists>s1. ResolveTLSConfig env (s\<lparr>Hub := snd (mgr_GetConfig mgr (Hub s))\<rparr>) = (Panic p, s1)) s"
proof -
  obtain c h where cfg: "mgr_GetConfig mgr (Hub s) = (c, h)" by fastforce
  let ?s = "s\<lparr>Hub := h\<rparr>"
  have resolve: "wp (ResolveTLSConfig env) (\<lambda>t s1. Trace s1 = Trace s \<and> Fs s1 = Fs s \<and> ResolveTLSConfig env ?s = (Ret t, s1))
      (\<lambda>p s1. ResolveTLSConfig env ?s = (Panic p, s1)) ?s"
    by (rule wpI) (use wp_ResolveTLSConfig [of env ?s] in \<open>auto simp: wp_def split: outcome.splits\<close>)
  have setups: "wp (run_setups (mgr_setups env ssh (mgr_Register mgr) opts baseURL tlsResult))
      (\<lambda>(xs, b) s'. Trace s' = Trace s \<and> Fs s' = Fs s \<and> (b \<longrightarrow> xs = registrations env ssh opts baseURL tlsResult)) (\<lambda>_ _. False) s1"
    if "Trace s1 = Trace s" "Fs s1 = Fs s" for opts baseURL tlsResult s1
    unfolding mgr_setups_register wp_bindM
    by (rule wp_mono [OF wp_register]) (use that in \<open>auto simp: wp split: if_splits\<close>)
  show ?thesis
    unfolding manager_main_def
    by (cases c) (auto simp: wp cfg registrations_def manager_options_def split: prod.split sum.split option.split
        intro!: wp_mono [OF resolve] wp_mono [OF setups])
qed

end
