(* ===== verification/Memory.thy ===== *)
theory Memory
  imports Prelude
begin

text \<open>
  Memory with pointers, slices and maps, for the code whose correctness depends on what is shared.
  Elsewhere in the development an object is a value; here it is a representation in memory whose
  value is read through its pointers. Reading is local: what can be read in a part of the memory can
  be read in all of it. A deep copy is one that can be read from the newly allocated part alone; the
  locale \<open>deep_copier\<close> is this contract, with its lifting to pointers and slices.
\<close>

section \<open>Memory\<close>

type_synonym addr = nat

record 'c memory =
  cells :: "addr \<rightharpoonup> 'c"
  brk :: addr

definition wf_memory :: "'c memory \<Rightarrow> bool" where
  "wf_memory m \<longleftrightarrow> dom (cells m) \<subseteq> {..<brk m}"

text \<open>\<^verbatim>\<open>new\<close> and \<^verbatim>\<open>make\<close>, reading and writing through a pointer. \<open>prj\<close> takes a cell for a value of the type of
  the pointer; no such cell is there for a nil or foreign pointer, which panics.\<close>

definition newM :: "'c \<Rightarrow> ('c memory, addr) go" where
  "newM c = (\<lambda>m. (Ret (brk m), m\<lparr>cells := (cells m)(brk m \<mapsto> c), brk := Suc (brk m)\<rparr>))"

definition nil_dereference :: string where
  "nil_dereference = ''invalid memory address or nil pointer dereference''"

definition loadM :: "('c \<Rightarrow> 'x option) \<Rightarrow> addr \<Rightarrow> ('c memory, 'x) go" where
  "loadM prj a = (\<lambda>m. case Option.bind (cells m a) prj of
     None \<Rightarrow> (Panic nil_dereference, m)
   | Some x \<Rightarrow> (Ret x, m))"

definition storeM :: "addr \<Rightarrow> 'c \<Rightarrow> ('c memory, unit) go" where
  "storeM a c = (\<lambda>m. if a \<in> dom (cells m) then (Ret (), m\<lparr>cells := (cells m)(a \<mapsto> c)\<rparr>) else (Panic nil_dereference, m))"

lemma wp_newM [wp]: "wp (newM c) Q E m = Q (brk m) (m\<lparr>cells := (cells m)(brk m \<mapsto> c), brk := Suc (brk m)\<rparr>)"
  by (simp add: wp_def newM_def)

lemma wp_loadM [wp]:
  "wp (loadM prj a) Q E m = (case Option.bind (cells m a) prj of None \<Rightarrow> E nil_dereference m | Some x \<Rightarrow> Q x m)"
  by (simp add: wp_def loadM_def split: option.split)

lemma wp_storeM [wp]:
  "wp (storeM a c) Q E m = (if a \<in> dom (cells m) then Q () (m\<lparr>cells := (cells m)(a \<mapsto> c)\<rparr>) else E nil_dereference m)"
  by (simp add: wp_def storeM_def)

section \<open>Growing memory\<close>

definition grown :: "'c memory \<Rightarrow> 'c memory \<Rightarrow> bool" where
  "grown m m' \<longleftrightarrow> wf_memory m' \<and> cells m \<subseteq>\<^sub>m cells m'"

text \<open>The cells allocated since \<open>m\<close>.\<close>

definition fresh :: "'c memory \<Rightarrow> 'c memory \<Rightarrow> addr \<rightharpoonup> 'c" where
  "fresh m m' = cells m' |` (- dom (cells m))"

lemma map_le_iff: "M \<subseteq>\<^sub>m M' \<longleftrightarrow> (\<forall>a c. M a = Some c \<longrightarrow> M' a = Some c)"
  by (auto simp: map_le_def dom_def)

lemma grown_refl: "wf_memory m \<Longrightarrow> grown m m"
  by (simp add: grown_def)

lemma grown_trans: "grown m m1 \<Longrightarrow> grown m1 m2 \<Longrightarrow> grown m m2"
  by (auto simp: grown_def intro: map_le_trans)

lemma grown_wf: "grown m m' \<Longrightarrow> wf_memory m'"
  by (simp add: grown_def)

lemma grown_new:
  "wf_memory m \<Longrightarrow> grown m (m\<lparr>cells := (cells m)(brk m \<mapsto> c), brk := Suc (brk m)\<rparr>)"
  by (auto simp: grown_def wf_memory_def map_le_def less_Suc_eq)

lemma brk_fresh: "wf_memory m' \<Longrightarrow> grown m m' \<Longrightarrow> brk m' \<notin> dom (cells m)"
proof -
  assume "wf_memory m'" and "grown m m'"
  then have "dom (cells m) \<subseteq> {..<brk m'}"
    using map_le_implies_dom_le [of "cells m" "cells m'"] by (auto simp: grown_def wf_memory_def)
  then show "brk m' \<notin> dom (cells m)" by blast
qed

lemma fresh_mono: "grown m1 m2 \<Longrightarrow> fresh m m1 \<subseteq>\<^sub>m fresh m m2"
  by (auto simp: fresh_def grown_def map_le_iff restrict_map_def)

lemma fresh_later: "grown m m1 \<Longrightarrow> fresh m1 m2 \<subseteq>\<^sub>m fresh m m2"
  using map_le_implies_dom_le [of "cells m" "cells m1"]
  by (auto simp: fresh_def grown_def map_le_iff restrict_map_def split: if_splits)

lemma fresh_new: "wf_memory m' \<Longrightarrow> grown m m' \<Longrightarrow>
    fresh m (m'\<lparr>cells := (cells m')(brk m' \<mapsto> c), brk := Suc (brk m')\<rparr>) (brk m') = Some c"
  using brk_fresh [of m' m] by (simp add: fresh_def)

lemma fresh_le: "fresh m m' \<subseteq>\<^sub>m cells m'"
  by (simp add: fresh_def map_le_iff restrict_map_def)

text \<open>What can be said of the cells allocated since \<open>m0\<close>, now and after any further allocation.\<close>

definition later :: "'c memory \<Rightarrow> 'c memory \<Rightarrow> ((addr \<rightharpoonup> 'c) \<Rightarrow> bool) \<Rightarrow> bool" where
  "later m0 m F \<longleftrightarrow> (\<forall>m2. grown m m2 \<longrightarrow> F (fresh m0 m2))"

lemma later_now: "later m0 m F \<Longrightarrow> grown m0 m \<Longrightarrow> F (fresh m0 m)"
  by (auto simp: later_def intro: grown_refl grown_wf)

lemma copy_start:
  "wf_memory m \<Longrightarrow> (grown m m \<Longrightarrow> later m m (\<lambda>_. True) \<Longrightarrow> wp c Q E m) \<Longrightarrow> wp c Q E m"
  by (simp add: later_def grown_refl)

section \<open>Values of representations, and copying\<close>

text \<open>A representation \<open>x\<close> has the value \<open>rd x M\<close> in the cells \<open>M\<close>, if its pointers lead to cells there.\<close>

definition rd_ptr :: "('c \<Rightarrow> 'x option) \<Rightarrow> ('x \<Rightarrow> (addr \<rightharpoonup> 'c) \<Rightarrow> 'v option) \<Rightarrow> addr option \<Rightarrow> (addr \<rightharpoonup> 'c) \<Rightarrow> 'v option option" where
  "rd_ptr prj rd p M = (case p of None \<Rightarrow> Some None | Some a \<Rightarrow> Option.bind (Option.bind (M a) prj) (\<lambda>x. map_option Some (rd x M)))"

text \<open>A slice that is not nil is an array and a length, at most that of the array.\<close>

type_synonym slice_header = "(addr \<times> nat) option"

fun rd_all :: "('x \<Rightarrow> (addr \<rightharpoonup> 'c) \<Rightarrow> 'v option) \<Rightarrow> 'x list \<Rightarrow> (addr \<rightharpoonup> 'c) \<Rightarrow> 'v list option" where
  "rd_all rd [] M = Some []"
| "rd_all rd (x # xs) M = Option.bind (rd x M) (\<lambda>v. map_option ((#) v) (rd_all rd xs M))"

definition rd_slice :: "('c \<Rightarrow> 'x list option) \<Rightarrow> ('x \<Rightarrow> (addr \<rightharpoonup> 'c) \<Rightarrow> 'v option) \<Rightarrow> slice_header \<Rightarrow> (addr \<rightharpoonup> 'c) \<Rightarrow> 'v list option option" where
  "rd_slice prj rd s M = (case s of None \<Rightarrow> Some None
   | Some (a, n) \<Rightarrow> Option.bind (Option.bind (M a) prj) (\<lambda>xs.
       if n \<le> length xs then map_option Some (rd_all rd (take n xs) M) else None))"

text \<open>\<^verbatim>\<open>if in.F != nil { *out = new(T); (*in).DeepCopyInto(*out) }\<close>, where \<open>cp\<close> is \<^verbatim>\<open>DeepCopyInto\<close> as a function from
  what is copied to the copy.\<close>

definition copy_ptr :: "('x \<Rightarrow> 'c) \<Rightarrow> ('c \<Rightarrow> 'x option) \<Rightarrow> ('x \<Rightarrow> ('c memory, 'x) go) \<Rightarrow> addr option \<Rightarrow> ('c memory, addr option) go" where
  "copy_ptr mk prj cp p =
     (case p of None \<Rightarrow> returnM None
      | Some a \<Rightarrow> bindM (loadM prj a) (\<lambda>x. bindM (cp x) (\<lambda>y. bindM (newM (mk y)) (\<lambda>b. returnM (Some b)))))"

fun copy_all :: "('x \<Rightarrow> ('c memory, 'x) go) \<Rightarrow> 'x list \<Rightarrow> ('c memory, 'x list) go" where
  "copy_all cp [] = returnM []"
| "copy_all cp (x # xs) = bindM (cp x) (\<lambda>y. bindM (copy_all cp xs) (\<lambda>ys. returnM (y # ys)))"

text \<open>\<^verbatim>\<open>*out = make([]T, len(*in))\<close> and the loop over the elements; \<^verbatim>\<open>copy\<close> for elements without pointers.\<close>

definition copy_slice :: "('x list \<Rightarrow> 'c) \<Rightarrow> ('c \<Rightarrow> 'x list option) \<Rightarrow> ('x \<Rightarrow> ('c memory, 'x) go) \<Rightarrow> slice_header \<Rightarrow> ('c memory, slice_header) go" where
  "copy_slice mk prj cp s =
     (case s of None \<Rightarrow> returnM None
      | Some (a, n) \<Rightarrow> bindM (loadM prj a) (\<lambda>xs.
          if length xs < n then panicM ''slice bounds out of range''
          else bindM (copy_all cp (take n xs)) (\<lambda>ys. bindM (newM (mk ys)) (\<lambda>b. returnM (Some (b, n))))))"

section \<open>The contract of a deep copy\<close>

locale deep_copier =
  fixes rd :: "'x \<Rightarrow> (addr \<rightharpoonup> 'c) \<Rightarrow> 'v option" and cp :: "'x \<Rightarrow> ('c memory, 'x) go"
  assumes rd_mono: "rd x M = Some v \<Longrightarrow> M \<subseteq>\<^sub>m M' \<Longrightarrow> rd x M' = Some v"
    and cp_copies: "wf_memory m \<Longrightarrow> rd x (cells m) = Some v \<Longrightarrow>
      wp (cp x) (\<lambda>y m'. grown m m' \<and> rd y (fresh m m') = Some v) (\<lambda>_ _. False) m"
begin

text \<open>One copy in a sequence of copies that began in memory \<open>m0\<close>: it stays readable from what was allocated
  since, whatever is copied later.\<close>

lemma step_kept:
  assumes "grown m0 m" and "rd x (cells m0) = Some v"
    and "\<And>y m'. grown m m' \<Longrightarrow> grown m0 m' \<Longrightarrow> (\<And>m2. grown m' m2 \<Longrightarrow> rd y (fresh m0 m2) = Some v) \<Longrightarrow> wp (k y) Q E m'"
  shows "wp (bindM (cp x) k) Q E m"
  unfolding wp_bindM
proof (rule wp_mono [OF cp_copies [of m x v]], goal_cases)
  case 1
  show ?case using assms(1) by (rule grown_wf)
next
  case 2
  show ?case using rd_mono [OF assms(2)] assms(1) by (simp add: grown_def)
next
  case (3 y m')
  then have "rd y (fresh m0 m2) = Some v" if "grown m' m2" for m2
    using rd_mono [OF _ map_le_trans [OF fresh_mono [OF that] fresh_later [OF assms(1)]]] by blast
  then show ?case
    using 3 assms(1) by (intro assms(3)) (auto intro: grown_trans)
qed simp

lemma step:
  assumes "grown m0 m" and "later m0 m F" and "rd x (cells m0) = Some v"
    and "\<And>y m'. grown m0 m' \<Longrightarrow> later m0 m' (\<lambda>N. F N \<and> rd y N = Some v) \<Longrightarrow> wp (k y) Q E m'"
  shows "wp (bindM (cp x) k) Q E m"
  by (rule step_kept [OF assms(1,3)], rule assms(4)) (use assms(2) in \<open>auto simp: later_def intro: grown_trans\<close>)

text \<open>A copy keeps its value in all cells that contain the new ones, the original in all that contain the
  old ones.\<close>

lemma isolated:
  assumes "wf_memory m" and v: "rd x (cells m) = Some v"
  shows "wp (cp x) (\<lambda>y m'. cells m \<subseteq>\<^sub>m cells m' \<and> (\<forall>M. fresh m m' \<subseteq>\<^sub>m M \<longrightarrow> rd y M = Some v)
    \<and> (\<forall>M. cells m \<subseteq>\<^sub>m M \<longrightarrow> rd x M = Some v)) (\<lambda>_ _. False) m"
  by (rule wp_mono [OF cp_copies [OF assms]]) (use rd_mono [OF v] in \<open>auto simp: grown_def intro: rd_mono\<close>)

lemma rd_all_mono: "rd_all rd xs M = Some vs \<Longrightarrow> M \<subseteq>\<^sub>m M' \<Longrightarrow> rd_all rd xs M' = Some vs"
proof (induction xs arbitrary: vs)
  case (Cons x xs)
  then show ?case using rd_mono [of x M _ M'] by (fastforce simp: bind_eq_Some_conv)
qed simp

lemma copy_all_copies:
  "grown m0 m \<Longrightarrow> rd_all rd xs (cells m0) = Some vs \<Longrightarrow>
    (\<And>ys m'. grown m m' \<Longrightarrow> grown m0 m' \<Longrightarrow> length ys = length xs \<Longrightarrow> (\<And>m2. grown m' m2 \<Longrightarrow> rd_all rd ys (fresh m0 m2) = Some vs) \<Longrightarrow> Q ys m') \<Longrightarrow>
    wp (copy_all cp xs) Q (\<lambda>_ _. False) m"
proof (induction xs arbitrary: m vs Q)
  case (Cons x xs)
  then obtain v ws where v: "rd x (cells m0) = Some v" and ws: "rd_all rd xs (cells m0) = Some ws" and vs: "vs = v # ws"
    by (auto simp: bind_eq_Some_conv)
  show ?case
    unfolding copy_all.simps
  proof (rule step_kept [OF Cons.prems(1) v], unfold wp_bindM, rule Cons.IH [OF _ ws], goal_cases)
    case (2 y m1 ys m')
    then show ?case
      unfolding wp_returnM
      by (intro Cons.prems(3)) (auto simp: vs bind_eq_Some_conv intro: grown_trans)
  qed
qed (simp add: wp grown_wf grown_refl)

lemma ptr:
  assumes "\<And>x. prj (mk x) = Some x"
  shows "deep_copier (rd_ptr prj rd) (copy_ptr mk prj cp)"
proof
  fix p M v M' assume "rd_ptr prj rd p M = Some v" and le: "M \<subseteq>\<^sub>m M'"
  then show "rd_ptr prj rd p M' = Some v"
    using rd_mono [OF _ le] by (auto simp: rd_ptr_def map_le_iff bind_eq_Some_conv split: option.splits)
next
  fix m :: "'c memory" and p v assume wf: "wf_memory m" and v: "rd_ptr prj rd p (cells m) = Some v"
  show "wp (copy_ptr mk prj cp p) (\<lambda>q m'. grown m m' \<and> rd_ptr prj rd q (fresh m m') = Some v) (\<lambda>_ _. False) m"
  proof (cases p)
    case (Some a)
    with v obtain x w where x: "Option.bind (cells m a) prj = Some x" and w: "rd x (cells m) = Some w" "v = Some w"
      by (auto simp: rd_ptr_def bind_eq_Some_conv)
    have "wp (bindM (cp x) (\<lambda>y. bindM (newM (mk y)) (\<lambda>b. returnM (Some b))))
        (\<lambda>q m'. grown m m' \<and> rd_ptr prj rd q (fresh m m') = Some v) (\<lambda>_ _. False) m"
    proof (rule step_kept [OF grown_refl [OF wf] w(1)], goal_cases)
      case (1 y m')
      from 1(2) have "wf_memory m'" by (rule grown_wf)
      let ?m2 = "m'\<lparr>cells := (cells m')(brk m' \<mapsto> mk y), brk := Suc (brk m')\<rparr>"
      have m2: "grown m' ?m2" using \<open>wf_memory m'\<close> by (rule grown_new)
      show ?case
        using 1(3) [OF m2] grown_trans [OF 1(2) m2] fresh_new [OF \<open>wf_memory m'\<close> 1(2), of "mk y"]
        by (simp add: wp rd_ptr_def assms w(2))
    qed
    then show ?thesis by (simp add: copy_ptr_def Some wp x)
  qed (use wf v in \<open>simp add: copy_ptr_def wp rd_ptr_def grown_refl\<close>)
qed

lemma slice:
  assumes "\<And>xs. prj (mk xs) = Some xs"
  shows "deep_copier (rd_slice prj rd) (copy_slice mk prj cp)"
proof
  fix s M v M' assume v: "rd_slice prj rd s M = Some v" and le: "M \<subseteq>\<^sub>m M'"
  show "rd_slice prj rd s M' = Some v"
  proof (cases s)
    case (Some an)
    moreover obtain a n where "an = (a, n)" by (cases an)
    ultimately show ?thesis
      using v rd_all_mono [OF _ le] le
      by (auto simp: rd_slice_def map_le_iff bind_eq_Some_conv split: if_splits)
  qed (use v in \<open>simp add: rd_slice_def\<close>)
next
  fix m :: "'c memory" and s v assume wf: "wf_memory m" and v: "rd_slice prj rd s (cells m) = Some v"
  show "wp (copy_slice mk prj cp s) (\<lambda>t m'. grown m m' \<and> rd_slice prj rd t (fresh m m') = Some v) (\<lambda>_ _. False) m"
  proof (cases s)
    case (Some an)
    obtain a n where an: "an = (a, n)" by (cases an)
    with Some v obtain xs ws where xs: "Option.bind (cells m a) prj = Some xs" and len: "n \<le> length xs"
        and ws: "rd_all rd (take n xs) (cells m) = Some ws" "v = Some ws"
      by (auto simp: rd_slice_def bind_eq_Some_conv split: if_splits)
    have "wp (copy_all cp (take n xs)) (\<lambda>ys. wp (bindM (newM (mk ys)) (\<lambda>b. returnM (Some (b, n))))
        (\<lambda>t m'. grown m m' \<and> rd_slice prj rd t (fresh m m') = Some v) (\<lambda>_ _. False)) (\<lambda>_ _. False) m"
    proof (rule copy_all_copies [OF grown_refl [OF wf] ws(1)], goal_cases)
      case (1 ys m')
      from 1(2) have "wf_memory m'" by (rule grown_wf)
      let ?m2 = "m'\<lparr>cells := (cells m')(brk m' \<mapsto> mk ys), brk := Suc (brk m')\<rparr>"
      have m2: "grown m' ?m2" using \<open>wf_memory m'\<close> by (rule grown_new)
      have "length ys = n" using 1(3) len by simp
      then show ?case
        using 1(4) [OF m2] grown_trans [OF 1(2) m2] fresh_new [OF \<open>wf_memory m'\<close> 1(2), of "mk ys"]
        by (simp add: wp rd_slice_def assms ws(2))
    qed
    then show ?thesis using len by (simp add: copy_slice_def Some an wp xs not_less)
  qed (use wf v in \<open>simp add: copy_slice_def wp rd_slice_def grown_refl\<close>)
qed

end

text \<open>Values without pointers are copied by assignment.\<close>

interpretation plain: deep_copier "\<lambda>x M. Some x" returnM
  by unfold_locales (simp_all add: wp grown_refl)

lemma rd_all_plain [simp]: "rd_all (\<lambda>x M. Some x) xs M = Some xs"
  by (induction xs) simp_all

end
