(* ===== verification/DeepCopy.thy ===== *)
theory DeepCopy
  imports Memory ApiTypes
begin

text \<open>
  \<^verbatim>\<open>api/v1alpha1/zz_generated.deepcopy.go\<close> with the generated code of the imported types: an
  ImageClusterInstall as it lies in memory, and its deep copy. Fields that the operator neither
  reads nor writes are left out, as in \<open>ApiTypes\<close>.
\<close>

section \<open>Objects in memory\<close>

text \<open>Pointers are \<open>addr option\<close>, slices headers; a struct that is embedded by value is a record.\<close>

record mem_OwnerReference =
  mor_APIVersion :: string
  mor_Kind :: string
  mor_Name :: string
  mor_UID :: string
  mor_Controller :: "addr option"
  mor_BlockOwnerDeletion :: "addr option"

record mem_ObjectMeta =
  mom_Name :: string
  mom_Namespace :: string
  mom_UID :: string
  mom_Labels :: "addr option"
  mom_Annotations :: "addr option"
  mom_Finalizers :: slice_header
  mom_OwnerReferences :: slice_header
  mom_CreationTimestamp :: gotime
  mom_DeletionTimestamp :: "addr option"

record mem_ClusterMetadata =
  mmd_ClusterID :: string
  mmd_InfraID :: string
  mmd_AdminKubeconfigSecretRef :: string
  mmd_AdminPasswordSecretRef :: "addr option"

record mem_ImageDigestMirrors =
  midm_Source :: string
  midm_Mirrors :: slice_header
  midm_MirrorSourcePolicy :: string

record mem_Spec =
  msp_ClusterDeploymentRef :: "addr option"
  msp_ImageSetRef :: string
  msp_ClusterMetadata :: "addr option"
  msp_NodeIP :: string
  msp_Hostname :: string
  msp_SSHKey :: string
  msp_ImageDigestSources :: slice_header
  msp_CABundleRef :: "addr option"
  msp_ExtraManifestsRefs :: slice_header
  msp_BareMetalHostRef :: "addr option"
  msp_MachineNetwork :: string
  msp_MachineNetworks :: slice_header
  msp_Proxy :: "addr option"
  msp_AdditionalNTPSources :: slice_header

record mem_Status =
  mst_Conditions :: slice_header
  mst_InstallRestarts :: int
  mst_BareMetalHostRef :: "addr option"
  mst_BootTime :: gotime

record mem_ICI =
  mici_Meta :: mem_ObjectMeta
  mici_Spec :: mem_Spec
  mici_Status :: mem_Status

text \<open>What a cell holds: the target of a pointer, the array of a slice or a map.\<close>

datatype cell =
    CText string                                  \<comment> \<open>\<^verbatim>\<open>*LocalObjectReference\<close>\<close>
  | CTexts "string list"                          \<comment> \<open>\<^verbatim>\<open>[]LocalObjectReference\<close>, \<^verbatim>\<open>[]string\<close>, \<^verbatim>\<open>[]ImageMirror\<close>\<close>
  | CBool bool
  | CTime gotime
  | CMap "string \<rightharpoonup> string"
  | COwners "mem_OwnerReference list"
  | CMetadata mem_ClusterMetadata
  | CMirrors "mem_ImageDigestMirrors list"
  | CHost BareMetalHostReference
  | CNetworks "MachineNetworkEntry list"
  | CProxy Proxy
  | CConds "ClusterInstallCondition list"
  | CSpec mem_Spec
  | CStatus mem_Status
  | CNetwork MachineNetworkEntry
  | CICI mem_ICI
  | CICIs "mem_ICI list"
  | CList slice_header                            \<comment> \<open>\<^verbatim>\<open>*ImageClusterInstallList\<close>, by its items\<close>

fun as_Text where "as_Text (CText x) = Some x" | "as_Text _ = None"
fun as_Texts where "as_Texts (CTexts x) = Some x" | "as_Texts _ = None"
fun as_Bool where "as_Bool (CBool x) = Some x" | "as_Bool _ = None"
fun as_Time where "as_Time (CTime x) = Some x" | "as_Time _ = None"
fun as_Map where "as_Map (CMap x) = Some x" | "as_Map _ = None"
fun as_Owners where "as_Owners (COwners x) = Some x" | "as_Owners _ = None"
fun as_Metadata where "as_Metadata (CMetadata x) = Some x" | "as_Metadata _ = None"
fun as_Mirrors where "as_Mirrors (CMirrors x) = Some x" | "as_Mirrors _ = None"
fun as_Host where "as_Host (CHost x) = Some x" | "as_Host _ = None"
fun as_Networks where "as_Networks (CNetworks x) = Some x" | "as_Networks _ = None"
fun as_Proxy where "as_Proxy (CProxy x) = Some x" | "as_Proxy _ = None"
fun as_Conds where "as_Conds (CConds x) = Some x" | "as_Conds _ = None"
fun as_ICI where "as_ICI (CICI x) = Some x" | "as_ICI _ = None"
fun as_ICIs where "as_ICIs (CICIs x) = Some x" | "as_ICIs _ = None"
fun as_Spec where "as_Spec (CSpec x) = Some x" | "as_Spec _ = None"
fun as_Status where "as_Status (CStatus x) = Some x" | "as_Status _ = None"
fun as_Network where "as_Network (CNetwork x) = Some x" | "as_Network _ = None"
fun as_List where "as_List (CList x) = Some x" | "as_List _ = None"

type_synonym mem = "cell memory"

section \<open>The generated code\<close>

definition OwnerReference_DeepCopyInto :: "mem_OwnerReference \<Rightarrow> (mem, mem_OwnerReference) go" where
  "OwnerReference_DeepCopyInto x =
     bindM (copy_ptr CBool as_Bool returnM (mor_Controller x)) (\<lambda>controller.
     bindM (copy_ptr CBool as_Bool returnM (mor_BlockOwnerDeletion x)) (\<lambda>block.
     returnM (x\<lparr>mor_Controller := controller, mor_BlockOwnerDeletion := block\<rparr>)))"

definition ObjectMeta_DeepCopyInto :: "mem_ObjectMeta \<Rightarrow> (mem, mem_ObjectMeta) go" where
  "ObjectMeta_DeepCopyInto x =
     bindM (copy_ptr CTime as_Time returnM (mom_DeletionTimestamp x)) (\<lambda>deletion.
     bindM (copy_ptr CMap as_Map returnM (mom_Labels x)) (\<lambda>labels.
     bindM (copy_ptr CMap as_Map returnM (mom_Annotations x)) (\<lambda>annotations.
     bindM (copy_slice COwners as_Owners OwnerReference_DeepCopyInto (mom_OwnerReferences x)) (\<lambda>owners.
     bindM (copy_slice CTexts as_Texts returnM (mom_Finalizers x)) (\<lambda>finalizers.
     returnM (x\<lparr>mom_DeletionTimestamp := deletion, mom_Labels := labels, mom_Annotations := annotations,
       mom_OwnerReferences := owners, mom_Finalizers := finalizers\<rparr>))))))"

definition ClusterMetadata_DeepCopyInto :: "mem_ClusterMetadata \<Rightarrow> (mem, mem_ClusterMetadata) go" where
  "ClusterMetadata_DeepCopyInto x =
     bindM (copy_ptr CText as_Text returnM (mmd_AdminPasswordSecretRef x)) (\<lambda>password.
     returnM (x\<lparr>mmd_AdminPasswordSecretRef := password\<rparr>))"

definition ImageDigestMirrors_DeepCopyInto :: "mem_ImageDigestMirrors \<Rightarrow> (mem, mem_ImageDigestMirrors) go" where
  "ImageDigestMirrors_DeepCopyInto x =
     bindM (copy_slice CTexts as_Texts returnM (midm_Mirrors x)) (\<lambda>mirrors. returnM (x\<lparr>midm_Mirrors := mirrors\<rparr>))"

definition Spec_DeepCopyInto :: "mem_Spec \<Rightarrow> (mem, mem_Spec) go" where
  "Spec_DeepCopyInto x =
     bindM (copy_ptr CText as_Text returnM (msp_ClusterDeploymentRef x)) (\<lambda>cd.
     bindM (copy_ptr CMetadata as_Metadata ClusterMetadata_DeepCopyInto (msp_ClusterMetadata x)) (\<lambda>metadata.
     bindM (copy_slice CMirrors as_Mirrors ImageDigestMirrors_DeepCopyInto (msp_ImageDigestSources x)) (\<lambda>sources.
     bindM (copy_ptr CText as_Text returnM (msp_CABundleRef x)) (\<lambda>ca.
     bindM (copy_slice CTexts as_Texts returnM (msp_ExtraManifestsRefs x)) (\<lambda>manifests.
     bindM (copy_ptr CHost as_Host returnM (msp_BareMetalHostRef x)) (\<lambda>host.
     bindM (copy_slice CNetworks as_Networks returnM (msp_MachineNetworks x)) (\<lambda>networks.
     bindM (copy_ptr CProxy as_Proxy returnM (msp_Proxy x)) (\<lambda>proxy.
     bindM (copy_slice CTexts as_Texts returnM (msp_AdditionalNTPSources x)) (\<lambda>ntp.
     returnM (x\<lparr>msp_ClusterDeploymentRef := cd, msp_ClusterMetadata := metadata, msp_ImageDigestSources := sources,
       msp_CABundleRef := ca, msp_ExtraManifestsRefs := manifests, msp_BareMetalHostRef := host,
       msp_MachineNetworks := networks, msp_Proxy := proxy, msp_AdditionalNTPSources := ntp\<rparr>))))))))))"

definition Status_DeepCopyInto :: "mem_Status \<Rightarrow> (mem, mem_Status) go" where
  "Status_DeepCopyInto x =
     bindM (copy_slice CConds as_Conds returnM (mst_Conditions x)) (\<lambda>conditions.
     bindM (copy_ptr CHost as_Host returnM (mst_BareMetalHostRef x)) (\<lambda>host.
     returnM (x\<lparr>mst_Conditions := conditions, mst_BareMetalHostRef := host\<rparr>)))"

definition ICI_DeepCopyInto :: "mem_ICI \<Rightarrow> (mem, mem_ICI) go" where
  "ICI_DeepCopyInto x =
     bindM (ObjectMeta_DeepCopyInto (mici_Meta x)) (\<lambda>meta.
     bindM (Spec_DeepCopyInto (mici_Spec x)) (\<lambda>spec.
     bindM (Status_DeepCopyInto (mici_Status x)) (\<lambda>status.
     returnM (x\<lparr>mici_Meta := meta, mici_Spec := spec, mici_Status := status\<rparr>))))"

text \<open>\<^verbatim>\<open>DeepCopy\<close>: nil for nil, and otherwise a new struct that is filled by \<^verbatim>\<open>DeepCopyInto\<close>.\<close>

definition ICI_DeepCopy :: "addr option \<Rightarrow> (mem, addr option) go" where
  "ICI_DeepCopy = copy_ptr CICI as_ICI ICI_DeepCopyInto"

definition ICI_DeepCopyObject :: "addr option \<Rightarrow> (mem, addr option) go" where
  "ICI_DeepCopyObject p = bindM (ICI_DeepCopy p) (\<lambda>c. case c of Some a \<Rightarrow> returnM (Some a) | None \<Rightarrow> returnM None)"

definition ICIList_DeepCopyInto :: "slice_header \<Rightarrow> (mem, slice_header) go" where
  "ICIList_DeepCopyInto = copy_slice CICIs as_ICIs ICI_DeepCopyInto"

definition ICIList_DeepCopy :: "addr option \<Rightarrow> (mem, addr option) go" where
  "ICIList_DeepCopy = copy_ptr CList as_List ICIList_DeepCopyInto"

definition ICIList_DeepCopyObject :: "addr option \<Rightarrow> (mem, addr option) go" where
  "ICIList_DeepCopyObject p = bindM (ICIList_DeepCopy p) (\<lambda>c. case c of Some a \<Rightarrow> returnM (Some a) | None \<Rightarrow> returnM None)"

definition Spec_DeepCopy :: "addr option \<Rightarrow> (mem, addr option) go" where
  "Spec_DeepCopy = copy_ptr CSpec as_Spec Spec_DeepCopyInto"

definition Status_DeepCopy :: "addr option \<Rightarrow> (mem, addr option) go" where
  "Status_DeepCopy = copy_ptr CStatus as_Status Status_DeepCopyInto"

definition BareMetalHostReference_DeepCopyInto :: "BareMetalHostReference \<Rightarrow> (mem, BareMetalHostReference) go" where
  "BareMetalHostReference_DeepCopyInto x = returnM x"

definition BareMetalHostReference_DeepCopy :: "addr option \<Rightarrow> (mem, addr option) go" where
  "BareMetalHostReference_DeepCopy = copy_ptr CHost as_Host BareMetalHostReference_DeepCopyInto"

definition MachineNetworkEntry_DeepCopyInto :: "MachineNetworkEntry \<Rightarrow> (mem, MachineNetworkEntry) go" where
  "MachineNetworkEntry_DeepCopyInto x = returnM x"

definition MachineNetworkEntry_DeepCopy :: "addr option \<Rightarrow> (mem, addr option) go" where
  "MachineNetworkEntry_DeepCopy = copy_ptr CNetwork as_Network MachineNetworkEntry_DeepCopyInto"

definition Proxy_DeepCopyInto :: "Proxy \<Rightarrow> (mem, Proxy) go" where
  "Proxy_DeepCopyInto x = returnM x"

definition Proxy_DeepCopy :: "addr option \<Rightarrow> (mem, addr option) go" where
  "Proxy_DeepCopy = copy_ptr CProxy as_Proxy Proxy_DeepCopyInto"

section \<open>What the representations stand for\<close>

abbreviation rd_plain :: "'x \<Rightarrow> (addr \<rightharpoonup> cell) \<Rightarrow> 'x option" where
  "rd_plain x M \<equiv> Some x"

definition rd_OwnerReference :: "mem_OwnerReference \<Rightarrow> (addr \<rightharpoonup> cell) \<Rightarrow> OwnerReference option" where
  "rd_OwnerReference x M = do {
     controller \<leftarrow> rd_ptr as_Bool rd_plain (mor_Controller x) M;
     block \<leftarrow> rd_ptr as_Bool rd_plain (mor_BlockOwnerDeletion x) M;
     Some \<lparr>or_APIVersion = mor_APIVersion x, or_Kind = mor_Kind x, or_Name = mor_Name x, or_UID = mor_UID x,
       or_Controller = controller, or_BlockOwnerDeletion = block\<rparr> }"

definition rd_ObjectMeta :: "mem_ObjectMeta \<Rightarrow> (addr \<rightharpoonup> cell) \<Rightarrow> ObjectMeta option" where
  "rd_ObjectMeta x M = do {
     deletion \<leftarrow> rd_ptr as_Time rd_plain (mom_DeletionTimestamp x) M;
     labels \<leftarrow> rd_ptr as_Map rd_plain (mom_Labels x) M;
     annotations \<leftarrow> rd_ptr as_Map rd_plain (mom_Annotations x) M;
     owners \<leftarrow> rd_slice as_Owners rd_OwnerReference (mom_OwnerReferences x) M;
     finalizers \<leftarrow> rd_slice as_Texts rd_plain (mom_Finalizers x) M;
     Some \<lparr>om_Name = mom_Name x, om_Namespace = mom_Namespace x, om_UID = mom_UID x, om_Labels = labels,
       om_Annotations = annotations, om_Finalizers = elems finalizers, om_OwnerReferences = elems owners,
       om_CreationTimestamp = mom_CreationTimestamp x, om_DeletionTimestamp = deletion\<rparr> }"

definition rd_ClusterMetadata :: "mem_ClusterMetadata \<Rightarrow> (addr \<rightharpoonup> cell) \<Rightarrow> ClusterMetadata option" where
  "rd_ClusterMetadata x M = do {
     password \<leftarrow> rd_ptr as_Text rd_plain (mmd_AdminPasswordSecretRef x) M;
     Some \<lparr>md_ClusterID = mmd_ClusterID x, md_InfraID = mmd_InfraID x,
       md_AdminKubeconfigSecretRef = mmd_AdminKubeconfigSecretRef x, md_AdminPasswordSecretRef = password\<rparr> }"

definition rd_ImageDigestMirrors :: "mem_ImageDigestMirrors \<Rightarrow> (addr \<rightharpoonup> cell) \<Rightarrow> ImageDigestMirrors option" where
  "rd_ImageDigestMirrors x M = do {
     mirrors \<leftarrow> rd_slice as_Texts rd_plain (midm_Mirrors x) M;
     Some \<lparr>idm_Source = midm_Source x, idm_Mirrors = mirrors, idm_MirrorSourcePolicy = midm_MirrorSourcePolicy x\<rparr> }"

definition rd_Spec :: "mem_Spec \<Rightarrow> (addr \<rightharpoonup> cell) \<Rightarrow> ImageClusterInstallSpec option" where
  "rd_Spec x M = do {
     cd \<leftarrow> rd_ptr as_Text rd_plain (msp_ClusterDeploymentRef x) M;
     metadata \<leftarrow> rd_ptr as_Metadata rd_ClusterMetadata (msp_ClusterMetadata x) M;
     sources \<leftarrow> rd_slice as_Mirrors rd_ImageDigestMirrors (msp_ImageDigestSources x) M;
     ca \<leftarrow> rd_ptr as_Text rd_plain (msp_CABundleRef x) M;
     manifests \<leftarrow> rd_slice as_Texts rd_plain (msp_ExtraManifestsRefs x) M;
     host \<leftarrow> rd_ptr as_Host rd_plain (msp_BareMetalHostRef x) M;
     networks \<leftarrow> rd_slice as_Networks rd_plain (msp_MachineNetworks x) M;
     proxy \<leftarrow> rd_ptr as_Proxy rd_plain (msp_Proxy x) M;
     ntp \<leftarrow> rd_slice as_Texts rd_plain (msp_AdditionalNTPSources x) M;
     Some \<lparr>sp_ClusterDeploymentRef = cd, sp_ImageSetRef = msp_ImageSetRef x, sp_ClusterMetadata = metadata,
       sp_NodeIP = msp_NodeIP x, sp_Hostname = msp_Hostname x, sp_SSHKey = msp_SSHKey x,
       sp_ImageDigestSources = sources, sp_CABundleRef = ca, sp_ExtraManifestsRefs = manifests,
       sp_BareMetalHostRef = host, sp_MachineNetwork = msp_MachineNetwork x, sp_MachineNetworks = networks,
       sp_Proxy = proxy, sp_AdditionalNTPSources = ntp\<rparr> }"

definition rd_Status :: "mem_Status \<Rightarrow> (addr \<rightharpoonup> cell) \<Rightarrow> ImageClusterInstallStatus option" where
  "rd_Status x M = do {
     conditions \<leftarrow> rd_slice as_Conds rd_plain (mst_Conditions x) M;
     host \<leftarrow> rd_ptr as_Host rd_plain (mst_BareMetalHostRef x) M;
     Some \<lparr>st_Conditions = elems conditions, st_InstallRestarts = mst_InstallRestarts x,
       st_BareMetalHostRef = host, st_BootTime = mst_BootTime x\<rparr> }"

definition rd_ICI :: "mem_ICI \<Rightarrow> (addr \<rightharpoonup> cell) \<Rightarrow> ImageClusterInstall option" where
  "rd_ICI x M = do {
     meta \<leftarrow> rd_ObjectMeta (mici_Meta x) M;
     spec \<leftarrow> rd_Spec (mici_Spec x) M;
     status \<leftarrow> rd_Status (mici_Status x) M;
     Some \<lparr>ici_Meta = meta, ici_Spec = spec, ici_Status = status\<rparr> }"

lemmas rd_defs = rd_OwnerReference_def rd_ObjectMeta_def rd_ClusterMetadata_def rd_ImageDigestMirrors_def
  rd_Spec_def rd_Status_def rd_ICI_def

section \<open>The code fulfils the contract\<close>

interpretation text_ptr: deep_copier "rd_ptr as_Text rd_plain" "copy_ptr CText as_Text returnM"
  by (rule plain.ptr) simp
interpretation bool_ptr: deep_copier "rd_ptr as_Bool rd_plain" "copy_ptr CBool as_Bool returnM"
  by (rule plain.ptr) simp
interpretation time_ptr: deep_copier "rd_ptr as_Time rd_plain" "copy_ptr CTime as_Time returnM"
  by (rule plain.ptr) simp
interpretation map_ptr: deep_copier "rd_ptr as_Map rd_plain" "copy_ptr CMap as_Map returnM"
  by (rule plain.ptr) simp
interpretation host_ptr: deep_copier "rd_ptr as_Host rd_plain" "copy_ptr CHost as_Host returnM"
  by (rule plain.ptr) simp
interpretation proxy_ptr: deep_copier "rd_ptr as_Proxy rd_plain" "copy_ptr CProxy as_Proxy returnM"
  by (rule plain.ptr) simp
interpretation texts: deep_copier "rd_slice as_Texts rd_plain" "copy_slice CTexts as_Texts returnM"
  by (rule plain.slice) simp
interpretation networks: deep_copier "rd_slice as_Networks rd_plain" "copy_slice CNetworks as_Networks returnM"
  by (rule plain.slice) simp
interpretation conds_slice: deep_copier "rd_slice as_Conds rd_plain" "copy_slice CConds as_Conds returnM"
  by (rule plain.slice) simp

interpretation OwnerReference: deep_copier rd_OwnerReference OwnerReference_DeepCopyInto
proof
  fix x M v M' assume v: "rd_OwnerReference x M = Some v" and le: "M \<subseteq>\<^sub>m M'"
  then obtain controller block where controller: "rd_ptr as_Bool rd_plain (mor_Controller x) M = Some controller"
      and block: "rd_ptr as_Bool rd_plain (mor_BlockOwnerDeletion x) M = Some block"
    by (auto simp: rd_OwnerReference_def bind_eq_Some_conv)
  from v show "rd_OwnerReference x M' = Some v"
    by (simp add: rd_OwnerReference_def controller block
        bool_ptr.rd_mono [OF controller le]
        bool_ptr.rd_mono [OF block le])
next
  fix m :: mem and x v assume wf: "wf_memory m" and v: "rd_OwnerReference x (cells m) = Some v"
  then obtain controller block where controller: "rd_ptr as_Bool rd_plain (mor_Controller x) (cells m) = Some controller"
      and block: "rd_ptr as_Bool rd_plain (mor_BlockOwnerDeletion x) (cells m) = Some block"
    by (auto simp: rd_OwnerReference_def bind_eq_Some_conv)
  from v show "wp (OwnerReference_DeepCopyInto x) (\<lambda>y m'. grown m m' \<and> rd_OwnerReference y (fresh m m') = Some v) (\<lambda>_ _. False) m"
    unfolding OwnerReference_DeepCopyInto_def
    by - (rule copy_start [OF wf], (rule bool_ptr.step [OF _ _ controller]
        bool_ptr.step [OF _ _ block],
        assumption, assumption)+, auto simp: wp rd_OwnerReference_def controller block dest!: later_now)
qed

interpretation owners: deep_copier "rd_slice as_Owners rd_OwnerReference" "copy_slice COwners as_Owners OwnerReference_DeepCopyInto"
  by (rule OwnerReference.slice) simp

interpretation ObjectMeta: deep_copier rd_ObjectMeta ObjectMeta_DeepCopyInto
proof
  fix x M v M' assume v: "rd_ObjectMeta x M = Some v" and le: "M \<subseteq>\<^sub>m M'"
  then obtain deletion labels annotations owner finalizers where deletion: "rd_ptr as_Time rd_plain (mom_DeletionTimestamp x) M = Some deletion"
      and labels: "rd_ptr as_Map rd_plain (mom_Labels x) M = Some labels"
      and annotations: "rd_ptr as_Map rd_plain (mom_Annotations x) M = Some annotations"
      and owner: "rd_slice as_Owners rd_OwnerReference (mom_OwnerReferences x) M = Some owner"
      and finalizers: "rd_slice as_Texts rd_plain (mom_Finalizers x) M = Some finalizers"
    by (auto simp: rd_ObjectMeta_def bind_eq_Some_conv)
  from v show "rd_ObjectMeta x M' = Some v"
    by (simp add: rd_ObjectMeta_def deletion labels annotations owner finalizers
        time_ptr.rd_mono [OF deletion le]
        map_ptr.rd_mono [OF labels le]
        map_ptr.rd_mono [OF annotations le]
        owners.rd_mono [OF owner le]
        texts.rd_mono [OF finalizers le])
next
  fix m :: mem and x v assume wf: "wf_memory m" and v: "rd_ObjectMeta x (cells m) = Some v"
  then obtain deletion labels annotations owner finalizers where deletion: "rd_ptr as_Time rd_plain (mom_DeletionTimestamp x) (cells m) = Some deletion"
      and labels: "rd_ptr as_Map rd_plain (mom_Labels x) (cells m) = Some labels"
      and annotations: "rd_ptr as_Map rd_plain (mom_Annotations x) (cells m) = Some annotations"
      and owner: "rd_slice as_Owners rd_OwnerReference (mom_OwnerReferences x) (cells m) = Some owner"
      and finalizers: "rd_slice as_Texts rd_plain (mom_Finalizers x) (cells m) = Some finalizers"
    by (auto simp: rd_ObjectMeta_def bind_eq_Some_conv)
  from v show "wp (ObjectMeta_DeepCopyInto x) (\<lambda>y m'. grown m m' \<and> rd_ObjectMeta y (fresh m m') = Some v) (\<lambda>_ _. False) m"
    unfolding ObjectMeta_DeepCopyInto_def
    by - (rule copy_start [OF wf], (rule time_ptr.step [OF _ _ deletion]
        map_ptr.step [OF _ _ labels]
        map_ptr.step [OF _ _ annotations]
        owners.step [OF _ _ owner]
        texts.step [OF _ _ finalizers],
        assumption, assumption)+, auto simp: wp rd_ObjectMeta_def deletion labels annotations owner finalizers dest!: later_now)
qed

interpretation ClusterMetadata: deep_copier rd_ClusterMetadata ClusterMetadata_DeepCopyInto
proof
  fix x M v M' assume v: "rd_ClusterMetadata x M = Some v" and le: "M \<subseteq>\<^sub>m M'"
  then obtain password where password: "rd_ptr as_Text rd_plain (mmd_AdminPasswordSecretRef x) M = Some password"
    by (auto simp: rd_ClusterMetadata_def bind_eq_Some_conv)
  from v show "rd_ClusterMetadata x M' = Some v"
    by (simp add: rd_ClusterMetadata_def password
        text_ptr.rd_mono [OF password le])
next
  fix m :: mem and x v assume wf: "wf_memory m" and v: "rd_ClusterMetadata x (cells m) = Some v"
  then obtain password where password: "rd_ptr as_Text rd_plain (mmd_AdminPasswordSecretRef x) (cells m) = Some password"
    by (auto simp: rd_ClusterMetadata_def bind_eq_Some_conv)
  from v show "wp (ClusterMetadata_DeepCopyInto x) (\<lambda>y m'. grown m m' \<and> rd_ClusterMetadata y (fresh m m') = Some v) (\<lambda>_ _. False) m"
    unfolding ClusterMetadata_DeepCopyInto_def
    by - (rule copy_start [OF wf], (rule text_ptr.step [OF _ _ password],
        assumption, assumption)+, auto simp: wp rd_ClusterMetadata_def password dest!: later_now)
qed

interpretation ImageDigestMirrors: deep_copier rd_ImageDigestMirrors ImageDigestMirrors_DeepCopyInto
proof
  fix x M v M' assume v: "rd_ImageDigestMirrors x M = Some v" and le: "M \<subseteq>\<^sub>m M'"
  then obtain mirrors where mirrors: "rd_slice as_Texts rd_plain (midm_Mirrors x) M = Some mirrors"
    by (auto simp: rd_ImageDigestMirrors_def bind_eq_Some_conv)
  from v show "rd_ImageDigestMirrors x M' = Some v"
    by (simp add: rd_ImageDigestMirrors_def mirrors
        texts.rd_mono [OF mirrors le])
next
  fix m :: mem and x v assume wf: "wf_memory m" and v: "rd_ImageDigestMirrors x (cells m) = Some v"
  then obtain mirrors where mirrors: "rd_slice as_Texts rd_plain (midm_Mirrors x) (cells m) = Some mirrors"
    by (auto simp: rd_ImageDigestMirrors_def bind_eq_Some_conv)
  from v show "wp (ImageDigestMirrors_DeepCopyInto x) (\<lambda>y m'. grown m m' \<and> rd_ImageDigestMirrors y (fresh m m') = Some v) (\<lambda>_ _. False) m"
    unfolding ImageDigestMirrors_DeepCopyInto_def
    by - (rule copy_start [OF wf], (rule texts.step [OF _ _ mirrors],
        assumption, assumption)+, auto simp: wp rd_ImageDigestMirrors_def mirrors dest!: later_now)
qed

interpretation metadata_ptr: deep_copier "rd_ptr as_Metadata rd_ClusterMetadata" "copy_ptr CMetadata as_Metadata ClusterMetadata_DeepCopyInto"
  by (rule ClusterMetadata.ptr) simp
interpretation sources: deep_copier "rd_slice as_Mirrors rd_ImageDigestMirrors" "copy_slice CMirrors as_Mirrors ImageDigestMirrors_DeepCopyInto"
  by (rule ImageDigestMirrors.slice) simp

interpretation Spec: deep_copier rd_Spec Spec_DeepCopyInto
proof
  fix x M v M' assume v: "rd_Spec x M = Some v" and le: "M \<subseteq>\<^sub>m M'"
  then obtain cd metadata source ca manifests host nets proxy ntp where cd: "rd_ptr as_Text rd_plain (msp_ClusterDeploymentRef x) M = Some cd"
      and metadata: "rd_ptr as_Metadata rd_ClusterMetadata (msp_ClusterMetadata x) M = Some metadata"
      and source: "rd_slice as_Mirrors rd_ImageDigestMirrors (msp_ImageDigestSources x) M = Some source"
      and ca: "rd_ptr as_Text rd_plain (msp_CABundleRef x) M = Some ca"
      and manifests: "rd_slice as_Texts rd_plain (msp_ExtraManifestsRefs x) M = Some manifests"
      and host: "rd_ptr as_Host rd_plain (msp_BareMetalHostRef x) M = Some host"
      and nets: "rd_slice as_Networks rd_plain (msp_MachineNetworks x) M = Some nets"
      and proxy: "rd_ptr as_Proxy rd_plain (msp_Proxy x) M = Some proxy"
      and ntp: "rd_slice as_Texts rd_plain (msp_AdditionalNTPSources x) M = Some ntp"
    by (auto simp: rd_Spec_def bind_eq_Some_conv)
  from v show "rd_Spec x M' = Some v"
    by (simp add: rd_Spec_def cd metadata source ca manifests host nets proxy ntp
        text_ptr.rd_mono [OF cd le]
        metadata_ptr.rd_mono [OF metadata le]
        sources.rd_mono [OF source le]
        text_ptr.rd_mono [OF ca le]
        texts.rd_mono [OF manifests le]
        host_ptr.rd_mono [OF host le]
        networks.rd_mono [OF nets le]
        proxy_ptr.rd_mono [OF proxy le]
        texts.rd_mono [OF ntp le])
next
  fix m :: mem and x v assume wf: "wf_memory m" and v: "rd_Spec x (cells m) = Some v"
  then obtain cd metadata source ca manifests host nets proxy ntp where cd: "rd_ptr as_Text rd_plain (msp_ClusterDeploymentRef x) (cells m) = Some cd"
      and metadata: "rd_ptr as_Metadata rd_ClusterMetadata (msp_ClusterMetadata x) (cells m) = Some metadata"
      and source: "rd_slice as_Mirrors rd_ImageDigestMirrors (msp_ImageDigestSources x) (cells m) = Some source"
      and ca: "rd_ptr as_Text rd_plain (msp_CABundleRef x) (cells m) = Some ca"
      and manifests: "rd_slice as_Texts rd_plain (msp_ExtraManifestsRefs x) (cells m) = Some manifests"
      and host: "rd_ptr as_Host rd_plain (msp_BareMetalHostRef x) (cells m) = Some host"
      and nets: "rd_slice as_Networks rd_plain (msp_MachineNetworks x) (cells m) = Some nets"
      and proxy: "rd_ptr as_Proxy rd_plain (msp_Proxy x) (cells m) = Some proxy"
      and ntp: "rd_slice as_Texts rd_plain (msp_AdditionalNTPSources x) (cells m) = Some ntp"
    by (auto simp: rd_Spec_def bind_eq_Some_conv)
  from v show "wp (Spec_DeepCopyInto x) (\<lambda>y m'. grown m m' \<and> rd_Spec y (fresh m m') = Some v) (\<lambda>_ _. False) m"
    unfolding Spec_DeepCopyInto_def
    by - (rule copy_start [OF wf], (rule text_ptr.step [OF _ _ cd]
        metadata_ptr.step [OF _ _ metadata]
        sources.step [OF _ _ source]
        text_ptr.step [OF _ _ ca]
        texts.step [OF _ _ manifests]
        host_ptr.step [OF _ _ host]
        networks.step [OF _ _ nets]
        proxy_ptr.step [OF _ _ proxy]
        texts.step [OF _ _ ntp],
        assumption, assumption)+, auto simp: wp rd_Spec_def cd metadata source ca manifests host nets proxy ntp dest!: later_now)
qed

interpretation Status: deep_copier rd_Status Status_DeepCopyInto
proof
  fix x M v M' assume v: "rd_Status x M = Some v" and le: "M \<subseteq>\<^sub>m M'"
  then obtain conditions host where conditions: "rd_slice as_Conds rd_plain (mst_Conditions x) M = Some conditions"
      and host: "rd_ptr as_Host rd_plain (mst_BareMetalHostRef x) M = Some host"
    by (auto simp: rd_Status_def bind_eq_Some_conv)
  from v show "rd_Status x M' = Some v"
    by (simp add: rd_Status_def conditions host
        conds_slice.rd_mono [OF conditions le]
        host_ptr.rd_mono [OF host le])
next
  fix m :: mem and x v assume wf: "wf_memory m" and v: "rd_Status x (cells m) = Some v"
  then obtain conditions host where conditions: "rd_slice as_Conds rd_plain (mst_Conditions x) (cells m) = Some conditions"
      and host: "rd_ptr as_Host rd_plain (mst_BareMetalHostRef x) (cells m) = Some host"
    by (auto simp: rd_Status_def bind_eq_Some_conv)
  from v show "wp (Status_DeepCopyInto x) (\<lambda>y m'. grown m m' \<and> rd_Status y (fresh m m') = Some v) (\<lambda>_ _. False) m"
    unfolding Status_DeepCopyInto_def
    by - (rule copy_start [OF wf], (rule conds_slice.step [OF _ _ conditions]
        host_ptr.step [OF _ _ host],
        assumption, assumption)+, auto simp: wp rd_Status_def conditions host dest!: later_now)
qed

interpretation ICI: deep_copier rd_ICI ICI_DeepCopyInto
proof
  fix x M v M' assume v: "rd_ICI x M = Some v" and le: "M \<subseteq>\<^sub>m M'"
  then obtain meta spec status where meta: "rd_ObjectMeta (mici_Meta x) M = Some meta"
      and spec: "rd_Spec (mici_Spec x) M = Some spec"
      and status: "rd_Status (mici_Status x) M = Some status"
    by (auto simp: rd_ICI_def bind_eq_Some_conv)
  from v show "rd_ICI x M' = Some v"
    by (simp add: rd_ICI_def meta spec status
        ObjectMeta.rd_mono [OF meta le]
        Spec.rd_mono [OF spec le]
        Status.rd_mono [OF status le])
next
  fix m :: mem and x v assume wf: "wf_memory m" and v: "rd_ICI x (cells m) = Some v"
  then obtain meta spec status where meta: "rd_ObjectMeta (mici_Meta x) (cells m) = Some meta"
      and spec: "rd_Spec (mici_Spec x) (cells m) = Some spec"
      and status: "rd_Status (mici_Status x) (cells m) = Some status"
    by (auto simp: rd_ICI_def bind_eq_Some_conv)
  from v show "wp (ICI_DeepCopyInto x) (\<lambda>y m'. grown m m' \<and> rd_ICI y (fresh m m') = Some v) (\<lambda>_ _. False) m"
    unfolding ICI_DeepCopyInto_def
    by - (rule copy_start [OF wf], (rule ObjectMeta.step [OF _ _ meta]
        Spec.step [OF _ _ spec]
        Status.step [OF _ _ status],
        assumption, assumption)+, auto simp: wp rd_ICI_def meta spec status dest!: later_now)
qed

interpretation ICI_ptr: deep_copier "rd_ptr as_ICI rd_ICI" ICI_DeepCopy
  unfolding ICI_DeepCopy_def by (rule ICI.ptr) simp
interpretation ICIList: deep_copier "rd_slice as_ICIs rd_ICI" ICIList_DeepCopyInto
  unfolding ICIList_DeepCopyInto_def by (rule ICI.slice) simp

interpretation ICIList_ptr: deep_copier "rd_ptr as_List (rd_slice as_ICIs rd_ICI)" ICIList_DeepCopy
  unfolding ICIList_DeepCopy_def by (rule ICIList.ptr) simp
interpretation Spec_ptr: deep_copier "rd_ptr as_Spec rd_Spec" Spec_DeepCopy
  unfolding Spec_DeepCopy_def by (rule Spec.ptr) simp
interpretation Status_ptr: deep_copier "rd_ptr as_Status rd_Status" Status_DeepCopy
  unfolding Status_DeepCopy_def by (rule Status.ptr) simp
interpretation BareMetalHostReference_ptr: deep_copier "rd_ptr as_Host rd_plain" BareMetalHostReference_DeepCopy
  unfolding BareMetalHostReference_DeepCopy_def BareMetalHostReference_DeepCopyInto_def by (rule plain.ptr) simp
interpretation MachineNetworkEntry_ptr: deep_copier "rd_ptr as_Network rd_plain" MachineNetworkEntry_DeepCopy
  unfolding MachineNetworkEntry_DeepCopy_def MachineNetworkEntry_DeepCopyInto_def by (rule plain.ptr) simp
interpretation Proxy_ptr: deep_copier "rd_ptr as_Proxy rd_plain" Proxy_DeepCopy
  unfolding Proxy_DeepCopy_def Proxy_DeepCopyInto_def by (rule plain.ptr) simp

section \<open>Properties\<close>

text \<open>C13: A deep copy shares nothing. Copying an ImageClusterInstall, a list of them or a spec never panics and
  changes no cell that was in use; the copy has the value of the original, and it keeps this value
  however the cells that were in use before are written later, just as the original keeps its value
  however the newly allocated cells are written.\<close>
theorem DeepCopy_isolated:
  assumes "wf_memory m"
  shows "(rd_ptr as_ICI rd_ICI p (cells m) = Some v \<longrightarrow>
      wp (ICI_DeepCopy p) (\<lambda>q m'. cells m \<subseteq>\<^sub>m cells m'
        \<and> (\<forall>M. fresh m m' \<subseteq>\<^sub>m M \<longrightarrow> rd_ptr as_ICI rd_ICI q M = Some v)
        \<and> (\<forall>M. cells m \<subseteq>\<^sub>m M \<longrightarrow> rd_ptr as_ICI rd_ICI p M = Some v)) (\<lambda>_ _. False) m)
    \<and> (rd_ptr as_List (rd_slice as_ICIs rd_ICI) p (cells m) = Some vs \<longrightarrow>
      wp (ICIList_DeepCopy p) (\<lambda>q m'. cells m \<subseteq>\<^sub>m cells m'
        \<and> (\<forall>M. fresh m m' \<subseteq>\<^sub>m M \<longrightarrow> rd_ptr as_List (rd_slice as_ICIs rd_ICI) q M = Some vs)) (\<lambda>_ _. False) m)
    \<and> (rd_ptr as_Spec rd_Spec p (cells m) = Some spec \<longrightarrow>
      wp (Spec_DeepCopy p) (\<lambda>q m'. cells m \<subseteq>\<^sub>m cells m'
        \<and> (\<forall>M. fresh m m' \<subseteq>\<^sub>m M \<longrightarrow> rd_ptr as_Spec rd_Spec q M = Some spec)) (\<lambda>_ _. False) m)"
proof (intro conjI impI, goal_cases)
  case 1
  show ?case by (rule wp_mono [OF ICI_ptr.isolated [OF assms 1]]) simp_all
next
  case 2
  show ?case by (rule wp_mono [OF ICIList_ptr.isolated [OF assms 2]]) simp_all
next
  case 3
  show ?case by (rule wp_mono [OF Spec_ptr.isolated [OF assms 3]]) simp_all
qed

text \<open>An object with conditions, and its copy in the cells after it.\<close>

definition example_memory :: mem where
  "example_memory =
    \<lparr>cells = [0 \<mapsto> CICI \<lparr>mici_Meta = \<lparr>mom_Name = ''ici'', mom_Namespace = ''ns'', mom_UID = ''uid'', mom_Labels = None,
        mom_Annotations = None, mom_Finalizers = None, mom_OwnerReferences = None, mom_CreationTimestamp = 0, mom_DeletionTimestamp = None\<rparr>,
      mici_Spec = \<lparr>msp_ClusterDeploymentRef = None, msp_ImageSetRef = ''set'', msp_ClusterMetadata = None, msp_NodeIP = [],
        msp_Hostname = [], msp_SSHKey = [], msp_ImageDigestSources = None, msp_CABundleRef = None, msp_ExtraManifestsRefs = None,
        msp_BareMetalHostRef = Some 1, msp_MachineNetwork = [], msp_MachineNetworks = None, msp_Proxy = None, msp_AdditionalNTPSources = None\<rparr>,
      mici_Status = \<lparr>mst_Conditions = None, mst_InstallRestarts = 0, mst_BareMetalHostRef = None, mst_BootTime = 0\<rparr>\<rparr>,
     1 \<mapsto> CHost \<lparr>bmhr_Name = ''host'', bmhr_Namespace = ''ns''\<rparr>], brk = 2\<rparr>"

theorem DeepCopy_isolated_witness:
  "wp (ICI_DeepCopy (Some 0)) (\<lambda>q m'. map_option (map_option (\<lambda>i. sp_BareMetalHostRef (ici_Spec i))) (rd_ptr as_ICI rd_ICI q (cells m'))
     = Some (Some (Some \<lparr>bmhr_Name = ''host'', bmhr_Namespace = ''ns''\<rparr>))) (\<lambda>_ _. False) example_memory"
proof -
  obtain v where v: "rd_ptr as_ICI rd_ICI (Some 0) (cells example_memory) = Some v"
      and host: "map_option (\<lambda>i. sp_BareMetalHostRef (ici_Spec i)) v = Some (Some \<lparr>bmhr_Name = ''host'', bmhr_Namespace = ''ns''\<rparr>)"
    by (simp add: example_memory_def rd_defs rd_ptr_def rd_slice_def)
  have "wf_memory example_memory" by (auto simp: wf_memory_def example_memory_def)
  from DeepCopy_isolated [OF this, THEN conjunct1, THEN mp, OF v] show ?thesis
    by (rule wp_mono) (simp_all add: fresh_le host)
qed

end
