(* ===== verification/MemConditions.thy ===== *)
theory MemConditions
  imports DeepCopy Conditions
begin

text \<open>
  The condition setters of \<^verbatim>\<open>controllers/conditions.go\<close> on memory. The code takes a deep copy of the object
  as the base of the patch and then changes the conditions of the object in place, through a pointer
  into the array of the slice or by \<^verbatim>\<open>append\<close>. The setters in \<open>Conditions\<close> compute the new object from the
  old one; here it is shown that the code computes the same pair of objects.
\<close>

section \<open>The code\<close>

fun mem_findCondition :: "ClusterInstallCondition list \<Rightarrow> string \<Rightarrow> nat option" where
  "mem_findCondition [] condType = None"
| "mem_findCondition (c # cs) condType =
     (if cc_Type c = condType then Some 0 else map_option Suc (mem_findCondition cs condType))"

text \<open>What the spare elements of an array hold; they are written before they are read.\<close>

definition spareCondition :: ClusterInstallCondition where
  "spareCondition = mkCond [] ConditionUnknown [] []"

text \<open>\<^verbatim>\<open>append\<close>: in place if the array has room, and otherwise into a new array, \<open>grow n\<close> elements longer than
  needed.\<close>

definition append_condition :: "(nat \<Rightarrow> nat) \<Rightarrow> slice_header \<Rightarrow> ClusterInstallCondition \<Rightarrow> (mem, slice_header) go" where
  "append_condition grow s c =
     (case s of
        None \<Rightarrow> bindM (newM (CConds (c # replicate (grow 0) spareCondition))) (\<lambda>b. returnM (Some (b, 1)))
      | Some (b, n) \<Rightarrow> bindM (loadM as_Conds b) (\<lambda>xs.
          if n < length xs then bindM (storeM b (CConds (xs[n := c]))) (\<lambda>_. returnM (Some (b, Suc n)))
          else bindM (newM (CConds (take n xs @ c # replicate (grow n) spareCondition))) (\<lambda>b'. returnM (Some (b', Suc n)))))"

definition mem_setClusterInstallCondition :: "(nat \<Rightarrow> nat) \<Rightarrow> gotime \<Rightarrow> addr \<Rightarrow> ClusterInstallCondition \<Rightarrow> (mem, bool) go" where
  "mem_setClusterInstallCondition grow now ici newCondition =
     bindM (loadM as_ICI ici) (\<lambda>x.
     let s = mst_Conditions (mici_Status x) in
     bindM (case s of None \<Rightarrow> returnM (0, []) | Some (b, n) \<Rightarrow> bindM (loadM as_Conds b) (\<lambda>xs. returnM (b, xs))) (\<lambda>(b, xs).
     case mem_findCondition (take (case s of None \<Rightarrow> 0 | Some (_, n) \<Rightarrow> n) xs) (cc_Type newCondition) of
       None \<Rightarrow>
         bindM (append_condition grow s (newCondition\<lparr>cc_LastTransitionTime := now, cc_LastProbeTime := now\<rparr>)) (\<lambda>s'.
         bindM (storeM ici (CICI (x\<lparr>mici_Status := (mici_Status x)\<lparr>mst_Conditions := s'\<rparr>\<rparr>))) (\<lambda>_. returnM True))
     | Some i \<Rightarrow>
         let existing = xs ! i in
         if cc_Status existing = cc_Status newCondition
            \<and> cc_Reason existing = cc_Reason newCondition
            \<and> cc_Message existing = cc_Message newCondition
         then returnM False
         else
           let e1 = (if cc_Status existing \<noteq> cc_Status newCondition
                     then existing\<lparr>cc_Status := cc_Status newCondition, cc_LastTransitionTime := now\<rparr>
                     else existing);
               e2 = e1\<lparr>cc_LastProbeTime := now, cc_Reason := cc_Reason newCondition,
                       cc_Message := cc_Message newCondition\<rparr>
           in bindM (storeM b (CConds (xs[i := e2]))) (\<lambda>_. returnM True)))"

text \<open>\<^verbatim>\<open>setRequirementsMetCondition\<close> and the three setters of the monitor up to the request: the base of the patch,
  if one is sent.\<close>

definition mem_setRequirementsMetCondition :: "(nat \<Rightarrow> nat) \<Rightarrow> gotime \<Rightarrow> addr \<Rightarrow> ConditionStatus \<Rightarrow> string \<Rightarrow> string \<Rightarrow> (mem, addr option) go" where
  "mem_setRequirementsMetCondition grow now ici status reason msg =
     bindM (ICI_DeepCopy (Some ici)) (\<lambda>patch.
     bindM (mem_setClusterInstallCondition grow now ici (mkCond ClusterInstallRequirementsMet status reason msg)) (\<lambda>updated.
     if \<not> updated then returnM None else returnM patch))"

definition mem_set3 :: "(nat \<Rightarrow> nat) \<Rightarrow> gotime \<Rightarrow> gotime \<Rightarrow> gotime \<Rightarrow> addr \<Rightarrow> ClusterInstallCondition \<Rightarrow> ClusterInstallCondition \<Rightarrow> ClusterInstallCondition \<Rightarrow> (mem, addr option) go" where
  "mem_set3 grow t1 t2 t3 ici completed stopped failed =
     bindM (ICI_DeepCopy (Some ici)) (\<lambda>patch.
     bindM (mem_setClusterInstallCondition grow t1 ici completed) (\<lambda>completedUpdated.
     bindM (mem_setClusterInstallCondition grow t2 ici stopped) (\<lambda>stoppedUpdated.
     bindM (mem_setClusterInstallCondition grow t3 ici failed) (\<lambda>failedUpdated.
     if \<not> completedUpdated \<and> \<not> stoppedUpdated \<and> \<not> failedUpdated then returnM None else returnM patch))))"

section \<open>Cells that only conditions and objects are read from\<close>

definition opaque :: "cell \<Rightarrow> bool" where
  "opaque c \<longleftrightarrow> as_Text c = None \<and> as_Texts c = None \<and> as_Bool c = None \<and> as_Time c = None \<and> as_Map c = None
     \<and> as_Owners c = None \<and> as_Metadata c = None \<and> as_Mirrors c = None \<and> as_Host c = None \<and> as_Networks c = None
     \<and> as_Proxy c = None"

lemma opaque_simps [simp]: "opaque (CConds cs)" "opaque (CICI x)"
  by (simp_all add: opaque_def)

lemma opaqueD:
  "opaque c \<Longrightarrow> as_Text c = None" "opaque c \<Longrightarrow> as_Texts c = None" "opaque c \<Longrightarrow> as_Bool c = None"
  "opaque c \<Longrightarrow> as_Time c = None" "opaque c \<Longrightarrow> as_Map c = None" "opaque c \<Longrightarrow> as_Owners c = None"
  "opaque c \<Longrightarrow> as_Metadata c = None" "opaque c \<Longrightarrow> as_Mirrors c = None" "opaque c \<Longrightarrow> as_Host c = None"
  "opaque c \<Longrightarrow> as_Networks c = None" "opaque c \<Longrightarrow> as_Proxy c = None"
  by (simp_all add: opaque_def)

text \<open>Replacing one by another is not seen by the rest of an object.\<close>

definition swapped :: "(addr \<rightharpoonup> cell) \<Rightarrow> (addr \<rightharpoonup> cell) \<Rightarrow> bool" where
  "swapped M M' \<longleftrightarrow> (\<forall>a. M' a = M a \<or> (\<exists>c c'. M a = Some c \<and> M' a = Some c' \<and> opaque c \<and> opaque c'))"

lemma swapped_upd: "M a = Some c \<Longrightarrow> opaque c \<Longrightarrow> opaque c' \<Longrightarrow> swapped M (M(a \<mapsto> c'))"
  by (simp add: swapped_def)

lemma swapped_bind:
  assumes "swapped M M'" and "\<And>c. opaque c \<Longrightarrow> prj c = None"
  shows "Option.bind (M' a) prj = Option.bind (M a) prj"
  using assms unfolding swapped_def by (metis bind.bind_lunit)

lemma rd_ptr_swapped:
  "swapped M M' \<Longrightarrow> (\<And>c. opaque c \<Longrightarrow> prj c = None) \<Longrightarrow> (\<And>x. rd x M' = rd x M) \<Longrightarrow> rd_ptr prj rd p M' = rd_ptr prj rd p M"
  by (simp add: rd_ptr_def swapped_bind split: option.split)

lemma rd_all_cong: "(\<And>x. rd x M' = rd x M) \<Longrightarrow> rd_all rd xs M' = rd_all rd xs M"
  by (induction xs) simp_all

lemma rd_slice_swapped:
  "swapped M M' \<Longrightarrow> (\<And>c. opaque c \<Longrightarrow> prj c = None) \<Longrightarrow> (\<And>x. rd x M' = rd x M) \<Longrightarrow> rd_slice prj rd s M' = rd_slice prj rd s M"
proof -
  assume "swapped M M'" and "\<And>c. opaque c \<Longrightarrow> prj c = None" and "\<And>x. rd x M' = rd x M"
  moreover from this(3) have "rd_all rd xs M' = rd_all rd xs M" for xs by (rule rd_all_cong)
  ultimately show ?thesis by (simp add: rd_slice_def swapped_bind cong: if_cong split: option.split)
qed

lemma rd_swapped:
  assumes "swapped M M'"
  shows "rd_ObjectMeta x M' = rd_ObjectMeta x M" and "rd_Spec y M' = rd_Spec y M"
    and "rd_ptr as_Host rd_plain p M' = rd_ptr as_Host rd_plain p M"
proof -
  note swap = rd_ptr_swapped [OF assms] rd_slice_swapped [OF assms] opaqueD
  have "rd_OwnerReference x M' = rd_OwnerReference x M" for x by (simp add: rd_OwnerReference_def swap)
  then show "rd_ObjectMeta x M' = rd_ObjectMeta x M" by (simp add: rd_ObjectMeta_def swap)
  have "rd_ClusterMetadata x M' = rd_ClusterMetadata x M" "rd_ImageDigestMirrors z M' = rd_ImageDigestMirrors z M" for x z
    by (simp_all add: rd_ClusterMetadata_def rd_ImageDigestMirrors_def swap)
  then show "rd_Spec y M' = rd_Spec y M" by (simp add: rd_Spec_def swap)
  show "rd_ptr as_Host rd_plain p M' = rd_ptr as_Host rd_plain p M" by (simp add: swap)
qed

section \<open>One setter\<close>

lemma mem_findCondition_None: "mem_findCondition cs t = None \<longleftrightarrow> findCondition cs t = None"
  by (induction cs) auto

lemma mem_findCondition_Some:
  "mem_findCondition cs t = Some i \<Longrightarrow>
    i < length cs \<and> findCondition cs t = Some (cs ! i) \<and> write_found cs t v = cs[i := v]"
  by (induction cs arbitrary: i) (auto split: if_splits)

text \<open>The object at \<open>a\<close> has the value \<open>ici\<close>, and changing it or its conditions in place leaves the cells \<open>d\<close> alone.\<close>

definition owns :: "(addr \<rightharpoonup> cell) \<Rightarrow> addr \<Rightarrow> ImageClusterInstall \<Rightarrow> mem \<Rightarrow> bool" where
  "owns d a ici m \<longleftrightarrow> wf_memory m \<and> d \<subseteq>\<^sub>m cells m \<and> a \<notin> dom d
     \<and> (\<exists>x. cells m a = Some (CICI x) \<and> rd_ICI x (cells m) = Some ici
          \<and> (case mst_Conditions (mici_Status x) of None \<Rightarrow> True | Some (b, n) \<Rightarrow> b \<notin> dom d))"

text \<open>An object whose conditions are now those of the header \<open>s\<close>.\<close>

lemma rd_ICI_conditions:
  assumes "rd_ICI x M = Some ici" and "swapped M M'" and "M' \<subseteq>\<^sub>m M''"
    and "rd_slice as_Conds rd_plain s M'' = Some cs"
  shows "rd_ICI (x\<lparr>mici_Status := (mici_Status x)\<lparr>mst_Conditions := s\<rparr>\<rparr>) M'' = Some (set_Conditions (elems cs) ici)"
proof -
  from assms(1) obtain meta spec host cs0 where
      "rd_ObjectMeta (mici_Meta x) M = Some meta" "rd_Spec (mici_Spec x) M = Some spec"
      "rd_ptr as_Host rd_plain (mst_BareMetalHostRef (mici_Status x)) M = Some host"
      and ici: "ici = \<lparr>ici_Meta = meta, ici_Spec = spec, ici_Status = \<lparr>st_Conditions = cs0,
        st_InstallRestarts = mst_InstallRestarts (mici_Status x), st_BareMetalHostRef = host, st_BootTime = mst_BootTime (mici_Status x)\<rparr>\<rparr>"
    by (auto simp: rd_ICI_def rd_Status_def bind_eq_Some_conv)
  then have "rd_ObjectMeta (mici_Meta x) M'' = Some meta" "rd_Spec (mici_Spec x) M'' = Some spec"
      "rd_ptr as_Host rd_plain (mst_BareMetalHostRef (mici_Status x)) M'' = Some host"
    using ObjectMeta.rd_mono [OF _ assms(3)] Spec.rd_mono [OF _ assms(3)] host_ptr.rd_mono [OF _ assms(3)]
    by (simp_all add: rd_swapped [OF assms(2)])
  then show ?thesis using assms(4) by (simp add: rd_ICI_def rd_Status_def ici set_Conditions_def)
qed

lemma rd_ICI_same: "x\<lparr>mici_Status := (mici_Status x)\<lparr>mst_Conditions := mst_Conditions (mici_Status x)\<rparr>\<rparr> = x"
  by simp

lemma rd_ICI_conds:
  "rd_ICI x M = Some ici \<Longrightarrow> \<exists>cs. rd_slice as_Conds rd_plain (mst_Conditions (mici_Status x)) M = Some cs \<and> conditionsOf ici = elems cs"
  by (auto simp: rd_ICI_def rd_Status_def bind_eq_Some_conv)

lemma rd_conds_slice:
  "rd_slice as_Conds rd_plain (Some (b, n)) M = Some cs \<longleftrightarrow>
    (\<exists>xs. M b = Some (CConds xs) \<and> n \<le> length xs \<and> cs = Some (take n xs))"
  by (auto simp: rd_slice_def bind_eq_Some_conv elim!: as_Conds.elims split: if_splits)

text \<open>The parts of an owned object.\<close>

lemma ownsE:
  assumes "owns d a ici m"
  obtains (nil) x where "wf_memory m" "d \<subseteq>\<^sub>m cells m" "a \<notin> dom d" "cells m a = Some (CICI x)" "rd_ICI x (cells m) = Some ici"
      "mst_Conditions (mici_Status x) = None" "conditionsOf ici = []"
    | (array) x b n xs where "wf_memory m" "d \<subseteq>\<^sub>m cells m" "a \<notin> dom d" "cells m a = Some (CICI x)" "rd_ICI x (cells m) = Some ici"
      "mst_Conditions (mici_Status x) = Some (b, n)" "b \<notin> dom d" "cells m b = Some (CConds xs)" "n \<le> length xs"
      "conditionsOf ici = take n xs"
proof -
  from assms obtain x where x: "wf_memory m" "d \<subseteq>\<^sub>m cells m" "a \<notin> dom d" "cells m a = Some (CICI x)" "rd_ICI x (cells m) = Some ici"
      and apart: "case mst_Conditions (mici_Status x) of None \<Rightarrow> True | Some (b, n) \<Rightarrow> b \<notin> dom d"
    unfolding owns_def by blast
  from rd_ICI_conds [OF x(5)] obtain cs where
      cs: "rd_slice as_Conds rd_plain (mst_Conditions (mici_Status x)) (cells m) = Some cs" "conditionsOf ici = elems cs"
    by blast
  show thesis
  proof (cases "mst_Conditions (mici_Status x)")
    case None
    then show thesis using nil [OF x] cs by (simp add: rd_slice_def)
  next
    case (Some bn)
    moreover obtain b n where "bn = (b, n)" by (cases bn)
    ultimately have s: "mst_Conditions (mici_Status x) = Some (b, n)" by simp
    with cs obtain xs where "cells m b = Some (CConds xs)" "n \<le> length xs" "conditionsOf ici = take n xs"
      by (auto simp: rd_conds_slice)
    then show thesis using array [OF x s] apart s by simp
  qed
qed

lemma ownsI:
  assumes "wf_memory m'" and "d \<subseteq>\<^sub>m cells m'" and "a \<notin> dom d"
    and "cells m' a = Some (CICI (x\<lparr>mici_Status := (mici_Status x)\<lparr>mst_Conditions := Some (b, n)\<rparr>\<rparr>))"
    and "rd_ICI x M = Some ici" and "swapped M M'" and "M' \<subseteq>\<^sub>m cells m'"
    and "cells m' b = Some (CConds xs)" and "n \<le> length xs" and "b \<notin> dom d"
  shows "owns d a (set_Conditions (take n xs) ici) m'"
proof -
  have "rd_slice as_Conds rd_plain (Some (b, n)) (cells m') = Some (Some (take n xs))"
    using assms(8,9) by (simp add: rd_conds_slice)
  from rd_ICI_conditions [OF assms(5-7) this] show ?thesis
    using assms(1-4,10) by (simp add: owns_def)
qed

text \<open>A new array for the conditions, and the header in the object.\<close>

lemma owns_new_array:
  assumes "wf_memory m" "d \<subseteq>\<^sub>m cells m" "a \<notin> dom d" "cells m a = Some (CICI x)" "rd_ICI x (cells m) = Some ici" "n \<le> length xs"
  shows "owns d a (set_Conditions (take n xs) ici)
    (m\<lparr>brk := Suc (brk m),
       cells := (cells m)(brk m \<mapsto> CConds xs, a \<mapsto> CICI (x\<lparr>mici_Status := (mici_Status x)\<lparr>mst_Conditions := Some (brk m, n)\<rparr>\<rparr>))\<rparr>)"
proof -
  have new: "brk m \<notin> dom (cells m)" using assms(1) by (auto simp: wf_memory_def)
  then have apart: "brk m \<noteq> a" "brk m \<notin> dom d" using assms(2,4) map_le_implies_dom_le [of d "cells m"] by auto
  let ?y = "CICI (x\<lparr>mici_Status := (mici_Status x)\<lparr>mst_Conditions := Some (brk m, n)\<rparr>\<rparr>)"
  show ?thesis
  proof (rule ownsI [where M = "cells m" and M' = "(cells m)(a \<mapsto> ?y)" and b = "brk m" and x = x])
    show "swapped (cells m) ((cells m)(a \<mapsto> ?y))" by (rule swapped_upd [where c = "CICI x"]) (simp_all add: assms(4))
  qed (use assms new apart in \<open>auto simp: wf_memory_def map_le_iff less_Suc_eq\<close>)
qed

text \<open>Writing into the array.\<close>

lemma owns_in_place:
  assumes "wf_memory m" "d \<subseteq>\<^sub>m cells m" "a \<notin> dom d" "cells m a = Some (CICI x)" "rd_ICI x (cells m) = Some ici"
    and "b \<notin> dom d" "cells m b = Some (CConds xs)" "n \<le> length ys"
  shows "owns d a (set_Conditions (take n ys) ici)
    (m\<lparr>cells := (cells m)(b \<mapsto> CConds ys, a \<mapsto> CICI (x\<lparr>mici_Status := (mici_Status x)\<lparr>mst_Conditions := Some (b, n)\<rparr>\<rparr>))\<rparr>)"
proof -
  have "a \<noteq> b" using assms(4,7) by auto
  let ?y = "CICI (x\<lparr>mici_Status := (mici_Status x)\<lparr>mst_Conditions := Some (b, n)\<rparr>\<rparr>)"
  show ?thesis
  proof (rule ownsI [where M = "cells m" and M' = "(cells m)(b \<mapsto> CConds ys, a \<mapsto> ?y)" and b = b and x = x])
    show "swapped (cells m) ((cells m)(b \<mapsto> CConds ys, a \<mapsto> ?y))"
      using assms(4,7) \<open>a \<noteq> b\<close> by (simp add: swapped_def)
  qed (use assms \<open>a \<noteq> b\<close> in \<open>auto simp: wf_memory_def map_le_iff\<close>)
qed

lemma wp_mem_set:
  assumes "owns d a ici m"
  shows "wp (mem_setClusterInstallCondition grow now a c)
    (\<lambda>updated m'. updated = snd (setClusterInstallCondition now (conditionsOf ici) c)
       \<and> owns d a (set_Conditions (fst (setClusterInstallCondition now (conditionsOf ici) c)) ici) m') (\<lambda>_ _. False) m"
  using assms
proof (cases rule: ownsE)
  case (nil x)
  then have "brk m \<noteq> a" by (auto simp: wf_memory_def)
  with nil show ?thesis
    using owns_new_array [OF nil(1-5), of 1 "c\<lparr>cc_LastTransitionTime := now, cc_LastProbeTime := now\<rparr> # replicate (grow 0) spareCondition"]
    by (simp add: mem_setClusterInstallCondition_def append_condition_def setClusterInstallCondition_def wp dom_def)
next
  case (array x b n xs)
  then have apart: "brk m \<noteq> a" "a \<noteq> b" by (auto simp: wf_memory_def)
  have load: "Option.bind (cells m a) as_ICI = Some x" "Option.bind (cells m b) as_Conds = Some xs"
    by (simp_all add: array)
  show ?thesis
  proof (cases "mem_findCondition (take n xs) (cc_Type c)")
    case None
    let ?c = "c\<lparr>cc_LastTransitionTime := now, cc_LastProbeTime := now\<rparr>"
    have set: "setClusterInstallCondition now (take n xs) c = (take n xs @ [?c], True)"
      using None by (simp add: setClusterInstallCondition_def mem_findCondition_None)
    show ?thesis
    proof (cases "n < length xs")
      case True
      then have "take (Suc n) (xs[n := ?c]) = take n xs @ [?c]"
        by (simp add: take_Suc_conv_app_nth)
      with True show ?thesis
        using owns_in_place [OF array(1-5,7,8), of "Suc n" "xs[n := ?c]"] apart
        by (simp add: mem_setClusterInstallCondition_def append_condition_def set wp array None dom_def)
    next
      case False
      then have "n = length xs" using array(9) by simp
      then show ?thesis
        using owns_new_array [OF array(1-5), of "Suc n" "take n xs @ ?c # replicate (grow n) spareCondition"] apart None set
        by (simp add: mem_setClusterInstallCondition_def append_condition_def wp array dom_def)
    qed
  next
    case (Some i)
    let ?cs = "take n xs"
    have i: "i < n" "findCondition ?cs (cc_Type c) = Some (xs ! i)" "\<And>v. write_found ?cs (cc_Type c) v = take n (xs[i := v])"
      using mem_findCondition_Some [OF Some] array(9) by (auto simp: take_update_swap)
    have x: "x\<lparr>mici_Status := (mici_Status x)\<lparr>mst_Conditions := Some (b, n)\<rparr>\<rparr> = x"
      unfolding array(6) [symmetric] by simp
    have "owns d a (set_Conditions (take n (xs[i := v])) ici) (m\<lparr>cells := (cells m)(b \<mapsto> CConds (xs[i := v]))\<rparr>)" for v
      using owns_in_place [OF array(1-5,7,8), of n "xs[i := v]"] array(9) apart
      by (simp add: x fun_upd_idem [of "(cells m)(b \<mapsto> CConds (xs[i := v]))" a] array(4))
    moreover have "owns d a (set_Conditions ?cs ici) m" using assms by (simp flip: array(10))
    ultimately show ?thesis
      by (simp add: mem_setClusterInstallCondition_def setClusterInstallCondition_def wp array(4,6,8,10) Some i Let_def dom_def)
  qed
qed

section \<open>The setters\<close>

text \<open>A program that keeps the cells \<open>d\<close> and turns the object at \<open>a\<close> from \<open>ici\<close> into \<open>ici'\<close>.\<close>

lemma wp_after_copy:
  assumes "wf_memory m" and "rd_ptr as_ICI rd_ICI (Some a) (cells m) = Some (Some ici)"
    and k: "\<And>patch d m1. owns d a ici m1 \<Longrightarrow> rd_ptr as_ICI rd_ICI patch d = Some (Some ici) \<Longrightarrow>
      wp (k patch) Q (\<lambda>_ _. False) m1"
  shows "wp (bindM (ICI_DeepCopy (Some a)) k) Q (\<lambda>_ _. False) m"
  unfolding wp_bindM
proof (rule wp_mono [OF ICI_ptr.cp_copies [OF assms(1,2)]], goal_cases)
  case (1 patch m1)
  from assms(2) obtain x where x: "cells m a = Some (CICI x)" "rd_ICI x (cells m) = Some ici"
    by (auto simp: rd_ptr_def bind_eq_Some_conv elim!: as_ICI.elims)
  from 1 have le: "cells m \<subseteq>\<^sub>m cells m1" and wf: "wf_memory m1" by (simp_all add: grown_def)
  have old: "addr \<notin> dom (fresh m m1)" if "cells m addr = Some y" for addr y
    using that by (auto simp: fresh_def restrict_map_def split: if_splits)
  have "case mst_Conditions (mici_Status x) of None \<Rightarrow> True | Some (b, n) \<Rightarrow> b \<notin> dom (fresh m m1)"
    using rd_ICI_conds [OF x(2)] old by (fastforce simp: rd_slice_def bind_eq_Some_conv split: option.split)
  then have "owns (fresh m m1) a ici m1"
    using x(1) old [OF x(1)] le wf fresh_le [of m m1] ICI.rd_mono [OF x(2) le] unfolding owns_def map_le_iff by blast
  then show ?case using 1 k by blast
qed simp

lemma wp_set_then:
  assumes "owns d a ici m"
    and "\<And>m'. owns d a (set_Conditions (fst (setClusterInstallCondition now (conditionsOf ici) c)) ici) m' \<Longrightarrow>
      wp (k (snd (setClusterInstallCondition now (conditionsOf ici) c))) Q (\<lambda>_ _. False) m'"
  shows "wp (bindM (mem_setClusterInstallCondition grow now a c) k) Q (\<lambda>_ _. False) m"
  unfolding wp_bindM by (rule wp_mono [OF wp_mem_set [OF assms(1)]]) (use assms(2) in auto)

lemma owns_read: "owns d a ici m \<Longrightarrow> rd_ptr as_ICI rd_ICI (Some a) (cells m) = Some (Some ici)"
  by (auto simp: owns_def rd_ptr_def)

lemma owns_base: "owns d a ici m \<Longrightarrow> rd_ptr as_ICI rd_ICI p d = Some v \<Longrightarrow> rd_ptr as_ICI rd_ICI p (cells m) = Some v"
  by (auto simp: owns_def intro: ICI_ptr.rd_mono)

text \<open>C12: Changing conditions in place is sound. On memory, the code takes a deep copy of the object and then
  changes the object through pointers into its array of conditions, which may be shared with slices
  of other lengths and which \<^verbatim>\<open>append\<close> may or may not replace. When the patch is sent, its base still has
  the value of the object before, and the object has exactly the value that the setters of the model
  compute; a patch is sent exactly if they report a change. The code never panics.\<close>
theorem memory_setters_refine:
  assumes "wf_memory m" and "rd_ptr as_ICI rd_ICI (Some a) (cells m) = Some (Some ici)"
  shows "wp (mem_setRequirementsMetCondition grow now a status reason msg)
      (\<lambda>patch m'. case setClusterInstallCondition now (conditionsOf ici) (mkCond ClusterInstallRequirementsMet status reason msg) of (cs, updated) \<Rightarrow>
         rd_ptr as_ICI rd_ICI (Some a) (cells m') = Some (Some (set_Conditions cs ici))
         \<and> rd_ptr as_ICI rd_ICI patch (cells m') = Some (if updated then Some ici else None)) (\<lambda>_ _. False) m
    \<and> wp (mem_set3 grow t1 t2 t3 a completed stopped failed)
      (\<lambda>patch m'. case conds.put3 t1 t2 t3 (conditionsOf ici) completed stopped failed of (cs, updated) \<Rightarrow>
         rd_ptr as_ICI rd_ICI (Some a) (cells m') = Some (Some (set_Conditions cs ici))
         \<and> rd_ptr as_ICI rd_ICI patch (cells m') = Some (if updated then Some ici else None)) (\<lambda>_ _. False) m"
    (is "?one \<and> ?three")
proof
  have nil: "rd_ptr as_ICI rd_ICI None M = Some None" for M by (simp add: rd_ptr_def)
  have sent: "rd_ptr as_ICI rd_ICI (Some a) (cells m') = Some (Some i')
      \<and> rd_ptr as_ICI rd_ICI (if b then None else patch) (cells m') = Some (if \<not> b then Some ici else None)"
    if "owns d a i' m'" "rd_ptr as_ICI rd_ICI patch d = Some (Some ici)" for d i' m' patch b
    using owns_read [OF that(1)] owns_base [OF that] by (simp add: nil)
  show ?one
    unfolding mem_setRequirementsMetCondition_def
  proof (rule wp_after_copy [OF assms], rule wp_set_then, assumption, goal_cases)
    case (1 patch d m1 m')
    from sent [OF 1(3,2), of "\<not> snd (setClusterInstallCondition now (conditionsOf ici) (mkCond ClusterInstallRequirementsMet status reason msg))"]
    show ?case
      by (cases "setClusterInstallCondition now (conditionsOf ici) (mkCond ClusterInstallRequirementsMet status reason msg)")
        (auto simp: wp nil split: if_splits)
  qed
  show ?three
    unfolding mem_set3_def
  proof (rule wp_after_copy [OF assms], (rule wp_set_then, assumption)+, goal_cases)
    case (1 patch d m1 m2 m3 m')
    from sent [OF 1(5,2), of "\<not> snd (conds.put3 t1 t2 t3 (conditionsOf ici) completed stopped failed)"]
    show ?case by (auto simp: wp nil conds.put3_def split: prod.splits if_splits)
  qed
qed

theorem memory_setters_refine_witness:
  "wp (mem_setRequirementsMetCondition (\<lambda>n. n) 7 0 ConditionTrue [] [])
     (\<lambda>patch m'. map_option (map_option (\<lambda>i. length (conditionsOf i))) (rd_ptr as_ICI rd_ICI (Some 0) (cells m')) = Some (Some 1)
        \<and> map_option (map_option (\<lambda>i. length (conditionsOf i))) (rd_ptr as_ICI rd_ICI patch (cells m')) = Some (Some 0))
     (\<lambda>_ _. False) example_memory"
proof -
  obtain ici where ici: "rd_ptr as_ICI rd_ICI (Some 0) (cells example_memory) = Some (Some ici)" and none: "conditionsOf ici = []"
    by (simp add: example_memory_def rd_defs rd_ptr_def rd_slice_def)
  have "wf_memory example_memory" by (auto simp: wf_memory_def example_memory_def)
  from memory_setters_refine [OF this ici, THEN conjunct1] show ?thesis
    by (rule wp_mono) (auto simp: none setClusterInstallCondition_def)
qed

end
