(* ===== verification/SecretStore.thy ===== *)
theory SecretStore
  imports ImageData
begin

text \<open>
  Credentials that were stored can be read back. The API server keeps the secrets; the cache of the
  manager shows those with the label of the credentials (\<^verbatim>\<open>cmd/manager/main.go\<close> gives it this
  selector). Under this description of the two, what \<^verbatim>\<open>ensureCreds\<close> stores from the files of a
  cluster is what \<^verbatim>\<open>ClusterIdentitySecrets\<close> finds for its reinstallation.
\<close>

section \<open>The API server and the cache\<close>

definition labelled :: "Secret \<Rightarrow> bool" where
  "labelled sec \<longleftrightarrow> map_get (om_Labels (sec_Meta sec)) SecretResourceLabel = Some SecretResourceValue"

definition stored_like :: "Secret \<Rightarrow> Secret \<Rightarrow> bool" where
  "stored_like sec stored \<longleftrightarrow> sec_Data stored = sec_Data sec \<and> om_Labels (sec_Meta stored) = om_Labels (sec_Meta sec)"

text \<open>The secrets that are stored, as a function of the outside world. A read that succeeds returns a stored
  secret with the label, and one that finds nothing means that there is none; a write that succeeds
  stores data and labels, and one that fails changes nothing; nothing else changes a secret.\<close>

definition reads_labelled :: "'w env \<Rightarrow> ('w \<Rightarrow> nsname \<Rightarrow> Secret option) \<Rightarrow> bool" where
  "reads_labelled env secrets \<longleftrightarrow>
     (\<forall>k h r h'. get_Secret env k h = (r, h') \<longrightarrow> secrets h' = secrets h \<and>
        (case r of
           Inr sec \<Rightarrow> secrets h k = Some sec \<and> labelled sec
         | Inl err \<Rightarrow> if IsNotFound err then \<forall>sec. secrets h k = Some sec \<longrightarrow> \<not> labelled sec else True))"

definition writes_secret :: "(Secret \<Rightarrow> ('w, goerr + Secret) call) \<Rightarrow> ('w \<Rightarrow> nsname \<Rightarrow> Secret option) \<Rightarrow> bool" where
  "writes_secret write secrets \<longleftrightarrow>
     (\<forall>sec h r h'. write sec h = (r, h') \<longrightarrow>
        (case r of
           Inl _ \<Rightarrow> secrets h' = secrets h
         | Inr _ \<Rightarrow> \<exists>stored. stored_like sec stored \<and> secrets h' = (secrets h)(key_of (sec_Meta sec) \<mapsto> stored)))"

definition secret_store :: "'w env \<Rightarrow> ('w \<Rightarrow> nsname \<Rightarrow> Secret option) \<Rightarrow> bool" where
  "secret_store env secrets \<longleftrightarrow>
     reads_labelled env secrets \<and> writes_secret (create_Secret env) secrets \<and> writes_secret (update_Secret env) secrets
     \<and> (\<forall>op p fs h. secrets (snd (os_fault env op p fs h)) = secrets h)"

definition holds :: "('k \<rightharpoonup> Secret) \<Rightarrow> 'k \<Rightarrow> string \<Rightarrow> string \<Rightarrow> bool" where
  "holds m k key content \<longleftrightarrow> (\<exists>sec. m k = Some sec \<and> labelled sec \<and> map_get (sec_Data sec) key = Some content)"

lemma store_get:
  assumes "secret_store env secrets" and "get_Secret env k h = (r, h')"
  shows "secrets h' = secrets h \<and> (case r of Inr sec \<Rightarrow> secrets h k = Some sec \<and> labelled sec
    | Inl err \<Rightarrow> if IsNotFound err then \<forall>sec. secrets h k = Some sec \<longrightarrow> \<not> labelled sec else True)"
  using assms unfolding secret_store_def reads_labelled_def by blast

lemma writes_secretD:
  assumes "writes_secret write secrets" and "write sec h = (Inr x, h')" and "labelled sec" and "map_get (sec_Data sec) key = Some content"
  shows "holds (secrets h') (key_of (sec_Meta sec)) key content \<and> (\<forall>k. k \<noteq> key_of (sec_Meta sec) \<longrightarrow> secrets h' k = secrets h k)"
proof -
  obtain stored where "stored_like sec stored" "secrets h' = (secrets h)(key_of (sec_Meta sec) \<mapsto> stored)"
    using assms(1,2) unfolding writes_secret_def by fastforce
  then show ?thesis
    using assms(3,4) by (auto simp: holds_def stored_like_def labelled_def)
qed

lemma store_fault: "secret_store env secrets \<Longrightarrow> os_fault env op p fs h = (r, h') \<Longrightarrow> secrets h' = secrets h"
  unfolding secret_store_def by (metis snd_conv)

section \<open>Storing\<close>

text \<open>What a successful call leaves in the store: the content under its key, and every other secret as it was.\<close>

definition stores :: "('w \<Rightarrow> nsname \<Rightarrow> Secret option) \<Rightarrow> nsname \<Rightarrow> string \<Rightarrow> string \<Rightarrow> 'w \<Rightarrow> 'w \<Rightarrow> bool" where
  "stores secrets k key content h h' \<longleftrightarrow> holds (secrets h') k key content \<and> (\<forall>k'. k' \<noteq> k \<longrightarrow> secrets h' k' = secrets h k')"

lemma credential_mutateFn_key [simp]: "key_of (sec_Meta (credential_mutateFn gv kind cd data ty sec)) = key_of (sec_Meta sec)"
  by (simp add: credential_mutateFn_def Let_def SetMetaDataLabel_def key_of_def)

lemma write_stores:
  assumes "writes_secret write secrets" and "write (credential_mutateFn gv kind cd data ty sec) h = (Inr x, h')"
    and "key_of (sec_Meta sec) = (om_Namespace (cd_Meta cd), name)" and "data key = Some content"
  shows "stores secrets (om_Namespace (cd_Meta cd), name) key content h h'"
  using writes_secretD [OF assms(1,2), of key content] credential_mutateFn_secret [of gv kind cd data ty sec name] assms(3,4)
  by (auto simp: stores_def labelled_def credential_secret_def map_get_def)

lemma wp_createOrUpdate_stores:
  assumes store: "secret_store env secrets" and data: "data key = Some content"
  shows "wp (createOrUpdateClusterCredentialSecret env cd name data ty)
     (\<lambda>err s'. Fs s' = Fs s \<and> (err = None \<longrightarrow> stores secrets (om_Namespace (cd_Meta cd), name) key content (Hub s) (Hub s')))
     (\<lambda>_ _. False) s"
proof -
  let ?k = "(om_Namespace (cd_Meta cd), name)"
  have key: "key_of (emptyMeta\<lparr>om_Name := name, om_Namespace := om_Namespace (cd_Meta cd)\<rparr>) = ?k"
    by (simp add: key_of_def emptyMeta_def)
  obtain r h where get: "get_Secret env ?k (Hub s) = (r, h)" by fastforce
  have unchanged: "secrets h = secrets (Hub s)" using store_get [OF store get] by simp
  have stored: "stores secrets ?k key content h h' \<longleftrightarrow> stores secrets ?k key content (Hub s) h'" for h'
    by (simp add: stores_def unchanged)
  have writes: "writes_secret (create_Secret env) secrets" "writes_secret (update_Secret env) secrets"
    using store by (simp_all add: secret_store_def)
  have created: "stores secrets ?k key content (Hub s) h'"
    if "create_Secret env (credential_mutateFn gv kind cd data ty sec) h = (Inr x, h')" "key_of (sec_Meta sec) = ?k" for gv kind sec x h'
    using write_stores [OF writes(1) that data] unfolding stored .
  have updated: "stores secrets ?k key content (Hub s) h'"
    if "update_Secret env (credential_mutateFn gv kind cd data ty sec) h = (Inr x, h')" "key_of (sec_Meta sec) = ?k" for gv kind sec x h'
    using write_stores [OF writes(2) that data] unfolding stored .
  note run = createOrUpdateClusterCredentialSecret_def CreateOrUpdate_def mutate_def wp key get
  show ?thesis
  proof (cases r)
    case (Inl err)
    then show ?thesis
      by (auto simp: run Let_def key split: sum.split prod.split intro: created)
  next
    case (Inr sec)
    have same: "stores secrets ?k key content (Hub s) h" if "Secret_DeepEqual sec (credential_mutateFn gv kind cd data ty sec)" for gv kind
      using store_get [OF store get] that data
      by (auto simp: Inr stores_def holds_def Secret_DeepEqual_def map_get_norm_map norm_map_def)
    show ?thesis
    proof (cases "key_of (sec_Meta sec) = ?k")
      case True
      then show ?thesis
        by (auto simp: run Inr same Let_def split: sum.split prod.split intro: updated)
    next
      case False
      then show ?thesis by (auto simp: run Inr Let_def split: sum.split prod.split)
    qed
  qed
qed

lemma store_ReadFile:
  assumes "secret_store env secrets"
  shows "wp (os_ReadFile env path) (\<lambda>r s'. secrets (Hub s') = secrets (Hub s) \<and>
      (case r of Inl _ \<Rightarrow> True | Inr content \<Rightarrow> Fs s' = Fs s \<and> Fs s path = Some (File content))) (\<lambda>_ _. False) s"
  using store_fault [OF assms]
  by (auto simp: os_ReadFile_def faultyM_def readfile_fs_def wp_def split: prod.split option.split node.split)

lemma store_ExistsAndValid:
  assumes "secret_store env secrets"
  shows "wp (secretExistsAndValid env k key content) (\<lambda>(exists, err) s'. Fs s' = Fs s \<and> secrets (Hub s') = secrets (Hub s)
      \<and> (exists \<longrightarrow> err = None \<and> holds (secrets (Hub s)) k key content)) (\<lambda>_ _. False) s"
proof -
  obtain r h where get: "get_Secret env k (Hub s) = (r, h)" by fastforce
  show ?thesis
    using store_get [OF assms get] by (cases r) (auto simp: secretExistsAndValid_def wp holds_def get split: option.split)
qed

text \<open>The shape the three \<^verbatim>\<open>Ensure\<close> functions share.\<close>

lemma wp_ensure_stores:
  assumes store: "secret_store env secrets" and data: "\<And>content. data content key = Some content"
  shows "wp (bindM (os_ReadFile env file) (\<lambda>r. case r of
         Inl err \<Rightarrow> returnM (Some (wrapf msg err))
       | Inr content \<Rightarrow>
           bindM (secretExistsAndValid env (om_Namespace (cd_Meta cd), name) key content) (\<lambda>(exists, err).
             if err \<noteq> None \<or> exists then returnM err
             else bindM (createOrUpdateClusterCredentialSecret env cd name (data content) ty) (\<lambda>err.
               returnM (map_option (wrapf msg2) err)))))
     (\<lambda>err s'. err = None \<longrightarrow> Fs s' = Fs s \<and> (\<exists>content. Fs s file = Some (File content)
        \<and> stores secrets (om_Namespace (cd_Meta cd), name) key content (Hub s) (Hub s')))
     (\<lambda>_ _. False) s"
  unfolding wp_bindM [of "os_ReadFile _ _"]
proof (rule wp_mono [OF store_ReadFile [OF store]], goal_cases)
  case (1 r s1)
  show ?case
  proof (cases r)
    case (Inr content)
    then have s1: "Fs s1 = Fs s" "Fs s file = Some (File content)" "secrets (Hub s1) = secrets (Hub s)" using 1 by auto
    have create: "wp (createOrUpdateClusterCredentialSecret env cd name (data content) ty)
        (\<lambda>err s'. err = None \<longrightarrow> Fs s' = Fs s \<and> stores secrets (om_Namespace (cd_Meta cd), name) key content (Hub s) (Hub s'))
        (\<lambda>_ _. False) s2" if "Fs s2 = Fs s" "secrets (Hub s2) = secrets (Hub s)" for s2
      by (rule wp_mono [OF wp_createOrUpdate_stores [where data = "data content", OF store data]]) (use that in \<open>auto simp: stores_def\<close>)
    show ?thesis
      unfolding Inr sum.case wp_bindM [of "secretExistsAndValid _ _ _ _"]
    proof (rule wp_mono [OF store_ExistsAndValid [OF store]], goal_cases)
      case (1 x s2)
      obtain exists err where x: "x = (exists, err)" by (cases x)
      show ?case
        using 1 s1 unfolding x prod.case wp_if wp_bindM wp_returnM wp_returnM_fun
        by (auto simp: stores_def intro!: wp_mono [OF create, unfolded stores_def])
    qed simp
  qed (simp add: wp_returnM)
qed simp

text \<open>With a store, a provider of credentials also promises where the content ends up.\<close>

locale stored_credential = credential_provider ensure secret_name key
  for ensure :: "'w env \<Rightarrow> ClusterDeployment \<Rightarrow> string \<Rightarrow> ('w world, goerr option) go"
    and secret_name :: "string \<Rightarrow> string" and key :: string +
  assumes ensures_stored: "secret_store env secrets \<Longrightarrow> wp (ensure env cd path)
     (\<lambda>err s'. err = None \<longrightarrow> Fs s' = Fs s \<and> (\<exists>content. Fs s path = Some (File content)
        \<and> stores secrets (om_Namespace (cd_Meta cd), secret_name (om_Name (cd_Meta cd))) key content (Hub s) (Hub s')))
     (\<lambda>_ _. False) s"
begin

lemma stored_then:
  assumes "secret_store env secrets"
    and "\<And>s1 content. Fs s path = Some (File content) \<Longrightarrow> Fs s1 = Fs s \<Longrightarrow>
      stores secrets (om_Namespace (cd_Meta cd), secret_name (om_Name (cd_Meta cd))) key content (Hub s) (Hub s1) \<Longrightarrow>
      wp k (\<lambda>err s'. err = None \<longrightarrow> Q s') (\<lambda>_ _. False) s1"
  shows "wp (bindM (ensure env cd path) (\<lambda>e. case e of Some err \<Rightarrow> returnM (Some (wrap err)) | None \<Rightarrow> k))
     (\<lambda>err s'. err = None \<longrightarrow> Q s') (\<lambda>_ _. False) s"
  unfolding wp_bindM
proof (rule wp_mono [OF ensures_stored [OF assms(1)]], goal_cases)
  case (1 err s1)
  show ?case
  proof (cases err)
    case None
    then show ?thesis using 1 assms(2) by auto
  qed (simp add: wp_returnM)
qed simp

end

interpretation stored_kubeconfig: stored_credential EnsureKubeconfigSecret KubeconfigSecretName Kubeconfig
  by unfold_locales
    (unfold Ensure_defs, rule wp_ensure_stores [where data = "\<lambda>c. [''kubeconfig'' \<mapsto> c]"], assumption, simp add: Kubeconfig_def)

interpretation stored_password: stored_credential EnsureAdminPasswordSecret KubeadminPasswordSecretName kubeAdminKey
  by unfold_locales
    (unfold Ensure_defs, rule wp_ensure_stores [where data = "\<lambda>c. [''username'' \<mapsto> DefaultUser, kubeAdminKey \<mapsto> c]"], assumption, simp)

interpretation stored_seed: stored_credential EnsureSeedReconfigurationSecret SeedReconfigurationSecretName SeedReconfigurationFileName
  by unfold_locales
    (unfold Ensure_defs, rule wp_ensure_stores [where data = "\<lambda>c. [SeedReconfigurationFileName \<mapsto> c]"], assumption, simp)

section \<open>Reading back\<close>

lemma wp_getSecretContent_stored:
  assumes "secret_store env secrets" and "holds (secrets (Hub s)) k key content"
  shows "wp (getSecretContent env k key) (\<lambda>(d, present, err) s'. secrets (Hub s') = secrets (Hub s)
      \<and> (err = None \<longrightarrow> d = content \<and> present = (content \<noteq> []))) (\<lambda>_ _. False) s"
proof -
  obtain r h where get: "get_Secret env k (Hub s) = (r, h)" by fastforce
  show ?thesis
    using store_get [OF assms(1) get] assms(2)
    by (cases r) (auto simp: getSecretContent_def wp holds_def get split: option.split if_splits)
qed

lemma wp_ClusterIdentitySecrets_stored:
  assumes store: "secret_store env secrets"
    and held: "holds (secrets (Hub s)) (om_Namespace (cd_Meta cd), KubeconfigSecretName (om_Name (cd_Meta cd))) ''kubeconfig'' kubeconfig"
      "holds (secrets (Hub s)) (om_Namespace (cd_Meta cd), KubeadminPasswordSecretName (om_Name (cd_Meta cd))) kubeAdminKey password"
      "holds (secrets (Hub s)) (om_Namespace (cd_Meta cd), SeedReconfigurationSecretName (om_Name (cd_Meta cd))) SeedReconfigurationFileName seed"
  shows "wp (ClusterIdentitySecrets env cd)
     (\<lambda>(idData, exist, err) s'. err = None \<longrightarrow> exist = ([] \<notin> {kubeconfig, password, seed})
        \<and> (exist \<longrightarrow> idData = \<lparr>id_Kubeconfig = kubeconfig, id_KubeadminPassword = password, id_SeedReconfig = seed\<rparr>))
     (\<lambda>_ _. False) s"
proof -
  let ?ns = "om_Namespace (cd_Meta cd)" and ?name = "om_Name (cd_Meta cd)"
  have third: "wp (getSecretContent env (?ns, SeedReconfigurationSecretName ?name) SeedReconfigurationFileName)
      (\<lambda>(d, present, err) s'. err = None \<longrightarrow> d = seed \<and> present = (seed \<noteq> [])) (\<lambda>_ _. False) s2"
    if "secrets (Hub s2) = secrets (Hub s)" for s2
    by (rule wp_mono [OF wp_getSecretContent_stored [OF store]]) (use that held(3) in auto)
  have second: "wp (getSecretContent env (?ns, KubeadminPasswordSecretName ?name) kubeAdminKey)
      (\<lambda>(d, present, err) s'. secrets (Hub s') = secrets (Hub s) \<and> (err = None \<longrightarrow> d = password \<and> present = (password \<noteq> [])))
      (\<lambda>_ _. False) s1"
    if "secrets (Hub s1) = secrets (Hub s)" for s1
    by (rule wp_mono [OF wp_getSecretContent_stored [OF store]]) (use that held(2) in auto)
  show ?thesis
    unfolding ClusterIdentitySecrets_def Let_def
    by (auto simp: wp intro!: wp_mono [OF wp_getSecretContent_stored [OF store held(1)]] wp_mono [OF second] wp_mono [OF third])
qed

lemma secret_names:
  "KubeconfigSecretName n \<noteq> KubeadminPasswordSecretName n" "KubeconfigSecretName n \<noteq> SeedReconfigurationSecretName n"
  "KubeadminPasswordSecretName n \<noteq> SeedReconfigurationSecretName n"
  by (simp_all add: KubeconfigSecretName_def KubeadminPasswordSecretName_def SeedReconfigurationSecretName_def)

section \<open>Properties\<close>


text \<open>A server that keeps the secrets in a map, a file system in which every file holds \<^verbatim>\<open>content\<close>, and a cluster.\<close>

definition store_env :: "(nsname \<Rightarrow> Secret option) env" where
  "store_env = idle_env\<lparr>
     get_Secret := \<lambda>k h. (case h k of Some sec \<Rightarrow> if labelled sec then Inr sec else Inl notFound | None \<Rightarrow> Inl notFound, h),
     create_Secret := \<lambda>sec h. (case h (key_of (sec_Meta sec)) of
        Some _ \<Rightarrow> (Inl (errorf ''already exists''), h) | None \<Rightarrow> (Inr sec, h(key_of (sec_Meta sec) \<mapsto> sec))),
     update_Secret := \<lambda>sec h. (case h (key_of (sec_Meta sec)) of
        Some _ \<Rightarrow> (Inr sec, h(key_of (sec_Meta sec) \<mapsto> sec)) | None \<Rightarrow> (Inl notFound, h))\<rparr>"

definition stored_cd :: ClusterDeployment where
  "stored_cd =
     \<lparr>cd_Meta = example_meta ''cd'', cd_PullSecretRef = None, cd_ClusterName = ''name'', cd_BaseDomain = ''domain'', cd_ClusterInstallRef = None\<rparr>"

definition store_world :: "(nsname \<Rightarrow> Secret option) world" where
  "store_world = \<lparr>Hub = Map.empty, Fs = \<lambda>_. Some (File ''content''), Trace = []\<rparr>"

lemma store_env_secret_store: "secret_store store_env (\<lambda>h. h)"
  by (auto simp: secret_store_def reads_labelled_def writes_secret_def store_env_def idle_env_def stored_like_def notFound_def IsNotFound_def
      split: option.splits if_splits)


end
