(* ===== verification/Spec2Isabelle.thy ===== *)
theory Spec2Isabelle
  imports ServerMain ManagerMain MemConditions SecretStore
begin

text \<open>
  Verification of the image-based install operator.

  \<^bold>\<open>The program.\<close> An ImageClusterInstall asks for a single-node OpenShift cluster on a host that already
  has a disk image. Two processes serve it. The manager (\<^verbatim>\<open>cmd/manager\<close>) runs an admission webhook and two
  controllers: the reconciler validates the object and its BareMetalHost, writes the configuration
  of the cluster to a directory, lets the installer build an ISO from it, stores the credentials in
  secrets, attaches the ISO to the host through a DataImage and boots the host; from then on the
  monitor watches the host and the new cluster and reports progress, timeout and completion. The
  image server (\<^verbatim>\<open>cmd/server\<close>) hands out the ISO from the same directory. The parts meet in the status
  of the object (conditions, boot time, host), in the directory, and in the URL of the ISO.

  \<^bold>\<open>The execution model\<close> (\<^verbatim>\<open>Prelude\<close>, \<^verbatim>\<open>World\<close>). A Go function is a state transformer whose outcome is a value
  or a panic, with sequencing, deferred calls and recovery; errors are values. The state is a
  \<open>world\<close>: the outside world as far as it answers calls (\<open>Hub\<close>, of arbitrary type), the file system (\<open>Fs\<close>)
  and the list of requests with an effect that were sent so far (\<open>Trace\<close>). Everything outside the
  repository is a field of the record \<open>env\<close>: the API servers, the clock, random sources, the JSON codec, the
  installer and the system calls. Theorems hold for every \<open>env\<close> and every answer, failures included,
  unless a hypothesis says otherwise. Three judgements carry the proofs: \<open>wp\<close>, a weakest precondition
  with one postcondition for returning and one for panicking (a run that does neither does not
  exist, so a \<open>wp\<close> with a false panic condition is total correctness); \<open>emits\<close>, that a program only
  sends requests with a given property; and \<open>traced\<close>, which describes the requests of a successful run.

  \<^bold>\<open>The theories and the code under src/.\<close>
  \<^item> \<^verbatim>\<open>GoText\<close>, \<^verbatim>\<open>GoNet\<close>, \<^verbatim>\<open>GoTime\<close>: what the code uses of Go's strings, path/filepath, net and time.
    Addresses are lists of bytes and containment is proved to be agreement on the prefix bits;
    durations are parsed with the 64 bit wrap-around checks and the rounding of the original, and
    what \<^verbatim>\<open>Duration.String\<close> prints is proved to be read back.
  \<^item> \<^verbatim>\<open>ApiTypes\<close>: the objects, from \<^verbatim>\<open>api/v1alpha1/imageclusterinstall_types.go\<close> and the APIs it uses.
  \<^item> \<^verbatim>\<open>Webhook\<close>: \<^verbatim>\<open>api/v1alpha1/imageclusterinstall_webhook.go\<close>. Which objects and updates are admitted,
    with host names given by the regular expression of RFC 1123.
  \<^item> \<^verbatim>\<open>HostNetworks\<close>: \<^verbatim>\<open>validateBMH\<close> and the network checks of the controller; the three readings of the
    network fields are compared.
  \<^item> \<^verbatim>\<open>Memory\<close>, \<^verbatim>\<open>DeepCopy\<close>: \<^verbatim>\<open>api/v1alpha1/zz_generated.deepcopy.go\<close> on a memory of cells with pointers, slices and
    maps. The locale \<open>deep_copier\<close> says when a copy is deep: it can be read from the newly allocated cells
    alone. It is interpreted on the generated code of every type, bottom up.
  \<^item> \<^verbatim>\<open>Conditions\<close>: \<^verbatim>\<open>controllers/conditions.go\<close>. The locale \<open>condition_store\<close> says what setting a condition
    promises (a map from types to status, reason and message) and is interpreted on the code; the
    setters become steps of a status machine whose reachable states are coherent. \<^verbatim>\<open>MemConditions\<close> has the
    same setters as the code runs them, with a deep copy as the base of the patch and changes in place,
    and shows that they compute the same; the rest of the development works with values.
  \<^item> \<^verbatim>\<open>Hosts\<close>: \<^verbatim>\<open>controllers/common.go\<close>, DataImages, reboots and the cleanup after completion.
  \<^item> \<^verbatim>\<open>FileLock\<close>, \<^verbatim>\<open>Credentials\<close>, \<^verbatim>\<open>Installer\<close>, \<^verbatim>\<open>SpokeStatus\<close>, \<^verbatim>\<open>TlsConfig\<close>, \<^verbatim>\<open>ImageServer\<close>: the packages of the same
    names under \<^verbatim>\<open>internal/\<close> (\<^verbatim>\<open>SpokeStatus\<close> is \<^verbatim>\<open>internal/monitor\<close>; \<^verbatim>\<open>TlsConfig\<close> includes the vendored code for
    TLS profiles). The locale \<open>credential_provider\<close> is what the reconciler expects of the three functions
    that store credentials. \<^verbatim>\<open>SecretStore\<close> extends it to \<open>stored_credential\<close>, for an API server that stores what it
    accepts, and reads the credentials back.
  \<^item> \<^verbatim>\<open>PullSecret\<close>, \<^verbatim>\<open>ImageData\<close>, \<^verbatim>\<open>Finalizer\<close>, \<^verbatim>\<open>Backup\<close>, \<^verbatim>\<open>Metadata\<close>, \<^verbatim>\<open>HostConfig\<close>, \<^verbatim>\<open>Reconciler\<close>: the parts of
    \<^verbatim>\<open>controllers/imageclusterinstall_controller.go\<close>, the last one composing them as \<^verbatim>\<open>Reconcile\<close> does,
    with the deferred write of RequirementsMet that also runs on a panic.
  \<^item> \<^verbatim>\<open>Monitor\<close>: \<^verbatim>\<open>controllers/imageclusterinstall_monitor.go\<close>.
  \<^item> \<^verbatim>\<open>StatusMachine\<close>: the contract \<open>status_writer\<close> of a controller all of whose status patches are steps; both
    controllers interpret it. It also shows that the setters come to rest.
  \<^item> \<^verbatim>\<open>Wiring\<close>: \<^verbatim>\<open>SetupWithManager\<close> of both controllers, the indexes and the webhook, and the vendored code that
    turns an event into requests: which event wakes which controller for which object.
  \<^item> \<^verbatim>\<open>ManagerMain\<close>, \<^verbatim>\<open>ServerMain\<close>: the two processes. The manager registers the parts in order; the image
    server is a step relation over its three goroutines.

  \<^bold>\<open>What is shown.\<close> Per component: what each operation requests and reports on every branch, in which
  order, and when it panics. For the reconciler: which requests the state of an object permits, and
  that RequirementsMet becomes True only after disk protection, validation, identification, image,
  credentials and start of the host. For the monitor: an installation is never lost, and completion
  is reported only for a cluster that reports itself installed. Across components: the URL that the
  reconciler hands out leads the image server to the file the reconciler wrote, and nothing outside
  the data directory is served for any path; the credentials that are stored are those a reinstallation
  finds; every unfinished installation is woken up after a restart. This theory composes
  the two controllers: over any interleaving of their runs and of edits by others the stored status
  stays coherent and well typed, completion is final, and boot time and host never move. That
  composition lets a status patch apply to the object it was computed from; the last theorem shows
  what a patch computed from an older object does instead.

  \<^bold>\<open>Bounds.\<close> There is no fuel: every loop of the code ranges over a list or a string, and its model is a
  terminating recursion. Go integers are unbounded except where the code depends on the width:
  durations are checked against 64 bits when they are parsed, addresses are bytes, TLS codes are 16
  bit words. Times are integers with 0 for the zero time; the sum of boot time and timeout is not
  wrapped. A file system call acts on one process at a time: what other processes do to the files
  between two calls is not modelled, except through the lock, whose system call is a parameter.

  \<^bold>\<open>Not modelled.\<close> Logging; the parsing of command line flags; the registration of API types in \<^verbatim>\<open>init\<close> and
  \<^verbatim>\<open>groupversion_info.go\<close>, and the profiling server, which are calls into libraries without a decision; the
  queues and informers of the manager library, so that a request that \<^verbatim>\<open>Wiring\<close> produces is not followed into
  a worker; the request multiplexer and the ranges and caching headers of an HTTP answer; generated
  mocks, which no process links, and tests.
\<close>

section \<open>The life of the status\<close>

text \<open>The objects that are stored for one installation, from the one a user created: the status changes by
  the patches the two controllers get accepted, each computed from the object that is stored, and
  everything else is edited without the status, within what \<open>edit\<close> allows.\<close>

inductive stored_as :: "'w env \<Rightarrow> ImageClusterInstallReconciler \<Rightarrow> ImageClusterInstallMonitor \<Rightarrow>
    (ImageClusterInstall \<Rightarrow> ImageClusterInstall \<Rightarrow> bool) \<Rightarrow> ImageClusterInstall \<Rightarrow> ImageClusterInstall \<Rightarrow> bool"
  for env r m edit start where
  created: "stored_as env r m edit start start"
| reconciled: "stored_as env r m edit start i \<Longrightarrow> Reconcile env r req s = (out, s') \<Longrightarrow> Trace s' = Trace s @ es \<Longrightarrow>
    EvPatchICIStatus i i' True \<in> set es \<Longrightarrow> stored_as env r m edit start i'"
| monitored: "stored_as env r m edit start i \<Longrightarrow> Monitor_Reconcile env m req s = (out, s') \<Longrightarrow> Trace s' = Trace s @ es \<Longrightarrow>
    EvPatchICIStatus i i' True \<in> set es \<Longrightarrow> stored_as env r m edit start i'"
| edited: "stored_as env r m edit start i \<Longrightarrow> ici_Status i' = ici_Status i \<Longrightarrow> edit i i' \<Longrightarrow>
    stored_as env r m edit start i'"

text \<open>What both controllers promise carries over to every stored object.\<close>

lemma stored_as_induct [consumes 1, case_names created written edited]:
  assumes "stored_as env r m edit start i" and "P start"
    and "\<And>i i'. P i \<Longrightarrow> status_step i i' \<Longrightarrow> P i'"
    and "\<And>i i'. P i \<Longrightarrow> ici_Status i' = ici_Status i \<Longrightarrow> edit i i' \<Longrightarrow> P i'"
  shows "P i"
  using assms(1)
proof (induction rule: stored_as.induct)
  case (reconciled i req s out s' es i')
  show ?case by (rule assms(3) [OF reconciled(5) reconciler.written_step [OF reconciled(2,3,4)]])
next
  case (monitored i req s out s' es i')
  show ?case by (rule assms(3) [OF monitored(5) monitor.written_step [OF monitored(2,3,4)]])
qed (use assms(2,4) in blast)+

lemma stored_coherent:
  assumes "stored_as env r m edit start i" and "status_coherent (condView (conditionsOf start))"
  shows "status_coherent (condView (conditionsOf i))"
  using assms by (induction rule: stored_as_induct) (auto intro: status_step_coherent)

definition outcome_types :: "string set" where
  "outcome_types = {ClusterInstallCompleted, ClusterInstallStopped, ClusterInstallFailed}"

lemma status_step_final:
  assumes "status_step i i'" and "status_coherent (condView (conditionsOf i))" and "InstallationCompleted i" and "t \<in> outcome_types"
  shows "condView (conditionsOf i') t = condView (conditionsOf i) t"
proof -
  obtain r m where completed: "condView (conditionsOf i) ClusterInstallCompleted = Some (ConditionTrue, r, m)"
    using assms(3) unfolding InstallationCompleted_view by blast
  have "cond_steps (conditionsOf i) (conditionsOf i')"
    using assms(1) by (auto simp: status_step_def)
  then show ?thesis
    by (rule cond_steps_completed_stable [OF _ assms(2) completed assms(4) [unfolded outcome_types_def]])
qed

definition same_outcome :: "ImageClusterInstall \<Rightarrow> ImageClusterInstall \<Rightarrow> bool" where
  "same_outcome i j \<longleftrightarrow> (\<forall>t \<in> outcome_types. condView (conditionsOf j) t = condView (conditionsOf i) t)"

lemma same_outcome_completed: "same_outcome i j \<Longrightarrow> InstallationCompleted j = InstallationCompleted i"
  by (simp add: same_outcome_def outcome_types_def InstallationCompleted_view)

lemma same_outcome_trans: "same_outcome i j \<Longrightarrow> same_outcome j k \<Longrightarrow> same_outcome i k"
  by (simp add: same_outcome_def)

lemma stored_final:
  assumes "stored_as env r m edit i j" and coh: "status_coherent (condView (conditionsOf i))" and completed: "InstallationCompleted i"
  shows "same_outcome i j"
proof -
  from assms(1) have "status_coherent (condView (conditionsOf j)) \<and> same_outcome i j"
  proof (induction rule: stored_as_induct)
    case (written j j')
    then have "same_outcome j j'"
      using status_step_final [of j j'] same_outcome_completed [of i j] completed unfolding same_outcome_def by blast
    then show ?case using written status_step_coherent same_outcome_trans by blast
  qed (use coh in \<open>simp_all add: same_outcome_def\<close>)
  then show ?thesis by blast
qed

lemma stored_start:
  assumes "stored_as env r m edit i j"
  shows "(\<not> Time_IsZero (st_BootTime (ici_Status i)) \<longrightarrow> st_BootTime (ici_Status j) = st_BootTime (ici_Status i))
    \<and> (st_BareMetalHostRef (ici_Status i) \<noteq> None \<longrightarrow> st_BareMetalHostRef (ici_Status j) = st_BareMetalHostRef (ici_Status i))"
  using assms
proof (induction rule: stored_as_induct)
  case (written j j')
  then show ?case using status_step_frame [of j j'] by auto
qed simp_all

text \<open>Conditions of known types, each once, and a started installation knows its host.\<close>

definition status_typed :: "ImageClusterInstall \<Rightarrow> bool" where
  "status_typed i \<longleftrightarrow> well_typed (conditionsOf i)
     \<and> (Time_IsZero (st_BootTime (ici_Status i)) \<or> st_BareMetalHostRef (ici_Status i) \<noteq> None)"

definition has_host :: "ImageClusterInstall \<Rightarrow> bool" where
  "has_host i \<longleftrightarrow> sp_BareMetalHostRef (ici_Spec i) \<noteq> None"

lemma stored_typed:
  assumes "stored_as env r m (\<lambda>_. has_host) start i" and "status_typed start" and "has_host start"
  shows "status_typed i \<and> has_host i"
  using assms
proof (induction rule: stored_as_induct)
  case (written i i')
  then have "well_typed (conditionsOf i')"
    by (auto simp: status_step_def status_typed_def intro: cond_steps_well_typed)
  then show ?case using written by (auto simp: status_step_def status_typed_def has_host_def)
qed (auto simp: status_typed_def)

lemma monitorObject_no_panic: "status_typed i \<Longrightarrow> wp (monitorObject env m i) (\<lambda>_ _. True) (\<lambda>_ _. False) s"
  by (rule wp_mono [OF wp_monitorObject]) (auto simp: status_typed_def)

text \<open>Edits that the webhook admits.\<close>

definition admitted :: "(string \<Rightarrow> goerr option) \<Rightarrow> ImageClusterInstall \<Rightarrow> ImageClusterInstall \<Rightarrow> bool" where
  "admitted ssh old new \<longleftrightarrow> ValidateUpdate ssh new (ImageClusterInstallObj old) = None"

lemma admitted_valid: "admitted ssh old new \<Longrightarrow> ValidateCreate ssh new = None"
  by (auto simp: admitted_def ValidateUpdate_def ValidateCreate_def split: option.splits)

lemma admitted_frozen:
  assumes "admitted ssh old new" and "st_BareMetalHostRef (ici_Status old) \<noteq> None"
  shows "(ici_Spec new)\<lparr>sp_ClusterMetadata := None\<rparr> = (ici_Spec old)\<lparr>sp_ClusterMetadata := None\<rparr>"
  using assms by (auto simp: admitted_def ValidateUpdate_def installationStarted_def isSpecUpdate_def split: option.splits if_splits)

lemma spec_host: "(spec :: ImageClusterInstallSpec)\<lparr>sp_ClusterMetadata := None\<rparr> = spec'\<lparr>sp_ClusterMetadata := None\<rparr> \<Longrightarrow>
    sp_BareMetalHostRef spec = sp_BareMetalHostRef spec'"
  by (drule arg_cong [where f = sp_BareMetalHostRef]) simp

text \<open>An admitted object whose recorded host, if any, is the one of its spec.\<close>

definition sound :: "(string \<Rightarrow> goerr option) \<Rightarrow> ImageClusterInstall \<Rightarrow> bool" where
  "sound ssh i \<longleftrightarrow> ValidateCreate ssh i = None
     \<and> (st_BareMetalHostRef (ici_Status i) = None \<or> st_BareMetalHostRef (ici_Status i) = sp_BareMetalHostRef (ici_Spec i))"

lemma ValidateCreate_spec: "ici_Spec i' = ici_Spec i \<Longrightarrow> ValidateCreate ssh i' = ValidateCreate ssh i"
  by (simp add: ValidateCreate_def validate_def cong: option.case_cong)

lemma stored_sound:
  assumes "stored_as env r m (admitted ssh) start i" and "sound ssh start"
  shows "sound ssh i"
  using assms
proof (induction rule: stored_as_induct)
  case (written i i')
  then have "ici_Spec i' = ici_Spec i" "st_BareMetalHostRef (ici_Status i') \<in> {st_BareMetalHostRef (ici_Status i), sp_BareMetalHostRef (ici_Spec i)}"
    by (auto simp: status_step_def started_status_def set_Conditions_def)
  then show ?case using written ValidateCreate_spec [of i' i ssh] by (auto simp: sound_def)
next
  case (edited i i')
  have "sp_BareMetalHostRef (ici_Spec i') = sp_BareMetalHostRef (ici_Spec i)" if "st_BareMetalHostRef (ici_Status i) \<noteq> None"
    by (rule spec_host [OF admitted_frozen [OF edited(3) that]])
  then show ?case
    using edited admitted_valid [OF edited(3)] by (cases "st_BareMetalHostRef (ici_Status i) = None") (simp_all add: sound_def)
qed

lemma stored_frozen:
  assumes "stored_as env r m (admitted ssh) i j" and "st_BareMetalHostRef (ici_Status i) \<noteq> None"
  shows "(ici_Spec j)\<lparr>sp_ClusterMetadata := None\<rparr> = (ici_Spec i)\<lparr>sp_ClusterMetadata := None\<rparr>
    \<and> st_BareMetalHostRef (ici_Status j) \<noteq> None"
  using assms
proof (induction rule: stored_as_induct)
  case (written j j')
  then show ?case using status_step_frame [of j j'] by auto
next
  case (edited j j')
  then show ?case using admitted_frozen [of ssh j j'] by simp
qed simp

section \<open>Properties\<close>


text \<open>A monitor run on a started installation whose host is still off.\<close>

definition started_ici :: ImageClusterInstall where
  "started_ici = started_status 1 example_ici"

definition starting_env :: "unit env" where
  "starting_env = idle_env\<lparr>get_ImageClusterInstall := \<lambda>_ h. (Inr started_ici, h),
     get_BareMetalHost := \<lambda>_ h. (Inr (example_host\<lparr>bmh_PoweredOn := False\<rparr>), h)\<rparr>"

definition waiting_ici :: ImageClusterInstall where
  "waiting_ici = set_Conditions (fst (conds.put3 1 1 1 []
     (mkCond ClusterInstallCompleted ConditionFalse InstallInProgressReason InstallInProgressMessage)
     (mkCond ClusterInstallStopped ConditionFalse InstallInProgressReason ''Waiting for BMH to power on'')
     (mkCond ClusterInstallFailed ConditionFalse InstallInProgressReason InstallInProgressMessage))) started_ici"

lemmas example_run = Monitor_Reconcile_def monitorObject_def monitorInstallationProgress_def stillInstalling_def getBMH_def
  handleClusterTimeout_def expire_def setClusterInstallingConditions_def set3M_def setCond_def Patch_ICI_Status_def patchM_def
  requestM_def hubM_def bindM_def returnM_def conds.put3_def

lemma example_monitored:
  "stored_as starting_env r example_monitor edit started_ici waiting_ici"
proof (rule stored_as.monitored [OF stored_as.created, where es = "[EvPatchICIStatus started_ici waiting_ici True]"])
  show "Monitor_Reconcile starting_env example_monitor (''ns'', ''ici'') idle_world =
      (Ret (requeueAfter (minutes 1), None), idle_world\<lparr>Trace := [EvPatchICIStatus started_ici waiting_ici True]\<rparr>)"
    by (simp add: example_run example_monitor_def waiting_ici_def started_ici_def starting_env_def started_status_def example_defs
        InstallationCompleted_def installationTimedout_def setClusterInstallCondition_def Time_IsZero_def)
qed (simp_all only: idle_world_def world.simps append_Nil list.set_intros)


text \<open>C7: Statuses are well typed. An object that is created with a host reference and without a status, and
  whose edits keep the host reference, only ever has conditions of the four known types, each at most
  once, and a recorded host as soon as it has a boot time; therefore the monitor never panics on it.\<close>
theorem stored_status_typed:
  assumes "conditionsOf start = []" and "Time_IsZero (st_BootTime (ici_Status start))" and "has_host start"
    and "stored_as env r m (\<lambda>_. has_host) start i"
  shows "well_typed (conditionsOf i)
    \<and> (Time_IsZero (st_BootTime (ici_Status i)) \<or> st_BareMetalHostRef (ici_Status i) \<noteq> None)
    \<and> wp (monitorObject env' m' i) (\<lambda>_ _. True) (\<lambda>_ _. False) s"
proof -
  have "status_typed start"
    using assms(1,2) by (simp add: status_typed_def well_typed_def distinct_types_def)
  then have "status_typed i" using stored_typed [OF assms(4)] assms(3) by blast
  then show ?thesis using monitorObject_no_panic by (auto simp: status_typed_def)
qed

theorem stored_status_typed_witness:
  "\<forall>s. wp (monitorObject (idle_env :: unit env) example_monitor (example_ici\<lparr>ici_Meta := example_meta ''other''\<rparr>))
     (\<lambda>_ _. True) (\<lambda>_ _. False) s"
proof -
  let ?m = "example_monitor" and ?i = "example_ici\<lparr>ici_Meta := example_meta ''other''\<rparr>"
  have host: "has_host example_ici" "has_host ?i" by (simp_all add: has_host_def example_ici_def)
  have "stored_as (idle_env :: unit env) r ?m (\<lambda>_. has_host) example_ici ?i" for r
    by (rule stored_as.edited [OF stored_as.created]) (use host in simp_all)
  then show ?thesis
    using stored_status_typed [OF _ _ host(1), of "idle_env :: unit env" _ ?m ?i "idle_env :: unit env" ?m] by (simp add: example_ici_def Time_IsZero_def)
qed



text \<open>C40: Conditions of a stale object win. The status patches carry no version of the object they were
  computed from. If applying a merge patch replaces a list that the patch changes, as RFC 7386 says,
  then setting RequirementsMet on an object read before the installation completed sends a patch that
  takes the completion back when it is applied to the completed object.\<close>
theorem stale_patch_undoes_completion:
  assumes "\<And>base new stored. conditionsOf new \<noteq> conditionsOf base \<Longrightarrow> conditionsOf (merge base new stored) = conditionsOf new"
    and "\<not> InstallationCompleted ici" and "condView (conditionsOf ici) ClusterInstallRequirementsMet \<noteq> Some (status, reason, msg)"
  shows "wp (setRequirementsMetCondition env ici status reason msg)
    (\<lambda>_ s'. \<exists>new b. Trace s' = Trace s @ [EvPatchICIStatus ici new b] \<and> \<not> InstallationCompleted (merge ici new stored)) (\<lambda>_ _. False) s"
proof -
  let ?cs = "\<lambda>now. fst (setClusterInstallCondition now (conditionsOf ici) (mkCond ClusterInstallRequirementsMet status reason msg))"
  have view: "condView (?cs now) = (condView (conditionsOf ici))(ClusterInstallRequirementsMet \<mapsto> (status, reason, msg))" for now
    by (simp add: conds.view_put)
  then have "?cs now \<noteq> conditionsOf ici" for now using assms(3) by (metis fun_upd_same)
  then have "conditionsOf (merge ici (set_Conditions (?cs now) ici) stored) = ?cs now" for now by (simp add: assms(1))
  then have "\<not> InstallationCompleted (merge ici (set_Conditions (?cs now) ici) stored)" for now
    using assms(2) by (simp add: InstallationCompleted_view view)
  then show ?thesis
    using assms(3) by (auto simp: setRequirementsMetCondition_def Patch_ICI_Status_def wp conds.put_reports split: prod.split sum.split)
qed

text \<open>An API server that applies the changed parts of a status.\<close>

definition merge_status :: "ImageClusterInstall \<Rightarrow> ImageClusterInstall \<Rightarrow> ImageClusterInstall \<Rightarrow> ImageClusterInstall" where
  "merge_status base new stored = (if conditionsOf new = conditionsOf base then stored else set_Conditions (conditionsOf new) stored)"

theorem stale_patch_undoes_completion_witness:
  "\<forall>stored s. wp (setRequirementsMetCondition idle_env started_ici ConditionTrue HostConfigurationSucceededReason attachedMessage)
    (\<lambda>_ s'. \<exists>new b. Trace s' = Trace s @ [EvPatchICIStatus started_ici new b]
       \<and> \<not> InstallationCompleted (merge_status started_ici new stored)) (\<lambda>_ _. False) s"
  by (intro allI stale_patch_undoes_completion)
    (simp_all add: merge_status_def started_ici_def started_status_def example_ici_def InstallationCompleted_def condView_def)

end
